(* ===== verification/Prelude.thy ===== *)
theory Prelude
  imports Main "HOL-Library.Sublist" "HOL-Library.State_Monad" "HOL-Library.Char_ord"
    "HOL-Library.List_Lexorder"
begin

section \<open>Prelude: Go strings, Go errors and effects\<close>

text \<open>
  What every component shares: the functions of Go's packages \<open>strings\<close>, \<open>sort\<close> and
  \<open>fmt\<close> that the operator calls, Go's \<open>error\<close> values, and the state monad in which the
  effectful code is written.

  A Go \<open>string\<close> is a byte sequence and is modelled as a \<^typ>\<open>string\<close> of 8-bit characters,
  so \<open>len\<close> and slicing count bytes as in Go. \<open>ToLower\<close> is the ASCII case of
  \<open>strings.ToLower\<close>: bytes from 128 on are left alone, which is Go's result for every
  ASCII string (all HuggingFace repository names are ASCII).
\<close>

named_theorems go_simps \<open>evaluation of the modelled Go library functions\<close>

subsection \<open>Package strings\<close>

definition Contains :: "string \<Rightarrow> string \<Rightarrow> bool" where
  "Contains s sub = sublist sub s"

definition HasPrefix :: "string \<Rightarrow> string \<Rightarrow> bool" where
  "HasPrefix s p = prefix p s"

definition HasSuffix :: "string \<Rightarrow> string \<Rightarrow> bool" where
  "HasSuffix s p = suffix p s"

definition lower_byte :: "char \<Rightarrow> char" where
  "lower_byte c =
     (if CHR ''A'' \<le> c \<and> c \<le> CHR ''Z'' then char_of (of_char c + 32 :: nat) else c)"

definition ToLower :: "string \<Rightarrow> string" where
  "ToLower s = map lower_byte s"

text \<open>\<open>strings.ReplaceAll\<close> for a one-byte \<open>old\<close>, the only case the operator uses.\<close>

definition ReplaceAll :: "string \<Rightarrow> char \<Rightarrow> string \<Rightarrow> string" where
  "ReplaceAll s old new = concat (map (\<lambda>c. if c = old then new else [c]) s)"

text \<open>\<open>strings.TrimRight\<close> with a one-byte cutset.\<close>

definition TrimRight :: "string \<Rightarrow> char \<Rightarrow> string" where
  "TrimRight s c = rev (dropWhile (\<lambda>x. x = c) (rev s))"

definition TrimSuffix :: "string \<Rightarrow> string \<Rightarrow> string" where
  "TrimSuffix s p = (if suffix p s then take (length s - length p) s else s)"

text \<open>
  The first result of \<open>strings.Cut(s, sep)\<close> and its second, for a one-byte separator;
  without a separator the second is empty.
\<close>

definition Cut :: "string \<Rightarrow> char \<Rightarrow> string \<times> string" where
  "Cut s sep = (takeWhile (\<lambda>c. c \<noteq> sep) s, drop 1 (dropWhile (\<lambda>c. c \<noteq> sep) s))"

text \<open>The part after the last separator: \<open>s[strings.LastIndex(s, sep)+1:]\<close>.\<close>

definition AfterLast :: "string \<Rightarrow> char \<Rightarrow> string" where
  "AfterLast s sep = rev (takeWhile (\<lambda>c. c \<noteq> sep) (rev s))"

subsection \<open>Package fmt: the verb d\<close>

fun showNat :: "nat \<Rightarrow> string" where
  "showNat n =
     (if n < 10 then [''0123456789'' ! n]
      else showNat (n div 10) @ [''0123456789'' ! (n mod 10)])"

declare showNat.simps [simp del]

definition showInt :: "int \<Rightarrow> string" where
  "showInt i = (if i < 0 then CHR ''-'' # showNat (nat (- i)) else showNat (nat i))"

subsection \<open>Errors\<close>

text \<open>
  A Go \<open>error\<close> is an error value of a library (\<open>Raw\<close>, its type a parameter of the model),
  a text made by \<open>fmt.Errorf\<close> without operands (\<open>Errorf\<close>), or a wrapped one made by
  \<open>fmt.Errorf("text: %w", err)\<close>.
\<close>

datatype 'e error = Raw 'e | Errorf string | Wrapf string "'e error"

subsection \<open>Lemmas on strings\<close>

lemma Contains_iff: "Contains s sub \<longleftrightarrow> (\<exists>u v. s = u @ sub @ v)"
  by (auto simp: Contains_def sublist_def)

lemma Contains_code [go_simps]:
  "Contains [] sub \<longleftrightarrow> sub = []"
  "Contains (c # s) sub \<longleftrightarrow> prefix sub (c # s) \<or> Contains s sub"
  by (simp_all add: Contains_def sublist_Cons_right)

lemma HasPrefix_code [go_simps]: "HasPrefix s p \<longleftrightarrow> prefix p s"
  by (simp add: HasPrefix_def)

lemma lower_byte_idem [simp]: "lower_byte (lower_byte c) = lower_byte c"
proof (cases "CHR ''A'' \<le> c \<and> c \<le> CHR ''Z''")
  case True
  then have "of_char c \<le> (90 :: nat)" and "(65 :: nat) \<le> of_char c"
    by (simp_all add: less_eq_char_def)
  then show ?thesis
    by (simp add: lower_byte_def less_eq_char_def)
next
  case False
  then show ?thesis by (auto simp: lower_byte_def)
qed

lemma ToLower_idem [simp]: "ToLower (ToLower s) = ToLower s"
  by (simp add: ToLower_def comp_def)

lemma length_ToLower [simp]: "length (ToLower s) = length s"
  by (simp add: ToLower_def)

lemma ReplaceAll_Nil [simp, go_simps]: "ReplaceAll [] a b = []"
  by (simp add: ReplaceAll_def)

lemma ReplaceAll_Cons [go_simps]:
  "ReplaceAll (c # s) a b = (if c = a then b else [c]) @ ReplaceAll s a b"
  by (simp add: ReplaceAll_def)

lemma ReplaceAll_notin: "a \<notin> set b \<Longrightarrow> a \<notin> set (ReplaceAll s a b)"
  by (induction s) (auto simp: ReplaceAll_Cons)

lemma ReplaceAll_same: "a \<notin> set s \<Longrightarrow> ReplaceAll s a b = s"
  by (induction s) (auto simp: ReplaceAll_Cons)

lemma TrimRight_no_suffix: "TrimRight s c = [] \<or> last (TrimRight s c) \<noteq> c"
proof -
  have "dropWhile (\<lambda>x. x = c) (rev s) \<noteq> [] \<Longrightarrow> hd (dropWhile (\<lambda>x. x = c) (rev s)) \<noteq> c"
    by (rule hd_dropWhile)
  then show ?thesis by (auto simp: TrimRight_def last_rev)
qed

lemma TrimRight_prefix: "prefix (TrimRight s c) s"
proof -
  have "suffix (dropWhile (\<lambda>x. x = c) (rev s)) (rev s)"
    by (rule suffix_dropWhile)
  then show ?thesis by (simp add: TrimRight_def suffix_to_prefix)
qed

lemma length_TrimRight: "length (TrimRight s c) \<le> length s"
  using TrimRight_prefix prefix_length_le by blast

subsection \<open>Decimal numbers\<close>

lemma showNat_small: "n < 10 \<Longrightarrow> showNat n = [''0123456789'' ! n]"
  by (subst showNat.simps) simp

lemma showNat_large:
  "\<not> n < 10 \<Longrightarrow> showNat n = showNat (n div 10) @ [''0123456789'' ! (n mod 10)]"
  by (subst showNat.simps) simp

lemma showNat_ne [simp]: "showNat n \<noteq> []" "[] \<noteq> showNat n"
  by (cases "n < 10"; simp add: showNat_small showNat_large)+

lemma digit_inj: "a < 10 \<Longrightarrow> b < 10 \<Longrightarrow> ''0123456789'' ! a = ''0123456789'' ! b \<Longrightarrow> a = b"
  by (rule nth_eq_iff_index_eq [THEN iffD1, of "''0123456789''"]) auto

lemma showNat_inj: "showNat m = showNat n \<Longrightarrow> m = n"
proof (induction m arbitrary: n rule: showNat.induct)
  case (1 m)
  consider "m < 10" "n < 10" | "m < 10" "\<not> n < 10" | "\<not> m < 10" "n < 10" | "\<not> m < 10" "\<not> n < 10"
    by blast
  then show ?case
  proof cases
    case 1
    with \<open>showNat m = showNat n\<close> show ?thesis
      by (auto simp: showNat_small intro: digit_inj)
  next
    case 2
    with \<open>showNat m = showNat n\<close> show ?thesis
      by (simp add: showNat_small showNat_large)
  next
    case 3
    with \<open>showNat m = showNat n\<close> show ?thesis
      by (simp add: showNat_small showNat_large)
  next
    case 4
    with \<open>showNat m = showNat n\<close>
    have "showNat (m div 10) = showNat (n div 10)"
      and "''0123456789'' ! (m mod 10) = ''0123456789'' ! (n mod 10)"
      by (auto simp: showNat_large)
    with 4 "1.IH" have "m div 10 = n div 10" and "m mod 10 = n mod 10"
      by (auto intro: digit_inj)
    then show ?thesis by (metis div_mult_mod_eq)
  qed
qed

end
