(* ===== verification/Effects.thy ===== *)
theory Effects
  imports Prelude
begin

section \<open>Effects: Go functions as state transformers\<close>

text \<open>
  Code that talks to the API server, to Helm or to the gateway is a value of
  \<^typ>\<open>('w, 'a) state\<close>: a function of the world \<open>'w\<close>, which stands for everything outside the
  process. The type of the world is a parameter, so a theorem about all worlds holds whatever the
  API server does between two calls: it may fail, and it may return objects that other clients
  have changed.

  A reconciler ends with a \<open>(ctrl.Result, error)\<close>: \<open>Done n err\<close>, \<open>n\<close> the seconds of
  \<open>RequeueAfter\<close>; or it panics. A block of statements that may return early is a
  \<open>('w, 'e, 'a) go\<close>: \<open>Inl\<close> of the outcome when it returned, \<open>Inr\<close> of what the following
  statements use when it fell through.
\<close>

datatype 'e outcome = Done int "'e error option" | Panic

type_synonym ('w, 'e, 'a) go = "('w, 'e outcome + 'a) state"

abbreviation ret :: "'a \<Rightarrow> ('w, 'a) state" where
  "ret \<equiv> State_Monad.return"

definition returnWith :: "'e outcome \<Rightarrow> ('w, 'e, 'a) go" where
  "returnWith out = ret (Inl out)"

definition proceed :: "'a \<Rightarrow> ('w, 'e, 'a) go" where
  "proceed x = ret (Inr x)"

definition andThen :: "('w, 'x + 'a) state \<Rightarrow> ('a \<Rightarrow> ('w, 'x + 'b) state) \<Rightarrow> ('w, 'x + 'b) state" where
  "andThen m k =
     State_Monad.bind m (\<lambda>r. case r of Inl out \<Rightarrow> ret (Inl out) | Inr x \<Rightarrow> k x)"

text \<open>\<open>if err != nil { return ctrl.Result{}, err }\<close> after a call.\<close>

definition checked :: "('w, 'e error + 'a) state \<Rightarrow> ('w, 'e, 'a) go" where
  "checked m = State_Monad.bind m
     (\<lambda>r. ret (case r of Inl e \<Rightarrow> Inl (Done 0 (Some e)) | Inr x \<Rightarrow> Inr x))"

definition lifted :: "('w, 'a) state \<Rightarrow> ('w, 'e, 'a) go" where
  "lifted m = State_Monad.bind m (\<lambda>x. ret (Inr x))"

text \<open>A computation that may panic: \<open>None\<close> is the panic.\<close>

definition orPanic :: "'a option \<Rightarrow> ('w, 'e, 'a) go" where
  "orPanic v = ret (case v of None \<Rightarrow> Inl Panic | Some x \<Rightarrow> Inr x)"

definition finish :: "('w, 'e, 'e outcome) go \<Rightarrow> ('w, 'e outcome) state" where
  "finish m = State_Monad.bind m (\<lambda>r. ret (case r of Inl out \<Rightarrow> out | Inr out \<Rightarrow> out))"

subsection \<open>Weakest preconditions\<close>

text \<open>
  \<open>wp m Q w\<close>: running \<open>m\<close> in the world \<open>w\<close> ends with a result and a world that satisfy \<open>Q\<close>.
  The rules of the collection \<open>wp\<close> compute it along the code.
\<close>

definition wp :: "('w, 'a) state \<Rightarrow> ('a \<Rightarrow> 'w \<Rightarrow> bool) \<Rightarrow> 'w \<Rightarrow> bool" where
  "wp m Q w = (case run_state m w of (a, w') \<Rightarrow> Q a w')"

named_theorems wp_rules \<open>weakest preconditions of the program constructs\<close>

lemma wpD: "wp m Q w \<Longrightarrow> run_state m w = (a, w') \<Longrightarrow> Q a w'"
  by (simp add: wp_def)

lemma wpI: "(\<And>a w'. run_state m w = (a, w') \<Longrightarrow> Q a w') \<Longrightarrow> wp m Q w"
  by (auto simp: wp_def split: prod.splits)

lemma wp_mono: "wp m P w \<Longrightarrow> (\<And>a w'. P a w' \<Longrightarrow> Q a w') \<Longrightarrow> wp m Q w"
  by (auto simp: wp_def split: prod.splits)

lemma wp_conj: "wp m P w \<Longrightarrow> wp m Q w \<Longrightarrow> wp m (\<lambda>a w'. P a w' \<and> Q a w') w"
  by (auto simp: wp_def split: prod.splits)

lemma wp_return [wp_rules]: "wp (ret x) Q w = Q x w"
  by (simp add: wp_def)

lemma wp_bind [wp_rules]: "wp (State_Monad.bind m f) Q w = wp m (\<lambda>a w'. wp (f a) Q w') w"
  by (simp add: wp_def split: prod.splits)

lemma wp_if [wp_rules]:
  "wp (if b then m else n) Q w = ((b \<longrightarrow> wp m Q w) \<and> (\<not> b \<longrightarrow> wp n Q w))"
  by simp

lemma wp_andThen [wp_rules]:
  "wp (andThen m k) Q w =
     wp m (\<lambda>r w'. case r of Inl out \<Rightarrow> Q (Inl out) w' | Inr x \<Rightarrow> wp (k x) Q w') w"
  by (simp add: andThen_def wp_bind) (simp add: wp_def split: prod.splits sum.splits)

lemma wp_checked [wp_rules]:
  "wp (checked m) Q w =
     wp m (\<lambda>r w'. case r of Inl e \<Rightarrow> Q (Inl (Done 0 (Some e))) w' | Inr x \<Rightarrow> Q (Inr x) w') w"
  by (simp add: checked_def wp_bind) (simp add: wp_def split: prod.splits sum.splits)

lemma wp_lifted [wp_rules]: "wp (lifted m) Q w = wp m (\<lambda>x w'. Q (Inr x) w') w"
  by (simp add: lifted_def wp_rules)

lemma wp_orPanic [wp_rules]:
  "wp (orPanic v) Q w = (case v of None \<Rightarrow> Q (Inl Panic) w | Some x \<Rightarrow> Q (Inr x) w)"
  by (simp add: orPanic_def wp_return split: option.splits)

lemma wp_finish [wp_rules]:
  "wp (finish m) Q w = wp m (\<lambda>r w'. case r of Inl out \<Rightarrow> Q out w' | Inr out \<Rightarrow> Q out w') w"
  by (simp add: finish_def wp_bind) (simp add: wp_def split: prod.splits sum.splits)

lemma wp_returnWith [wp_rules]: "wp (returnWith out) Q w = Q (Inl out) w"
  by (simp add: returnWith_def wp_return)

lemma wp_proceed [wp_rules]: "wp (proceed x) Q w = Q (Inr x) w"
  by (simp add: proceed_def wp_return)

subsection \<open>Recording the calls\<close>

text \<open>
  \<open>logged ev m\<close> runs \<open>m\<close> and appends \<open>ev r\<close> to a trace kept beside the world, \<open>r\<close> the result
  of the call. Instrumenting a client this way records everything the code asks of it, whatever
  the client answers.
\<close>

definition logged :: "('a \<Rightarrow> 'ev) \<Rightarrow> ('w, 'a) state \<Rightarrow> ('w \<times> 'ev list, 'a) state" where
  "logged ev m = State (\<lambda>(w, tr). case run_state m w of (a, w') \<Rightarrow> (a, (w', tr @ [ev a])))"

lemma run_logged:
  "run_state (logged ev m) (w, tr) = (case run_state m w of (a, w') \<Rightarrow> (a, (w', tr @ [ev a])))"
  by (simp add: logged_def)

lemma wp_logged:
  "(\<And>a w'. Q a (w', tr @ [ev a])) \<Longrightarrow> wp (logged ev m) Q (w, tr)"
  by (simp add: wp_def run_logged split: prod.splits)

text \<open>The error with which a recorded call failed.\<close>

fun failure :: "'e error + 'a \<Rightarrow> 'e error option" where
  "failure (Inl e) = Some e"
| "failure (Inr x) = None"

subsection \<open>Results and events\<close>

text \<open>
  \<open>produces m Q\<close>: whatever the world and the trace so far, \<open>m\<close> ends with a result \<open>r\<close> and has
  appended events \<open>es\<close> with \<open>Q r es\<close>.
\<close>

definition produces :: "('w \<times> 'ev list, 'a) state \<Rightarrow> ('a \<Rightarrow> 'ev list \<Rightarrow> bool) \<Rightarrow> bool" where
  "produces m Q = (\<forall>w tr. wp m (\<lambda>r s. \<exists>es. snd s = tr @ es \<and> Q r es) (w, tr))"

lemma producesI:
  "(\<And>w tr. wp m (\<lambda>r s. \<exists>es. snd s = tr @ es \<and> Q r es) (w, tr)) \<Longrightarrow> produces m Q"
  by (simp add: produces_def)

lemma producesD:
  assumes "produces m Q" and "run_state m (w, tr) = (r, (w', tr'))"
  shows "\<exists>es. tr' = tr @ es \<and> Q r es"
proof -
  have "wp m (\<lambda>r s. \<exists>es. snd s = tr @ es \<and> Q r es) (w, tr)"
    using assms(1) unfolding produces_def by blast
  from wpD [OF this assms(2)] show ?thesis by simp
qed

lemma produces_wp:
  assumes "produces m Q" and "\<And>r w' es. Q r es \<Longrightarrow> P r (w', tr @ es)"
  shows "wp m P (w, tr)"
proof (rule wpI)
  fix r s
  assume "run_state m (w, tr) = (r, s)"
  then have "\<exists>es. snd s = tr @ es \<and> Q r es"
    by (cases s) (auto dest!: producesD [OF assms(1)])
  then show "P r s" using assms(2) by (cases s) auto
qed

lemma produces_mono: "produces m P \<Longrightarrow> (\<And>r es. P r es \<Longrightarrow> Q r es) \<Longrightarrow> produces m Q"
  by (rule producesI) (erule produces_wp, auto)

lemma produces_andThen:
  assumes "produces m P" and "\<And>x. produces (k x) (R x)"
    and "\<And>out es. P (Inl out) es \<Longrightarrow> Q (Inl out) es"
    and "\<And>x es r fs. P (Inr x) es \<Longrightarrow> R x r fs \<Longrightarrow> Q r (es @ fs)"
  shows "produces (andThen m k) Q"
proof (rule producesI)
  fix w tr
  show "wp (andThen m k) (\<lambda>r s. \<exists>es. snd s = tr @ es \<and> Q r es) (w, tr)"
    unfolding wp_andThen
  proof (rule produces_wp [OF assms(1)])
    fix r w' es
    assume "P r es"
    then show "case r of Inl out \<Rightarrow> \<exists>es'. snd (w', tr @ es) = tr @ es' \<and> Q (Inl out) es'
       | Inr x \<Rightarrow> wp (k x) (\<lambda>r s. \<exists>es. snd s = tr @ es \<and> Q r es) (w', tr @ es)"
      using assms(3,4) by (auto split: sum.splits intro: produces_wp [OF assms(2)])
  qed
qed

lemma produces_finish:
  assumes "produces m P"
    and "\<And>out es. P (Inl out) es \<Longrightarrow> Q out es" and "\<And>out es. P (Inr out) es \<Longrightarrow> Q out es"
  shows "produces (finish m) Q"
  by (rule producesI)
     (auto simp: wp_finish split: sum.splits intro!: produces_wp [OF assms(1)] intro: assms(2,3))

end
