(* ===== verification/ApiTypes.thy ===== *)
theory ApiTypes
  imports Prelude
begin

section \<open>The API types (api/v1alpha1)\<close>

text \<open>
  The three custom resources, one record per Go struct, with the struct's fields in the order of
  the source and a prefix per struct (\<open>mds_\<close> is \<open>ModelDeploymentSpec\<close>, and so on). Go pointers
  to structs and numbers are \<^typ>\<open>'a option\<close>; \<open>int\<close>, \<open>int32\<close> and \<open>int64\<close> fields are
  \<^typ>\<open>int\<close>: the operator only copies, prints and compares them, so no wrap-around can occur.
  A \<open>map[string]string\<close> that the code ranges over is an association list with distinct keys
  (the order of the list is one of the iteration orders Go may choose); a map that is only built
  and looked up is a \<^typ>\<open>string \<rightharpoonup> string\<close>. The metadata types are those of
  Kubernetes' \<open>metav1\<close>, cut down to the fields that the operator reads or writes.
\<close>

subsection \<open>Metadata and conditions\<close>

type_synonym NamespacedName = "string \<times> string" \<comment> \<open>namespace, name\<close>

record TypeMeta =
  tm_APIVersion :: string
  tm_Kind :: string

record OwnerRef =
  or_Kind :: string
  or_Name :: string

record ObjectMeta =
  om_Name :: string
  om_Namespace :: string
  om_Labels :: "string \<rightharpoonup> string"
  om_Finalizers :: "string list"
  om_DeletionTimestamp :: "int option"
  om_Generation :: int
  om_OwnerReferences :: "OwnerRef list"

definition emptyMeta :: ObjectMeta where
  "emptyMeta = \<lparr>om_Name = '''', om_Namespace = '''', om_Labels = Map.empty, om_Finalizers = [],
     om_DeletionTimestamp = None, om_Generation = 0, om_OwnerReferences = []\<rparr>"

abbreviation metaKey :: "ObjectMeta \<Rightarrow> NamespacedName" where
  "metaKey m \<equiv> (om_Namespace m, om_Name m)"

record Condition =
  c_Type :: string
  c_Status :: string
  c_Reason :: string
  c_Message :: string
  c_LastTransitionTime :: int
  c_ObservedGeneration :: int

abbreviation ConditionTrue :: string where "ConditionTrue \<equiv> ''True''"
abbreviation ConditionFalse :: string where "ConditionFalse \<equiv> ''False''"

subsection \<open>ModelDeployment\<close>

record ModelResources =
  mr_GPU :: int
  mr_Memory :: string
  mr_CPU :: string

record SpotConfig =
  sp_Enabled :: bool
  sp_Provider :: string

record CanaryConfig =
  cc_Source :: string
  cc_Weight :: int
  cc_Resources :: ModelResources

record ModelStoreOverride =
  mso_Endpoint :: string
  mso_Bucket :: string

record ModelDeploymentSpec =
  mds_Source :: string
  mds_Engine :: string
  mds_Replicas :: "int option"
  mds_Resources :: ModelResources
  mds_Accelerator :: string
  mds_MIGDevice :: string
  mds_EngineArgs :: "(string \<times> string) list"
  mds_PrefixCaching :: bool
  mds_Spot :: "SpotConfig option"
  mds_Canary :: "CanaryConfig option"
  mds_ModelStore :: "ModelStoreOverride option"

record CanaryStatus =
  cs_Phase :: string
  cs_Endpoint :: string
  cs_ReadyReplicas :: int

record ModelDeploymentStatus =
  mdst_Phase :: string
  mdst_Engine :: string
  mdst_Endpoint :: string
  mdst_ReadyReplicas :: int
  mdst_TotalReplicas :: int
  mdst_ModelSize :: string
  mdst_Conditions :: "Condition list"
  mdst_Canary :: "CanaryStatus option"

record ModelDeployment =
  md_TypeMeta :: TypeMeta
  md_ObjectMeta :: ObjectMeta
  md_Spec :: ModelDeploymentSpec
  md_Status :: ModelDeploymentStatus

abbreviation md_Name :: "ModelDeployment \<Rightarrow> string" where
  "md_Name md \<equiv> om_Name (md_ObjectMeta md)"

abbreviation md_Namespace :: "ModelDeployment \<Rightarrow> string" where
  "md_Namespace md \<equiv> om_Namespace (md_ObjectMeta md)"

subsection \<open>FineTuneRun\<close>

record DataSourceSpec =
  ds_Type :: string
  ds_Path :: string
  ds_Format :: string

record TrainingSpec =
  tr_Epochs :: int
  tr_BatchSize :: int
  tr_LearningRate :: string
  tr_GradientAccumulationSteps :: int
  tr_WarmupRatio :: string
  tr_LoraRank :: int
  tr_LoraAlpha :: int
  tr_LoraTarget :: string

record EvaluationSpec =
  ev_Enabled :: bool
  ev_Dataset :: string

record QualityThresholds =
  qt_MinEvalLoss :: string
  qt_MaxTrainLoss :: string

record QualityGateSpec =
  qg_Enabled :: bool
  qg_Thresholds :: QualityThresholds

record DeploySpec =
  dp_Enabled :: bool
  dp_CanaryWeight :: int

record FineTuneRunSpec =
  fts_BaseModel :: string
  fts_OutputName :: string
  fts_Method :: string
  fts_DataSource :: DataSourceSpec
  fts_Training :: TrainingSpec
  fts_Resources :: ModelResources
  fts_Evaluation :: EvaluationSpec
  fts_QualityGate :: QualityGateSpec
  fts_Deploy :: DeploySpec

record TrainingMetrics =
  tmx_TrainLoss :: string
  tmx_EvalLoss :: string
  tmx_TrainingDuration :: string

record MLflowStatus =
  ml_RunID :: string
  ml_ExperimentName :: string
  ml_ArtifactURI :: string

record QualityGateStatus =
  qgs_Passed :: bool
  qgs_Message :: string

record OutputModelStatus =
  oms_Source :: string
  oms_ModelDeployment :: string

record FineTuneRunStatus =
  ftst_Phase :: string
  ftst_ArgoWorkflow :: string
  ftst_StartTime :: "int option"
  ftst_CompletionTime :: "int option"
  ftst_Metrics :: TrainingMetrics
  ftst_MLflow :: MLflowStatus
  ftst_QualityGate :: QualityGateStatus
  ftst_OutputModel :: OutputModelStatus
  ftst_Conditions :: "Condition list"

record FineTuneRun =
  ftr_TypeMeta :: TypeMeta
  ftr_ObjectMeta :: ObjectMeta
  ftr_Spec :: FineTuneRunSpec
  ftr_Status :: FineTuneRunStatus

abbreviation ftr_Name :: "FineTuneRun \<Rightarrow> string" where
  "ftr_Name f \<equiv> om_Name (ftr_ObjectMeta f)"

abbreviation ftr_Namespace :: "FineTuneRun \<Rightarrow> string" where
  "ftr_Namespace f \<equiv> om_Namespace (ftr_ObjectMeta f)"

subsection \<open>LLMPlatform\<close>

record EnabledToggle =
  et_Enabled :: bool

record ImageSpec =
  im_Repository :: string
  im_Tag :: string

record GatewaySpec =
  gw_Enabled :: bool
  gw_MasterKey :: string
  gw_Routing :: string
  gw_Image :: ImageSpec
  gw_RateLimiting :: EnabledToggle
  gw_BudgetControl :: EnabledToggle
  gw_LangfuseEnabled :: bool
  gw_LangfusePublicKey :: string
  gw_LangfuseSecretKey :: string

record GrafanaSpec =
  gf_AdminPassword :: string
  gf_OIDC :: EnabledToggle

record ObservabilitySpec =
  ob_Enabled :: bool
  ob_Grafana :: GrafanaSpec
  ob_Langfuse :: EnabledToggle

record LoggingSpec =
  lg_Enabled :: bool

record ModulesSpec =
  mo_RAG :: EnabledToggle
  mo_Finetune :: EnabledToggle
  mo_Security :: EnabledToggle

record ModelStoreSpec =
  ms_Enabled :: bool
  ms_Endpoint :: string
  ms_Bucket :: string
  ms_AccessKey :: string
  ms_SecretKey :: string
  ms_HFTransferConcurrency :: int
  ms_Image :: string

record KeycloakSpec =
  kc_Enabled :: bool

record PostgreSQLSpec =
  pg_Enabled :: bool

record KEDASpec =
  kd_Enabled :: bool

record NodePortSpec =
  np_Enabled :: bool
  np_Host :: string

record IngressSpec =
  ig_Enabled :: bool
  ig_ClassName :: string
  ig_Host :: string

record ModelSpec =
  mdl_Name :: string
  mdl_Source :: string
  mdl_Engine :: string
  mdl_Replicas :: int
  mdl_Resources :: ModelResources
  mdl_EngineArgs :: "(string \<times> string) list"

record LLMPlatformSpec =
  lps_Gateway :: GatewaySpec
  lps_Observability :: ObservabilitySpec
  lps_Logging :: LoggingSpec
  lps_Modules :: ModulesSpec
  lps_ModelStore :: ModelStoreSpec
  lps_HFToken :: string
  lps_Models :: "ModelSpec list"
  lps_Keycloak :: KeycloakSpec
  lps_PostgreSQL :: PostgreSQLSpec
  lps_KEDA :: KEDASpec
  lps_NodePort :: NodePortSpec
  lps_Ingress :: IngressSpec
  lps_Headlamp :: EnabledToggle

record ComponentStatus =
  cst_Phase :: string
  cst_Endpoint :: string
  cst_NodePort :: int

record ComponentStatuses =
  cps_Gateway :: "ComponentStatus option"
  cps_Grafana :: "ComponentStatus option"
  cps_Prometheus :: "ComponentStatus option"
  cps_Langfuse :: "ComponentStatus option"
  cps_MinIO :: "ComponentStatus option"
  cps_PostgreSQL :: "ComponentStatus option"
  cps_Dify :: "ComponentStatus option"
  cps_Milvus :: "ComponentStatus option"

record LLMPlatformStatus =
  lpst_Phase :: string
  lpst_ObservedGeneration :: int
  lpst_HelmRelease :: string
  lpst_HelmRevision :: int
  lpst_Components :: ComponentStatuses
  lpst_Conditions :: "Condition list"

record LLMPlatform =
  lp_TypeMeta :: TypeMeta
  lp_ObjectMeta :: ObjectMeta
  lp_Spec :: LLMPlatformSpec
  lp_Status :: LLMPlatformStatus

abbreviation lp_Name :: "LLMPlatform \<Rightarrow> string" where
  "lp_Name p \<equiv> om_Name (lp_ObjectMeta p)"

abbreviation lp_Namespace :: "LLMPlatform \<Rightarrow> string" where
  "lp_Namespace p \<equiv> om_Namespace (lp_ObjectMeta p)"

subsection \<open>Zero values\<close>

text \<open>Go's zero value of each struct that the code leaves partly unset.\<close>

definition zeroTypeMeta :: TypeMeta where
  "zeroTypeMeta = \<lparr>tm_APIVersion = '''', tm_Kind = ''''\<rparr>"

definition zeroResources :: ModelResources where
  "zeroResources = \<lparr>mr_GPU = 0, mr_Memory = '''', mr_CPU = ''''\<rparr>"

definition zeroMDSpec :: ModelDeploymentSpec where
  "zeroMDSpec = \<lparr>mds_Source = '''', mds_Engine = '''', mds_Replicas = None,
     mds_Resources = zeroResources, mds_Accelerator = '''', mds_MIGDevice = '''',
     mds_EngineArgs = [], mds_PrefixCaching = False, mds_Spot = None, mds_Canary = None,
     mds_ModelStore = None\<rparr>"

definition zeroMDStatus :: ModelDeploymentStatus where
  "zeroMDStatus = \<lparr>mdst_Phase = '''', mdst_Engine = '''', mdst_Endpoint = '''',
     mdst_ReadyReplicas = 0, mdst_TotalReplicas = 0, mdst_ModelSize = '''',
     mdst_Conditions = [], mdst_Canary = None\<rparr>"

definition zeroTraining :: TrainingSpec where
  "zeroTraining = \<lparr>tr_Epochs = 0, tr_BatchSize = 0, tr_LearningRate = '''',
     tr_GradientAccumulationSteps = 0, tr_WarmupRatio = '''', tr_LoraRank = 0, tr_LoraAlpha = 0,
     tr_LoraTarget = ''''\<rparr>"

definition zeroFTRSpec :: FineTuneRunSpec where
  "zeroFTRSpec = \<lparr>fts_BaseModel = '''', fts_OutputName = '''', fts_Method = '''',
     fts_DataSource = \<lparr>ds_Type = '''', ds_Path = '''', ds_Format = ''''\<rparr>,
     fts_Training = zeroTraining, fts_Resources = zeroResources,
     fts_Evaluation = \<lparr>ev_Enabled = False, ev_Dataset = ''''\<rparr>,
     fts_QualityGate = \<lparr>qg_Enabled = False,
       qg_Thresholds = \<lparr>qt_MinEvalLoss = '''', qt_MaxTrainLoss = ''''\<rparr>\<rparr>,
     fts_Deploy = \<lparr>dp_Enabled = False, dp_CanaryWeight = 0\<rparr>\<rparr>"

definition zeroFTRStatus :: FineTuneRunStatus where
  "zeroFTRStatus = \<lparr>ftst_Phase = '''', ftst_ArgoWorkflow = '''', ftst_StartTime = None,
     ftst_CompletionTime = None,
     ftst_Metrics = \<lparr>tmx_TrainLoss = '''', tmx_EvalLoss = '''', tmx_TrainingDuration = ''''\<rparr>,
     ftst_MLflow = \<lparr>ml_RunID = '''', ml_ExperimentName = '''', ml_ArtifactURI = ''''\<rparr>,
     ftst_QualityGate = \<lparr>qgs_Passed = False, qgs_Message = ''''\<rparr>,
     ftst_OutputModel = \<lparr>oms_Source = '''', oms_ModelDeployment = ''''\<rparr>,
     ftst_Conditions = []\<rparr>"

definition off :: EnabledToggle where
  "off = \<lparr>et_Enabled = False\<rparr>"

definition zeroLPSpec :: LLMPlatformSpec where
  "zeroLPSpec = \<lparr>
     lps_Gateway = \<lparr>gw_Enabled = False, gw_MasterKey = '''', gw_Routing = '''',
       gw_Image = \<lparr>im_Repository = '''', im_Tag = ''''\<rparr>, gw_RateLimiting = off,
       gw_BudgetControl = off, gw_LangfuseEnabled = False, gw_LangfusePublicKey = '''',
       gw_LangfuseSecretKey = ''''\<rparr>,
     lps_Observability = \<lparr>ob_Enabled = False,
       ob_Grafana = \<lparr>gf_AdminPassword = '''', gf_OIDC = off\<rparr>, ob_Langfuse = off\<rparr>,
     lps_Logging = \<lparr>lg_Enabled = False\<rparr>,
     lps_Modules = \<lparr>mo_RAG = off, mo_Finetune = off, mo_Security = off\<rparr>,
     lps_ModelStore = \<lparr>ms_Enabled = False, ms_Endpoint = '''', ms_Bucket = '''',
       ms_AccessKey = '''', ms_SecretKey = '''', ms_HFTransferConcurrency = 0, ms_Image = ''''\<rparr>,
     lps_HFToken = '''', lps_Models = [], lps_Keycloak = \<lparr>kc_Enabled = False\<rparr>,
     lps_PostgreSQL = \<lparr>pg_Enabled = False\<rparr>, lps_KEDA = \<lparr>kd_Enabled = False\<rparr>,
     lps_NodePort = \<lparr>np_Enabled = False, np_Host = ''''\<rparr>,
     lps_Ingress = \<lparr>ig_Enabled = False, ig_ClassName = '''', ig_Host = ''''\<rparr>,
     lps_Headlamp = off\<rparr>"

definition zeroLPStatus :: LLMPlatformStatus where
  "zeroLPStatus = \<lparr>lpst_Phase = '''', lpst_ObservedGeneration = 0, lpst_HelmRelease = '''',
     lpst_HelmRevision = 0,
     lpst_Components = \<lparr>cps_Gateway = None, cps_Grafana = None, cps_Prometheus = None,
       cps_Langfuse = None, cps_MinIO = None, cps_PostgreSQL = None, cps_Dify = None,
       cps_Milvus = None\<rparr>,
     lpst_Conditions = []\<rparr>"

end
