(* ===== verification/Builder.thy ===== *)
theory Builder
  imports ApiTypes
begin

section \<open>Child resources of a ModelDeployment (internal/builder)\<close>

text \<open>
  \<open>BuildDeployment\<close>, \<open>BuildService\<close> and \<open>BuildPVC\<close> turn a \<open>ModelDeployment\<close> into the
  Kubernetes objects that serve it. The records of this theory are the Kubernetes structs, cut
  down to the fields the builders set or the controller reads.

  \<open>resource.MustParse\<close> of Kubernetes panics on a text that is no quantity. Whether a text is
  one is the parameter \<open>qok\<close>; a builder that may panic returns \<^typ>\<open>'a option\<close> with \<open>None\<close> for
  the panic.
\<close>

subsection \<open>Kubernetes objects\<close>

datatype Quantity = Quantity string

type_synonym ResourceList = "string \<rightharpoonup> Quantity"

record ResourceRequirements =
  rr_Limits :: ResourceList
  rr_Requests :: ResourceList

record EnvVar =
  env_Name :: string
  env_Value :: string

record VolumeMount =
  vm_Name :: string
  vm_MountPath :: string

datatype VolumeSource =
    PersistentVolumeClaim string
  | EmptyDir string Quantity

record Volume =
  vol_Name :: string
  vol_Source :: VolumeSource

record ContainerPort =
  cp_Name :: string
  cp_ContainerPort :: int
  cp_Protocol :: string

record Probe =
  pr_Path :: string
  pr_Port :: int
  pr_InitialDelaySeconds :: int
  pr_PeriodSeconds :: int
  pr_TimeoutSeconds :: int
  pr_FailureThreshold :: int

record Container =
  co_Name :: string
  co_Image :: string
  co_Args :: "string list"
  co_Env :: "EnvVar list"
  co_Ports :: "ContainerPort list"
  co_Resources :: ResourceRequirements
  co_VolumeMounts :: "VolumeMount list"
  co_ReadinessProbe :: "Probe option"
  co_LivenessProbe :: "Probe option"

record Toleration =
  tol_Key :: string
  tol_Operator :: string
  tol_Effect :: string

record PodSpec =
  ps_InitContainers :: "Container list"
  ps_Containers :: "Container list"
  ps_Volumes :: "Volume list"
  ps_Tolerations :: "Toleration list"
  ps_EnableServiceLinks :: "bool option"
  ps_TerminationGracePeriodSeconds :: "int option"

record DeploymentSpec =
  dsp_Replicas :: "int option"
  dsp_MatchLabels :: "string \<rightharpoonup> string"
  dsp_Strategy :: string
  dsp_TemplateLabels :: "string \<rightharpoonup> string"
  dsp_PodSpec :: PodSpec

record DeploymentStatus =
  dst_ReadyReplicas :: int
  dst_Replicas :: int

record Deployment =
  dep_ObjectMeta :: ObjectMeta
  dep_Spec :: DeploymentSpec
  dep_Status :: DeploymentStatus

record ServicePort =
  svp_Name :: string
  svp_Port :: int
  svp_TargetPort :: int
  svp_Protocol :: string

record Service =
  svc_ObjectMeta :: ObjectMeta
  svc_Type :: string
  svc_Selector :: "string \<rightharpoonup> string"
  svc_Ports :: "ServicePort list"

record PVC =
  pvc_ObjectMeta :: ObjectMeta
  pvc_AccessModes :: "string list"
  pvc_Requests :: ResourceList

definition MustParse :: "(string \<Rightarrow> bool) \<Rightarrow> string \<Rightarrow> Quantity option" where
  "MustParse qok s = (if qok s then Some (Quantity s) else None)"

subsection \<open>Engines and ports (deployment.go, ports.go, service.go)\<close>

record engineConfig =
  ec_Image :: string
  ec_Port :: int

definition engines :: "string \<rightharpoonup> engineConfig" where
  "engines = [
     ''vllm'' \<mapsto> \<lparr>ec_Image = ''vllm/vllm-openai:v0.19.0'', ec_Port = 8000\<rparr>,
     ''tei'' \<mapsto> \<lparr>ec_Image = ''ghcr.io/huggingface/text-embeddings-inference:cpu-1.9.3'',
               ec_Port = 8080\<rparr>,
     ''llamacpp'' \<mapsto> \<lparr>ec_Image = ''ghcr.io/ggml-org/llama.cpp:server-b8672'', ec_Port = 8080\<rparr>]"

text \<open>\<open>engines[engine]\<close>: Go's map read gives the zero value for an absent key.\<close>

definition engineConfigOf :: "string \<Rightarrow> engineConfig" where
  "engineConfigOf engine =
     (case engines engine of None \<Rightarrow> \<lparr>ec_Image = '''', ec_Port = 0\<rparr> | Some cfg \<Rightarrow> cfg)"

definition acceleratorResources :: "string \<rightharpoonup> string" where
  "acceleratorResources =
     [''nvidia'' \<mapsto> ''nvidia.com/gpu'', ''amd'' \<mapsto> ''amd.com/gpu'', ''gaudi'' \<mapsto> ''habana.ai/gaudi'']"

definition EnginePort :: "string \<Rightarrow> int" where
  "EnginePort engine = (case engines engine of Some cfg \<Rightarrow> ec_Port cfg | None \<Rightarrow> 8000)"

definition getEnginePort :: "string \<Rightarrow> int" where
  "getEnginePort engine = (if engine = ''tei'' \<or> engine = ''llamacpp'' then 8080 else 8000)"

definition modelSlug :: "string \<Rightarrow> string" where
  "modelSlug source = ReplaceAll source (CHR ''/'') ''--''"

subsection \<open>The parts of the Deployment (deployment.go)\<close>

definition sortedKeys :: "(string \<times> string) list \<Rightarrow> string list" where
  "sortedKeys m = sort (map fst m)"

definition lookupArg :: "(string \<times> string) list \<Rightarrow> string \<Rightarrow> string" where
  "lookupArg m k = (case map_of m k of None \<Rightarrow> '''' | Some v \<Rightarrow> v)"

definition buildEngineArgs :: "ModelDeployment \<Rightarrow> string \<Rightarrow> string \<Rightarrow> int \<Rightarrow> string list" where
  "buildEngineArgs md engine slug port =
     (let modelPath = ''/models/'' @ slug;
          args =
            (if engine = ''vllm'' then
               [''--model'', modelPath, ''--served-model-name'', md_Name md,
                ''--host'', ''0.0.0.0'', ''--port'', showInt port]
               @ (if mds_PrefixCaching (md_Spec md) then [''--enable-prefix-caching''] else [])
             else if engine = ''tei'' then
               [''--model-id'', modelPath, ''--hostname'', ''0.0.0.0'', ''--port'', showInt port]
             else if engine = ''llamacpp'' then
               [''--model'', modelPath, ''--host'', ''0.0.0.0'', ''--port'', showInt port]
             else [])
      in if length (mds_EngineArgs (md_Spec md)) > 0
         then args @ concat (map (\<lambda>k. [k, lookupArg (mds_EngineArgs (md_Spec md)) k])
                              (sortedKeys (mds_EngineArgs (md_Spec md))))
         else args)"

definition resolveGPUResource :: "ModelDeployment \<Rightarrow> string" where
  "resolveGPUResource md =
     (if mds_MIGDevice (md_Spec md) \<noteq> '''' then mds_MIGDevice (md_Spec md)
      else case acceleratorResources (mds_Accelerator (md_Spec md)) of
             Some res \<Rightarrow> res
           | None \<Rightarrow> ''nvidia.com/gpu'')"

definition buildVolumes ::
  "(string \<Rightarrow> bool) \<Rightarrow> string \<Rightarrow> string \<Rightarrow> (Volume list \<times> VolumeMount list) option" where
  "buildVolumes qok engine mdName =
     (let volumes = [\<lparr>vol_Name = ''model-cache'',
                      vol_Source = PersistentVolumeClaim (mdName @ ''-cache'')\<rparr>];
          mounts = [\<lparr>vm_Name = ''model-cache'', vm_MountPath = ''/models''\<rparr>]
      in if engine = ''vllm'' then
           (case MustParse qok ''8Gi'' of
              None \<Rightarrow> None
            | Some shmSize \<Rightarrow>
                Some (volumes @ [\<lparr>vol_Name = ''dshm'', vol_Source = EmptyDir ''Memory'' shmSize\<rparr>],
                      mounts @ [\<lparr>vm_Name = ''dshm'', vm_MountPath = ''/dev/shm''\<rparr>]))
         else Some (volumes, mounts))"

text \<open>One guarded assignment to both resource lists; \<open>None\<close> when \<open>MustParse\<close> panics.\<close>

definition addResource ::
  "(string \<Rightarrow> bool) \<Rightarrow> bool \<Rightarrow> string \<Rightarrow> string \<Rightarrow> ResourceRequirements \<Rightarrow>
     ResourceRequirements option" where
  "addResource qok guard name text r =
     (if guard then
        (case MustParse qok text of
           None \<Rightarrow> None
         | Some q \<Rightarrow> Some \<lparr>rr_Limits = (rr_Limits r)(name \<mapsto> q),
                            rr_Requests = (rr_Requests r)(name \<mapsto> q)\<rparr>)
      else Some r)"

definition buildContainerResources ::
  "(string \<Rightarrow> bool) \<Rightarrow> ModelDeployment \<Rightarrow> string \<Rightarrow> ResourceRequirements option" where
  "buildContainerResources qok md gpuResourceName =
     (let res = mds_Resources (md_Spec md) in
      Option.bind
        (addResource qok (mr_Memory res \<noteq> '''') ''memory'' (mr_Memory res)
           \<lparr>rr_Limits = Map.empty, rr_Requests = Map.empty\<rparr>)
        (\<lambda>r. Option.bind (addResource qok (mr_CPU res \<noteq> '''') ''cpu'' (mr_CPU res) r)
          (\<lambda>r. addResource qok (mr_GPU res > 0) gpuResourceName (showInt (mr_GPU res)) r)))"

definition emptyResources :: ResourceRequirements where
  "emptyResources = \<lparr>rr_Limits = Map.empty, rr_Requests = Map.empty\<rparr>"

definition buildInitContainers ::
  "ModelDeployment \<Rightarrow> LLMPlatform option \<Rightarrow> string \<Rightarrow> Container list" where
  "buildInitContainers md platform slug =
     (case platform of
        None \<Rightarrow> []
      | Some p \<Rightarrow>
          if \<not> ms_Enabled (lps_ModelStore (lp_Spec p)) then []
          else let
            ms = lps_ModelStore (lp_Spec p);
            endpoint = (case mds_ModelStore (md_Spec md) of
                          Some o1 \<Rightarrow> if mso_Endpoint o1 \<noteq> '''' then mso_Endpoint o1
                                    else ms_Endpoint ms
                        | None \<Rightarrow> ms_Endpoint ms);
            bucket = (case mds_ModelStore (md_Spec md) of
                        Some o1 \<Rightarrow> if mso_Bucket o1 \<noteq> '''' then mso_Bucket o1 else ms_Bucket ms
                      | None \<Rightarrow> ms_Bucket ms);
            concurrency = (if ms_HFTransferConcurrency ms = 0 then 4
                           else ms_HFTransferConcurrency ms);
            envVars =
              [\<lparr>env_Name = ''MODEL_SOURCE'', env_Value = mds_Source (md_Spec md)\<rparr>,
               \<lparr>env_Name = ''MODEL_SLUG'', env_Value = slug\<rparr>,
               \<lparr>env_Name = ''MINIO_ENDPOINT'', env_Value = endpoint\<rparr>,
               \<lparr>env_Name = ''MINIO_BUCKET'', env_Value = bucket\<rparr>,
               \<lparr>env_Name = ''MINIO_ACCESS_KEY'', env_Value = ms_AccessKey ms\<rparr>,
               \<lparr>env_Name = ''MINIO_SECRET_KEY'', env_Value = ms_SecretKey ms\<rparr>,
               \<lparr>env_Name = ''HF_TRANSFER_CONCURRENCY'', env_Value = showInt concurrency\<rparr>,
               \<lparr>env_Name = ''HF_HUB_ENABLE_HF_TRANSFER'', env_Value = ''1''\<rparr>]
              @ (if lps_HFToken (lp_Spec p) \<noteq> ''''
                 then [\<lparr>env_Name = ''HF_TOKEN'', env_Value = lps_HFToken (lp_Spec p)\<rparr>] else [])
          in [\<lparr>co_Name = ''model-loader'', co_Image = ms_Image ms, co_Args = [],
               co_Env = envVars, co_Ports = [], co_Resources = emptyResources,
               co_VolumeMounts = [\<lparr>vm_Name = ''model-cache'', vm_MountPath = ''/models''\<rparr>],
               co_ReadinessProbe = None, co_LivenessProbe = None\<rparr>])"

definition buildTolerations :: "string \<Rightarrow> Toleration list" where
  "buildTolerations gpuResourceName =
     [\<lparr>tol_Key = gpuResourceName, tol_Operator = ''Exists'', tol_Effect = ''NoSchedule''\<rparr>]"

subsection \<open>BuildDeployment (deployment.go)\<close>

definition deploymentLabels :: "string \<Rightarrow> string \<Rightarrow> (string \<rightharpoonup> string)" where
  "deploymentLabels name engine =
     [''app.kubernetes.io/name'' \<mapsto> engine,
      ''app.kubernetes.io/instance'' \<mapsto> name,
      ''app.kubernetes.io/part-of'' \<mapsto> ''kube-llmops'',
      ''app.kubernetes.io/component'' \<mapsto> ''model-serving'',
      ''kube-llmops/model'' \<mapsto> name,
      ''kube-llmops/engine'' \<mapsto> engine]"

definition BuildDeployment ::
  "(string \<Rightarrow> bool) \<Rightarrow> ModelDeployment \<Rightarrow> string \<Rightarrow> LLMPlatform option \<Rightarrow> Deployment option" where
  "BuildDeployment qok md engine platform =
     (let cfg = engineConfigOf engine;
          slug = modelSlug (mds_Source (md_Spec md));
          labels = deploymentLabels (md_Name md) engine;
          args = buildEngineArgs md engine slug (ec_Port cfg);
          gpuResourceName = resolveGPUResource md
      in Option.bind (buildVolumes qok engine (md_Name md)) (\<lambda>(volumes, volumeMounts).
         Option.bind (buildContainerResources qok md gpuResourceName) (\<lambda>containerResources.
         let probe = \<lparr>pr_Path = ''/health'', pr_Port = ec_Port cfg, pr_InitialDelaySeconds = 30,
                      pr_PeriodSeconds = 10, pr_TimeoutSeconds = 5, pr_FailureThreshold = 3\<rparr>;
             mainContainer = \<lparr>co_Name = ''model-server'', co_Image = ec_Image cfg, co_Args = args,
                co_Env = [],
                co_Ports = [\<lparr>cp_Name = ''http'', cp_ContainerPort = ec_Port cfg,
                             cp_Protocol = ''TCP''\<rparr>],
                co_Resources = containerResources, co_VolumeMounts = volumeMounts,
                co_ReadinessProbe = Some probe, co_LivenessProbe = Some probe\<rparr>;
             initContainers = buildInitContainers md platform slug;
             tolerations = buildTolerations gpuResourceName
         in Some \<lparr>
              dep_ObjectMeta = emptyMeta\<lparr>om_Name := md_Name md, om_Namespace := md_Namespace md,
                                          om_Labels := labels\<rparr>,
              dep_Spec = \<lparr>
                dsp_Replicas = mds_Replicas (md_Spec md),
                dsp_MatchLabels = [''app.kubernetes.io/instance'' \<mapsto> md_Name md],
                dsp_Strategy = ''Recreate'',
                dsp_TemplateLabels = labels,
                dsp_PodSpec = \<lparr>
                  ps_InitContainers = initContainers,
                  ps_Containers = [mainContainer],
                  ps_Volumes = volumes,
                  ps_Tolerations = tolerations,
                  ps_EnableServiceLinks = Some False,
                  ps_TerminationGracePeriodSeconds = Some 90\<rparr>\<rparr>,
              dep_Status = \<lparr>dst_ReadyReplicas = 0, dst_Replicas = 0\<rparr>\<rparr>)))"

subsection \<open>BuildService and BuildPVC (service.go, pvc.go)\<close>

definition buildLabels :: "string \<Rightarrow> string \<Rightarrow> (string \<rightharpoonup> string)" where
  "buildLabels name engine =
     [''app.kubernetes.io/name'' \<mapsto> engine,
      ''app.kubernetes.io/instance'' \<mapsto> name,
      ''app.kubernetes.io/part-of'' \<mapsto> ''kube-llmops'',
      ''kube-llmops/model'' \<mapsto> name,
      ''kube-llmops/engine'' \<mapsto> engine]"

definition BuildService :: "ModelDeployment \<Rightarrow> string \<Rightarrow> Service" where
  "BuildService md engine =
     (let port = getEnginePort engine; labels = buildLabels (md_Name md) engine
      in \<lparr>svc_ObjectMeta = emptyMeta\<lparr>om_Name := md_Name md, om_Namespace := md_Namespace md,
                                     om_Labels := labels\<rparr>,
          svc_Type = ''ClusterIP'',
          svc_Selector = [''app.kubernetes.io/name'' \<mapsto> engine, ''kube-llmops/model'' \<mapsto> md_Name md],
          svc_Ports = [\<lparr>svp_Name = ''http'', svp_Port = port, svp_TargetPort = port,
                        svp_Protocol = ''TCP''\<rparr>]\<rparr>)"

definition getEngineCacheSize :: "string \<Rightarrow> string" where
  "getEngineCacheSize engine =
     (if engine = ''tei'' then ''10Gi'' else if engine = ''llamacpp'' then ''30Gi'' else ''50Gi'')"

definition BuildPVC :: "(string \<Rightarrow> bool) \<Rightarrow> ModelDeployment \<Rightarrow> string \<Rightarrow> PVC option" where
  "BuildPVC qok md engine =
     (let labels = buildLabels (md_Name md) engine; storageSize = getEngineCacheSize engine
      in map_option (\<lambda>q. \<lparr>
           pvc_ObjectMeta = emptyMeta\<lparr>om_Name := md_Name md @ ''-cache'',
                                       om_Namespace := md_Namespace md, om_Labels := labels\<rparr>,
           pvc_AccessModes = [''ReadWriteOnce''],
           pvc_Requests = [''storage'' \<mapsto> q]\<rparr>) (MustParse qok storageSize))"

end
