(* ===== verification/Json.thy ===== *)
theory Json
  imports Prelude "HOL-Library.AList"
begin

section \<open>Untyped objects: map[string]interface{}\<close>

text \<open>
  The operator writes Helm values and Argo workflows as nested \<open>map[string]interface{}\<close> values.
  \<^typ>\<open>'a list\<close>-based objects stand for Go's maps: an assignment \<open>m[k] = v\<close> is
  \<^const>\<open>AList.update\<close>, a read is \<^const>\<open>map_of\<close>, and no claim depends on the order of an
  object's members. \<open>json_ok\<close> is the invariant that no object holds a key twice.
\<close>

datatype jval =
    JNull
  | JBool bool
  | JInt int
  | JStr string
  | JArr "jval list"
  | JObj "(string \<times> jval) list"

type_synonym jobj = "(string \<times> jval) list"

abbreviation jset :: "jobj \<Rightarrow> string \<Rightarrow> jval \<Rightarrow> jobj" where
  "jset m k v \<equiv> AList.update k v m"

text \<open>A guarded assignment: \<open>if g { m[k] = v }\<close>.\<close>

definition jset_if :: "bool \<Rightarrow> string \<Rightarrow> jval \<Rightarrow> jobj \<Rightarrow> jobj" where
  "jset_if g k v m = (if g then jset m k v else m)"

fun jget :: "jval \<Rightarrow> string \<Rightarrow> jval option" where
  "jget (JObj m) k = map_of m k"
| "jget _ _ = None"

fun jpath :: "jval \<Rightarrow> string list \<Rightarrow> jval option" where
  "jpath v [] = Some v"
| "jpath v (k # ks) = Option.bind (jget v k) (\<lambda>w. jpath w ks)"

fun jstr :: "jval option \<Rightarrow> string" where
  "jstr (Some (JStr s)) = s"
| "jstr _ = ''''"

fun jitems :: "jval option \<Rightarrow> jval list" where
  "jitems (Some (JArr xs)) = xs"
| "jitems _ = []"

fun json_ok :: "jval \<Rightarrow> bool" where
  "json_ok (JArr xs) = list_all json_ok xs"
| "json_ok (JObj m) = (distinct (map fst m) \<and> list_all (\<lambda>(k, v). json_ok v) m)"
| "json_ok _ = True"

subsection \<open>Laws of assignment\<close>

lemma map_of_jset [simp]: "map_of (jset m k v) k' = (if k' = k then Some v else map_of m k')"
  by (simp add: update_conv')

lemma jset_Nil_iff [simp]: "jset m k v = [] \<longleftrightarrow> False"
  by simp

lemma jset_if_simps [simp]:
  "jset_if True k v m = jset m k v" "jset_if False k v m = m"
  by (simp_all add: jset_if_def)

lemma map_of_jset_if:
  "map_of (jset_if g k v m) k' = (if g \<and> k' = k then Some v else map_of m k')"
  by (simp add: jset_if_def)

lemma jset_if_Nil_iff: "jset_if g k v m = [] \<longleftrightarrow> \<not> g \<and> m = []"
  by (simp add: jset_if_def)

lemma json_ok_jset:
  assumes "json_ok (JObj m)" and "json_ok v"
  shows "json_ok (JObj (jset m k v))"
proof -
  have "list_all (\<lambda>(k, v). json_ok v) (jset m k v)"
    using assms by (induction m) auto
  then show ?thesis using assms by (simp add: distinct_update)
qed

lemma json_ok_jset_if:
  "json_ok (JObj m) \<Longrightarrow> json_ok v \<Longrightarrow> json_ok (JObj (jset_if g k v m))"
  by (cases g) (simp_all add: json_ok_jset del: json_ok.simps)

end
