(* ===== verification/Gateway.thy ===== *)
theory Gateway
  imports Effects
begin

section \<open>The client of the LiteLLM gateway (internal/gateway/client.go)\<close>

text \<open>
  The interface \<open>Client\<close>, its HTTP implementation and the no-op one. Bodies are the bytes that
  \<open>encoding/json\<close> writes; the HTTP transport (\<open>net/http\<close> and the network) is the parameter
  \<open>transport\<close>.
\<close>

subsection \<open>Models and their JSON form\<close>

record LiteLLMParams =
  llp_Model :: string
  llp_APIBase :: string
  llp_APIKey :: string

record GatewayModel =
  gm_ModelName :: string
  gm_LiteLLMParams :: LiteLLMParams

text \<open>
  \<open>encoding/json\<close> on strings: the quote and the backslash are escaped, control bytes and the three
  HTML bytes become \<open>\u00XX\<close>. (Bytes from 128 on are copied; the two separators U+2028 and U+2029
  and invalid UTF-8, which Go treats apart, cannot occur in the names and URLs of the cluster.)
\<close>

definition quoteChar :: char where "quoteChar = CHR 0x22"
definition backslash :: char where "backslash = CHR 0x5C"

definition hexDigit :: "nat \<Rightarrow> char" where
  "hexDigit n = ''0123456789abcdef'' ! n"

definition escByte :: "char \<Rightarrow> string" where
  "escByte c =
     (if c = quoteChar \<or> c = backslash then [backslash, c]
      else if c = CHR 0x08 then [backslash, CHR ''b'']
      else if c = CHR 0x0C then [backslash, CHR ''f'']
      else if c = CHR 0x0A then [backslash, CHR ''n'']
      else if c = CHR 0x0D then [backslash, CHR ''r'']
      else if c = CHR 0x09 then [backslash, CHR ''t'']
      else if c < CHR 0x20 \<or> c = CHR ''<'' \<or> c = CHR ''>'' \<or> c = CHR ''&''
      then [backslash, CHR ''u'', CHR ''0'', CHR ''0'',
            hexDigit (of_char c div 16), hexDigit (of_char c mod 16)]
      else [c])"

definition jsonQuote :: "string \<Rightarrow> string" where
  "jsonQuote s = quoteChar # concat (map escByte s) @ [quoteChar]"

definition jsonKey :: "string \<Rightarrow> string" where
  "jsonKey k = jsonQuote k @ '':''"

definition MarshalModel :: "GatewayModel \<Rightarrow> string" where
  "MarshalModel m =
     (let p = gm_LiteLLMParams m in
      ''{'' @ jsonKey ''model_name'' @ jsonQuote (gm_ModelName m) @ '','' @
      jsonKey ''litellm_params'' @
        ''{'' @ jsonKey ''model'' @ jsonQuote (llp_Model p) @ '','' @
        jsonKey ''api_base'' @ jsonQuote (llp_APIBase p) @
        (if llp_APIKey p \<noteq> '''' then '','' @ jsonKey ''api_key'' @ jsonQuote (llp_APIKey p) else []) @
        ''}'' @ ''}'')"

definition MarshalID :: "string \<Rightarrow> string" where
  "MarshalID modelID = ''{'' @ jsonKey ''id'' @ jsonQuote modelID @ ''}''"

subsection \<open>The interface and the two clients\<close>

record ('w, 'e) gatewayClient =
  RegisterModel :: "GatewayModel \<Rightarrow> ('w, 'e error option) state"
  DeregisterModel :: "string \<Rightarrow> ('w, 'e error option) state"
  HealthCheck :: "('w, 'e error option) state"

record httpRequest =
  rq_Method :: string
  rq_URL :: string
  rq_Header :: "string \<rightharpoonup> string"
  rq_Body :: string

record httpResponse =
  rs_StatusCode :: int
  rs_Body :: string

record ('w, 'e) transport =
  NewRequestError :: "string \<Rightarrow> string \<Rightarrow> 'e error option"
  Do :: "httpRequest \<Rightarrow> ('w, 'e error + httpResponse) state"

record ('w, 'e) HTTPClient =
  hc_baseURL :: string
  hc_masterKey :: string
  hc_httpClient :: "('w, 'e) transport"

definition NewHTTPClient :: "('w, 'e) transport \<Rightarrow> string \<Rightarrow> string \<Rightarrow> ('w, 'e) HTTPClient" where
  "NewHTTPClient t baseURL masterKey =
     \<lparr>hc_baseURL = baseURL, hc_masterKey = masterKey, hc_httpClient = t\<rparr>"

definition postHeader :: "('w, 'e) HTTPClient \<Rightarrow> (string \<rightharpoonup> string)" where
  "postHeader c =
     (let h = [''Content-Type'' \<mapsto> ''application/json'']
      in if hc_masterKey c \<noteq> '''' then h(''Authorization'' \<mapsto> ''Bearer '' @ hc_masterKey c) else h)"

definition httpRegisterModel ::
  "('w, 'e) HTTPClient \<Rightarrow> GatewayModel \<Rightarrow> ('w, 'e error option) state" where
  "httpRegisterModel c model =
     (let body = MarshalModel model; url = hc_baseURL c @ ''/model/new'' in
      case NewRequestError (hc_httpClient c) ''POST'' url of
        Some err \<Rightarrow> ret (Some err)
      | None \<Rightarrow> do {
          resp \<leftarrow> Do (hc_httpClient c) \<lparr>rq_Method = ''POST'', rq_URL = url,
                     rq_Header = postHeader c, rq_Body = body\<rparr>;
          ret (case resp of
                 Inl err \<Rightarrow> Some (Wrapf ''register model'' err)
               | Inr r \<Rightarrow>
                   if rs_StatusCode r \<ge> 400
                   then Some (Errorf (''register model: HTTP '' @ showInt (rs_StatusCode r) @ '': '' @
                                      rs_Body r))
                   else None)
        })"

definition httpDeregisterModel ::
  "('w, 'e) HTTPClient \<Rightarrow> string \<Rightarrow> ('w, 'e error option) state" where
  "httpDeregisterModel c modelID =
     (let body = MarshalID modelID; url = hc_baseURL c @ ''/model/delete'' in
      case NewRequestError (hc_httpClient c) ''POST'' url of
        Some err \<Rightarrow> ret (Some err)
      | None \<Rightarrow> do {
          resp \<leftarrow> Do (hc_httpClient c) \<lparr>rq_Method = ''POST'', rq_URL = url,
                     rq_Header = postHeader c, rq_Body = body\<rparr>;
          ret (case resp of
                 Inl err \<Rightarrow> Some (Wrapf ''deregister model'' err)
               | Inr r \<Rightarrow>
                   if rs_StatusCode r \<ge> 400
                   then Some (Errorf (''deregister model: HTTP '' @ showInt (rs_StatusCode r) @
                                      '': '' @ rs_Body r))
                   else None)
        })"

definition httpHealthCheck :: "('w, 'e) HTTPClient \<Rightarrow> ('w, 'e error option) state" where
  "httpHealthCheck c =
     (let url = hc_baseURL c @ ''/health'' in
      case NewRequestError (hc_httpClient c) ''GET'' url of
        Some err \<Rightarrow> ret (Some err)
      | None \<Rightarrow> do {
          resp \<leftarrow> Do (hc_httpClient c) \<lparr>rq_Method = ''GET'', rq_URL = url,
                     rq_Header = Map.empty, rq_Body = ''''\<rparr>;
          ret (case resp of
                 Inl err \<Rightarrow> Some (Wrapf ''health check'' err)
               | Inr r \<Rightarrow>
                   if rs_StatusCode r \<ge> 400
                   then Some (Errorf (''gateway unhealthy: HTTP '' @ showInt (rs_StatusCode r)))
                   else None)
        })"

definition httpGateway :: "('w, 'e) HTTPClient \<Rightarrow> ('w, 'e) gatewayClient" where
  "httpGateway c = \<lparr>RegisterModel = httpRegisterModel c, DeregisterModel = httpDeregisterModel c,
     HealthCheck = httpHealthCheck c\<rparr>"

definition NoopClient :: "('w, 'e) gatewayClient" where
  "NoopClient = \<lparr>RegisterModel = (\<lambda>m. ret None), DeregisterModel = (\<lambda>i. ret None),
     HealthCheck = ret None\<rparr>"

subsection \<open>The contract of a gateway client\<close>

text \<open>
  What the controller relies on: a call to the gateway leaves the part \<open>view\<close> of the world that
  the API server owns as it was.
\<close>

locale gateway_client =
  fixes G :: "('w, 'e) gatewayClient" and view :: "'w \<Rightarrow> 'v"
  assumes register_view: "view (snd (run_state (RegisterModel G m) w)) = view w"
    and deregister_view: "view (snd (run_state (DeregisterModel G i) w)) = view w"
    and health_view: "view (snd (run_state (HealthCheck G) w)) = view w"
begin

lemma wp_register: "(\<And>r w'. view w' = view w \<Longrightarrow> Q r w') \<Longrightarrow> wp (RegisterModel G m) Q w"
  using register_view [of m w] by (auto simp: wp_def split: prod.splits)

lemma wp_deregister: "(\<And>r w'. view w' = view w \<Longrightarrow> Q r w') \<Longrightarrow> wp (DeregisterModel G i) Q w"
  using deregister_view [of i w] by (auto simp: wp_def split: prod.splits)

end

interpretation noop: gateway_client NoopClient view for view
  by unfold_locales (simp_all add: NoopClient_def)

text \<open>The HTTP client meets the contract on every transport that does.\<close>

locale http_transport =
  fixes T :: "('w, 'e) transport" and view :: "'w \<Rightarrow> 'v" and baseURL masterKey :: string
  assumes do_view: "view (snd (run_state (Do T q) w)) = view w"

sublocale http_transport \<subseteq> http: gateway_client "httpGateway (NewHTTPClient T baseURL masterKey)" view
proof unfold_locales
  fix m i w
  have do: "view w' = view w" if "run_state (Do T q) w = (a, w')" for a w' q
    using do_view [of q w] that by simp
  show "view (snd (run_state (RegisterModel (httpGateway (NewHTTPClient T baseURL masterKey)) m) w)) =
      view w"
    by (auto simp: httpGateway_def NewHTTPClient_def httpRegisterModel_def Let_def do
        split: option.splits prod.splits)
  show "view (snd (run_state (DeregisterModel (httpGateway (NewHTTPClient T baseURL masterKey)) i) w)) =
      view w"
    by (auto simp: httpGateway_def NewHTTPClient_def httpDeregisterModel_def Let_def do
        split: option.splits prod.splits)
  show "view (snd (run_state (HealthCheck (httpGateway (NewHTTPClient T baseURL masterKey))) w)) =
      view w"
    by (auto simp: httpGateway_def NewHTTPClient_def httpHealthCheck_def Let_def do
        split: option.splits prod.splits)
qed

text \<open>
  A transport whose network is apart from the cluster: it runs on the second part of the world.
\<close>

definition besides :: "('h, 'e) transport \<Rightarrow> ('c \<times> 'h, 'e) transport" where
  "besides t = \<lparr>NewRequestError = NewRequestError t,
     Do = (\<lambda>q. State (\<lambda>(c, h). case run_state (Do t q) h of (r, h') \<Rightarrow> (r, (c, h'))))\<rparr>"

interpretation beside_cluster: http_transport "besides T" fst baseURL masterKey
  for T baseURL masterKey
  by unfold_locales (auto simp: besides_def split: prod.splits)

text \<open>The recording transport, over any transport.\<close>

definition tracedTransport ::
  "('w, 'e) transport \<Rightarrow> ('w \<times> (httpRequest \<times> ('e error + httpResponse)) list, 'e) transport" where
  "tracedTransport t = \<lparr>NewRequestError = NewRequestError t,
     Do = (\<lambda>q. logged (\<lambda>r. (q, r)) (Do t q))\<rparr>"

subsection \<open>Reading the JSON back\<close>

text \<open>
  A reader of JSON string literals and of the two bodies, as the gateway parses them.
\<close>

definition nibble :: "char \<Rightarrow> nat option" where
  "nibble c = (if c \<in> set ''0123456789'' then Some (of_char c - 48)
     else if c \<in> set ''abcdef'' then Some (of_char c - 87) else None)"

definition unescape1 :: "char \<Rightarrow> char option" where
  "unescape1 d =
     (if d = quoteChar \<or> d = backslash then Some d
      else map_of [(CHR ''b'', CHR 0x08), (CHR ''f'', CHR 0x0C), (CHR ''n'', CHR 0x0A),
                   (CHR ''r'', CHR 0x0D), (CHR ''t'', CHR 0x09)] d)"

definition unescape4 :: "char \<Rightarrow> char \<Rightarrow> char \<Rightarrow> char \<Rightarrow> char option" where
  "unescape4 a b h l =
     (if a = CHR ''0'' \<and> b = CHR ''0'' then
        (case (nibble h, nibble l) of (Some x, Some y) \<Rightarrow> Some (char_of (16 * x + y)) | _ \<Rightarrow> None)
      else None)"

definition push :: "char option \<Rightarrow> (string \<times> string) option \<Rightarrow> (string \<times> string) option" where
  "push c r = (case (c, r) of (Some c, Some (s, rest)) \<Rightarrow> Some (c # s, rest) | _ \<Rightarrow> None)"

fun unquoteBody :: "string \<Rightarrow> (string \<times> string) option" where
  "unquoteBody [] = None"
| "unquoteBody (c # s) =
     (if c = quoteChar then Some ([], s)
      else if c = backslash then
        (case s of
           [] \<Rightarrow> None
         | d # s1 \<Rightarrow>
             if d = CHR ''u'' then
               (case s1 of
                  a # b # h # l # s2 \<Rightarrow> push (unescape4 a b h l) (unquoteBody s2)
                | _ \<Rightarrow> None)
             else push (unescape1 d) (unquoteBody s1))
      else push (Some c) (unquoteBody s))"

fun unquote :: "string \<Rightarrow> (string \<times> string) option" where
  "unquote [] = None"
| "unquote (c # s) = (if c = quoteChar then unquoteBody s else None)"

fun expect :: "string \<Rightarrow> string \<Rightarrow> string option" where
  "expect [] s = Some s"
| "expect (c # p) [] = None"
| "expect (c # p) (d # s) = (if c = d then expect p s else None)"

definition member :: "string \<Rightarrow> string \<Rightarrow> (string \<times> string) option" where
  "member k s = Option.bind (expect (jsonKey k) s) unquote"

definition parseModel :: "string \<Rightarrow> GatewayModel option" where
  "parseModel s =
     Option.bind (expect ''{'' s) (\<lambda>s. Option.bind (member ''model_name'' s) (\<lambda>(name, s).
     Option.bind (expect ('','' @ jsonKey ''litellm_params'' @ ''{'') s) (\<lambda>s.
     Option.bind (member ''model'' s) (\<lambda>(model, s). Option.bind (expect '','' s) (\<lambda>s.
     Option.bind (member ''api_base'' s) (\<lambda>(base, s).
     Option.bind (case expect '','' s of None \<Rightarrow> Some ('''', s) | Some s \<Rightarrow> member ''api_key'' s)
       (\<lambda>(key, s). if s = ''}}'' then
          Some \<lparr>gm_ModelName = name, gm_LiteLLMParams = \<lparr>llp_Model = model, llp_APIBase = base,
                llp_APIKey = key\<rparr>\<rparr> else None)))))))"

lemma nibble_hexDigit: "n < 16 \<Longrightarrow> nibble (hexDigit n) = Some n"
  by (auto simp: less_Suc_eq numeral_eq_Suc nibble_def hexDigit_def)

lemma unescape4_byte:
  "unescape4 (CHR ''0'') (CHR ''0'') (hexDigit (of_char c div 16)) (hexDigit (of_char c mod 16)) = Some c"
proof -
  have "of_char c div 16 < (16 :: nat)"
    using nat_of_char_less_256 [of c] by (simp add: less_mult_imp_div_less)
  then show ?thesis by (simp add: unescape4_def nibble_hexDigit)
qed

lemma unquoteBody_escByte: "unquoteBody (escByte c @ t) = push (Some c) (unquoteBody t)"
  by (simp add: escByte_def unescape4_byte unescape1_def quoteChar_def backslash_def)

lemma unquoteBody_append:
  "unquoteBody (concat (map escByte s) @ quoteChar # t) = Some (s, t)"
  by (induction s) (simp_all add: unquoteBody_escByte push_def)

lemma unquote_jsonQuote: "unquote (jsonQuote s @ t) = Some (s, t)"
  by (simp add: jsonQuote_def unquoteBody_append)

lemma expect_append [simp]: "expect p (p @ s) = Some s"
  by (induction p) simp_all

lemma member_append [simp]: "member k (jsonKey k @ jsonQuote v @ s) = Some (v, s)"
  by (simp add: member_def unquote_jsonQuote)

text \<open>
  The gateway reads what was sent. The body that \<open>RegisterModel\<close> posts, parsed by a JSON
  reader, is the model again, for every name, provider string, URL and key: no byte in them can
  break out of its string, and an empty key is left out. The same holds of the identifier that
  \<open>DeregisterModel\<close> posts.
\<close>

theorem gateway_body_roundtrip:
  "parseModel (MarshalModel m) = Some m \<and>
   Option.bind (expect ''{'' (MarshalID i)) (member ''id'') = Some (i, ''}'')"
proof
  have e: "expect ''{'' (''{'' @ s) = Some s" "expect '','' ('','' @ s) = Some s" for s
    by simp_all
  have l: "expect ('','' @ jsonKey ''litellm_params'' @ ''{'')
      ('','' @ jsonKey ''litellm_params'' @ ''{'' @ s) = Some s" for s
    using expect_append [of "'','' @ jsonKey ''litellm_params'' @ ''{''" s] by simp
  have n: "expect '','' ([] @ ''}'' @ ''}'') = None"
    by simp
  show "parseModel (MarshalModel m) = Some m"
    unfolding parseModel_def MarshalModel_def Let_def
    by (cases m; cases "gm_LiteLLMParams m")
       (simp add: e l n del: append.simps append_Cons append_Nil)
  show "Option.bind (expect ''{'' (MarshalID i)) (member ''id'') = Some (i, ''}'')"
    unfolding MarshalID_def e by simp
qed

subsection \<open>One request per call\<close>

text \<open>
  \<open>one_request T q res tr\<close>: a call that started with the trace \<open>tr\<close> sent exactly the request \<open>q\<close>,
  and its error is nil exactly when an answer with a status below 400 came; or the request could
  not be made, and that error is the result.
\<close>

definition one_request ::
  "('w, 'e) transport \<Rightarrow> httpRequest \<Rightarrow>
     'e error option \<times> ('w \<times> (httpRequest \<times> ('e error + httpResponse)) list) \<Rightarrow>
     (httpRequest \<times> ('e error + httpResponse)) list \<Rightarrow> bool" where
  "one_request T q res tr = (case res of (r, (w', tr')) \<Rightarrow>
     (case NewRequestError T (rq_Method q) (rq_URL q) of
        Some e \<Rightarrow> r = Some e \<and> tr' = tr
      | None \<Rightarrow> \<exists>resp. tr' = tr @ [(q, resp)] \<and>
          (r = None) = (\<exists>x. resp = Inr x \<and> rs_StatusCode x < 400)))"

definition bearer :: "string \<Rightarrow> (string \<rightharpoonup> string)" where
  "bearer key = (\<lambda>h. if h = ''Authorization'' \<and> key \<noteq> '''' then Some (''Bearer '' @ key)
     else if h = ''Content-Type'' then Some ''application/json'' else None)"

lemma postHeader_bearer: "postHeader c = bearer (hc_masterKey c)"
  by (rule ext) (simp add: postHeader_def bearer_def Let_def)

text \<open>
  Gateway requests. Registering and deregistering are one POST each, to \<open>/model/new\<close> and
  \<open>/model/delete\<close>, with the JSON body, the content type, and the bearer key when a key is
  configured; the health check is one GET without a key. Each reports success exactly for a
  status below 400, and sends nothing when the request cannot be made.
\<close>

theorem gateway_requests:
  fixes T :: "('w, 'e) transport"
  defines "c \<equiv> \<lambda>base key. NewHTTPClient (tracedTransport T) base key"
  shows
  "one_request T \<lparr>rq_Method = ''POST'', rq_URL = base @ ''/model/new'', rq_Header = bearer key,
       rq_Body = MarshalModel m\<rparr> (run_state (RegisterModel (httpGateway (c base key)) m) (w, tr)) tr \<and>
   one_request T \<lparr>rq_Method = ''POST'', rq_URL = base @ ''/model/delete'', rq_Header = bearer key,
       rq_Body = MarshalID i\<rparr> (run_state (DeregisterModel (httpGateway (c base key)) i) (w, tr)) tr \<and>
   one_request T \<lparr>rq_Method = ''GET'', rq_URL = base @ ''/health'', rq_Header = Map.empty,
       rq_Body = ''''\<rparr> (run_state (HealthCheck (httpGateway (c base key))) (w, tr)) tr"
  unfolding c_def
  by (auto simp: one_request_def httpGateway_def httpRegisterModel_def httpDeregisterModel_def
      httpHealthCheck_def NewHTTPClient_def tracedTransport_def run_logged postHeader_bearer Let_def
      split: option.splits prod.splits sum.splits)

end
