(* ===== verification/HelmClient.thy ===== *)
theory HelmClient
  imports Effects Json
begin

section \<open>The Helm client (internal/helmbridge/client.go)\<close>

text \<open>
  The interface \<open>HelmClient\<close>, its implementation \<open>SDKClient\<close> on the Helm SDK and the test double
  \<open>MockHelmClient\<close>. The SDK (\<open>helm.sh/helm/v3\<close>) is a parameter of the model: \<open>helmSDK\<close> has one
  field per call. A \<open>*release.Release\<close> that may be nil is an option, and so is its \<open>Info\<close>, of which
  the code reads the status.
\<close>

record release =
  rel_Name :: string
  rel_Version :: int
  rel_Info :: "string option"

type_synonym 'e releaseResult = "'e error + release option"

record ('w, 'e) helmClient =
  Install :: "string \<Rightarrow> string \<Rightarrow> string \<Rightarrow> jobj \<Rightarrow> ('w, 'e releaseResult) state"
  Upgrade :: "string \<Rightarrow> string \<Rightarrow> string \<Rightarrow> jobj \<Rightarrow> ('w, 'e releaseResult) state"
  GetRelease :: "string \<Rightarrow> string \<Rightarrow> ('w, 'e releaseResult) state"
  Uninstall :: "string \<Rightarrow> string \<Rightarrow> ('w, 'e error option) state"
  Rollback :: "string \<Rightarrow> string \<Rightarrow> int \<Rightarrow> ('w, 'e error option) state"

subsection \<open>The SDK client\<close>

record installAction =
  in_ReleaseName :: string
  in_Namespace :: string
  in_CreateNamespace :: bool
  in_Wait :: bool
  in_DisableOpenAPIValidation :: bool
  in_SkipCRDs :: bool
  in_DisableHooks :: bool

record upgradeAction =
  up_Namespace :: string
  up_Wait :: bool
  up_DisableHooks :: bool

record rollbackAction =
  rb_Version :: int
  rb_CleanupOnFail :: bool

record ('w, 'e, 'cfg, 'chart) helmSDK =
  InitConfig :: "string \<Rightarrow> string \<Rightarrow> ('w, 'e error + 'cfg) state"
  LoadChart :: "string \<Rightarrow> ('w, 'e error + 'chart) state"
  RunInstall :: "'cfg \<Rightarrow> installAction \<Rightarrow> 'chart \<Rightarrow> jobj \<Rightarrow> ('w, 'e releaseResult) state"
  RunUpgrade :: "'cfg \<Rightarrow> upgradeAction \<Rightarrow> string \<Rightarrow> 'chart \<Rightarrow> jobj \<Rightarrow> ('w, 'e releaseResult) state"
  RunGet :: "'cfg \<Rightarrow> string \<Rightarrow> ('w, 'e releaseResult) state"
  RunUninstall :: "'cfg \<Rightarrow> string \<Rightarrow> ('w, 'e error option) state"
  RunRollback :: "'cfg \<Rightarrow> rollbackAction \<Rightarrow> string \<Rightarrow> ('w, 'e error option) state"

text \<open>\<open>if err != nil { return nil, err }\<close>.\<close>

definition orElse :: "('w, 'e error + 'a) state \<Rightarrow> ('a \<Rightarrow> ('w, 'e error + 'b) state) \<Rightarrow> ('w, 'e error + 'b) state" where
  "orElse m k = State_Monad.bind m (\<lambda>r. case r of Inl e \<Rightarrow> ret (Inl e) | Inr x \<Rightarrow> k x)"

text \<open>\<open>if err != nil { return nil, fmt.Errorf("text: %w", err) }\<close>.\<close>

definition orWrapped ::
  "string \<Rightarrow> ('w, 'e error + 'a) state \<Rightarrow> ('a \<Rightarrow> ('w, 'e error + 'b) state) \<Rightarrow> ('w, 'e error + 'b) state" where
  "orWrapped text m k = State_Monad.bind m (\<lambda>r. case r of Inl e \<Rightarrow> ret (Inl (Wrapf text e)) | Inr x \<Rightarrow> k x)"

text \<open>\<open>if err != nil { return err }\<close> in a function that only returns an error.\<close>

definition orFail :: "('w, 'e error + 'a) state \<Rightarrow> ('a \<Rightarrow> ('w, 'e error option) state) \<Rightarrow> ('w, 'e error option) state" where
  "orFail m k = State_Monad.bind m (\<lambda>r. case r of Inl e \<Rightarrow> ret (Some e) | Inr x \<Rightarrow> k x)"

definition actionConfig :: "('w, 'e, 'cfg, 'chart) helmSDK \<Rightarrow> string \<Rightarrow> ('w, 'e error + 'cfg) state" where
  "actionConfig sdk namespace =
     orWrapped ''init helm config'' (InitConfig sdk namespace ''secret'') (\<lambda>cfg. ret (Inr cfg))"

definition sdkInstall ::
  "('w, 'e, 'cfg, 'chart) helmSDK \<Rightarrow> string \<Rightarrow> string \<Rightarrow> string \<Rightarrow> jobj \<Rightarrow> ('w, 'e releaseResult) state" where
  "sdkInstall sdk name namespace chartPath values =
     orElse (actionConfig sdk namespace) (\<lambda>cfg.
     orWrapped ''load chart'' (LoadChart sdk chartPath) (\<lambda>chart.
     RunInstall sdk cfg \<lparr>in_ReleaseName = name, in_Namespace = namespace, in_CreateNamespace = False,
       in_Wait = False, in_DisableOpenAPIValidation = True, in_SkipCRDs = True, in_DisableHooks = True\<rparr>
       chart values))"

definition sdkUpgrade ::
  "('w, 'e, 'cfg, 'chart) helmSDK \<Rightarrow> string \<Rightarrow> string \<Rightarrow> string \<Rightarrow> jobj \<Rightarrow> ('w, 'e releaseResult) state" where
  "sdkUpgrade sdk name namespace chartPath values =
     orElse (actionConfig sdk namespace) (\<lambda>cfg.
     orWrapped ''load chart'' (LoadChart sdk chartPath) (\<lambda>chart.
     RunUpgrade sdk cfg \<lparr>up_Namespace = namespace, up_Wait = False, up_DisableHooks = True\<rparr>
       name chart values))"

definition sdkGetRelease ::
  "('w, 'e, 'cfg, 'chart) helmSDK \<Rightarrow> string \<Rightarrow> string \<Rightarrow> ('w, 'e releaseResult) state" where
  "sdkGetRelease sdk name namespace =
     orElse (actionConfig sdk namespace) (\<lambda>cfg. RunGet sdk cfg name)"

definition sdkUninstall ::
  "('w, 'e, 'cfg, 'chart) helmSDK \<Rightarrow> string \<Rightarrow> string \<Rightarrow> ('w, 'e error option) state" where
  "sdkUninstall sdk name namespace =
     orFail (actionConfig sdk namespace) (\<lambda>cfg. RunUninstall sdk cfg name)"

definition sdkRollback ::
  "('w, 'e, 'cfg, 'chart) helmSDK \<Rightarrow> string \<Rightarrow> string \<Rightarrow> int \<Rightarrow> ('w, 'e error option) state" where
  "sdkRollback sdk name namespace version =
     orFail (actionConfig sdk namespace) (\<lambda>cfg.
       RunRollback sdk cfg \<lparr>rb_Version = version, rb_CleanupOnFail = True\<rparr> name)"

definition SDKClient :: "('w, 'e, 'cfg, 'chart) helmSDK \<Rightarrow> ('w, 'e) helmClient" where
  "SDKClient sdk = \<lparr>Install = sdkInstall sdk, Upgrade = sdkUpgrade sdk, GetRelease = sdkGetRelease sdk,
     Uninstall = sdkUninstall sdk, Rollback = sdkRollback sdk\<rparr>"

text \<open>
  \<open>FixStuckRelease\<close> on the client's own methods; its error is always nil and is left out. The
  result is \<open>None\<close> for the panic of a release without \<open>Info\<close>.
\<close>

definition FixStuckRelease :: "('w, 'e) helmClient \<Rightarrow> string \<Rightarrow> string \<Rightarrow> ('w, bool option) state" where
  "FixStuckRelease c name namespace =
     State_Monad.bind (GetRelease c name namespace) (\<lambda>r.
       case r of
         Inl err \<Rightarrow> ret (Some False)
       | Inr None \<Rightarrow> ret (Some False)
       | Inr (Some rel) \<Rightarrow>
           (case rel_Info rel of
              None \<Rightarrow> ret None
            | Some status \<Rightarrow>
                if status = ''pending-install'' then
                  State_Monad.bind (Uninstall c name namespace) (\<lambda>ignored. ret (Some True))
                else if status = ''pending-upgrade'' \<or> status = ''pending-rollback'' then
                  State_Monad.bind (Rollback c name namespace 0) (\<lambda>err.
                    if err \<noteq> None then
                      State_Monad.bind (Uninstall c name namespace) (\<lambda>ignored. ret (Some True))
                    else ret (Some True))
                else ret (Some False)))"

subsection \<open>The test double\<close>

text \<open>
  \<open>MockHelmClient\<close> keeps the values of the last call; its configured errors do not change. The
  world of the mock is the value of \<open>LastValues\<close>.
\<close>

record 'e mockErrors =
  mk_InstallErr :: "'e error option"
  mk_UpgradeErr :: "'e error option"

definition mockRecord :: "jobj \<Rightarrow> 'e error option \<Rightarrow> release \<Rightarrow> (jobj option, 'e releaseResult) state" where
  "mockRecord values err rel =
     State (\<lambda>last. (case err of Some e \<Rightarrow> Inl e | None \<Rightarrow> Inr (Some rel), Some values))"

definition MockHelmClient :: "'e mockErrors \<Rightarrow> (jobj option, 'e) helmClient" where
  "MockHelmClient m = \<lparr>
     Install = (\<lambda>name namespace chartPath values.
       mockRecord values (mk_InstallErr m) \<lparr>rel_Name = name, rel_Version = 1, rel_Info = None\<rparr>),
     Upgrade = (\<lambda>name namespace chartPath values.
       mockRecord values (mk_UpgradeErr m) \<lparr>rel_Name = name, rel_Version = 2, rel_Info = None\<rparr>),
     GetRelease = (\<lambda>name namespace. ret (Inr (Some \<lparr>rel_Name = name, rel_Version = 1, rel_Info = None\<rparr>))),
     Uninstall = (\<lambda>name namespace. ret None),
     Rollback = (\<lambda>name namespace version. ret None)\<rparr>"

subsection \<open>Recovering a stuck release\<close>

text \<open>The calls of the client that change a release.\<close>

datatype 'e helmCall =
    CallInstall string string string jobj "'e releaseResult"
  | CallUpgrade string string string jobj "'e releaseResult"
  | CallGet string string "'e releaseResult"
  | CallUninstall string string "'e error option"
  | CallRollback string string int "'e error option"

definition tracedHelm :: "('w, 'e) helmClient \<Rightarrow> ('w \<times> 'e helmCall list, 'e) helmClient" where
  "tracedHelm c = \<lparr>
     Install = (\<lambda>n ns p v. logged (CallInstall n ns p v) (Install c n ns p v)),
     Upgrade = (\<lambda>n ns p v. logged (CallUpgrade n ns p v) (Upgrade c n ns p v)),
     GetRelease = (\<lambda>n ns. logged (CallGet n ns) (GetRelease c n ns)),
     Uninstall = (\<lambda>n ns. logged (CallUninstall n ns) (Uninstall c n ns)),
     Rollback = (\<lambda>n ns v. logged (CallRollback n ns v) (Rollback c n ns v))\<rparr>"

lemma tracedHelm_wp:
  "(\<And>r w'. Q r (w', tr @ [CallGet n ns r])) \<Longrightarrow> wp (GetRelease (tracedHelm c) n ns) Q (w, tr)"
  "(\<And>r w'. P r (w', tr @ [CallUninstall n ns r])) \<Longrightarrow> wp (Uninstall (tracedHelm c) n ns) P (w, tr)"
  "(\<And>r w'. P r (w', tr @ [CallRollback n ns v r])) \<Longrightarrow> wp (Rollback (tracedHelm c) n ns v) P (w, tr)"
  by (simp_all add: tracedHelm_def wp_logged)

text \<open>The recovery as a table: what a release's status asks for.\<close>

inductive fix_run :: "string \<Rightarrow> string \<Rightarrow> 'e helmCall list \<Rightarrow> bool option \<Rightarrow> bool" for n ns where
  fix_unknown: "r = Inl e \<or> r = Inr None \<Longrightarrow> fix_run n ns [CallGet n ns r] (Some False)"
| fix_panic: "rel_Info x = None \<Longrightarrow> fix_run n ns [CallGet n ns (Inr (Some x))] None"
| fix_install: "rel_Info x = Some ''pending-install'' \<Longrightarrow>
    fix_run n ns [CallGet n ns (Inr (Some x)), CallUninstall n ns e] (Some True)"
| fix_rollback: "rel_Info x = Some s \<Longrightarrow> s \<in> {''pending-upgrade'', ''pending-rollback''} \<Longrightarrow>
    fix_run n ns [CallGet n ns (Inr (Some x)), CallRollback n ns 0 None] (Some True)"
| fix_fallback: "rel_Info x = Some s \<Longrightarrow> s \<in> {''pending-upgrade'', ''pending-rollback''} \<Longrightarrow>
    fix_run n ns [CallGet n ns (Inr (Some x)), CallRollback n ns 0 (Some e), CallUninstall n ns e2] (Some True)"
| fix_settled: "rel_Info x = Some s \<Longrightarrow>
    s \<notin> {''pending-install'', ''pending-upgrade'', ''pending-rollback''} \<Longrightarrow>
    fix_run n ns [CallGet n ns (Inr (Some x))] (Some False)"

text \<open>
  C37 (recovery of a stuck release). Whatever the Helm SDK answers, \<open>FixStuckRelease\<close> reads the
  release once, uninstalls one that hangs in its installation, rolls one that hangs in an upgrade or
  a rollback back to the previous revision, uninstalls it when and only when that fails, and touches
  nothing else; it reports a fix in exactly these cases, even when the uninstallation failed.
\<close>

theorem fix_stuck_release:
  "wp (FixStuckRelease (tracedHelm c) n ns) (\<lambda>out s. fix_run n ns (snd s) out) (w, [])"
  unfolding FixStuckRelease_def
proof (simp only: wp_bind, rule tracedHelm_wp, goal_cases)
  case (1 r w')
  then show ?case
    by (cases r) (auto simp: wp_rules split: option.splits intro!: tracedHelm_wp intro: fix_run.intros)
qed

end
