(* ===== verification/KubeApi.thy ===== *)
theory KubeApi
  imports Effects Builder Json Gateway HelmClient
begin

section \<open>What the controllers use of Kubernetes\<close>

text \<open>
  The client library and the API server are not part of this repository. They are parameters of
  the model: \<open>kube\<close> is the client (\<open>client.Client\<close> of controller-runtime, one field per call
  the controllers make), \<open>klib\<close> the pure helper functions of \<open>apimachinery\<close> and
  \<open>controllerutil\<close>. A call that the Go code makes with a pointer to fill returns the filled
  object; \<open>Update\<close> and \<open>Status().Update\<close> return the object with the server's answer decoded
  into it.
\<close>

record ('w, 'e) kube =
  GetMD :: "NamespacedName \<Rightarrow> ('w, 'e error + ModelDeployment) state"
  UpdateMD :: "ModelDeployment \<Rightarrow> ('w, 'e error + ModelDeployment) state"
  StatusUpdateMD :: "ModelDeployment \<Rightarrow> ('w, 'e error + ModelDeployment) state"
  ListLP :: "string \<Rightarrow> ('w, 'e error + LLMPlatform list) state"
  GetPVC :: "NamespacedName \<Rightarrow> ('w, 'e error + PVC) state"
  CreatePVC :: "PVC \<Rightarrow> ('w, 'e error + unit) state"
  GetDeployment :: "NamespacedName \<Rightarrow> ('w, 'e error + Deployment) state"
  CreateDeployment :: "Deployment \<Rightarrow> ('w, 'e error + unit) state"
  UpdateDeployment :: "Deployment \<Rightarrow> ('w, 'e error + unit) state"
  GetService :: "NamespacedName \<Rightarrow> ('w, 'e error + Service) state"
  CreateService :: "Service \<Rightarrow> ('w, 'e error + unit) state"
  GetFTR :: "NamespacedName \<Rightarrow> ('w, 'e error + FineTuneRun) state"
  StatusUpdateFTR :: "FineTuneRun \<Rightarrow> ('w, 'e error + FineTuneRun) state"
  GetWorkflow :: "NamespacedName \<Rightarrow> ('w, 'e error + jval) state"
  CreateWorkflow :: "jval \<Rightarrow> ('w, 'e error + unit) state"
  GetLP :: "NamespacedName \<Rightarrow> ('w, 'e error + LLMPlatform) state"
  StatusUpdateLP :: "LLMPlatform \<Rightarrow> ('w, 'e error + LLMPlatform) state"
  TimeNow :: "('w, int) state"

record 'e klib =
  IsNotFound :: "'e error \<Rightarrow> bool"
  IsNoMatchError :: "'e error \<Rightarrow> bool"
  StatusErrorCode :: "'e error \<Rightarrow> int option"
  ContainsFinalizer :: "ObjectMeta \<Rightarrow> string \<Rightarrow> bool"
  AddFinalizer :: "ObjectMeta \<Rightarrow> string \<Rightarrow> ObjectMeta"
  RemoveFinalizer :: "ObjectMeta \<Rightarrow> string \<Rightarrow> ObjectMeta"
  SetControllerReference :: "ObjectMeta \<Rightarrow> ObjectMeta \<Rightarrow> 'e error + ObjectMeta"
  SetWorkflowOwner :: "ObjectMeta \<Rightarrow> jval \<Rightarrow> 'e error option \<times> jval"
  WorkflowGetName :: "jval \<Rightarrow> string"
  NestedString :: "jval \<Rightarrow> string list \<Rightarrow> string"
  ErrorText :: "'e error \<Rightarrow> string"
  quantityOk :: "string \<Rightarrow> bool"

subsection \<open>Recording what the code asks of the client\<close>

datatype 'e event =
    EvGetMD NamespacedName "'e error + ModelDeployment"
  | EvUpdateMD ModelDeployment "'e error + ModelDeployment"
  | EvStatusMD ModelDeployment "'e error + ModelDeployment"
  | EvListLP string "'e error + LLMPlatform list"
  | EvGetPVC NamespacedName "'e error + PVC"
  | EvCreatePVC PVC "'e error + unit"
  | EvGetDeployment NamespacedName "'e error + Deployment"
  | EvCreateDeployment Deployment "'e error + unit"
  | EvUpdateDeployment Deployment "'e error + unit"
  | EvGetService NamespacedName "'e error + Service"
  | EvCreateService Service "'e error + unit"
  | EvGetFTR NamespacedName "'e error + FineTuneRun"
  | EvStatusFTR FineTuneRun "'e error + FineTuneRun"
  | EvGetWorkflow NamespacedName "'e error + jval"
  | EvCreateWorkflow jval "'e error + unit"
  | EvGetLP NamespacedName "'e error + LLMPlatform"
  | EvStatusLP LLMPlatform "'e error + LLMPlatform"
  | EvNow int
  | EvRegister GatewayModel "'e error option"
  | EvDeregister string "'e error option"
  | EvHelmGet string string "'e releaseResult"
  | EvHelmInstall string string string jobj "'e releaseResult"
  | EvHelmUpgrade string string string jobj "'e releaseResult"
  | EvHelmFix string string "bool option"

definition traced :: "('w, 'e) kube \<Rightarrow> ('w \<times> 'e event list, 'e) kube" where
  "traced K = \<lparr>
     GetMD = (\<lambda>k. logged (EvGetMD k) (GetMD K k)),
     UpdateMD = (\<lambda>x. logged (EvUpdateMD x) (UpdateMD K x)),
     StatusUpdateMD = (\<lambda>x. logged (EvStatusMD x) (StatusUpdateMD K x)),
     ListLP = (\<lambda>n. logged (EvListLP n) (ListLP K n)),
     GetPVC = (\<lambda>k. logged (EvGetPVC k) (GetPVC K k)),
     CreatePVC = (\<lambda>x. logged (EvCreatePVC x) (CreatePVC K x)),
     GetDeployment = (\<lambda>k. logged (EvGetDeployment k) (GetDeployment K k)),
     CreateDeployment = (\<lambda>x. logged (EvCreateDeployment x) (CreateDeployment K x)),
     UpdateDeployment = (\<lambda>x. logged (EvUpdateDeployment x) (UpdateDeployment K x)),
     GetService = (\<lambda>k. logged (EvGetService k) (GetService K k)),
     CreateService = (\<lambda>x. logged (EvCreateService x) (CreateService K x)),
     GetFTR = (\<lambda>k. logged (EvGetFTR k) (GetFTR K k)),
     StatusUpdateFTR = (\<lambda>x. logged (EvStatusFTR x) (StatusUpdateFTR K x)),
     GetWorkflow = (\<lambda>k. logged (EvGetWorkflow k) (GetWorkflow K k)),
     CreateWorkflow = (\<lambda>x. logged (EvCreateWorkflow x) (CreateWorkflow K x)),
     GetLP = (\<lambda>k. logged (EvGetLP k) (GetLP K k)),
     StatusUpdateLP = (\<lambda>x. logged (EvStatusLP x) (StatusUpdateLP K x)),
     TimeNow = logged EvNow (TimeNow K)\<rparr>"

fun event_error :: "'e event \<Rightarrow> 'e error option" where
  "event_error (EvGetMD k r) = failure r"
| "event_error (EvUpdateMD x r) = failure r"
| "event_error (EvStatusMD x r) = failure r"
| "event_error (EvListLP n r) = failure r"
| "event_error (EvGetPVC k r) = failure r"
| "event_error (EvCreatePVC x r) = failure r"
| "event_error (EvGetDeployment k r) = failure r"
| "event_error (EvCreateDeployment x r) = failure r"
| "event_error (EvUpdateDeployment x r) = failure r"
| "event_error (EvGetService k r) = failure r"
| "event_error (EvCreateService x r) = failure r"
| "event_error (EvGetFTR k r) = failure r"
| "event_error (EvStatusFTR x r) = failure r"
| "event_error (EvGetWorkflow k r) = failure r"
| "event_error (EvCreateWorkflow x r) = failure r"
| "event_error (EvGetLP k r) = failure r"
| "event_error (EvStatusLP x r) = failure r"
| "event_error (EvNow n) = None"
| "event_error (EvRegister m r) = r"
| "event_error (EvDeregister n r) = r"
| "event_error (EvHelmGet n ns b) = None"
| "event_error (EvHelmInstall n ns c v r) = failure r"
| "event_error (EvHelmUpgrade n ns c v r) = failure r"
| "event_error (EvHelmFix n ns b) = None"

definition tracedGateway :: "('w, 'e) gatewayClient \<Rightarrow> ('w \<times> 'e event list, 'e) gatewayClient" where
  "tracedGateway G = \<lparr>
     RegisterModel = (\<lambda>m. logged (EvRegister m) (RegisterModel G m)),
     DeregisterModel = (\<lambda>i. logged (EvDeregister i) (DeregisterModel G i)),
     HealthCheck = State (\<lambda>(w, tr). case run_state (HealthCheck G) w of (r, w') \<Rightarrow> (r, (w', tr)))\<rparr>"

text \<open>
  The rules that step over one recorded call, whatever it returns. They turn a claim about a
  trace into claims about the trace with one more event.
\<close>

lemma traced_wp:
  "(\<And>r w'. Q_GetMD r (w', tr @ [EvGetMD x_GetMD r])) \<Longrightarrow> wp (GetMD (traced K) x_GetMD) Q_GetMD (w, tr)"
  "(\<And>r w'. Q_UpdateMD r (w', tr @ [EvUpdateMD x_UpdateMD r])) \<Longrightarrow> wp (UpdateMD (traced K) x_UpdateMD) Q_UpdateMD (w, tr)"
  "(\<And>r w'. Q_StatusUpdateMD r (w', tr @ [EvStatusMD x_StatusUpdateMD r])) \<Longrightarrow> wp (StatusUpdateMD (traced K) x_StatusUpdateMD) Q_StatusUpdateMD (w, tr)"
  "(\<And>r w'. Q_ListLP r (w', tr @ [EvListLP x_ListLP r])) \<Longrightarrow> wp (ListLP (traced K) x_ListLP) Q_ListLP (w, tr)"
  "(\<And>r w'. Q_GetPVC r (w', tr @ [EvGetPVC x_GetPVC r])) \<Longrightarrow> wp (GetPVC (traced K) x_GetPVC) Q_GetPVC (w, tr)"
  "(\<And>r w'. Q_CreatePVC r (w', tr @ [EvCreatePVC x_CreatePVC r])) \<Longrightarrow> wp (CreatePVC (traced K) x_CreatePVC) Q_CreatePVC (w, tr)"
  "(\<And>r w'. Q_GetDeployment r (w', tr @ [EvGetDeployment x_GetDeployment r])) \<Longrightarrow> wp (GetDeployment (traced K) x_GetDeployment) Q_GetDeployment (w, tr)"
  "(\<And>r w'. Q_CreateDeployment r (w', tr @ [EvCreateDeployment x_CreateDeployment r])) \<Longrightarrow> wp (CreateDeployment (traced K) x_CreateDeployment) Q_CreateDeployment (w, tr)"
  "(\<And>r w'. Q_UpdateDeployment r (w', tr @ [EvUpdateDeployment x_UpdateDeployment r])) \<Longrightarrow> wp (UpdateDeployment (traced K) x_UpdateDeployment) Q_UpdateDeployment (w, tr)"
  "(\<And>r w'. Q_GetService r (w', tr @ [EvGetService x_GetService r])) \<Longrightarrow> wp (GetService (traced K) x_GetService) Q_GetService (w, tr)"
  "(\<And>r w'. Q_CreateService r (w', tr @ [EvCreateService x_CreateService r])) \<Longrightarrow> wp (CreateService (traced K) x_CreateService) Q_CreateService (w, tr)"
  "(\<And>r w'. Q_GetFTR r (w', tr @ [EvGetFTR x_GetFTR r])) \<Longrightarrow> wp (GetFTR (traced K) x_GetFTR) Q_GetFTR (w, tr)"
  "(\<And>r w'. Q_StatusUpdateFTR r (w', tr @ [EvStatusFTR x_StatusUpdateFTR r])) \<Longrightarrow> wp (StatusUpdateFTR (traced K) x_StatusUpdateFTR) Q_StatusUpdateFTR (w, tr)"
  "(\<And>r w'. Q_GetWorkflow r (w', tr @ [EvGetWorkflow x_GetWorkflow r])) \<Longrightarrow> wp (GetWorkflow (traced K) x_GetWorkflow) Q_GetWorkflow (w, tr)"
  "(\<And>r w'. Q_CreateWorkflow r (w', tr @ [EvCreateWorkflow x_CreateWorkflow r])) \<Longrightarrow> wp (CreateWorkflow (traced K) x_CreateWorkflow) Q_CreateWorkflow (w, tr)"
  "(\<And>r w'. Q_GetLP r (w', tr @ [EvGetLP x_GetLP r])) \<Longrightarrow> wp (GetLP (traced K) x_GetLP) Q_GetLP (w, tr)"
  "(\<And>r w'. Q_StatusUpdateLP r (w', tr @ [EvStatusLP x_StatusUpdateLP r])) \<Longrightarrow> wp (StatusUpdateLP (traced K) x_StatusUpdateLP) Q_StatusUpdateLP (w, tr)"
  "(\<And>r w'. Q_now r (w', tr @ [EvNow r])) \<Longrightarrow> wp (TimeNow (traced K)) Q_now (w, tr)"
  "(\<And>r w'. Q_reg r (w', tr @ [EvRegister m r])) \<Longrightarrow>
     wp (RegisterModel (tracedGateway G) m) Q_reg (w, tr)"
  "(\<And>r w'. Q_dereg r (w', tr @ [EvDeregister i r])) \<Longrightarrow>
     wp (DeregisterModel (tracedGateway G) i) Q_dereg (w, tr)"
  by (simp_all add: traced_def tracedGateway_def wp_logged)

end
