(* ===== verification/Regexp.thy ===== *)
theory Regexp
  imports Prelude
begin

section \<open>Package regexp: the patterns the operator compiles\<close>

text \<open>
  The part of Go's \<open>regexp\<close> syntax the operator uses: literals, the digit class,
  concatenation and \<open>+\<close>, with the unanchored search of \<open>(*Regexp).MatchString\<close>.
  \<open>re_lang\<close> is the language of an expression and \<open>MatchString\<close> is computed by
  Brzozowski derivatives (no backtracking, as in Go's engine); \<open>MatchString_iff\<close> says
  that the search finds exactly the strings with a substring in the language.
\<close>

datatype re = RNone | REmpty | RClass "char \<Rightarrow> bool" | RSeq re re | RAlt re re | RStar re

definition RPlus :: "re \<Rightarrow> re" where
  "RPlus r = RSeq r (RStar r)"

definition RLit :: "string \<Rightarrow> re" where
  "RLit s = foldr (\<lambda>c r. RSeq (RClass (\<lambda>x. x = c)) r) s REmpty"

definition is_digit :: "char \<Rightarrow> bool" where
  "is_digit c \<longleftrightarrow> CHR ''0'' \<le> c \<and> c \<le> CHR ''9''"

definition RDigit :: re where
  "RDigit = RClass is_digit"

subsection \<open>Languages\<close>

inductive_set star_lang :: "string set \<Rightarrow> string set" for L where
  star_Nil: "[] \<in> star_lang L"
| star_App: "u \<in> L \<Longrightarrow> v \<in> star_lang L \<Longrightarrow> u @ v \<in> star_lang L"

primrec re_lang :: "re \<Rightarrow> string set" where
  "re_lang RNone = {}"
| "re_lang REmpty = {[]}"
| "re_lang (RClass p) = {[c] | c. p c}"
| "re_lang (RSeq r s) = {u @ v | u v. u \<in> re_lang r \<and> v \<in> re_lang s}"
| "re_lang (RAlt r s) = re_lang r \<union> re_lang s"
| "re_lang (RStar r) = star_lang (re_lang r)"

subsection \<open>The matcher\<close>

primrec nullable :: "re \<Rightarrow> bool" where
  "nullable RNone = False"
| "nullable REmpty = True"
| "nullable (RClass p) = False"
| "nullable (RSeq r s) = (nullable r \<and> nullable s)"
| "nullable (RAlt r s) = (nullable r \<or> nullable s)"
| "nullable (RStar r) = True"

fun mk_seq :: "re \<Rightarrow> re \<Rightarrow> re" where
  "mk_seq RNone s = RNone"
| "mk_seq REmpty s = s"
| "mk_seq r s = RSeq r s"

fun mk_alt :: "re \<Rightarrow> re \<Rightarrow> re" where
  "mk_alt RNone s = s"
| "mk_alt r RNone = r"
| "mk_alt r s = RAlt r s"

primrec deriv :: "char \<Rightarrow> re \<Rightarrow> re" where
  "deriv c RNone = RNone"
| "deriv c REmpty = RNone"
| "deriv c (RClass p) = (if p c then REmpty else RNone)"
| "deriv c (RSeq r s) =
     (if nullable r then mk_alt (mk_seq (deriv c r) s) (deriv c s) else mk_seq (deriv c r) s)"
| "deriv c (RAlt r s) = mk_alt (deriv c r) (deriv c s)"
| "deriv c (RStar r) = mk_seq (deriv c r) (RStar r)"

text \<open>A match that starts at the head of the string and may end anywhere.\<close>

fun match_here :: "re \<Rightarrow> string \<Rightarrow> bool" where
  "match_here r [] = nullable r"
| "match_here r (c # s) =
     (nullable r \<or> (case deriv c r of RNone \<Rightarrow> False | r' \<Rightarrow> match_here r' s))"

fun MatchString :: "re \<Rightarrow> string \<Rightarrow> bool" where
  "MatchString r [] = nullable r"
| "MatchString r (c # s) = (match_here r (c # s) \<or> MatchString r s)"

subsection \<open>Correctness of the matcher\<close>

lemma re_lang_mk_seq [simp]: "re_lang (mk_seq r s) = re_lang (RSeq r s)"
  by (cases "(r, s)" rule: mk_seq.cases) auto

lemma re_lang_mk_alt [simp]: "re_lang (mk_alt r s) = re_lang (RAlt r s)"
  by (cases "(r, s)" rule: mk_alt.cases) auto

lemma nullable_iff: "nullable r \<longleftrightarrow> [] \<in> re_lang r"
  by (induction r) (auto intro: star_Nil)

lemma star_lang_ConsD:
  "w \<in> star_lang L \<Longrightarrow> w = c # s \<Longrightarrow> \<exists>u v. s = u @ v \<and> c # u \<in> L \<and> v \<in> star_lang L"
proof (induction arbitrary: s rule: star_lang.induct)
  case (star_App u v)
  then show ?case by (cases u) auto
qed simp

lemma re_lang_deriv: "s \<in> re_lang (deriv c r) \<longleftrightarrow> c # s \<in> re_lang r"
proof (induction r arbitrary: s)
  case (RSeq r1 r2)
  then show ?case
    by (auto simp: nullable_iff append_eq_Cons_conv Cons_eq_append_conv)
next
  case (RStar r)
  show ?case
  proof
    assume "s \<in> re_lang (deriv c (RStar r))"
    then obtain u v where "s = u @ v" "c # u \<in> re_lang r" "v \<in> star_lang (re_lang r)"
      using RStar by auto
    then show "c # s \<in> re_lang (RStar r)"
      using star_App [of "c # u" "re_lang r" v] by simp
  next
    assume "c # s \<in> re_lang (RStar r)"
    then show "s \<in> re_lang (deriv c (RStar r))"
      using star_lang_ConsD [of "c # s" "re_lang r" c s] RStar by auto
  qed
qed auto

lemma match_here_iff: "match_here r s \<longleftrightarrow> (\<exists>u v. s = u @ v \<and> u \<in> re_lang r)"
proof (induction s arbitrary: r)
  case Nil
  then show ?case by (simp add: nullable_iff)
next
  case (Cons c s)
  have "(case deriv c r of RNone \<Rightarrow> False | r' \<Rightarrow> match_here r' s) \<longleftrightarrow>
        (\<exists>u v. s = u @ v \<and> u \<in> re_lang (deriv c r))"
    using Cons by (auto split: re.split)
  also have "\<dots> \<longleftrightarrow> (\<exists>u v. c # s = (c # u) @ v \<and> c # u \<in> re_lang r)"
    by (simp add: re_lang_deriv)
  finally show ?case
    by (auto simp: nullable_iff Cons_eq_append_conv)
qed

theorem MatchString_iff: "MatchString r s \<longleftrightarrow> (\<exists>a u b. s = a @ u @ b \<and> u \<in> re_lang r)"
proof (induction s)
  case Nil
  then show ?case by (simp add: nullable_iff)
next
  case (Cons c s)
  have "(\<exists>a u b. c # s = a @ u @ b \<and> u \<in> re_lang r) \<longleftrightarrow>
        (\<exists>u b. c # s = u @ b \<and> u \<in> re_lang r) \<or>
        (\<exists>a u b. s = a @ u @ b \<and> u \<in> re_lang r)" (is "?l \<longleftrightarrow> ?r1 \<or> ?r2")
  proof
    assume ?l
    then obtain a u b where a: "c # s = a @ u @ b" "u \<in> re_lang r" by blast
    then show "?r1 \<or> ?r2" by (cases a) auto
  next
    assume "?r1 \<or> ?r2"
    then show ?l
    proof
      assume ?r1 then show ?l by (metis append_Nil)
    next
      assume ?r2 then show ?l by (metis append_Cons)
    qed
  qed
  with Cons show ?case by (simp add: match_here_iff del: match_here.simps)
qed

subsection \<open>Languages of the derived forms\<close>

lemma re_lang_RLit [simp]: "re_lang (RLit s) = {s}"
  by (induction s) (auto simp: RLit_def)

lemma re_lang_RDigit: "re_lang RDigit = {[c] | c. is_digit c}"
  by (simp add: RDigit_def)

lemma star_lang_digits: "star_lang (re_lang RDigit) = {d. list_all is_digit d}"
proof -
  have "w \<in> star_lang (re_lang RDigit) \<Longrightarrow> list_all is_digit w" for w
    by (induction rule: star_lang.induct) (auto simp: re_lang_RDigit)
  moreover have "list_all is_digit w \<Longrightarrow> w \<in> star_lang (re_lang RDigit)" for w
  proof (induction w)
    case (Cons c w)
    then show ?case using star_App [of "[c]" "re_lang RDigit" w] by (simp add: re_lang_RDigit)
  qed (simp add: star_Nil)
  ultimately show ?thesis by blast
qed

lemma re_lang_digits [simp]:
  "re_lang (RPlus RDigit) = {d. d \<noteq> [] \<and> list_all is_digit d}"
proof -
  have eq: "re_lang (RPlus RDigit) =
      {u @ v | u v. u \<in> {[c] | c. is_digit c} \<and> v \<in> {d. list_all is_digit d}}"
    unfolding RPlus_def re_lang.simps star_lang_digits by (simp only: re_lang_RDigit)
  have "d \<in> re_lang (RPlus RDigit)" if "d \<noteq> []" "list_all is_digit d" for d
  proof -
    from that have "d = [hd d] @ tl d" "is_digit (hd d)" "list_all is_digit (tl d)"
      by (cases d; simp)+
    then show ?thesis unfolding eq by blast
  qed
  moreover have "d \<noteq> [] \<and> list_all is_digit d" if "d \<in> re_lang (RPlus RDigit)" for d
    using that unfolding eq by auto
  ultimately show ?thesis by blast
qed

end
