(* ===== verification/Engine.thy ===== *)
theory Engine
  imports Regexp
begin

section \<open>Engine resolution (internal/engine/resolver.go)\<close>

text \<open>
  The resolver chooses the inference engine of a model from its source name. The precompiled
  patterns are values of \<^typ>\<open>re\<close>; every function has the name and the order of tests of
  the Go source.
\<close>

definition moeQwenRe :: re where
  "moeQwenRe = RSeq (RLit ''qwen3-'') (RSeq (RPlus RDigit) (RSeq (RLit ''b-a'')
     (RSeq (RPlus RDigit) (RLit ''b''))))"

definition vlmGLMRe :: re where
  "vlmGLMRe = RSeq (RLit ''glm-'') (RSeq (RPlus RDigit) (RSeq (RLit ''.'')
     (RSeq (RPlus RDigit) (RLit ''v''))))"

definition hasFeature :: "string list \<Rightarrow> string \<Rightarrow> bool" where
  "hasFeature features tag = list_ex (\<lambda>f. f = tag) features"

definition embeddingPatterns :: "string list" where
  "embeddingPatterns =
     [''/bge-'', ''/e5-'', ''/gte-'', ''minilm'', ''/jina-embed'', ''jina-embeddings'',
      ''/nomic-embed'', ''nomic-embed'', ''/all-mpnet'', ''embedding'']"

definition isEmbedding :: "string \<Rightarrow> bool" where
  "isEmbedding s = list_ex (\<lambda>p. Contains s p) embeddingPatterns"

definition isEmbeddingOrReranker :: "string \<Rightarrow> bool" where
  "isEmbeddingOrReranker s = (if Contains s ''rerank'' then True else isEmbedding s)"

definition IsMoESource :: "string \<Rightarrow> bool" where
  "IsMoESource s =
     (if (Contains s ''deepseek-v3'' \<or> Contains s ''deepseek-v4'' \<or> Contains s ''deepseek-r1'')
          \<and> \<not> Contains s ''distill'' then True
      else if MatchString moeQwenRe s then True
      else if Contains s ''mixtral'' then True
      else if Contains s ''glm-4.'' \<or> Contains s ''glm-5'' then True
      else if Contains s ''kimi-k2'' then True
      else False)"

definition IsVLMSource :: "string \<Rightarrow> bool" where
  "IsVLMSource s =
     (if Contains s ''-vl-'' \<or> HasSuffix s ''-vl'' \<or> Contains s ''-vlm'' \<or> Contains s ''-vision''
      then True
      else if MatchString vlmGLMRe s then True
      else False)"

definition ResolveEngineEx :: "string \<Rightarrow> string \<Rightarrow> string list \<Rightarrow> string \<Rightarrow> string" where
  "ResolveEngineEx source explicit features defaultEngine =
     (if explicit \<noteq> '''' \<and> explicit \<noteq> ''auto'' then explicit
      else let s = ToLower source in
        if Contains s ''gguf'' \<or> Contains s ''guff'' then ''llamacpp''
        else if isEmbeddingOrReranker s then ''tei''
        else if hasFeature features ''domestic-gpu'' then ''chitu''
        else if hasFeature features ''moe'' then ''sglang''
        else if hasFeature features ''vlm'' then ''sglang''
        else if IsMoESource s then ''sglang''
        else if IsVLMSource s then ''sglang''
        else if defaultEngine = '''' then ''vllm''
        else defaultEngine)"

definition ResolveEngine :: "string \<Rightarrow> string \<Rightarrow> string" where
  "ResolveEngine source explicit = ResolveEngineEx source explicit [] ''vllm''"

definition ResolveModelType :: "string \<Rightarrow> string" where
  "ResolveModelType source =
     (let s = ToLower source in
        if Contains s ''rerank'' then ''reranker''
        else if isEmbedding s then ''embedding''
        else ''llm'')"

subsection \<open>The patterns as sets of strings\<close>

lemma moeQwen_lang:
  "re_lang moeQwenRe =
     {''qwen3-'' @ d @ ''b-a'' @ e @ ''b'' | d e.
        d \<noteq> [] \<and> list_all is_digit d \<and> e \<noteq> [] \<and> list_all is_digit e}"
  unfolding moeQwenRe_def re_lang.simps re_lang_RLit re_lang_digits by fastforce

lemma vlmGLM_lang:
  "re_lang vlmGLMRe =
     {''glm-'' @ d @ ''.'' @ e @ ''v'' | d e.
        d \<noteq> [] \<and> list_all is_digit d \<and> e \<noteq> [] \<and> list_all is_digit e}"
  unfolding vlmGLMRe_def re_lang.simps re_lang_RLit re_lang_digits by fastforce

subsection \<open>Features and the classification of a source\<close>

text \<open>The families a source can belong to, in the order in which the resolver looks.\<close>

datatype family = GGUF | TEI | DomesticGPU | SGL | Plain

definition family_of :: "string \<Rightarrow> string list \<Rightarrow> family" where
  "family_of s features =
     (if Contains s ''gguf'' \<or> Contains s ''guff'' then GGUF
      else if Contains s ''rerank'' \<or> isEmbedding s then TEI
      else if ''domestic-gpu'' \<in> set features then DomesticGPU
      else if ''moe'' \<in> set features \<or> ''vlm'' \<in> set features \<or> IsMoESource s \<or> IsVLMSource s
      then SGL
      else Plain)"

definition family_engine :: "family \<Rightarrow> string \<Rightarrow> string" where
  "family_engine f dflt =
     (case f of GGUF \<Rightarrow> ''llamacpp'' | TEI \<Rightarrow> ''tei'' | DomesticGPU \<Rightarrow> ''chitu'' | SGL \<Rightarrow> ''sglang''
      | Plain \<Rightarrow> (if dflt = '''' then ''vllm'' else dflt))"

lemma hasFeature_iff [simp]: "hasFeature fs t \<longleftrightarrow> t \<in> set fs"
  by (auto simp: hasFeature_def list_ex_iff)

lemma isEmbeddingOrReranker_iff:
  "isEmbeddingOrReranker s \<longleftrightarrow> Contains s ''rerank'' \<or> isEmbedding s"
  by (simp add: isEmbeddingOrReranker_def)

lemma ResolveEngineEx_explicit:
  "explicit \<noteq> '''' \<Longrightarrow> explicit \<noteq> ''auto'' \<Longrightarrow> ResolveEngineEx s explicit fs d = explicit"
  by (simp add: ResolveEngineEx_def)

lemma ResolveEngineEx_auto:
  "explicit \<in> {'''', ''auto''} \<Longrightarrow>
     ResolveEngineEx s explicit fs d = family_engine (family_of (ToLower s) fs) d"
  by (auto simp: ResolveEngineEx_def family_engine_def family_of_def Let_def
      isEmbeddingOrReranker_iff)

lemma ResolveModelType_cases:
  "ResolveModelType s \<in> {''reranker'', ''embedding'', ''llm''}"
  by (simp add: ResolveModelType_def Let_def)

lemma ResolveModelType_llm_iff:
  "ResolveModelType s = ''llm'' \<longleftrightarrow> \<not> isEmbeddingOrReranker (ToLower s)"
  by (simp add: ResolveModelType_def Let_def isEmbeddingOrReranker_iff)

lemma resolve_case_insensitive:
  "ToLower s = ToLower t \<Longrightarrow>
     ResolveEngineEx s e fs d = ResolveEngineEx t e fs d \<and> ResolveModelType s = ResolveModelType t"
  by (simp add: ResolveEngineEx_def ResolveModelType_def)

subsection \<open>Properties of the resolver\<close>

text \<open>
  Engine patterns: The two compiled patterns find exactly the names they are written for:
  \<open>qwen3-<digits>b-a<digits>b\<close> and \<open>glm-<digits>.<digits>v\<close>, anywhere in the lowercased source.
\<close>

theorem engine_patterns:
  "(MatchString moeQwenRe s \<longleftrightarrow>
      (\<exists>a d e b. s = a @ ''qwen3-'' @ d @ ''b-a'' @ e @ ''b'' @ b \<and>
         d \<noteq> [] \<and> list_all is_digit d \<and> e \<noteq> [] \<and> list_all is_digit e)) \<and>
   (MatchString vlmGLMRe s \<longleftrightarrow>
      (\<exists>a d e b. s = a @ ''glm-'' @ d @ ''.'' @ e @ ''v'' @ b \<and>
         d \<noteq> [] \<and> list_all is_digit d \<and> e \<noteq> [] \<and> list_all is_digit e))"
proof
  have "MatchString moeQwenRe s \<longleftrightarrow>
      (\<exists>a u b. s = a @ u @ b \<and> u \<in> re_lang moeQwenRe)"
    by (rule MatchString_iff)
  also have "\<dots> \<longleftrightarrow> (\<exists>a d e b. s = a @ (''qwen3-'' @ d @ ''b-a'' @ e @ ''b'') @ b \<and>
         d \<noteq> [] \<and> list_all is_digit d \<and> e \<noteq> [] \<and> list_all is_digit e)"
    unfolding moeQwen_lang by blast
  finally show "MatchString moeQwenRe s \<longleftrightarrow>
      (\<exists>a d e b. s = a @ ''qwen3-'' @ d @ ''b-a'' @ e @ ''b'' @ b \<and>
         d \<noteq> [] \<and> list_all is_digit d \<and> e \<noteq> [] \<and> list_all is_digit e)"
    by simp
  have "MatchString vlmGLMRe s \<longleftrightarrow>
      (\<exists>a u b. s = a @ u @ b \<and> u \<in> re_lang vlmGLMRe)"
    by (rule MatchString_iff)
  also have "\<dots> \<longleftrightarrow> (\<exists>a d e b. s = a @ (''glm-'' @ d @ ''.'' @ e @ ''v'') @ b \<and>
         d \<noteq> [] \<and> list_all is_digit d \<and> e \<noteq> [] \<and> list_all is_digit e)"
    unfolding vlmGLM_lang by blast
  finally show "MatchString vlmGLMRe s \<longleftrightarrow>
      (\<exists>a d e b. s = a @ ''glm-'' @ d @ ''.'' @ e @ ''v'' @ b \<and>
         d \<noteq> [] \<and> list_all is_digit d \<and> e \<noteq> [] \<and> list_all is_digit e)"
    by simp
qed

text \<open>
  Resolver and model type agree. Without an explicit engine, a source is served by TEI
  exactly when \<open>ResolveModelType\<close> calls it an embedding or reranker model and its name is not a
  GGUF one; so the gateway prefix, which is chosen by the model type, fits the engine.
\<close>

theorem tei_iff_embedding:
  assumes "explicit \<in> {'''', ''auto''}"
  shows "ResolveEngine s explicit = ''tei'' \<longleftrightarrow>
     ResolveModelType s \<noteq> ''llm'' \<and>
     \<not> Contains (ToLower s) ''gguf'' \<and> \<not> Contains (ToLower s) ''guff''"
  using assms
  by (auto simp: ResolveEngine_def ResolveEngineEx_auto family_engine_def family_of_def
      ResolveModelType_llm_iff isEmbeddingOrReranker_iff split: if_splits)

theorem tei_iff_embedding_witness:
  "'''' \<in> {'''', ''auto''} \<and> ResolveEngine ''BAAI/bge-reranker-base'' '''' = ''tei'' \<and>
   ResolveModelType ''BAAI/bge-reranker-base'' \<noteq> ''llm''"
proof -
  have h: "'''' \<in> {'''', ''auto''}" by simp
  have t: "ResolveModelType ''BAAI/bge-reranker-base'' \<noteq> ''llm'' \<and>
     \<not> Contains (ToLower ''BAAI/bge-reranker-base'') ''gguf'' \<and>
     \<not> Contains (ToLower ''BAAI/bge-reranker-base'') ''guff''"
    by code_simp
  show ?thesis
    using tei_iff_embedding [OF h, of "''BAAI/bge-reranker-base''"] t by blast
qed

text \<open>
  C34 (order of the resolver). Without an explicit engine the resolver's answer is decided by
  the first family that applies: GGUF names, then embedding and reranker names, then the
  \<open>domestic-gpu\<close> tag, then MoE and VLM by tag or name, then the default engine. It does not
  depend on the case of the source, nor on the order or repetition of the feature tags; an
  explicit engine always wins.
\<close>

theorem resolver_order:
  "ResolveEngineEx s explicit fs dflt =
     (if explicit \<notin> {'''', ''auto''} then explicit
      else case family_of (ToLower s) fs of
             GGUF \<Rightarrow> ''llamacpp'' | TEI \<Rightarrow> ''tei'' | DomesticGPU \<Rightarrow> ''chitu'' | SGL \<Rightarrow> ''sglang''
           | Plain \<Rightarrow> if dflt = '''' then ''vllm'' else dflt) \<and>
   (ToLower t = ToLower s \<and> set gs = set fs \<longrightarrow>
      ResolveEngineEx t explicit gs dflt = ResolveEngineEx s explicit fs dflt)"
proof
  show "ResolveEngineEx s explicit fs dflt =
     (if explicit \<notin> {'''', ''auto''} then explicit
      else case family_of (ToLower s) fs of
             GGUF \<Rightarrow> ''llamacpp'' | TEI \<Rightarrow> ''tei'' | DomesticGPU \<Rightarrow> ''chitu'' | SGL \<Rightarrow> ''sglang''
           | Plain \<Rightarrow> if dflt = '''' then ''vllm'' else dflt)"
    using ResolveEngineEx_auto [of explicit s fs dflt] ResolveEngineEx_explicit [of explicit s fs dflt]
    by (auto simp: family_engine_def)
  show "ToLower t = ToLower s \<and> set gs = set fs \<longrightarrow>
      ResolveEngineEx t explicit gs dflt = ResolveEngineEx s explicit fs dflt"
    by (simp add: ResolveEngineEx_def Let_def)
qed

theorem resolver_order_witness:
  "ToLower ''Qwen/QWEN3-8b'' = ToLower ''qwen/Qwen3-8B'' \<and>
   set [''vlm'', ''moe''] = set [''moe'', ''vlm'', ''moe''] \<and>
   ResolveEngineEx ''Qwen/QWEN3-8b'' '''' [''vlm'', ''moe''] ''chitu'' =
     ResolveEngineEx ''qwen/Qwen3-8B'' '''' [''moe'', ''vlm'', ''moe''] ''chitu''"
proof -
  have h: "ToLower ''Qwen/QWEN3-8b'' = ToLower ''qwen/Qwen3-8B''" by code_simp
  have f: "set [''vlm'', ''moe''] = set [''moe'', ''vlm'', ''moe'']" by auto
  show ?thesis
    using resolver_order [of "''qwen/Qwen3-8B''" "''''" "[''moe'', ''vlm'', ''moe'']" "''chitu''"
        "''Qwen/QWEN3-8b''" "[''vlm'', ''moe'']"] h f by blast
qed

end
