(* ===== verification/ModelDeploymentCtl.thy ===== *)
theory ModelDeploymentCtl
  imports KubeApi Engine
begin

section \<open>The ModelDeployment controller (internal/controller/modeldeployment\_controller.go)\<close>

text \<open>
  \<open>Reconcile\<close> of \<open>ModelDeploymentReconciler\<close>, one definition per numbered block of the Go
  function, composed in its order. Logging is left out.
\<close>

subsection \<open>Conditions\<close>

fun setCondition :: "Condition list \<Rightarrow> Condition \<Rightarrow> Condition list" where
  "setCondition [] cond = [cond]"
| "setCondition (existing # conditions) cond =
     (if c_Type existing = c_Type cond then cond # conditions
      else existing # setCondition conditions cond)"

subsection \<open>The blocks of Reconcile\<close>

definition modelDeploymentFinalizer :: string where
  "modelDeploymentFinalizer = ''llmops.kubellmops.io/finalizer''"

record ('w, 'e) MDReconciler =
  mdr_Client :: "('w, 'e) kube"
  mdr_Lib :: "'e klib"
  mdr_GatewayClient :: "('w, 'e) gatewayClient option"

text \<open>2. Handle deletion.\<close>

definition mdHandleDeletion ::
  "('w, 'e) MDReconciler \<Rightarrow> ModelDeployment \<Rightarrow> ('w, 'e, unit) go" where
  "mdHandleDeletion r md =
     (if om_DeletionTimestamp (md_ObjectMeta md) \<noteq> None then
        if ContainsFinalizer (mdr_Lib r) (md_ObjectMeta md) modelDeploymentFinalizer then
          andThen (case mdr_GatewayClient r of
                     None \<Rightarrow> proceed None
                   | Some g \<Rightarrow> lifted (DeregisterModel g (md_Name md)))
            (\<lambda>ignored. let md = md\<lparr>md_ObjectMeta :=
                 RemoveFinalizer (mdr_Lib r) (md_ObjectMeta md) modelDeploymentFinalizer\<rparr>
               in andThen (checked (UpdateMD (mdr_Client r) md)) (\<lambda>md. returnWith (Done 0 None)))
        else returnWith (Done 0 None)
      else proceed ())"

text \<open>3. Add the finalizer if it is missing.\<close>

definition mdEnsureFinalizer ::
  "('w, 'e) MDReconciler \<Rightarrow> ModelDeployment \<Rightarrow> ('w, 'e, ModelDeployment) go" where
  "mdEnsureFinalizer r md =
     (if \<not> ContainsFinalizer (mdr_Lib r) (md_ObjectMeta md) modelDeploymentFinalizer then
        checked (UpdateMD (mdr_Client r) (md\<lparr>md_ObjectMeta :=
          AddFinalizer (mdr_Lib r) (md_ObjectMeta md) modelDeploymentFinalizer\<rparr>))
      else proceed md)"

text \<open>5. Find the LLMPlatform of the namespace: the first one listed, an error counts as none.\<close>

definition mdFindPlatform ::
  "('w, 'e) MDReconciler \<Rightarrow> ModelDeployment \<Rightarrow> ('w, 'e, LLMPlatform option) go" where
  "mdFindPlatform r md =
     andThen (lifted (ListLP (mdr_Client r) (md_Namespace md)))
       (\<lambda>platformList. proceed (case platformList of
          Inl err \<Rightarrow> None
        | Inr items \<Rightarrow> if length items > 0 then Some (items ! 0) else None))"

text \<open>6. Ensure the PVC.\<close>

definition mdEnsurePVC ::
  "('w, 'e) MDReconciler \<Rightarrow> ModelDeployment \<Rightarrow> string \<Rightarrow> ('w, 'e, unit) go" where
  "mdEnsurePVC r md resolvedEngine =
     andThen (orPanic (BuildPVC (quantityOk (mdr_Lib r)) md resolvedEngine)) (\<lambda>pvc.
     andThen (lifted (GetPVC (mdr_Client r) (metaKey (pvc_ObjectMeta pvc)))) (\<lambda>existing.
       case existing of
         Inl err \<Rightarrow>
           if IsNotFound (mdr_Lib r) err then
             (case SetControllerReference (mdr_Lib r) (md_ObjectMeta md) (pvc_ObjectMeta pvc) of
                Inl err \<Rightarrow> returnWith (Done 0 (Some err))
              | Inr m \<Rightarrow> checked (CreatePVC (mdr_Client r) (pvc\<lparr>pvc_ObjectMeta := m\<rparr>)))
           else returnWith (Done 0 (Some err))
       | Inr existingPVC \<Rightarrow> proceed ()))"

text \<open>7. Ensure the Deployment: create it, or overwrite spec and labels of the existing one.\<close>

definition mdEnsureDeployment ::
  "('w, 'e) MDReconciler \<Rightarrow> ModelDeployment \<Rightarrow> string \<Rightarrow> LLMPlatform option \<Rightarrow>
     ('w, 'e, unit) go" where
  "mdEnsureDeployment r md resolvedEngine platform =
     andThen (orPanic (BuildDeployment (quantityOk (mdr_Lib r)) md resolvedEngine platform))
       (\<lambda>desiredDep.
     andThen (lifted (GetDeployment (mdr_Client r) (metaKey (dep_ObjectMeta desiredDep))))
       (\<lambda>existing.
       case existing of
         Inl err \<Rightarrow>
           if IsNotFound (mdr_Lib r) err then
             (case SetControllerReference (mdr_Lib r) (md_ObjectMeta md)
                     (dep_ObjectMeta desiredDep) of
                Inl err \<Rightarrow> returnWith (Done 0 (Some err))
              | Inr m \<Rightarrow>
                  checked (CreateDeployment (mdr_Client r) (desiredDep\<lparr>dep_ObjectMeta := m\<rparr>)))
           else returnWith (Done 0 (Some err))
       | Inr existingDep \<Rightarrow>
           checked (UpdateDeployment (mdr_Client r)
             (existingDep\<lparr>dep_Spec := dep_Spec desiredDep,
                dep_ObjectMeta := (dep_ObjectMeta existingDep)
                  \<lparr>om_Labels := om_Labels (dep_ObjectMeta desiredDep)\<rparr>\<rparr>))))"

text \<open>8. Ensure the Service.\<close>

definition mdEnsureService ::
  "('w, 'e) MDReconciler \<Rightarrow> ModelDeployment \<Rightarrow> string \<Rightarrow> ('w, 'e, unit) go" where
  "mdEnsureService r md resolvedEngine =
     (let svc = BuildService md resolvedEngine in
      andThen (lifted (GetService (mdr_Client r) (metaKey (svc_ObjectMeta svc)))) (\<lambda>existing.
        case existing of
          Inl err \<Rightarrow>
            if IsNotFound (mdr_Lib r) err then
              (case SetControllerReference (mdr_Lib r) (md_ObjectMeta md) (svc_ObjectMeta svc) of
                 Inl err \<Rightarrow> returnWith (Done 0 (Some err))
               | Inr m \<Rightarrow> checked (CreateService (mdr_Client r) (svc\<lparr>svc_ObjectMeta := m\<rparr>)))
            else returnWith (Done 0 (Some err))
        | Inr existingSvc \<Rightarrow> proceed ()))"

text \<open>9. Re-read the Deployment; a missing one counts as one without replicas.\<close>

definition mdReadReplicas ::
  "('w, 'e) MDReconciler \<Rightarrow> ModelDeployment \<Rightarrow> ('w, 'e, DeploymentStatus) go" where
  "mdReadReplicas r md =
     andThen (lifted (GetDeployment (mdr_Client r) (md_Namespace md, md_Name md))) (\<lambda>dep.
       case dep of
         Inl err \<Rightarrow>
           if \<not> IsNotFound (mdr_Lib r) err then returnWith (Done 0 (Some err))
           else proceed \<lparr>dst_ReadyReplicas = 0, dst_Replicas = 0\<rparr>
       | Inr dep \<Rightarrow> proceed (dep_Status dep))"

definition desiredReplicas :: "ModelDeployment \<Rightarrow> int" where
  "desiredReplicas md = (case mds_Replicas (md_Spec md) of None \<Rightarrow> 1 | Some n \<Rightarrow> n)"

definition mdPhase :: "int \<Rightarrow> int \<Rightarrow> string" where
  "mdPhase ready desired =
     (if ready \<ge> desired \<and> desired > 0 then ''Ready''
      else if ready > 0 then ''Degraded'' else ''Deploying'')"

definition mdEndpoint :: "ModelDeployment \<Rightarrow> string \<Rightarrow> string" where
  "mdEndpoint md resolvedEngine =
     ''http://'' @ md_Name md @ ''.'' @ md_Namespace md @ ''.svc.cluster.local:'' @
       showInt (EnginePort resolvedEngine)"

definition mdReadyCond :: "ModelDeployment \<Rightarrow> string \<Rightarrow> int \<Rightarrow> int \<Rightarrow> int \<Rightarrow> Condition" where
  "mdReadyCond md phase ready desired now =
     (let readyCond = \<lparr>c_Type = ''Ready'', c_Status = '''', c_Reason = '''', c_Message = '''',
            c_LastTransitionTime = now, c_ObservedGeneration = om_Generation (md_ObjectMeta md)\<rparr>
      in if phase = ''Ready'' then
           readyCond\<lparr>c_Status := ConditionTrue, c_Reason := ''AllReplicasReady'',
             c_Message := ''All replicas are ready''\<rparr>
         else
           readyCond\<lparr>c_Status := ConditionFalse, c_Reason := ''ReplicasNotReady'',
             c_Message := showInt ready @ ''/'' @ showInt desired @ '' replicas ready''\<rparr>)"

definition mdComputeStatus ::
  "ModelDeployment \<Rightarrow> string \<Rightarrow> DeploymentStatus \<Rightarrow> int \<Rightarrow> ModelDeploymentStatus" where
  "mdComputeStatus md resolvedEngine dep now =
     (let desired = desiredReplicas md;
          phase = mdPhase (dst_ReadyReplicas dep) desired;
          readyCond = mdReadyCond md phase (dst_ReadyReplicas dep) desired now
      in (md_Status md)\<lparr>mdst_Engine := resolvedEngine,
           mdst_ReadyReplicas := dst_ReadyReplicas dep,
           mdst_TotalReplicas := dst_Replicas dep,
           mdst_Endpoint := mdEndpoint md resolvedEngine,
           mdst_Phase := phase,
           mdst_Conditions := setCondition (mdst_Conditions (md_Status md)) readyCond\<rparr>)"

text \<open>Re-fetch, restore the computed status, update the status subresource.\<close>

definition mdPublishStatus ::
  "('w, 'e) MDReconciler \<Rightarrow> NamespacedName \<Rightarrow> ModelDeploymentStatus \<Rightarrow>
     ('w, 'e, ModelDeployment) go" where
  "mdPublishStatus r req computedStatus =
     andThen (checked (GetMD (mdr_Client r) req)) (\<lambda>md.
       checked (StatusUpdateMD (mdr_Client r) (md\<lparr>md_Status := computedStatus\<rparr>)))"

text \<open>10. When ready, register with the gateway; an error is only logged.\<close>

definition mdGatewayModel :: "ModelDeployment \<Rightarrow> GatewayModel" where
  "mdGatewayModel md =
     (let modelType = ResolveModelType (mds_Source (md_Spec md));
          tei = (modelType = ''embedding'' \<or> modelType = ''reranker'');
          prefix = (if tei then ''huggingface/'' else ''openai/'');
          apiBase = (if tei then TrimSuffix (mdst_Endpoint (md_Status md)) ''/v1''
                     else mdst_Endpoint (md_Status md))
      in \<lparr>gm_ModelName = md_Name md,
          gm_LiteLLMParams = \<lparr>llp_Model = prefix @ md_Name md, llp_APIBase = apiBase,
            llp_APIKey = ''''\<rparr>\<rparr>)"

definition mdRegister :: "('w, 'e) MDReconciler \<Rightarrow> ModelDeployment \<Rightarrow> ('w, 'e, unit) go" where
  "mdRegister r md =
     (case mdr_GatewayClient r of
        Some g \<Rightarrow>
          if mdst_Phase (md_Status md) = ''Ready'' then
            andThen (lifted (RegisterModel g (mdGatewayModel md))) (\<lambda>ignored. proceed ())
          else proceed ()
      | None \<Rightarrow> proceed ())"

subsection \<open>Reconcile\<close>

text \<open>The steps from the resolution of the engine on.\<close>

definition mdChildren ::
  "('w, 'e) MDReconciler \<Rightarrow> NamespacedName \<Rightarrow> ModelDeployment \<Rightarrow> ('w, 'e, 'e outcome) go" where
  "mdChildren r req md =
     (let resolvedEngine = ResolveEngine (mds_Source (md_Spec md)) (mds_Engine (md_Spec md)) in
     andThen (mdFindPlatform r md) (\<lambda>platform.
     andThen (mdEnsurePVC r md resolvedEngine) (\<lambda>_.
     andThen (mdEnsureDeployment r md resolvedEngine platform) (\<lambda>_.
     andThen (mdEnsureService r md resolvedEngine) (\<lambda>_.
     andThen (mdReadReplicas r md) (\<lambda>dep.
     andThen (lifted (TimeNow (mdr_Client r))) (\<lambda>now.
     andThen (mdPublishStatus r req (mdComputeStatus md resolvedEngine dep now)) (\<lambda>md.
     andThen (mdRegister r md) (\<lambda>_. proceed (Done 0 None))))))))))"

definition mdReconcile ::
  "('w, 'e) MDReconciler \<Rightarrow> NamespacedName \<Rightarrow> ('w, 'e outcome) state" where
  "mdReconcile r req = finish
     (andThen (lifted (GetMD (mdr_Client r) req)) (\<lambda>md.
        case md of
          Inl err \<Rightarrow>
            if IsNotFound (mdr_Lib r) err then returnWith (Done 0 None)
            else returnWith (Done 0 (Some err))
        | Inr md \<Rightarrow> andThen (mdHandleDeletion r md) (\<lambda>_.
            andThen (mdEnsureFinalizer r md) (\<lambda>md. mdChildren r req md))))"

subsection \<open>Laws of setCondition\<close>

lemma find_setCondition:
  "List.find (\<lambda>x. c_Type x = t) (setCondition cs c) =
     (if t = c_Type c then Some c else List.find (\<lambda>x. c_Type x = t) cs)"
  by (induction cs) auto

lemma types_setCondition:
  "map c_Type (setCondition cs c) =
     (if c_Type c \<in> set (map c_Type cs) then map c_Type cs else map c_Type cs @ [c_Type c])"
  by (induction cs) auto

end
