(* ===== verification/KubeStore.thy ===== *)
theory KubeStore
  imports KubeApi
begin

section \<open>A quiescent API server\<close>

text \<open>
  The cluster holds the API objects and, by name and namespace, the Helm releases with their values.
  What Kubernetes documents of its object store, for the time in which no other client acts and no
  call fails: the locale \<open>kube_store\<close>. \<open>view\<close> reads the stored objects off the world. Its laws are
  those of the REST verbs: a read returns the stored object or \<open>NotFound\<close>; a create stores the
  object or fails with an error that is not \<open>NotFound\<close> when the name is taken; an update keeps the
  status, a status update keeps everything else; a list has the stored objects in any order; an object marked for deletion goes away with its
  last finalizer. \<open>mem_kube\<close> is a store in memory that satisfies them.
\<close>

record cluster =
  cl_MDs :: "NamespacedName \<rightharpoonup> ModelDeployment"
  cl_FTRs :: "NamespacedName \<rightharpoonup> FineTuneRun"
  cl_LPs :: "NamespacedName \<rightharpoonup> LLMPlatform"
  cl_PVCs :: "NamespacedName \<rightharpoonup> PVC"
  cl_Deployments :: "NamespacedName \<rightharpoonup> Deployment"
  cl_Services :: "NamespacedName \<rightharpoonup> Service"
  cl_Workflows :: "NamespacedName \<rightharpoonup> jval"
  cl_Releases :: "string \<times> string \<rightharpoonup> release \<times> jobj"

abbreviation mdKey :: "ModelDeployment \<Rightarrow> NamespacedName" where
  "mdKey md \<equiv> metaKey (md_ObjectMeta md)"

definition workflowKey :: "jval \<Rightarrow> NamespacedName" where
  "workflowKey w = (jstr (jpath w [''metadata'', ''namespace'']), jstr (jpath w [''metadata'', ''name'']))"

text \<open>Objects are stored under their own namespace and name; there are finitely many platforms.\<close>

definition cluster_ok :: "cluster \<Rightarrow> bool" where
  "cluster_ok c \<longleftrightarrow>
     (\<forall>k x. cl_MDs c k = Some x \<longrightarrow> mdKey x = k) \<and>
     (\<forall>k x. cl_FTRs c k = Some x \<longrightarrow> metaKey (ftr_ObjectMeta x) = k) \<and>
     (\<forall>k x. cl_LPs c k = Some x \<longrightarrow> metaKey (lp_ObjectMeta x) = k) \<and>
     finite (dom (cl_LPs c)) \<and>
     (\<forall>k x. cl_Deployments c k = Some x \<longrightarrow> metaKey (dep_ObjectMeta x) = k)"

text \<open>
  Items of a list come in no guaranteed order (a cached client walks a Go map), so the first
  platform of a namespace is any of them.
\<close>

definition candidate :: "string \<Rightarrow> cluster \<Rightarrow> LLMPlatform option \<Rightarrow> bool" where
  "candidate ns c pl \<longleftrightarrow> (case pl of
     None \<Rightarrow> \<forall>n. cl_LPs c (ns, n) = None
   | Some p \<Rightarrow> \<exists>n. cl_LPs c (ns, n) = Some p)"

lemma candidate_cong: "cl_LPs c = cl_LPs c' \<Longrightarrow> candidate ns c = candidate ns c'"
  by (auto simp: candidate_def fun_eq_iff split: option.splits)

lemma candidate_first:
  "set ps = {p. \<exists>n. cl_LPs c (ns, n) = Some p} \<Longrightarrow> ps \<noteq> [] \<Longrightarrow> candidate ns c (Some (ps ! 0))"
  "\<forall>p n. cl_LPs c (ns, n) \<noteq> Some p \<Longrightarrow> candidate ns c None"
  using nth_mem [of 0 ps] by (auto simp: candidate_def simp flip: not_Some_eq)

subsection \<open>The laws\<close>

definition getLaw ::
  "'e klib \<Rightarrow> ('w \<Rightarrow> cluster) \<Rightarrow> (cluster \<Rightarrow> NamespacedName \<rightharpoonup> 'o) \<Rightarrow>
     (NamespacedName \<Rightarrow> ('w, 'e error + 'o) state) \<Rightarrow> bool" where
  "getLaw lib view sel op \<longleftrightarrow> (\<forall>k w. wp (op k) (\<lambda>r w'. view w' = view w \<and>
     (case sel (view w) k of None \<Rightarrow> (\<exists>e. r = Inl e \<and> IsNotFound lib e) | Some x \<Rightarrow> r = Inr x)) w)"

definition createLaw ::
  "'e klib \<Rightarrow> ('w \<Rightarrow> cluster) \<Rightarrow> (cluster \<Rightarrow> NamespacedName \<rightharpoonup> 'o) \<Rightarrow>
     (((NamespacedName \<rightharpoonup> 'o) \<Rightarrow> (NamespacedName \<rightharpoonup> 'o)) \<Rightarrow> cluster \<Rightarrow> cluster) \<Rightarrow>
     ('o \<Rightarrow> NamespacedName) \<Rightarrow> ('o \<Rightarrow> ('w, 'e error + unit) state) \<Rightarrow> bool" where
  "createLaw lib view sel upd key op \<longleftrightarrow> (\<forall>x w. wp (op x) (\<lambda>r w'.
     if sel (view w) (key x) = None then
       r = Inr () \<and> view w' = upd (\<lambda>m. m(key x \<mapsto> x)) (view w)
     else view w' = view w \<and> (\<exists>e. r = Inl e \<and> \<not> IsNotFound lib e \<and> \<not> IsNoMatchError lib e \<and>
       StatusErrorCode lib e \<noteq> Some 404)) w)"

definition modifyLaw ::
  "('w \<Rightarrow> cluster) \<Rightarrow> (cluster \<Rightarrow> NamespacedName \<rightharpoonup> 'o) \<Rightarrow>
     (((NamespacedName \<rightharpoonup> 'o) \<Rightarrow> (NamespacedName \<rightharpoonup> 'o)) \<Rightarrow> cluster \<Rightarrow> cluster) \<Rightarrow>
     ('o \<Rightarrow> NamespacedName) \<Rightarrow> ('o \<Rightarrow> 'o \<Rightarrow> 'o) \<Rightarrow> ('o \<Rightarrow> 'r) \<Rightarrow>
     ('o \<Rightarrow> ('w, 'e error + 'r) state) \<Rightarrow> bool" where
  "modifyLaw view sel upd key merge res op \<longleftrightarrow> (\<forall>x old w. sel (view w) (key x) = Some old \<longrightarrow>
     wp (op x) (\<lambda>r w'. r = Inr (res (merge x old)) \<and>
       view w' = upd (\<lambda>m. m(key x \<mapsto> merge x old)) (view w)) w)"

definition finalizerLaws :: "'e klib \<Rightarrow> bool" where
  "finalizerLaws lib \<longleftrightarrow> (\<forall>m f.
     ContainsFinalizer lib m f = (f \<in> set (om_Finalizers m)) \<and>
     AddFinalizer lib m f =
       (if f \<in> set (om_Finalizers m) then m else m\<lparr>om_Finalizers := om_Finalizers m @ [f]\<rparr>) \<and>
     RemoveFinalizer lib m f = m\<lparr>om_Finalizers := removeAll f (om_Finalizers m)\<rparr>)"

definition ownedMeta :: "ObjectMeta \<Rightarrow> ObjectMeta \<Rightarrow> ObjectMeta" where
  "ownedMeta ow m = m\<lparr>om_OwnerReferences :=
     [\<lparr>or_Kind = ''ModelDeployment'', or_Name = om_Name ow\<rparr>]\<rparr>"

definition ownerLaws :: "'e klib \<Rightarrow> bool" where
  "ownerLaws lib \<longleftrightarrow> (\<forall>ow m. om_OwnerReferences m = [] \<longrightarrow>
     SetControllerReference lib ow m = Inr (ownedMeta ow m))"

definition workflowLaws :: "'e klib \<Rightarrow> bool" where
  "workflowLaws lib \<longleftrightarrow> (\<forall>m w path.
     WorkflowGetName lib w = jstr (jpath w [''metadata'', ''name'']) \<and>
     workflowKey (snd (SetWorkflowOwner lib m w)) = workflowKey w \<and>
     NestedString lib w path = jstr (jpath w path))"

locale kube_store =
  fixes K :: "('w, 'e) kube" and lib :: "'e klib" and view :: "'w \<Rightarrow> cluster"
  assumes get_md: "getLaw lib view cl_MDs (GetMD K)"
    and update_md: "om_DeletionTimestamp (md_ObjectMeta x) = None \<Longrightarrow>
      cl_MDs (view w) (mdKey x) = Some old \<Longrightarrow> md_Spec x = md_Spec old \<Longrightarrow>
      wp (UpdateMD K x) (\<lambda>r w'. r = Inr (x\<lparr>md_Status := md_Status old\<rparr>) \<and>
        view w' = cl_MDs_update (\<lambda>m. m(mdKey x \<mapsto> x\<lparr>md_Status := md_Status old\<rparr>)) (view w)) w"
    and release_md: "om_DeletionTimestamp (md_ObjectMeta x) \<noteq> None \<Longrightarrow>
      om_Finalizers (md_ObjectMeta x) = [] \<Longrightarrow> cl_MDs (view w) (mdKey x) = Some old \<Longrightarrow>
      wp (UpdateMD K x) (\<lambda>r w'. (\<exists>y. r = Inr y) \<and>
        view w' = cl_MDs_update (\<lambda>m. m(mdKey x := None)) (view w)) w"
    and status_md: "modifyLaw view cl_MDs cl_MDs_update mdKey
      (\<lambda>x old. old\<lparr>md_Status := md_Status x\<rparr>) (\<lambda>y. y) (StatusUpdateMD K)"
    and list_lp: "finite (dom (cl_LPs (view w))) \<Longrightarrow> wp (ListLP K ns) (\<lambda>r w'. view w' = view w \<and>
      (\<exists>ps. r = Inr ps \<and> set ps = {p. \<exists>n. cl_LPs (view w) (ns, n) = Some p})) w"
    and get_pvc: "getLaw lib view cl_PVCs (GetPVC K)"
    and create_pvc: "createLaw lib view cl_PVCs cl_PVCs_update (\<lambda>x. metaKey (pvc_ObjectMeta x)) (CreatePVC K)"
    and get_dep: "getLaw lib view cl_Deployments (GetDeployment K)"
    and create_dep: "createLaw lib view cl_Deployments cl_Deployments_update
      (\<lambda>x. metaKey (dep_ObjectMeta x)) (CreateDeployment K)"
    and update_dep: "modifyLaw view cl_Deployments cl_Deployments_update
      (\<lambda>x. metaKey (dep_ObjectMeta x)) (\<lambda>x old. x\<lparr>dep_Status := dep_Status old\<rparr>) (\<lambda>y. ())
      (UpdateDeployment K)"
    and get_svc: "getLaw lib view cl_Services (GetService K)"
    and create_svc: "createLaw lib view cl_Services cl_Services_update
      (\<lambda>x. metaKey (svc_ObjectMeta x)) (CreateService K)"
    and get_ftr: "getLaw lib view cl_FTRs (GetFTR K)"
    and status_ftr: "modifyLaw view cl_FTRs cl_FTRs_update (\<lambda>x. metaKey (ftr_ObjectMeta x))
      (\<lambda>x old. old\<lparr>ftr_Status := ftr_Status x\<rparr>) (\<lambda>y. y) (StatusUpdateFTR K)"
    and get_wf: "getLaw lib view cl_Workflows (GetWorkflow K)"
    and create_wf: "createLaw lib view cl_Workflows cl_Workflows_update workflowKey (CreateWorkflow K)"
    and get_lp: "getLaw lib view cl_LPs (GetLP K)"
    and status_lp: "modifyLaw view cl_LPs cl_LPs_update (\<lambda>x. metaKey (lp_ObjectMeta x))
      (\<lambda>x old. old\<lparr>lp_Status := lp_Status x\<rparr>) (\<lambda>y. y) (StatusUpdateLP K)"
    and now: "wp (TimeNow K) (\<lambda>r w'. view w' = view w) w"
    and finalizers: "finalizerLaws lib"
    and owners: "ownerLaws lib"
    and workflows: "workflowLaws lib"

lemma wp_getLaw:
  assumes "getLaw lib view sel op"
    and "\<And>e w'. sel (view w) k = None \<Longrightarrow> view w' = view w \<Longrightarrow> IsNotFound lib e \<Longrightarrow> Q (Inl e) w'"
    and "\<And>x w'. sel (view w) k = Some x \<Longrightarrow> view w' = view w \<Longrightarrow> Q (Inr x) w'"
  shows "wp (op k) Q w"
  by (rule wp_mono, rule assms(1) [unfolded getLaw_def, rule_format])
     (auto split: option.splits intro: assms(2,3))

lemma wp_createLaw:
  assumes "createLaw lib view sel upd key op" and "sel (view w) (key x) = None"
    and "\<And>w'. view w' = upd (\<lambda>m. m(key x \<mapsto> x)) (view w) \<Longrightarrow> Q (Inr ()) w'"
  shows "wp (op x) Q w"
  by (rule wp_mono, rule assms(1) [unfolded createLaw_def, rule_format])
     (auto simp: assms(2) intro: assms(3))

lemma wp_modifyLaw:
  assumes "modifyLaw view sel upd key merge res op" and "sel (view w) (key x) = Some old"
    and "\<And>w'. view w' = upd (\<lambda>m. m(key x \<mapsto> merge x old)) (view w) \<Longrightarrow> Q (Inr (res (merge x old))) w'"
  shows "wp (op x) Q w"
  by (rule wp_mono, rule assms(1) [unfolded modifyLaw_def, rule_format, OF assms(2)])
     (auto intro: assms(3))

subsection \<open>A store in memory\<close>

datatype memError = NotFound | AlreadyExists

definition memGet ::
  "(cluster \<Rightarrow> NamespacedName \<rightharpoonup> 'o) \<Rightarrow> NamespacedName \<Rightarrow> (cluster, memError error + 'o) state" where
  "memGet sel k = State (\<lambda>c.
     (case sel c k of None \<Rightarrow> Inl (Raw NotFound) | Some x \<Rightarrow> Inr x, c))"

definition memCreate ::
  "(cluster \<Rightarrow> NamespacedName \<rightharpoonup> 'o) \<Rightarrow>
     (((NamespacedName \<rightharpoonup> 'o) \<Rightarrow> (NamespacedName \<rightharpoonup> 'o)) \<Rightarrow> cluster \<Rightarrow> cluster) \<Rightarrow>
     ('o \<Rightarrow> NamespacedName) \<Rightarrow> 'o \<Rightarrow> (cluster, memError error + unit) state" where
  "memCreate sel upd key x = State (\<lambda>c.
     case sel c (key x) of
       None \<Rightarrow> (Inr (), upd (\<lambda>m. m(key x \<mapsto> x)) c)
     | Some old \<Rightarrow> (Inl (Raw AlreadyExists), c))"

definition memModify ::
  "(cluster \<Rightarrow> NamespacedName \<rightharpoonup> 'o) \<Rightarrow>
     (((NamespacedName \<rightharpoonup> 'o) \<Rightarrow> (NamespacedName \<rightharpoonup> 'o)) \<Rightarrow> cluster \<Rightarrow> cluster) \<Rightarrow>
     ('o \<Rightarrow> NamespacedName) \<Rightarrow> ('o \<Rightarrow> 'o \<Rightarrow> 'o) \<Rightarrow> ('o \<Rightarrow> 'r) \<Rightarrow> 'o \<Rightarrow>
     (cluster, memError error + 'r) state" where
  "memModify sel upd key merge res x = State (\<lambda>c.
     case sel c (key x) of
       None \<Rightarrow> (Inl (Raw NotFound), c)
     | Some old \<Rightarrow> (Inr (res (merge x old)), upd (\<lambda>m. m(key x \<mapsto> merge x old)) c))"

definition memUpdateMD :: "ModelDeployment \<Rightarrow> (cluster, memError error + ModelDeployment) state" where
  "memUpdateMD x = State (\<lambda>c.
     case cl_MDs c (mdKey x) of
       None \<Rightarrow> (Inl (Raw NotFound), c)
     | Some old \<Rightarrow>
         let y = x\<lparr>md_Status := md_Status old\<rparr> in
         (Inr y, if om_DeletionTimestamp (md_ObjectMeta x) \<noteq> None \<and> om_Finalizers (md_ObjectMeta x) = []
                 then cl_MDs_update (\<lambda>m. m(mdKey x := None)) c
                 else cl_MDs_update (\<lambda>m. m(mdKey x \<mapsto> y)) c))"

text \<open>Lists come sorted by name, as etcd keeps its keys.\<close>

definition memListLP :: "string \<Rightarrow> cluster \<Rightarrow> LLMPlatform list" where
  "memListLP ns c = map (\<lambda>n. the (cl_LPs c (ns, n))) (sorted_list_of_set {n. cl_LPs c (ns, n) \<noteq> None})"

lemma set_memListLP:
  assumes "finite (dom (cl_LPs c))"
  shows "set (memListLP ns c) = {p. \<exists>n. cl_LPs c (ns, n) = Some p}"
proof -
  have "finite {n. cl_LPs c (ns, n) \<noteq> None}"
    by (rule finite_subset [OF _ finite_imageI [OF assms, of snd]]) force
  then show ?thesis by (force simp: memListLP_def)
qed

lemma memListLP_empty [simp]: "cl_LPs c = Map.empty \<Longrightarrow> memListLP ns c = []"
  by (simp add: memListLP_def)

definition mem_kube :: "(cluster, memError) kube" where
  "mem_kube = \<lparr>
     GetMD = memGet cl_MDs,
     UpdateMD = memUpdateMD,
     StatusUpdateMD = memModify cl_MDs cl_MDs_update mdKey (\<lambda>x old. old\<lparr>md_Status := md_Status x\<rparr>)
       (\<lambda>y. y),
     ListLP = (\<lambda>ns. State (\<lambda>c. (Inr (memListLP ns c), c))),
     GetPVC = memGet cl_PVCs,
     CreatePVC = memCreate cl_PVCs cl_PVCs_update (\<lambda>x. metaKey (pvc_ObjectMeta x)),
     GetDeployment = memGet cl_Deployments,
     CreateDeployment = memCreate cl_Deployments cl_Deployments_update (\<lambda>x. metaKey (dep_ObjectMeta x)),
     UpdateDeployment = memModify cl_Deployments cl_Deployments_update
       (\<lambda>x. metaKey (dep_ObjectMeta x)) (\<lambda>x old. x\<lparr>dep_Status := dep_Status old\<rparr>) (\<lambda>y. ()),
     GetService = memGet cl_Services,
     CreateService = memCreate cl_Services cl_Services_update (\<lambda>x. metaKey (svc_ObjectMeta x)),
     GetFTR = memGet cl_FTRs,
     StatusUpdateFTR = memModify cl_FTRs cl_FTRs_update (\<lambda>x. metaKey (ftr_ObjectMeta x))
       (\<lambda>x old. old\<lparr>ftr_Status := ftr_Status x\<rparr>) (\<lambda>y. y),
     GetWorkflow = memGet cl_Workflows,
     CreateWorkflow = memCreate cl_Workflows cl_Workflows_update workflowKey,
     GetLP = memGet cl_LPs,
     StatusUpdateLP = memModify cl_LPs cl_LPs_update (\<lambda>x. metaKey (lp_ObjectMeta x))
       (\<lambda>x old. old\<lparr>lp_Status := lp_Status x\<rparr>) (\<lambda>y. y),
     TimeNow = State (\<lambda>c. (0, c))\<rparr>"

definition mem_lib :: "memError klib" where
  "mem_lib = \<lparr>
     IsNotFound = (\<lambda>e. e = Raw NotFound),
     IsNoMatchError = (\<lambda>e. False),
     StatusErrorCode = (\<lambda>e. Some (if e = Raw NotFound then 404 else 409)),
     ContainsFinalizer = (\<lambda>m f. f \<in> set (om_Finalizers m)),
     AddFinalizer = (\<lambda>m f. if f \<in> set (om_Finalizers m) then m
       else m\<lparr>om_Finalizers := om_Finalizers m @ [f]\<rparr>),
     RemoveFinalizer = (\<lambda>m f. m\<lparr>om_Finalizers := removeAll f (om_Finalizers m)\<rparr>),
     SetControllerReference = (\<lambda>ow m. Inr (ownedMeta ow m)),
     SetWorkflowOwner = (\<lambda>m w. (None, w)),
     WorkflowGetName = (\<lambda>w. jstr (jpath w [''metadata'', ''name''])),
     NestedString = (\<lambda>w path. jstr (jpath w path)),
     ErrorText = (\<lambda>e. ''error''),
     quantityOk = (\<lambda>s. True)\<rparr>"

lemma getLaw_mem: "getLaw mem_lib (\<lambda>c. c) sel (memGet sel)"
  by (simp add: getLaw_def memGet_def wp_def mem_lib_def split: option.splits)

lemma createLaw_mem: "createLaw mem_lib (\<lambda>c. c) sel upd key (memCreate sel upd key)"
  unfolding createLaw_def memCreate_def wp_def mem_lib_def
  by (clarsimp split: option.splits) blast

lemma modifyLaw_mem: "modifyLaw (\<lambda>c. c) sel upd key merge res (memModify sel upd key merge res)"
  by (simp add: modifyLaw_def memModify_def wp_def)

lemma ownerLaws_mem: "ownerLaws mem_lib"
  by (simp add: ownerLaws_def mem_lib_def)

interpretation mem: kube_store mem_kube mem_lib "\<lambda>c. c"
  by unfold_locales
     (simp_all add: mem_kube_def getLaw_mem createLaw_mem modifyLaw_mem ownerLaws_mem,
      simp_all add: set_memListLP wp_def memUpdateMD_def finalizerLaws_def workflowLaws_def
        mem_lib_def Let_def)

definition emptyCluster :: cluster where
  "emptyCluster = \<lparr>cl_MDs = Map.empty, cl_FTRs = Map.empty, cl_LPs = Map.empty,
     cl_PVCs = Map.empty, cl_Deployments = Map.empty, cl_Services = Map.empty,
     cl_Workflows = Map.empty, cl_Releases = Map.empty\<rparr>"

end
