(* ===== verification/Validation.thy ===== *)
theory Validation
  imports ApiTypes
begin

section \<open>Admission checks (api/v1alpha1/*_webhook.go)\<close>

text \<open>
  The three spec validators. Each returns the first violated rule, as the Go functions return
  the first error; \<open>None\<close> is a nil error. A constructor stands for one \<open>fmt.Errorf\<close> of the
  source and carries the operand of its \<open>%q\<close>.
\<close>

datatype md_spec_error =
    SourceRequired
  | EngineInvalid string
  | ReplicasNegative
  | GPUNegative
  | AcceleratorInvalid string
  | CanarySourceRequired
  | CanaryWeightRange

datatype ftr_spec_error =
    BaseModelRequired
  | OutputNameRequired
  | MethodInvalid string
  | DataSourceTypeInvalid string
  | DataSourcePathRequired
  | EpochsNegative
  | BatchSizeNegative
  | EvaluationRequired

datatype lp_spec_error =
    ModelStoreEndpointRequired
  | ModelStoreBucketRequired
  | RoutingInvalid string

definition validEngines :: "string set" where
  "validEngines = {''auto'', ''vllm'', ''tei'', ''llamacpp'', ''''}"

definition validAccelerators :: "string set" where
  "validAccelerators = {''nvidia'', ''amd'', ''gaudi'', ''''}"

definition ValidateModelDeploymentSpec :: "ModelDeploymentSpec \<Rightarrow> md_spec_error option" where
  "ValidateModelDeploymentSpec spec =
     (if mds_Source spec = '''' then Some SourceRequired
      else if mds_Engine spec \<notin> validEngines then Some (EngineInvalid (mds_Engine spec))
      else if (case mds_Replicas spec of None \<Rightarrow> False | Some r \<Rightarrow> r < 0)
      then Some ReplicasNegative
      else if mr_GPU (mds_Resources spec) < 0 then Some GPUNegative
      else if mds_Accelerator spec \<notin> validAccelerators
      then Some (AcceleratorInvalid (mds_Accelerator spec))
      else (case mds_Canary spec of
              None \<Rightarrow> None
            | Some c \<Rightarrow>
                if cc_Source c = '''' then Some CanarySourceRequired
                else if cc_Weight c < 0 \<or> cc_Weight c > 100 then Some CanaryWeightRange
                else None))"

definition validMethods :: "string set" where
  "validMethods = {''lora'', ''qlora'', ''full'', ''''}"

definition validTypes :: "string set" where
  "validTypes = {''minio'', ''huggingface'', ''pvc''}"

definition ValidateFineTuneRunSpec :: "FineTuneRunSpec \<Rightarrow> ftr_spec_error option" where
  "ValidateFineTuneRunSpec spec =
     (if fts_BaseModel spec = '''' then Some BaseModelRequired
      else if fts_OutputName spec = '''' then Some OutputNameRequired
      else if fts_Method spec \<notin> validMethods then Some (MethodInvalid (fts_Method spec))
      else if ds_Type (fts_DataSource spec) \<notin> validTypes
      then Some (DataSourceTypeInvalid (ds_Type (fts_DataSource spec)))
      else if ds_Type (fts_DataSource spec) = ''minio'' \<and> ds_Path (fts_DataSource spec) = ''''
      then Some DataSourcePathRequired
      else if tr_Epochs (fts_Training spec) < 0 then Some EpochsNegative
      else if tr_BatchSize (fts_Training spec) < 0 then Some BatchSizeNegative
      else if qg_Enabled (fts_QualityGate spec) \<and> \<not> ev_Enabled (fts_Evaluation spec)
      then Some EvaluationRequired
      else None)"

definition validRouting :: "string set" where
  "validRouting =
     {'''', ''simple-shuffle'', ''least-busy'', ''latency-based-routing'', ''usage-based-routing''}"

definition ValidateLLMPlatformSpec :: "LLMPlatformSpec \<Rightarrow> lp_spec_error option" where
  "ValidateLLMPlatformSpec spec =
     (if ms_Enabled (lps_ModelStore spec) \<and> ms_Endpoint (lps_ModelStore spec) = ''''
      then Some ModelStoreEndpointRequired
      else if ms_Enabled (lps_ModelStore spec) \<and> ms_Bucket (lps_ModelStore spec) = ''''
      then Some ModelStoreBucketRequired
      else if gw_Routing (lps_Gateway spec) \<notin> validRouting
      then Some (RoutingInvalid (gw_Routing (lps_Gateway spec)))
      else None)"

subsection \<open>What an accepted spec satisfies\<close>

definition canary_ok :: "CanaryConfig option \<Rightarrow> bool" where
  "canary_ok c = (case c of None \<Rightarrow> True
     | Some cc \<Rightarrow> cc_Source cc \<noteq> '''' \<and> 0 \<le> cc_Weight cc \<and> cc_Weight cc \<le> 100)"

definition md_spec_ok :: "ModelDeploymentSpec \<Rightarrow> bool" where
  "md_spec_ok s \<longleftrightarrow>
     mds_Source s \<noteq> '''' \<and> mds_Engine s \<in> validEngines \<and>
     (case mds_Replicas s of None \<Rightarrow> True | Some r \<Rightarrow> 0 \<le> r) \<and>
     0 \<le> mr_GPU (mds_Resources s) \<and> mds_Accelerator s \<in> validAccelerators \<and>
     canary_ok (mds_Canary s)"

definition ftr_spec_ok :: "FineTuneRunSpec \<Rightarrow> bool" where
  "ftr_spec_ok s \<longleftrightarrow>
     fts_BaseModel s \<noteq> '''' \<and> fts_OutputName s \<noteq> '''' \<and> fts_Method s \<in> validMethods \<and>
     ds_Type (fts_DataSource s) \<in> validTypes \<and>
     (ds_Type (fts_DataSource s) = ''minio'' \<longrightarrow> ds_Path (fts_DataSource s) \<noteq> '''') \<and>
     0 \<le> tr_Epochs (fts_Training s) \<and> 0 \<le> tr_BatchSize (fts_Training s) \<and>
     (qg_Enabled (fts_QualityGate s) \<longrightarrow> ev_Enabled (fts_Evaluation s))"

definition lp_spec_ok :: "LLMPlatformSpec \<Rightarrow> bool" where
  "lp_spec_ok s \<longleftrightarrow>
     (ms_Enabled (lps_ModelStore s) \<longrightarrow>
        ms_Endpoint (lps_ModelStore s) \<noteq> '''' \<and> ms_Bucket (lps_ModelStore s) \<noteq> '''') \<and>
     gw_Routing (lps_Gateway s) \<in> validRouting"

lemma ValidateModelDeploymentSpec_None_iff:
  "ValidateModelDeploymentSpec s = None \<longleftrightarrow> md_spec_ok s"
  by (auto simp: ValidateModelDeploymentSpec_def md_spec_ok_def canary_ok_def
      split: option.splits)

lemma ValidateFineTuneRunSpec_None_iff:
  "ValidateFineTuneRunSpec s = None \<longleftrightarrow> ftr_spec_ok s"
  by (auto simp: ValidateFineTuneRunSpec_def ftr_spec_ok_def)

lemma ValidateLLMPlatformSpec_None_iff:
  "ValidateLLMPlatformSpec s = None \<longleftrightarrow> lp_spec_ok s"
  by (auto simp: ValidateLLMPlatformSpec_def lp_spec_ok_def)

end
