(* ===== verification/BuilderFacts.thy ===== *)
theory BuilderFacts
  imports Builder Engine Validation "HOL-Library.Multiset"
begin

section \<open>Correctness of the builders\<close>

text \<open>
  Facts about the objects that \<open>Builder\<close> makes: their names and labels (the locale
  \<open>child_builder\<close>, interpreted on the three builders), when a builder panics, how ports, volumes,
  resources and engine arguments fit together.
\<close>

subsection \<open>Ports\<close>

lemma engines_Some_iff: "engines e \<noteq> None \<longleftrightarrow> e \<in> {''vllm'', ''tei'', ''llamacpp''}"
  by (auto simp: engines_def)

lemma engineConfigOf_known:
  "e \<in> {''vllm'', ''tei'', ''llamacpp''} \<Longrightarrow>
     ec_Port (engineConfigOf e) = EnginePort e \<and> ec_Image (engineConfigOf e) \<noteq> ''''"
  by (auto simp: engineConfigOf_def EnginePort_def engines_def)

lemma engineConfigOf_unknown:
  "engines e = None \<Longrightarrow> engineConfigOf e = \<lparr>ec_Image = '''', ec_Port = 0\<rparr>"
  by (simp add: engineConfigOf_def)

lemma getEnginePort_EnginePort: "getEnginePort e = EnginePort e"
  by (auto simp: getEnginePort_def EnginePort_def engines_def)

lemma EnginePort_range: "EnginePort e \<in> {8000, 8080}"
  by (auto simp: EnginePort_def engines_def)

subsection \<open>The contract of a child builder\<close>

locale child_builder =
  fixes build :: "ModelDeployment \<Rightarrow> string \<Rightarrow> 'o option"
    and objMeta :: "'o \<Rightarrow> ObjectMeta"
    and nameSuffix :: string
  assumes child_name: "build md e = Some x \<Longrightarrow> om_Name (objMeta x) = md_Name md @ nameSuffix"
    and child_namespace: "build md e = Some x \<Longrightarrow> om_Namespace (objMeta x) = md_Namespace md"
    and child_labels: "build md e = Some x \<Longrightarrow>
      om_Labels (objMeta x) ''kube-llmops/model'' = Some (md_Name md) \<and>
      om_Labels (objMeta x) ''kube-llmops/engine'' = Some e"
    and child_unowned: "build md e = Some x \<Longrightarrow>
      om_OwnerReferences (objMeta x) = [] \<and> om_Finalizers (objMeta x) = []"
begin

text \<open>Children of two deployments never share a key.\<close>

lemma child_key:
  "build md e = Some x \<Longrightarrow> metaKey (objMeta x) = (md_Namespace md, md_Name md @ nameSuffix)"
  by (simp add: child_name child_namespace)

lemma child_key_inj:
  assumes "build md e = Some x" and "build md' e' = Some x'"
    and "metaKey (objMeta x) = metaKey (objMeta x')"
  shows "metaKey (md_ObjectMeta md) = metaKey (md_ObjectMeta md')"
  using assms child_key by simp

text \<open>A child names the deployment it belongs to and the engine it was built for.\<close>

lemma child_engine_inj:
  "build md e = Some x \<Longrightarrow> build md' e' = Some x \<Longrightarrow> e = e'"
  using child_labels [of md e x] child_labels [of md' e' x] by simp

end

lemma BuildDeployment_SomeD:
  assumes "BuildDeployment qok md e p = Some d"
  obtains vs ms rs where "buildVolumes qok e (md_Name md) = Some (vs, ms)"
    and "buildContainerResources qok md (resolveGPUResource md) = Some rs"
    and "dep_ObjectMeta d = emptyMeta\<lparr>om_Name := md_Name md, om_Namespace := md_Namespace md,
           om_Labels := deploymentLabels (md_Name md) e\<rparr>"
    and "dsp_Replicas (dep_Spec d) = mds_Replicas (md_Spec md)"
    and "dsp_MatchLabels (dep_Spec d) = [''app.kubernetes.io/instance'' \<mapsto> md_Name md]"
    and "dsp_TemplateLabels (dep_Spec d) = deploymentLabels (md_Name md) e"
    and "ps_Volumes (dsp_PodSpec (dep_Spec d)) = vs"
    and "ps_Tolerations (dsp_PodSpec (dep_Spec d)) = buildTolerations (resolveGPUResource md)"
    and "ps_InitContainers (dsp_PodSpec (dep_Spec d)) =
           buildInitContainers md p (modelSlug (mds_Source (md_Spec md)))"
    and "ps_Containers (dsp_PodSpec (dep_Spec d)) =
      [\<lparr>co_Name = ''model-server'', co_Image = ec_Image (engineConfigOf e),
        co_Args = buildEngineArgs md e (modelSlug (mds_Source (md_Spec md)))
                    (ec_Port (engineConfigOf e)),
        co_Env = [],
        co_Ports = [\<lparr>cp_Name = ''http'', cp_ContainerPort = ec_Port (engineConfigOf e),
                      cp_Protocol = ''TCP''\<rparr>],
        co_Resources = rs, co_VolumeMounts = ms,
        co_ReadinessProbe = Some \<lparr>pr_Path = ''/health'', pr_Port = ec_Port (engineConfigOf e),
           pr_InitialDelaySeconds = 30, pr_PeriodSeconds = 10, pr_TimeoutSeconds = 5,
           pr_FailureThreshold = 3\<rparr>,
        co_LivenessProbe = Some \<lparr>pr_Path = ''/health'', pr_Port = ec_Port (engineConfigOf e),
           pr_InitialDelaySeconds = 30, pr_PeriodSeconds = 10, pr_TimeoutSeconds = 5,
           pr_FailureThreshold = 3\<rparr>\<rparr>]"
proof -
  obtain vm where vm: "buildVolumes qok e (md_Name md) = Some vm"
    using assms by (auto simp: BuildDeployment_def Let_def Option.bind_eq_Some_conv)
  obtain vs ms where v: "vm = (vs, ms)" by (cases vm)
  obtain rs where r: "buildContainerResources qok md (resolveGPUResource md) = Some rs"
    using assms by (auto simp: BuildDeployment_def Let_def Option.bind_eq_Some_conv)
  show thesis
    by (rule that [OF vm [unfolded v] r])
       (use assms vm r v in \<open>auto simp: BuildDeployment_def Let_def\<close>)
qed

interpretation pvc_builder: child_builder "BuildPVC qok" pvc_ObjectMeta "''-cache''" for qok
  by unfold_locales
     (auto simp: BuildPVC_def Let_def MustParse_def buildLabels_def emptyMeta_def split: if_splits)

interpretation dep_builder:
  child_builder "\<lambda>md e. BuildDeployment qok md e platform" dep_ObjectMeta "''''" for qok platform
  by unfold_locales
     (auto elim!: BuildDeployment_SomeD simp: deploymentLabels_def emptyMeta_def)

interpretation svc_builder: child_builder "\<lambda>md e. Some (BuildService md e)" svc_ObjectMeta "''''"
  by unfold_locales (auto simp: BuildService_def Let_def buildLabels_def emptyMeta_def)

subsection \<open>Engine arguments\<close>

lemma map_of_cong_set:
  "distinct (map fst m) \<Longrightarrow> distinct (map fst n) \<Longrightarrow> set m = set n \<Longrightarrow> map_of m = map_of n"
  by (simp add: map_of_inject_set)

text \<open>The part of the argument list that stands for the user's \<open>EngineArgs\<close>.\<close>

definition userArgs :: "(string \<times> string) list \<Rightarrow> (string \<times> string) list" where
  "userArgs m = map (\<lambda>k. (k, lookupArg m k)) (sortedKeys m)"

lemma userArgs_keys: "map fst (userArgs m) = sort (map fst m)"
  by (simp add: userArgs_def sortedKeys_def comp_def)

lemma map_of_userArgs: "map_of (userArgs m) = map_of m"
proof
  fix k
  have "map_of (userArgs m) k = (if k \<in> set (map fst m) then Some (lookupArg m k) else None)"
    by (simp add: userArgs_def sortedKeys_def map_of_map_restrict restrict_map_def)
  also have "\<dots> = map_of m k"
  proof (cases "map_of m k")
    case None
    then have "k \<notin> set (map fst m)" by (simp add: map_of_eq_None_iff)
    with None show ?thesis by simp
  next
    case (Some v)
    then show ?thesis by (force simp: lookupArg_def dest: map_of_SomeD)
  qed
  finally show "map_of (userArgs m) k = map_of m k" .
qed

lemma userArgs_perm:
  assumes "mset m = mset n" and "distinct (map fst m)"
  shows "userArgs m = userArgs n"
proof -
  have n: "distinct (map fst n)"
    using assms by (metis mset_eq_imp_distinct_iff mset_map)
  have "map_of m = map_of n"
    using assms n by (intro map_of_cong_set) (auto dest: mset_eq_setD)
  moreover have "sort (map fst m) = sort (map fst n)"
    using assms(1) by (metis mset_map sorted_list_of_multiset_mset)
  ultimately show ?thesis
    by (simp add: userArgs_def sortedKeys_def lookupArg_def)
qed

definition flatArgs :: "(string \<times> string) list \<Rightarrow> string list" where
  "flatArgs kvs = concat (map (\<lambda>(k, v). [k, v]) kvs)"

lemma buildEngineArgs_split:
  "buildEngineArgs md e slug port =
     buildEngineArgs (md\<lparr>md_Spec := (md_Spec md)\<lparr>mds_EngineArgs := []\<rparr>\<rparr>) e slug port
     @ flatArgs (userArgs (mds_EngineArgs (md_Spec md)))"
  by (auto simp: buildEngineArgs_def flatArgs_def userArgs_def Let_def comp_def sortedKeys_def)

subsection \<open>Resources\<close>

lemma addResource_Some:
  "addResource qok g n t r = Some r' \<longleftrightarrow>
     (g \<longrightarrow> qok t) \<and>
     r' = (if g then \<lparr>rr_Limits = (rr_Limits r)(n \<mapsto> Quantity t),
                      rr_Requests = (rr_Requests r)(n \<mapsto> Quantity t)\<rparr> else r)"
  by (auto simp: addResource_def MustParse_def)

lemma addResource_None: "addResource qok g n t r = None \<longleftrightarrow> g \<and> \<not> qok t"
  by (auto simp: addResource_def MustParse_def)

lemma buildContainerResources_None:
  "buildContainerResources qok md n = None \<longleftrightarrow>
     (let r = mds_Resources (md_Spec md) in
       (mr_Memory r \<noteq> '''' \<and> \<not> qok (mr_Memory r)) \<or> (mr_CPU r \<noteq> '''' \<and> \<not> qok (mr_CPU r)) \<or>
       (mr_GPU r > 0 \<and> \<not> qok (showInt (mr_GPU r))))"
proof -
  have "Option.bind x f = None \<longleftrightarrow> x = None \<or> (\<exists>y. x = Some y \<and> f y = None)"
    for x :: "ResourceRequirements option" and f :: "ResourceRequirements \<Rightarrow> ResourceRequirements option"
    by (cases x) auto
  then show ?thesis
    by (simp add: buildContainerResources_def Let_def addResource_None addResource_Some) blast
qed

lemma buildContainerResources_Some:
  assumes "buildContainerResources qok md n = Some rs"
  shows "rr_Limits rs = rr_Requests rs"
    and "rr_Limits rs k =
      (let r = mds_Resources (md_Spec md) in
        if k = n \<and> mr_GPU r > 0 then Some (Quantity (showInt (mr_GPU r)))
        else if k = ''cpu'' \<and> mr_CPU r \<noteq> '''' then Some (Quantity (mr_CPU r))
        else if k = ''memory'' \<and> mr_Memory r \<noteq> '''' then Some (Quantity (mr_Memory r))
        else None)"
  using assms
  by (auto simp: buildContainerResources_def Let_def addResource_Some Option.bind_eq_Some_conv)

subsection \<open>When a builder panics\<close>

lemma buildVolumes_None: "buildVolumes qok e n = None \<longleftrightarrow> e = ''vllm'' \<and> \<not> qok ''8Gi''"
  by (auto simp: buildVolumes_def Let_def MustParse_def)

lemma BuildDeployment_None:
  "BuildDeployment qok md e p = None \<longleftrightarrow>
     buildVolumes qok e (md_Name md) = None \<or>
     buildContainerResources qok md (resolveGPUResource md) = None"
  by (cases "buildVolumes qok e (md_Name md)";
      cases "buildContainerResources qok md (resolveGPUResource md)")
     (auto simp: BuildDeployment_def Let_def)

text \<open>
  The quantities that the builders write as constants, and the decimal numbers, are quantities
  of Kubernetes; this is what the builders rely on.
\<close>

definition quantity_laws :: "(string \<Rightarrow> bool) \<Rightarrow> bool" where
  "quantity_laws qok \<longleftrightarrow>
     qok ''8Gi'' \<and> qok ''10Gi'' \<and> qok ''30Gi'' \<and> qok ''50Gi'' \<and> (\<forall>n > 0. qok (showInt n))"

lemma BuildPVC_total: "quantity_laws qok \<Longrightarrow> BuildPVC qok md e \<noteq> None"
  by (auto simp: BuildPVC_def MustParse_def quantity_laws_def getEngineCacheSize_def Let_def)

lemma BuildDeployment_total_iff:
  "quantity_laws qok \<Longrightarrow> BuildDeployment qok md e p \<noteq> None \<longleftrightarrow>
     (mr_Memory (mds_Resources (md_Spec md)) \<noteq> '''' \<longrightarrow> qok (mr_Memory (mds_Resources (md_Spec md)))) \<and>
     (mr_CPU (mds_Resources (md_Spec md)) \<noteq> '''' \<longrightarrow> qok (mr_CPU (mds_Resources (md_Spec md))))"
  by (auto simp: BuildDeployment_None buildVolumes_None buildContainerResources_None Let_def
      quantity_laws_def)

subsection \<open>Volumes\<close>

lemma buildVolumes_mounts:
  assumes "buildVolumes qok e n = Some (vs, ms)"
  shows "map vm_Name ms = map vol_Name vs" and "distinct (map vol_Name vs)"
    and "\<exists>v \<in> set vs. vol_Name v = ''model-cache'' \<and>
           vol_Source v = PersistentVolumeClaim (n @ ''-cache'')"
    and "distinct (map vm_MountPath ms)"
  using assms by (auto simp: buildVolumes_def Let_def MustParse_def split: if_splits)

lemma buildInitContainers_mounts:
  "c \<in> set (buildInitContainers md p slug) \<Longrightarrow>
     co_VolumeMounts c = [\<lparr>vm_Name = ''model-cache'', vm_MountPath = ''/models''\<rparr>]"
  by (auto simp: buildInitContainers_def Let_def split: option.splits if_splits)

subsection \<open>Fields that no builder reads\<close>

lemma BuildDeployment_cong:
  assumes "md_ObjectMeta md = md_ObjectMeta md'"
    and "mds_Source (md_Spec md) = mds_Source (md_Spec md')"
    and "mds_Replicas (md_Spec md) = mds_Replicas (md_Spec md')"
    and "mds_Resources (md_Spec md) = mds_Resources (md_Spec md')"
    and "mds_Accelerator (md_Spec md) = mds_Accelerator (md_Spec md')"
    and "mds_MIGDevice (md_Spec md) = mds_MIGDevice (md_Spec md')"
    and "mds_EngineArgs (md_Spec md) = mds_EngineArgs (md_Spec md')"
    and "mds_PrefixCaching (md_Spec md) = mds_PrefixCaching (md_Spec md')"
    and "mds_ModelStore (md_Spec md) = mds_ModelStore (md_Spec md')"
  shows "BuildDeployment qok md e p = BuildDeployment qok md' e p"
proof -
  have "buildEngineArgs md = buildEngineArgs md'"
    by (intro ext) (simp only: buildEngineArgs_def assms)
  moreover have "resolveGPUResource md = resolveGPUResource md'"
    by (simp only: resolveGPUResource_def assms)
  moreover have "buildContainerResources qok md = buildContainerResources qok md'"
    by (intro ext) (simp only: buildContainerResources_def assms)
  moreover have "buildInitContainers md = buildInitContainers md'"
    by (intro ext) (simp only: buildInitContainers_def assms)
  ultimately show ?thesis
    by (simp only: BuildDeployment_def assms)
qed

text \<open>Of the platform, the Deployment shows in its pod spec what the specification says; nothing else counts.\<close>

lemma BuildDeployment_platform:
  "map_option lp_Spec p = map_option lp_Spec q \<Longrightarrow> BuildDeployment qok md e p = BuildDeployment qok md e q"
  "BuildDeployment qok md e p = Some a \<Longrightarrow> BuildDeployment qok md e q = Some b \<Longrightarrow>
     dep_ObjectMeta a = dep_ObjectMeta b \<and> dep_Status a = dep_Status b"
proof -
  assume "map_option lp_Spec p = map_option lp_Spec q"
  then have "buildInitContainers md p s = buildInitContainers md q s" for s
    by (cases p; cases q) (simp_all add: buildInitContainers_def)
  then show "BuildDeployment qok md e p = BuildDeployment qok md e q"
    by (simp only: BuildDeployment_def)
qed (auto simp: BuildDeployment_def Let_def Option.bind_eq_Some_conv)

end
