(* ===== verification/ModelDeploymentStore.thy ===== *)
theory ModelDeploymentStore
  imports ModelDeploymentCtl KubeStore BuilderFacts
begin

section \<open>What a reconcile of a ModelDeployment does to a quiescent cluster\<close>

text \<open>
  The abstract specification \<open>md_goal\<close> is a function on clusters: the cluster that a reconcile
  leaves behind. Inside the locale \<open>kube_store\<close> each block of \<open>Reconcile\<close> is shown to change the
  cluster as the specification says, and so the whole: it reaches the goal in one pass.
\<close>

subsection \<open>The goal\<close>

definition withFinalizer :: "ModelDeployment \<Rightarrow> ModelDeployment" where
  "withFinalizer md =
     (if modelDeploymentFinalizer \<in> set (om_Finalizers (md_ObjectMeta md)) then md
      else md\<lparr>md_ObjectMeta := (md_ObjectMeta md)\<lparr>om_Finalizers :=
             om_Finalizers (md_ObjectMeta md) @ [modelDeploymentFinalizer]\<rparr>\<rparr>)"

definition mdEngine :: "ModelDeployment \<Rightarrow> string" where
  "mdEngine md = ResolveEngine (mds_Source (md_Spec md)) (mds_Engine (md_Spec md))"

definition pvcKey :: "ModelDeployment \<Rightarrow> NamespacedName" where
  "pvcKey md = (md_Namespace md, md_Name md @ ''-cache'')"

text \<open>A stored child, or the built one, owned by the model, when there is none.\<close>

definition keepOr :: "'o option \<Rightarrow> 'o \<Rightarrow> 'o" where
  "keepOr old new = (case old of None \<Rightarrow> new | Some x \<Rightarrow> x)"

definition goalPVC :: "(string \<Rightarrow> bool) \<Rightarrow> ModelDeployment \<Rightarrow> cluster \<Rightarrow> PVC" where
  "goalPVC qok md c =
     (let b = the (BuildPVC qok md (mdEngine md))
      in keepOr (cl_PVCs c (pvcKey md))
           (b\<lparr>pvc_ObjectMeta := ownedMeta (md_ObjectMeta md) (pvc_ObjectMeta b)\<rparr>))"

definition goalDeployment ::
  "(string \<Rightarrow> bool) \<Rightarrow> LLMPlatform option \<Rightarrow> ModelDeployment \<Rightarrow> cluster \<Rightarrow> Deployment" where
  "goalDeployment qok pl md c =
     (let b = the (BuildDeployment qok md (mdEngine md) pl)
      in case cl_Deployments c (mdKey md) of
           None \<Rightarrow> b\<lparr>dep_ObjectMeta := ownedMeta (md_ObjectMeta md) (dep_ObjectMeta b)\<rparr>
         | Some old \<Rightarrow> old\<lparr>dep_Spec := dep_Spec b, dep_ObjectMeta := (dep_ObjectMeta old)
                          \<lparr>om_Labels := om_Labels (dep_ObjectMeta b)\<rparr>\<rparr>)"

definition goalService :: "ModelDeployment \<Rightarrow> cluster \<Rightarrow> Service" where
  "goalService md c =
     (let b = BuildService md (mdEngine md)
      in keepOr (cl_Services c (mdKey md))
           (b\<lparr>svc_ObjectMeta := ownedMeta (md_ObjectMeta md) (svc_ObjectMeta b)\<rparr>))"

text \<open>The goal depends on the platform the list has first, and on the time.\<close>

definition md_goal ::
  "(string \<Rightarrow> bool) \<Rightarrow> LLMPlatform option \<Rightarrow> int \<Rightarrow> ModelDeployment \<Rightarrow> cluster \<Rightarrow> cluster" where
  "md_goal qok pl now md0 c =
     (let md = withFinalizer md0; d = goalDeployment qok pl md c
      in c\<lparr>cl_MDs := (cl_MDs c)(mdKey md \<mapsto>
             md\<lparr>md_Status := mdComputeStatus md (mdEngine md) (dep_Status d) now\<rparr>),
           cl_PVCs := (cl_PVCs c)(pvcKey md \<mapsto> goalPVC qok md c),
           cl_Deployments := (cl_Deployments c)(mdKey md \<mapsto> d),
           cl_Services := (cl_Services c)(mdKey md \<mapsto> goalService md c)\<rparr>)"

text \<open>When the builders do not panic.\<close>

definition quantitiesParse :: "(string \<Rightarrow> bool) \<Rightarrow> ModelDeployment \<Rightarrow> bool" where
  "quantitiesParse qok md \<longleftrightarrow> quantity_laws qok \<and>
     (mr_Memory (mds_Resources (md_Spec md)) = '''' \<or> qok (mr_Memory (mds_Resources (md_Spec md)))) \<and>
     (mr_CPU (mds_Resources (md_Spec md)) = '''' \<or> qok (mr_CPU (mds_Resources (md_Spec md))))"

lemma quantitiesParse_builds:
  assumes "quantitiesParse qok md"
  obtains p d where "BuildPVC qok md e = Some p" "BuildDeployment qok md e pl = Some d"
  using assms BuildPVC_total [of qok md e] BuildDeployment_total_iff [of qok md e pl]
  by (auto simp: quantitiesParse_def)

lemma withFinalizer_simps [simp]:
  "md_Spec (withFinalizer md) = md_Spec md" "mdKey (withFinalizer md) = mdKey md"
  "md_Name (withFinalizer md) = md_Name md" "md_Namespace (withFinalizer md) = md_Namespace md"
  "md_Status (withFinalizer md) = md_Status md" "mdEngine (withFinalizer md) = mdEngine md"
  "pvcKey (withFinalizer md) = pvcKey md"
  "om_DeletionTimestamp (md_ObjectMeta (withFinalizer md)) = om_DeletionTimestamp (md_ObjectMeta md)"
  "quantitiesParse qok (withFinalizer md) = quantitiesParse qok md"
  "withFinalizer (withFinalizer md) = withFinalizer md"
  "modelDeploymentFinalizer \<in> set (om_Finalizers (md_ObjectMeta (withFinalizer md)))"
  "withFinalizer md\<lparr>md_Status := md_Status md\<rparr> = withFinalizer md"
  by (simp_all add: withFinalizer_def mdEngine_def pvcKey_def quantitiesParse_def)

lemma keepOr_simps [simp]: "keepOr None x = x" "keepOr (Some y) x = y"
  by (simp_all add: keepOr_def)

subsection \<open>The blocks\<close>

context kube_store
begin

abbreviation recon :: "('w, 'e) gatewayClient option \<Rightarrow> ('w, 'e) MDReconciler" where
  "recon gw \<equiv> \<lparr>mdr_Client = K, mdr_Lib = lib, mdr_GatewayClient = gw\<rparr>"

lemma own: "om_OwnerReferences m = [] \<Longrightarrow> SetControllerReference lib ow m = Inr (ownedMeta ow m)"
  using owners by (simp add: ownerLaws_def)

lemma wp_EnsureFinalizer:
  assumes "cl_MDs (view w) (mdKey md) = Some md" and "om_DeletionTimestamp (md_ObjectMeta md) = None"
    and "\<And>w'. view w' = cl_MDs_update (\<lambda>m. m(mdKey md \<mapsto> withFinalizer md)) (view w) \<Longrightarrow>
      Q (Inr (withFinalizer md)) w'"
  shows "wp (mdEnsureFinalizer (recon gw) md) Q w"
proof (cases "modelDeploymentFinalizer \<in> set (om_Finalizers (md_ObjectMeta md))")
  case True
  then have "withFinalizer md = md" by (simp add: withFinalizer_def)
  moreover have "view w = cl_MDs_update (\<lambda>m. m(mdKey md \<mapsto> md)) (view w)"
    using assms(1) by (simp add: fun_upd_idem)
  ultimately show ?thesis
    using True finalizers assms(3) by (simp add: mdEnsureFinalizer_def finalizerLaws_def wp_rules)
next
  case False
  let ?x = "md\<lparr>md_ObjectMeta := AddFinalizer lib (md_ObjectMeta md) modelDeploymentFinalizer\<rparr>"
  have x: "?x = withFinalizer md"
    using False finalizers by (simp add: withFinalizer_def finalizerLaws_def)
  have "wp (UpdateMD K (withFinalizer md)) (\<lambda>r w'. r = Inr (withFinalizer md) \<and>
      view w' = cl_MDs_update (\<lambda>m. m(mdKey md \<mapsto> withFinalizer md)) (view w)) w"
    using update_md [of "withFinalizer md" w md] assms(1,2) by simp
  then have "wp (UpdateMD K (withFinalizer md))
      (\<lambda>r w'. case r of Inl e \<Rightarrow> Q (Inl (Done 0 (Some e))) w' | Inr x \<Rightarrow> Q (Inr x) w') w"
    by (rule wp_mono) (auto intro: assms(3))
  moreover have "\<not> ContainsFinalizer lib (md_ObjectMeta md) modelDeploymentFinalizer"
    using False finalizers by (simp add: finalizerLaws_def)
  ultimately show ?thesis by (simp add: mdEnsureFinalizer_def wp_rules x)
qed

lemma wp_FindPlatform:
  assumes "cluster_ok (view w)"
    and "\<And>pl w'. candidate (md_Namespace md) (view w) pl \<Longrightarrow> view w' = view w \<Longrightarrow> Q (Inr pl) w'"
  shows "wp (mdFindPlatform (recon gw) md) Q w"
  unfolding mdFindPlatform_def wp_andThen wp_lifted wp_proceed MDReconciler.select_convs
proof (rule wp_mono [OF list_lp], goal_cases)
  case (2 r w')
  then obtain ps where ps: "r = Inr ps" "set ps = {p. \<exists>n. cl_LPs (view w) (md_Namespace md, n) = Some p}"
    "view w' = view w" by blast
  then show ?case
    using candidate_first(1) [OF ps(2)] candidate_first(2) [of "view w" "md_Namespace md"]
    by (cases "ps = []") (auto intro: assms(2))
qed (use assms(1) in \<open>simp add: cluster_ok_def\<close>)

lemma wp_EnsurePVC:
  assumes "quantitiesParse (quantityOk lib) md"
    and "\<And>w'. view w' = cl_PVCs_update (\<lambda>m. m(pvcKey md \<mapsto> goalPVC (quantityOk lib) md (view w))) (view w) \<Longrightarrow>
      Q (Inr ()) w'"
  shows "wp (mdEnsurePVC (recon gw) md (mdEngine md)) Q w"
proof -
  obtain b d where b: "BuildPVC (quantityOk lib) md (mdEngine md) = Some b"
    using assms(1) by (rule quantitiesParse_builds)
  have k: "om_Namespace (pvc_ObjectMeta b) = md_Namespace md"
    "om_Name (pvc_ObjectMeta b) = md_Name md @ ''-cache''" "om_OwnerReferences (pvc_ObjectMeta b) = []"
    using pvc_builder.child_key [OF b] pvc_builder.child_unowned [OF b] by simp_all
  show ?thesis
    by (simp add: mdEnsurePVC_def wp_rules b k, rule wp_getLaw [OF get_pvc],
        simp add: own k wp_rules, rule wp_createLaw [OF create_pvc])
       (auto simp: wp_rules goalPVC_def pvcKey_def ownedMeta_def b k fun_upd_idem intro!: assms(2))
qed

lemma wp_EnsureDeployment:
  assumes "quantitiesParse (quantityOk lib) md" and "cluster_ok (view w)"
    and "\<And>w'. view w' = cl_Deployments_update (\<lambda>m. m(mdKey md \<mapsto> goalDeployment (quantityOk lib) pl md (view w)))
        (view w) \<Longrightarrow> Q (Inr ()) w'"
  shows "wp (mdEnsureDeployment (recon gw) md (mdEngine md) pl) Q w"
proof -
  obtain p b where b: "BuildDeployment (quantityOk lib) md (mdEngine md) pl = Some b"
    using assms(1) by (rule quantitiesParse_builds)
  have k: "om_Namespace (dep_ObjectMeta b) = md_Namespace md" "om_Name (dep_ObjectMeta b) = md_Name md"
    "om_OwnerReferences (dep_ObjectMeta b) = []" "dep_Status b = \<lparr>dst_ReadyReplicas = 0, dst_Replicas = 0\<rparr>"
    using dep_builder.child_key [OF b] dep_builder.child_unowned [OF b] b
    by (auto simp: BuildDeployment_def Let_def Option.bind_eq_Some_conv)
  show ?thesis
  proof (simp add: mdEnsureDeployment_def wp_rules b k, rule wp_getLaw [OF get_dep], goal_cases)
    case (1 e w')
    then show ?case
      by (simp add: own k wp_rules, intro wp_createLaw [OF create_dep])
         (auto simp: goalDeployment_def ownedMeta_def b k intro!: assms(3))
  next
    case (2 x w')
    moreover have "metaKey (dep_ObjectMeta x) = mdKey md"
      using assms(2) 2(1) by (auto simp: cluster_ok_def)
    ultimately show ?case
      by (simp add: wp_rules, intro wp_modifyLaw [OF update_dep])
         (auto simp: goalDeployment_def b k intro!: assms(3))
  qed
qed

lemma wp_EnsureService:
  assumes "\<And>w'. view w' = cl_Services_update (\<lambda>m. m(mdKey md \<mapsto> goalService md (view w))) (view w) \<Longrightarrow>
      Q (Inr ()) w'"
  shows "wp (mdEnsureService (recon gw) md (mdEngine md)) Q w"
proof -
  let ?b = "BuildService md (mdEngine md)"
  have k: "om_Namespace (svc_ObjectMeta ?b) = md_Namespace md" "om_Name (svc_ObjectMeta ?b) = md_Name md"
    "om_OwnerReferences (svc_ObjectMeta ?b) = []"
    using svc_builder.child_key [of md "mdEngine md"] svc_builder.child_unowned [of md "mdEngine md"]
    by simp_all
  show ?thesis
    by (simp add: mdEnsureService_def wp_rules k Let_def, rule wp_getLaw [OF get_svc],
        simp add: own k wp_rules, rule wp_createLaw [OF create_svc])
       (auto simp: wp_rules goalService_def ownedMeta_def Let_def k fun_upd_idem intro!: assms)
qed

lemma wp_ReadReplicas:
  assumes "cl_Deployments (view w) (mdKey md) = Some d"
    and "\<And>w'. view w' = view w \<Longrightarrow> Q (Inr (dep_Status d)) w'"
  shows "wp (mdReadReplicas (recon gw) md) Q w"
  using assms
  by (simp add: mdReadReplicas_def wp_rules, intro wp_getLaw [OF get_dep]) (auto simp: wp_rules)

lemma wp_PublishStatus:
  assumes "cl_MDs (view w) (mdKey md) = Some md"
    and "\<And>w'. view w' = cl_MDs_update (\<lambda>m. m(mdKey md \<mapsto> md\<lparr>md_Status := st\<rparr>)) (view w) \<Longrightarrow>
      Q (Inr (md\<lparr>md_Status := st\<rparr>)) w'"
  shows "wp (mdPublishStatus (recon gw) (mdKey md) st) Q w"
proof (simp add: mdPublishStatus_def wp_rules, rule wp_getLaw [OF get_md], goal_cases)
  case (2 x w')
  with assms(1) show ?case
    by (simp add: wp_rules, intro wp_modifyLaw [OF status_md]) (auto intro: assms(2))
qed (simp add: assms)

lemma wp_Register:
  assumes "\<And>g. gw = Some g \<Longrightarrow> gateway_client g view" and "\<And>w'. view w' = view w \<Longrightarrow> Q (Inr ()) w'"
  shows "wp (mdRegister (recon gw) md) Q w"
proof (cases gw)
  case (Some g)
  show ?thesis
    by (simp add: mdRegister_def Some wp_rules assms(2),
        intro impI gateway_client.wp_register [OF assms(1) [OF Some]] assms(2))
qed (simp add: mdRegister_def wp_rules assms(2))

lemma wp_Now: "(\<And>n w'. view w' = view w \<Longrightarrow> Q (Inr n) w') \<Longrightarrow> wp (lifted (TimeNow K)) Q w"
  by (simp add: wp_rules, rule wp_mono [OF now]) simp

lemma wp_Children:
  assumes "\<And>g. gw = Some g \<Longrightarrow> gateway_client g view" and "cluster_ok (view w)"
    and "cl_MDs (view w) (mdKey md) = Some md" and "withFinalizer md = md"
    and "quantitiesParse (quantityOk lib) md"
  shows "wp (mdChildren (recon gw) (mdKey md) md) (\<lambda>r w'. r = Inr (Done 0 None) \<and>
    (\<exists>n pl. candidate (md_Namespace md) (view w) pl \<and>
       view w' = md_goal (quantityOk lib) pl n md (view w))) w"
  unfolding mdChildren_def Let_def mdEngine_def [symmetric] wp_andThen wp_proceed
    MDReconciler.select_convs
proof (rule wp_FindPlatform [OF assms(2)], unfold sum.case, rule wp_EnsurePVC [OF assms(5)], unfold sum.case,
    rule wp_EnsureDeployment [OF assms(5)], goal_cases)
  case (2 pl w1 w2 w3)
  let ?c = "view w" and ?d = "goalDeployment (quantityOk lib) pl md (view w)"
  note cand = 2(1)
  have p: "goalDeployment (quantityOk lib) pl md (view w2) = ?d"
    by (simp add: 2 goalDeployment_def)
  have v: "view w3 = ?c\<lparr>cl_PVCs := (cl_PVCs ?c)(pvcKey md \<mapsto> goalPVC (quantityOk lib) md ?c),
      cl_Deployments := (cl_Deployments ?c)(mdKey md \<mapsto> ?d)\<rparr>"
    using 2(4) unfolding p by (simp add: 2)
  show ?case
  proof (unfold sum.case, rule wp_EnsureService, unfold sum.case,
      rule wp_ReadReplicas [where d = ?d], goal_cases)
    case (2 w4 w5)
    then have w5: "view w5 = (view w3)\<lparr>cl_Services := (cl_Services ?c)(mdKey md \<mapsto> goalService md ?c)\<rparr>"
      by (simp add: v goalService_def)
    show ?case
    proof (unfold sum.case, rule wp_Now, unfold sum.case, rule wp_PublishStatus, goal_cases)
      case (2 n w6 w7)
      then have w7: "view w7 = md_goal (quantityOk lib) pl n md ?c"
        by (simp add: w5 v md_goal_def assms(4) Let_def)
      show ?case
        by (unfold sum.case, rule wp_Register [OF assms(1)], assumption) (use cand in \<open>auto simp: w7\<close>)
    qed (simp add: w5 v assms(3))
  qed (simp add: v)
qed (use assms(2) in \<open>auto simp: cluster_ok_def\<close>)

text \<open>The whole reconcile reaches the goal.\<close>

lemma wp_Reconcile:
  assumes "\<And>g. gw = Some g \<Longrightarrow> gateway_client g view" and "cluster_ok (view w)"
    and "cl_MDs (view w) (mdKey md) = Some md" and "om_DeletionTimestamp (md_ObjectMeta md) = None"
    and "quantitiesParse (quantityOk lib) md"
  shows "wp (mdReconcile (recon gw) (mdKey md)) (\<lambda>out w'. out = Done 0 None \<and>
    (\<exists>n pl. candidate (md_Namespace md) (view w) pl \<and>
       view w' = md_goal (quantityOk lib) pl n md (view w))) w"
proof (simp add: mdReconcile_def wp_rules, rule wp_getLaw [OF get_md], goal_cases)
  case (2 x w1)
  then have x: "x = md" using assms(3) by simp
  show ?case
  proof (simp add: x wp_rules mdHandleDeletion_def assms(4), rule wp_EnsureFinalizer, goal_cases)
    case (3 w2)
    have g: "md_goal (quantityOk lib) pl n (withFinalizer md) (view w2) = md_goal (quantityOk lib) pl n md (view w)"
        "candidate (md_Namespace md) (view w2) pl = candidate (md_Namespace md) (view w) pl" for pl n
      by (simp_all add: 3 2 md_goal_def goalDeployment_def goalPVC_def goalService_def Let_def
          candidate_cong [of "cl_MDs_update _ (view w)" "view w"])
    have "wp (mdChildren (recon gw) (mdKey (withFinalizer md)) (withFinalizer md)) (\<lambda>r w'. r = Inr (Done 0 None) \<and>
        (\<exists>n pl. candidate (md_Namespace (withFinalizer md)) (view w2) pl \<and>
           view w' = md_goal (quantityOk lib) pl n (withFinalizer md) (view w2))) w2"
      by (rule wp_Children [OF assms(1)], assumption)
         (use assms(2,5) in \<open>auto simp: 3 2 cluster_ok_def\<close>)
    then show ?case
      unfolding sum.case withFinalizer_simps by (rule wp_mono) (auto simp: g)
  qed (use 2 assms(3,4) in auto)
qed (simp add: assms)

text \<open>A deleted object whose only finalizer is the operator's.\<close>

lemma wp_Reconcile_deleted:
  assumes "\<And>g. gw = Some g \<Longrightarrow> gateway_client g view"
    and "cl_MDs (view w) (mdKey md) = Some md" and "om_DeletionTimestamp (md_ObjectMeta md) \<noteq> None"
    and "om_Finalizers (md_ObjectMeta md) = [modelDeploymentFinalizer]"
  shows "wp (mdReconcile (recon gw) (mdKey md)) (\<lambda>out w'. out = Done 0 None \<and>
    view w' = cl_MDs_update (\<lambda>m. m(mdKey md := None)) (view w)) w"
proof (simp add: mdReconcile_def wp_rules, rule wp_getLaw [OF get_md], goal_cases)
  case (2 x w1)
  let ?x = "md\<lparr>md_ObjectMeta := (md_ObjectMeta md)\<lparr>om_Finalizers := []\<rparr>\<rparr>"
  have up: "wp (UpdateMD K ?x) (\<lambda>r w'. case r of Inl e \<Rightarrow> False | Inr y \<Rightarrow>
      view w' = cl_MDs_update (\<lambda>m. m(mdKey md := None)) (view w)) w2" if "view w2 = view w" for w2
    by (rule wp_mono [OF release_md [of ?x w2 md]]) (use assms(2,3) that in auto)
  have c: "ContainsFinalizer lib (md_ObjectMeta md) modelDeploymentFinalizer"
    "RemoveFinalizer lib (md_ObjectMeta md) modelDeploymentFinalizer = (md_ObjectMeta md)\<lparr>om_Finalizers := []\<rparr>"
    using finalizers assms(4) by (simp_all add: finalizerLaws_def)
  have x: "x = md" using 2 assms(2) by simp
  show ?case
  proof (cases gw)
    case None
    show ?thesis
      using assms(3) by (simp add: x c None wp_rules mdHandleDeletion_def Let_def)
        (rule wp_mono [OF up], auto simp: 2 wp_returnWith split: sum.splits)
  next
    case (Some g)
    show ?thesis
      using assms(3) by (simp add: x c Some wp_rules mdHandleDeletion_def Let_def)
        (rule gateway_client.wp_deregister [OF assms(1) [OF Some]], rule wp_mono [OF up],
         auto simp: 2 wp_returnWith split: sum.splits)
  qed
qed (simp add: assms)

end

subsection \<open>The goal is stable\<close>

lemma setCondition_twice:
  "c_Type a = c_Type b \<Longrightarrow> setCondition (setCondition cs a) b = setCondition cs b"
  by (induction cs) auto

lemma mdReadyCond_simps [simp]:
  "c_Type (mdReadyCond md ph r d n) = ''Ready''"
  "mdReadyCond (md\<lparr>md_Status := st\<rparr>) ph r d n = mdReadyCond md ph r d n"
  by (simp_all add: mdReadyCond_def Let_def)

lemma mdComputeStatus_twice:
  "mdComputeStatus (md\<lparr>md_Status := mdComputeStatus md e d n\<rparr>) e d' n' = mdComputeStatus md e d' n'"
  by (simp add: mdComputeStatus_def Let_def mdEndpoint_def desiredReplicas_def setCondition_twice)

lemma goal_status_free:
  "mdEngine (md\<lparr>md_Status := st\<rparr>) = mdEngine md" "pvcKey (md\<lparr>md_Status := st\<rparr>) = pvcKey md"
  "withFinalizer (md\<lparr>md_Status := st\<rparr>) = (withFinalizer md)\<lparr>md_Status := st\<rparr>"
  "BuildPVC qok (md\<lparr>md_Status := st\<rparr>) e = BuildPVC qok md e"
  "BuildService (md\<lparr>md_Status := st\<rparr>) e = BuildService md e"
  "BuildDeployment qok (md\<lparr>md_Status := st\<rparr>) e p = BuildDeployment qok md e p"
  by (simp_all add: mdEngine_def pvcKey_def withFinalizer_def BuildPVC_def BuildService_def)
     (rule BuildDeployment_cong, simp_all)

lemma ownedMeta_labels [simp]: "(ownedMeta ow m)\<lparr>om_Labels := om_Labels m\<rparr> = ownedMeta ow m"
  by (simp add: ownedMeta_def)

lemma candidate_goal [simp]: "candidate ns (md_goal qok pl n md c) = candidate ns c"
  by (rule candidate_cong) (simp add: md_goal_def Let_def)

lemma goalDeployment_twice:
  assumes "quantitiesParse qok md" and "cl_Deployments c' (mdKey md) = Some (goalDeployment qok pl md c)"
  shows "goalDeployment qok pl' (md\<lparr>md_Status := st\<rparr>) c' = goalDeployment qok pl' md c"
proof -
  obtain p a b where ab: "BuildDeployment qok md (mdEngine md) pl = Some a" "BuildDeployment qok md (mdEngine md) pl' = Some b"
    using assms(1) by (metis quantitiesParse_builds)
  show ?thesis
    using assms(2) BuildDeployment_platform(2) [OF ab]
    by (auto simp: goalDeployment_def Let_def goal_status_free ab ownedMeta_def split: option.splits)
qed

lemma md_goal_absorbs:
  assumes "quantitiesParse qok md"
  shows "md_goal qok pl' n' ((withFinalizer md)\<lparr>md_Status :=
       mdComputeStatus (withFinalizer md) (mdEngine md) (dep_Status (goalDeployment qok pl (withFinalizer md) c)) n\<rparr>)
     (md_goal qok pl n md c) = md_goal qok pl' n' md c"
proof -
  let ?md = "withFinalizer md" and ?c = "md_goal qok pl n md c"
  let ?d = "goalDeployment qok pl' ?md c"
  have d: "goalDeployment qok pl' (?md\<lparr>md_Status := st\<rparr>) ?c = ?d" for st
    by (rule goalDeployment_twice [of _ _ _ pl]) (use assms in \<open>simp_all add: md_goal_def Let_def\<close>)
  have p: "goalPVC qok (?md\<lparr>md_Status := st\<rparr>) ?c = goalPVC qok ?md c" for st
    by (simp add: goalPVC_def md_goal_def Let_def goal_status_free)
  have s: "goalService (?md\<lparr>md_Status := st\<rparr>) ?c = goalService ?md c" for st
    by (simp add: goalService_def md_goal_def Let_def goal_status_free)
  show ?thesis
    unfolding md_goal_def [of qok pl' n'] Let_def goal_status_free withFinalizer_simps d p s
    by (simp add: mdComputeStatus_twice) (simp add: md_goal_def Let_def)
qed

lemma md_goal_ok:
  assumes "cluster_ok c" and "quantitiesParse qok md"
  shows "cluster_ok (md_goal qok pl n md c)"
proof -
  obtain p d where d: "BuildDeployment qok (withFinalizer md) (mdEngine md) pl = Some d"
    using assms(2) by (metis quantitiesParse_builds withFinalizer_simps(9))
  have "metaKey (dep_ObjectMeta d) = mdKey md"
    using dep_builder.child_key [OF d] by simp
  then have "metaKey (dep_ObjectMeta (goalDeployment qok pl (withFinalizer md) c)) = mdKey md"
    using assms(1) by (auto simp: goalDeployment_def d ownedMeta_def cluster_ok_def split: option.splits)
  then show ?thesis
    using assms(1) by (auto simp: cluster_ok_def md_goal_def Let_def)
qed

end
