(* ===== verification/Examples.thy ===== *)
theory Examples
  imports ApiTypes
begin

section \<open>Concrete resources for the witnesses\<close>

text \<open>One resource of each kind, as the repository's own tests write them.\<close>

definition exampleMD :: ModelDeployment where
  "exampleMD = \<lparr>
     md_TypeMeta = zeroTypeMeta,
     md_ObjectMeta = emptyMeta\<lparr>om_Name := ''qwen-7b'', om_Namespace := ''default''\<rparr>,
     md_Spec = zeroMDSpec\<lparr>mds_Source := ''Qwen/Qwen2.5-7B-Instruct'', mds_Replicas := Some 1,
       mds_Resources := \<lparr>mr_GPU = 1, mr_Memory = ''16Gi'', mr_CPU = ''4''\<rparr>,
       mds_Accelerator := ''nvidia''\<rparr>,
     md_Status = zeroMDStatus\<rparr>"

definition exampleFTR :: FineTuneRun where
  "exampleFTR = \<lparr>
     ftr_TypeMeta = zeroTypeMeta,
     ftr_ObjectMeta = emptyMeta\<lparr>om_Name := ''gemma-lora-v1'', om_Namespace := ''default''\<rparr>,
     ftr_Spec = zeroFTRSpec\<lparr>fts_BaseModel := ''google/gemma'', fts_OutputName := ''gemma-4-lora-v1'',
       fts_Method := ''lora'',
       fts_DataSource := \<lparr>ds_Type = ''minio'', ds_Path = ''s3://datasets/my-data/'', ds_Format = ''''\<rparr>\<rparr>,
     ftr_Status = zeroFTRStatus\<rparr>"

definition examplePlatform :: LLMPlatform where
  "examplePlatform = \<lparr>
     lp_TypeMeta = zeroTypeMeta,
     lp_ObjectMeta = emptyMeta\<lparr>om_Name := ''kube-llmops'', om_Namespace := ''default'',
       om_Generation := 1\<rparr>,
     lp_Spec = zeroLPSpec\<lparr>lps_ModelStore := \<lparr>ms_Enabled = True,
       ms_Endpoint = ''kube-llmops-minio:9000'', ms_Bucket = ''models'',
       ms_AccessKey = ''minioadmin'', ms_SecretKey = ''minioadmin'',
       ms_HFTransferConcurrency = 0, ms_Image = ''kube-llmops/model-loader:latest''\<rparr>\<rparr>,
     lp_Status = zeroLPStatus\<rparr>"

end
