(* ===== verification/ModelDeploymentProps.thy ===== *)
theory ModelDeploymentProps
  imports ModelDeploymentCtl BuilderFacts Examples KubeStore
begin

section \<open>Properties of the ModelDeployment controller, for every API server\<close>

text \<open>
  The claims of this theory hold for every client, that is for every behaviour of the API server
  and of the gateway: they speak of the calls that one \<open>Reconcile\<close> makes, with their arguments
  and results, and of its outcome.
\<close>

subsection \<open>The recorded reconciler\<close>

definition tracedMD ::
  "('w, 'e) kube \<Rightarrow> 'e klib \<Rightarrow> ('w, 'e) gatewayClient option \<Rightarrow>
     ('w \<times> 'e event list, 'e) MDReconciler" where
  "tracedMD K lib gw = \<lparr>mdr_Client = traced K, mdr_Lib = lib,
     mdr_GatewayClient = map_option tracedGateway gw\<rparr>"

lemma tracedMD_simps [simp]:
  "mdr_Client (tracedMD K lib gw) = traced K"
  "mdr_Lib (tracedMD K lib gw) = lib"
  "mdr_GatewayClient (tracedMD K lib gw) = map_option tracedGateway gw"
  by (simp_all add: tracedMD_def)

definition engineOf :: "ModelDeployment \<Rightarrow> string" where
  "engineOf md = ResolveEngine (mds_Source (md_Spec md)) (mds_Engine (md_Spec md))"

subsection \<open>What the blocks may do\<close>

text \<open>
  The child \<open>x\<close> that is created for \<open>md\<close>: the object \<open>b\<close> of the builder with the metadata that
  \<open>SetControllerReference\<close> made of the builder's.
\<close>

definition adopted ::
  "'e klib \<Rightarrow> ModelDeployment \<Rightarrow> ('x \<Rightarrow> ObjectMeta) \<Rightarrow> 'x \<Rightarrow> 'x \<Rightarrow> bool" where
  "adopted lib md mt b x \<longleftrightarrow>
     SetControllerReference lib (md_ObjectMeta md) (mt b) = Inr (mt x)"

text \<open>The calls that synchronising \<open>md\<close> may make before the status update.\<close>

fun childEvent :: "'e klib \<Rightarrow> ModelDeployment \<Rightarrow> 'e event \<Rightarrow> bool" where
  "childEvent lib md (EvListLP n r) \<longleftrightarrow> n = md_Namespace md"
| "childEvent lib md (EvGetPVC k r) \<longleftrightarrow> k = (md_Namespace md, md_Name md @ ''-cache'')"
| "childEvent lib md (EvCreatePVC x r) \<longleftrightarrow>
     (\<exists>b. BuildPVC (quantityOk lib) md (engineOf md) = Some b \<and> adopted lib md pvc_ObjectMeta b x \<and>
        x = b\<lparr>pvc_ObjectMeta := pvc_ObjectMeta x\<rparr>)"
| "childEvent lib md (EvGetDeployment k r) \<longleftrightarrow> k = (md_Namespace md, md_Name md)"
| "childEvent lib md (EvCreateDeployment x r) \<longleftrightarrow>
     (\<exists>b p. BuildDeployment (quantityOk lib) md (engineOf md) p = Some b \<and>
        adopted lib md dep_ObjectMeta b x \<and> x = b\<lparr>dep_ObjectMeta := dep_ObjectMeta x\<rparr>)"
| "childEvent lib md (EvUpdateDeployment x r) \<longleftrightarrow>
     (\<exists>b p. BuildDeployment (quantityOk lib) md (engineOf md) p = Some b \<and>
        dep_Spec x = dep_Spec b \<and> om_Labels (dep_ObjectMeta x) = om_Labels (dep_ObjectMeta b))"
| "childEvent lib md (EvGetService k r) \<longleftrightarrow> k = (md_Namespace md, md_Name md)"
| "childEvent lib md (EvCreateService x r) \<longleftrightarrow>
     adopted lib md svc_ObjectMeta (BuildService md (engineOf md)) x \<and>
     x = (BuildService md (engineOf md))\<lparr>svc_ObjectMeta := svc_ObjectMeta x\<rparr>"
| "childEvent lib md (EvNow n) \<longleftrightarrow> True"
| "childEvent lib md _ \<longleftrightarrow> False"

text \<open>
  Where an early return comes from: the error of the last call, or of \<open>SetControllerReference\<close>;
  a panic comes from a builder.
\<close>

definition cause :: "'e klib \<Rightarrow> ModelDeployment \<Rightarrow> 'e outcome \<Rightarrow> 'e event list \<Rightarrow> bool" where
  "cause lib md out es \<longleftrightarrow>
     (case out of
        Panic \<Rightarrow> BuildPVC (quantityOk lib) md (engineOf md) = None \<or>
          (\<exists>p. BuildDeployment (quantityOk lib) md (engineOf md) p = None)
      | Done n None \<Rightarrow> False
      | Done n (Some e) \<Rightarrow> n = 0 \<and>
          ((\<exists>fs ev. es = fs @ [ev] \<and> event_error ev = Some e) \<or>
           (\<exists>m m'. SetControllerReference lib m m' = Inl e)))"

definition childBlock ::
  "'e klib \<Rightarrow> ModelDeployment \<Rightarrow> 'e outcome + 'a \<Rightarrow> 'e event list \<Rightarrow> bool" where
  "childBlock lib md r es \<longleftrightarrow>
     list_all (childEvent lib md) es \<and> (case r of Inl out \<Rightarrow> cause lib md out es | Inr x \<Rightarrow> True)"

lemma cause_append: "cause lib md out es \<Longrightarrow> cause lib md out (fs @ es)"
  by (auto simp: cause_def split: outcome.splits option.splits)

lemma childBlock_andThen:
  assumes "produces m (childBlock lib md)" and "\<And>x. produces (k x) (childBlock lib md)"
  shows "produces (andThen m k) (childBlock lib md)"
  by (rule produces_andThen [OF assms])
     (auto simp: childBlock_def split: sum.splits intro: cause_append)

lemma BuildPVC_key:
  "BuildPVC qok md e = Some b \<Longrightarrow> metaKey (pvc_ObjectMeta b) = (md_Namespace md, md_Name md @ ''-cache'')"
  by (rule pvc_builder.child_key)

lemma BuildDeployment_key:
  "BuildDeployment qok md e p = Some b \<Longrightarrow> metaKey (dep_ObjectMeta b) = (md_Namespace md, md_Name md)"
  using dep_builder.child_key by fastforce

lemma BuildService_key: "metaKey (svc_ObjectMeta (BuildService md e)) = (md_Namespace md, md_Name md)"
  using svc_builder.child_key [of md e] by simp

lemma mdEnsurePVC_block: "produces (mdEnsurePVC (tracedMD K lib gw) md (engineOf md)) (childBlock lib md)"
  unfolding mdEnsurePVC_def
  by (rule producesI)
     (auto simp: wp_rules childBlock_def cause_def adopted_def BuildPVC_key
       split: option.splits sum.splits intro!: traced_wp)

lemma mdEnsureDeployment_block:
  "produces (mdEnsureDeployment (tracedMD K lib gw) md (engineOf md) p) (childBlock lib md)"
  unfolding mdEnsureDeployment_def
  by (rule producesI)
     (auto simp: wp_rules childBlock_def cause_def adopted_def BuildDeployment_key
       split: option.splits sum.splits intro!: traced_wp, blast+)

lemma mdEnsureService_block:
  "produces (mdEnsureService (tracedMD K lib gw) md (engineOf md)) (childBlock lib md)"
  unfolding mdEnsureService_def Let_def
  by (rule producesI)
     (auto simp: wp_rules childBlock_def cause_def adopted_def BuildService_key [simplified]
       split: option.splits sum.splits intro!: traced_wp)

lemma mdFindPlatform_block: "produces (mdFindPlatform (tracedMD K lib gw) md) (childBlock lib md)"
  unfolding mdFindPlatform_def
  by (rule producesI) (auto simp: wp_rules childBlock_def intro!: traced_wp)

lemma mdReadReplicas_block: "produces (mdReadReplicas (tracedMD K lib gw) md) (childBlock lib md)"
  unfolding mdReadReplicas_def
  by (rule producesI)
     (auto simp: wp_rules childBlock_def cause_def split: sum.splits intro!: traced_wp)

lemma TimeNow_block: "produces (lifted (TimeNow (traced K))) (childBlock lib md)"
  by (rule producesI) (auto simp: wp_rules childBlock_def intro!: traced_wp)

subsection \<open>The protocol of a reconcile\<close>

text \<open>
  The abstract specification: the sequences of calls that one \<open>Reconcile\<close> of the object \<open>req\<close> may
  make, and the outcome of each. \<open>gwOn\<close> says whether a gateway client is configured.
\<close>

definition finalizerEvents :: "'e klib \<Rightarrow> ModelDeployment \<Rightarrow> ModelDeployment \<Rightarrow> 'e event list \<Rightarrow> bool" where
  "finalizerEvents lib md0 md es \<longleftrightarrow>
     (if ContainsFinalizer lib (md_ObjectMeta md0) modelDeploymentFinalizer then md = md0 \<and> es = []
      else es = [EvUpdateMD (md0\<lparr>md_ObjectMeta :=
             AddFinalizer lib (md_ObjectMeta md0) modelDeploymentFinalizer\<rparr>) (Inr md)])"

definition registerEvents :: "bool \<Rightarrow> ModelDeployment \<Rightarrow> 'e event list \<Rightarrow> bool" where
  "registerEvents gwOn md es \<longleftrightarrow>
     (if gwOn \<and> mdst_Phase (md_Status md) = ''Ready'' then (\<exists>r. es = [EvRegister (mdGatewayModel md) r])
      else es = [])"

definition deregisterEvents :: "bool \<Rightarrow> ModelDeployment \<Rightarrow> 'e event list \<Rightarrow> bool" where
  "deregisterEvents gwOn md es \<longleftrightarrow>
     (if gwOn then (\<exists>r. es = [EvDeregister (md_Name md) r]) else es = [])"

definition statusFor :: "ModelDeployment \<Rightarrow> ModelDeploymentStatus \<Rightarrow> bool" where
  "statusFor md st \<longleftrightarrow> (\<exists>dep now. st = mdComputeStatus md (engineOf md) dep now)"

inductive md_run :: "'e klib \<Rightarrow> bool \<Rightarrow> NamespacedName \<Rightarrow> 'e event list \<Rightarrow> 'e outcome \<Rightarrow> bool"
  for lib gwOn req where
  absent: "IsNotFound lib e \<Longrightarrow> md_run lib gwOn req [EvGetMD req (Inl e)] (Done 0 None)"
| get_failed:
    "\<not> IsNotFound lib e \<Longrightarrow> md_run lib gwOn req [EvGetMD req (Inl e)] (Done 0 (Some e))"
| released:
    "om_DeletionTimestamp (md_ObjectMeta md) \<noteq> None \<Longrightarrow>
     \<not> ContainsFinalizer lib (md_ObjectMeta md) modelDeploymentFinalizer \<Longrightarrow>
     md_run lib gwOn req [EvGetMD req (Inr md)] (Done 0 None)"
| deleting:
    "om_DeletionTimestamp (md_ObjectMeta md) \<noteq> None \<Longrightarrow>
     ContainsFinalizer lib (md_ObjectMeta md) modelDeploymentFinalizer \<Longrightarrow>
     deregisterEvents gwOn md ds \<Longrightarrow>
     md' = md\<lparr>md_ObjectMeta := RemoveFinalizer lib (md_ObjectMeta md) modelDeploymentFinalizer\<rparr> \<Longrightarrow>
     md_run lib gwOn req (EvGetMD req (Inr md) # ds @ [EvUpdateMD md' r]) (Done 0 (failure r))"
| finalizer_failed:
    "om_DeletionTimestamp (md_ObjectMeta md) = None \<Longrightarrow>
     \<not> ContainsFinalizer lib (md_ObjectMeta md) modelDeploymentFinalizer \<Longrightarrow>
     md' = md\<lparr>md_ObjectMeta := AddFinalizer lib (md_ObjectMeta md) modelDeploymentFinalizer\<rparr> \<Longrightarrow>
     md_run lib gwOn req [EvGetMD req (Inr md), EvUpdateMD md' (Inl e)] (Done 0 (Some e))"
| children_failed:
    "om_DeletionTimestamp (md_ObjectMeta md0) = None \<Longrightarrow> finalizerEvents lib md0 md fs \<Longrightarrow>
     list_all (childEvent lib md) cs \<Longrightarrow> cause lib md out cs \<Longrightarrow>
     md_run lib gwOn req (EvGetMD req (Inr md0) # fs @ cs) out"
| refetch_failed:
    "om_DeletionTimestamp (md_ObjectMeta md0) = None \<Longrightarrow> finalizerEvents lib md0 md fs \<Longrightarrow>
     list_all (childEvent lib md) cs \<Longrightarrow>
     md_run lib gwOn req (EvGetMD req (Inr md0) # fs @ cs @ [EvGetMD req (Inl e)]) (Done 0 (Some e))"
| status_failed:
    "om_DeletionTimestamp (md_ObjectMeta md0) = None \<Longrightarrow> finalizerEvents lib md0 md fs \<Longrightarrow>
     list_all (childEvent lib md) cs \<Longrightarrow>
     statusFor md st \<Longrightarrow>
     md_run lib gwOn req (EvGetMD req (Inr md0) # fs @ cs @
       [EvGetMD req (Inr md1), EvStatusMD (md1\<lparr>md_Status := st\<rparr>) (Inl e)]) (Done 0 (Some e))"
| synced:
    "om_DeletionTimestamp (md_ObjectMeta md0) = None \<Longrightarrow> finalizerEvents lib md0 md fs \<Longrightarrow>
     list_all (childEvent lib md) cs \<Longrightarrow>
     statusFor md st \<Longrightarrow> registerEvents gwOn md2 gs \<Longrightarrow>
     md_run lib gwOn req (EvGetMD req (Inr md0) # fs @ cs @
       EvGetMD req (Inr md1) # EvStatusMD (md1\<lparr>md_Status := st\<rparr>) (Inr md2) # gs) (Done 0 None)"

subsection \<open>Reconcile refines the protocol\<close>

text \<open>How a reconcile ends from the status update on.\<close>

definition publishing ::
  "NamespacedName \<Rightarrow> ModelDeploymentStatus \<Rightarrow> 'e outcome + ModelDeployment \<Rightarrow> 'e event list \<Rightarrow> bool" where
  "publishing req st r es \<longleftrightarrow>
     (case r of
        Inl out \<Rightarrow> (\<exists>e. out = Done 0 (Some e) \<and> (es = [EvGetMD req (Inl e)] \<or>
          (\<exists>md1. es = [EvGetMD req (Inr md1), EvStatusMD (md1\<lparr>md_Status := st\<rparr>) (Inl e)])))
      | Inr md2 \<Rightarrow>
          (\<exists>md1. es = [EvGetMD req (Inr md1), EvStatusMD (md1\<lparr>md_Status := st\<rparr>) (Inr md2)]))"

definition ending ::
  "bool \<Rightarrow> NamespacedName \<Rightarrow> ModelDeployment \<Rightarrow> 'e outcome + 'e outcome \<Rightarrow> 'e event list \<Rightarrow> bool" where
  "ending gwOn req md r es \<longleftrightarrow>
     (\<exists>st. statusFor md st \<and>
       (case r of
          Inl out \<Rightarrow> publishing req st (Inl out) es
        | Inr out \<Rightarrow> \<exists>md2 ps gs. es = ps @ gs \<and> publishing req st (Inr md2) ps \<and>
            registerEvents gwOn md2 gs \<and> out = Done 0 None))"

definition syncing ::
  "'e klib \<Rightarrow> bool \<Rightarrow> NamespacedName \<Rightarrow> ModelDeployment \<Rightarrow> 'e outcome + 'e outcome \<Rightarrow>
     'e event list \<Rightarrow> bool" where
  "syncing lib gwOn req md r es \<longleftrightarrow>
     (\<exists>out. r = Inl out \<and> list_all (childEvent lib md) es \<and> cause lib md out es) \<or>
     (\<exists>cs ps. es = cs @ ps \<and> list_all (childEvent lib md) cs \<and> ending gwOn req md r ps)"

lemma ending_syncing: "ending gwOn req md r es \<Longrightarrow> syncing lib gwOn req md r es"
  unfolding syncing_def by (rule disjI2, rule exI [of _ "[]"]) simp

lemma syncing_andThen:
  assumes "produces m (childBlock lib md)" and "\<And>x. produces (k x) (syncing lib gwOn req md)"
  shows "produces (andThen m k) (syncing lib gwOn req md)"
proof (rule produces_andThen [OF assms])
  fix out es
  show "childBlock lib md (Inl out) es \<Longrightarrow> syncing lib gwOn req md (Inl out) es"
    by (simp add: childBlock_def syncing_def)
next
  fix x es r fs
  assume es: "childBlock lib md (Inr x) es" and fs: "syncing lib gwOn req md r fs"
  show "syncing lib gwOn req md r (es @ fs)"
  proof (cases "\<exists>out. r = Inl out \<and> list_all (childEvent lib md) fs \<and> cause lib md out fs")
    case True
    with es show ?thesis by (auto simp: syncing_def childBlock_def intro: cause_append)
  next
    case False
    with fs obtain cs ps where "fs = cs @ ps" "list_all (childEvent lib md) cs" "ending gwOn req md r ps"
      by (auto simp: syncing_def)
    with es have "es @ fs = (es @ cs) @ ps \<and> list_all (childEvent lib md) (es @ cs) \<and>
        ending gwOn req md r ps"
      by (simp add: childBlock_def)
    then show ?thesis unfolding syncing_def by blast
  qed
qed

lemma mdPublishStatus_block:
  "produces (mdPublishStatus (tracedMD K lib gw) req st) (publishing req st)"
  unfolding mdPublishStatus_def
  by (rule producesI)
     (auto simp: wp_rules publishing_def split: sum.splits intro!: traced_wp)

lemma mdRegister_block:
  "produces (mdRegister (tracedMD K lib gw) md) (\<lambda>r es. r = Inr () \<and> registerEvents (gw \<noteq> None) md es)"
  unfolding mdRegister_def
  by (rule producesI)
     (auto simp: wp_rules registerEvents_def split: option.splits intro!: traced_wp)

lemma mdPublish_ending:
  "produces (andThen (mdPublishStatus (tracedMD K lib gw) req (mdComputeStatus md (engineOf md) dep now))
      (\<lambda>md. andThen (mdRegister (tracedMD K lib gw) md) (\<lambda>_. proceed (Done 0 None))))
    (ending (gw \<noteq> None) req md)"
proof (rule produces_andThen [OF mdPublishStatus_block])
  show "produces (andThen (mdRegister (tracedMD K lib gw) md2) (\<lambda>_. proceed (Done 0 None)))
      (\<lambda>r es. r = Inr (Done 0 None) \<and> registerEvents (gw \<noteq> None) md2 es)" for md2
    by (rule produces_andThen [OF mdRegister_block, where R = "\<lambda>x r es. r = Inr (Done 0 None) \<and> es = []"])
       (auto intro!: producesI simp: wp_rules)
qed (auto simp: ending_def statusFor_def)

lemma mdChildren_syncing:
  "produces (mdChildren (tracedMD K lib gw) req md) (syncing lib (gw \<noteq> None) req md)"
  unfolding mdChildren_def Let_def engineOf_def [symmetric] tracedMD_simps
  by (intro syncing_andThen mdFindPlatform_block mdEnsurePVC_block mdEnsureDeployment_block
      mdEnsureService_block mdReadReplicas_block TimeNow_block
      produces_mono [OF mdPublish_ending ending_syncing])

lemma mdEnsureFinalizer_block:
  "produces (mdEnsureFinalizer (tracedMD K lib gw) md0) (\<lambda>r es.
     case r of
       Inl out \<Rightarrow> \<not> ContainsFinalizer lib (md_ObjectMeta md0) modelDeploymentFinalizer \<and>
         (\<exists>e. es = [EvUpdateMD (md0\<lparr>md_ObjectMeta :=
            AddFinalizer lib (md_ObjectMeta md0) modelDeploymentFinalizer\<rparr>) (Inl e)] \<and>
          out = Done 0 (Some e))
     | Inr md \<Rightarrow> finalizerEvents lib md0 md es)"
  unfolding mdEnsureFinalizer_def
  by (rule producesI)
     (auto simp: wp_rules finalizerEvents_def split: sum.splits intro!: traced_wp)

lemma mdHandleDeletion_block:
  "produces (mdHandleDeletion (tracedMD K lib gw) md) (\<lambda>r es.
     case r of
       Inl out \<Rightarrow> om_DeletionTimestamp (md_ObjectMeta md) \<noteq> None \<and>
         (if ContainsFinalizer lib (md_ObjectMeta md) modelDeploymentFinalizer then
            (\<exists>ds res. deregisterEvents (gw \<noteq> None) md ds \<and>
               es = ds @ [EvUpdateMD (md\<lparr>md_ObjectMeta :=
                 RemoveFinalizer lib (md_ObjectMeta md) modelDeploymentFinalizer\<rparr>) res] \<and>
               out = Done 0 (failure res))
          else es = [] \<and> out = Done 0 None)
     | Inr x \<Rightarrow> om_DeletionTimestamp (md_ObjectMeta md) = None \<and> es = [])"
  unfolding mdHandleDeletion_def Let_def
  by (rule producesI)
     (auto simp: wp_rules deregisterEvents_def split: sum.splits option.splits intro!: traced_wp)

lemma md_run_ending:
  assumes "om_DeletionTimestamp (md_ObjectMeta md0) = None" and "finalizerEvents lib md0 md fs"
    and "syncing lib gwOn req md r es"
  shows "md_run lib gwOn req (EvGetMD req (Inr md0) # fs @ es) (case r of Inl out \<Rightarrow> out | Inr out \<Rightarrow> out)"
  using assms(3) unfolding syncing_def
proof (elim disjE exE conjE)
  fix out
  assume "r = Inl out" "list_all (childEvent lib md) es" "cause lib md out es"
  then show ?thesis using assms(1,2) by (simp add: children_failed)
next
  fix cs ps
  assume cs: "es = cs @ ps" "list_all (childEvent lib md) cs" and "ending gwOn req md r ps"
  then obtain st where st: "statusFor md st"
    and e: "case r of Inl out \<Rightarrow> publishing req st (Inl out) ps
        | Inr out \<Rightarrow> \<exists>md2 qs gs. ps = qs @ gs \<and> publishing req st (Inr md2) qs \<and>
            registerEvents gwOn md2 gs \<and> out = Done 0 None"
    by (auto simp: ending_def)
  show ?thesis
  proof (cases r)
    case (Inl out)
    with e obtain x where "out = Done 0 (Some x)" and "ps = [EvGetMD req (Inl x)] \<or>
        (\<exists>md1. ps = [EvGetMD req (Inr md1), EvStatusMD (md1\<lparr>md_Status := st\<rparr>) (Inl x)])"
      by (auto simp: publishing_def)
    with Inl cs assms(1,2) st show ?thesis by (auto intro: refetch_failed status_failed)
  next
    case (Inr out)
    with e obtain md1 md2 gs where "out = Done 0 None" "registerEvents gwOn md2 gs"
      and "ps = EvGetMD req (Inr md1) # EvStatusMD (md1\<lparr>md_Status := st\<rparr>) (Inr md2) # gs"
      by (auto simp: publishing_def)
    with Inr cs assms(1,2) st show ?thesis by (auto intro: synced)
  qed
qed

lemma md_run_finalizing:
  "produces (andThen (mdEnsureFinalizer (tracedMD K lib gw) md0) (mdChildren (tracedMD K lib gw) req))
    (\<lambda>r es. om_DeletionTimestamp (md_ObjectMeta md0) = None \<longrightarrow>
       md_run lib (gw \<noteq> None) req (EvGetMD req (Inr md0) # es) (case r of Inl out \<Rightarrow> out | Inr out \<Rightarrow> out))"
  by (rule produces_andThen [OF mdEnsureFinalizer_block mdChildren_syncing])
     (auto intro: finalizer_failed md_run_ending simp del: append_assoc)

lemma mdReconcile_produces:
  "produces (mdReconcile (tracedMD K lib gw) req) (\<lambda>out es. md_run lib (gw \<noteq> None) req es out)"
    unfolding mdReconcile_def tracedMD_simps
  proof (rule produces_finish [where P = "\<lambda>r es. md_run lib (gw \<noteq> None) req es
       (case r of Inl out \<Rightarrow> out | Inr out \<Rightarrow> out)"], rule produces_andThen)
    show "produces (lifted (GetMD (traced K) req)) (\<lambda>r es. \<exists>x. r = Inr x \<and> es = [EvGetMD req x])"
      by (rule producesI) (auto simp: wp_rules intro!: traced_wp)
  next
    show "produces (case x of
          Inl err \<Rightarrow>
            if IsNotFound lib err then returnWith (Done 0 None)
            else returnWith (Done 0 (Some err))
        | Inr md \<Rightarrow> andThen (mdHandleDeletion (tracedMD K lib gw) md) (\<lambda>_.
            andThen (mdEnsureFinalizer (tracedMD K lib gw) md) (\<lambda>md.
              mdChildren (tracedMD K lib gw) req md)))
      (\<lambda>r es. md_run lib (gw \<noteq> None) req (EvGetMD req x # es) (case r of Inl out \<Rightarrow> out | Inr out \<Rightarrow> out))" for x
    proof (cases x)
      case (Inl err)
      then show ?thesis
        by (auto simp: wp_rules intro!: producesI intro: absent get_failed)
    next
      case (Inr md)
      show ?thesis
        unfolding Inr sum.case
        by (rule produces_andThen [OF mdHandleDeletion_block md_run_finalizing])
           (auto split: if_splits intro: released deleting)
    qed
  qed auto


subsection \<open>Consequences of the protocol\<close>

inductive_cases md_run_deletedE:
  "md_run lib gwOn req (EvGetMD req (Inr md) # rest) out"

lemma childEvents_no_gateway:
  "list_all (childEvent lib md) cs \<Longrightarrow> EvRegister m r \<notin> set cs \<and> EvDeregister i q \<notin> set cs"
  by (induction cs) auto

lemma finalizer_no_gateway:
  "finalizerEvents lib md0 md fs \<Longrightarrow> EvRegister m r \<notin> set fs \<and> EvDeregister i q \<notin> set fs"
  by (auto simp: finalizerEvents_def split: if_splits)

lemma deregister_no_register: "deregisterEvents g md ds \<Longrightarrow> EvRegister m r \<notin> set ds"
  by (auto simp: deregisterEvents_def split: if_splits)

lemma registerEvents_cases:
  assumes "registerEvents g md es"
  obtains "es = []" | r where "g" "mdst_Phase (md_Status md) = ''Ready''"
    "es = [EvRegister (mdGatewayModel md) r]"
  using assms by (auto simp: registerEvents_def split: if_splits)

lemmas no_gateway = childEvents_no_gateway finalizer_no_gateway deregister_no_register

lemma md_run_register:
  assumes "md_run lib g req tr out" and "EvRegister m r \<in> set tr"
  shows "g \<and> out = Done 0 None \<and> (\<exists>xs md1 md2.
    tr = xs @ [EvStatusMD md1 (Inr md2), EvRegister m r] \<and> mdst_Phase (md_Status md2) = ''Ready'' \<and>
    m = mdGatewayModel md2)"
  using assms
proof cases
  case (synced md0 md fs cs st md2 gs md1)
  with assms(2) have "EvRegister m r \<in> set gs" by (auto dest: no_gateway)
  with \<open>registerEvents g md2 gs\<close> have "g" "mdst_Phase (md_Status md2) = ''Ready''"
    "gs = [EvRegister (mdGatewayModel md2) r]" "m = mdGatewayModel md2"
    by (auto elim!: registerEvents_cases)
  with synced have "g \<and> out = Done 0 None \<and>
    tr = (EvGetMD req (Inr md0) # fs @ cs @ [EvGetMD req (Inr md1)]) @
      [EvStatusMD (md1\<lparr>md_Status := st\<rparr>) (Inr md2), EvRegister m r] \<and>
    mdst_Phase (md_Status md2) = ''Ready'' \<and> m = mdGatewayModel md2"
    by simp
  then show ?thesis by blast
qed (auto dest: no_gateway)

lemma md_run_error:
  assumes "md_run lib g req tr (Done n (Some e))"
  shows "n = 0 \<and>
    ((\<exists>xs ev. tr = xs @ [ev] \<and> event_error ev = Some e \<and>
        (\<forall>m r. ev \<noteq> EvRegister m r) \<and> (\<forall>i r. ev \<noteq> EvDeregister i r)) \<or>
     (\<exists>m m'. SetControllerReference lib m m' = Inl e))"
  using assms
proof cases
  case (deleting md ds md' r)
  then have "tr = (EvGetMD req (Inr md) # ds) @ [EvUpdateMD md' r]" "failure r = Some e" "n = 0"
    by simp_all
  then show ?thesis by fastforce
next
  case (children_failed md0 md fs cs)
  from \<open>cause lib md (Done n (Some e)) cs\<close> consider
      ds ev where "n = 0" "cs = ds @ [ev]" "event_error ev = Some e"
    | "n = 0" "\<exists>m m'. SetControllerReference lib m m' = Inl e"
    by (auto simp: cause_def)
  then show ?thesis
  proof cases
    case 1
    moreover have "(\<forall>m r. ev \<noteq> EvRegister m r) \<and> (\<forall>i r. ev \<noteq> EvDeregister i r)"
      using childEvents_no_gateway [OF \<open>list_all (childEvent lib md) cs\<close>] 1 by auto
    moreover have "tr = (EvGetMD req (Inr md0) # fs @ ds) @ [ev]"
      using children_failed 1 by simp
    ultimately show ?thesis by blast
  qed blast
next
  case (refetch_failed md0 md fs cs)
  then have "tr = (EvGetMD req (Inr md0) # fs @ cs) @ [EvGetMD req (Inl e)]" "n = 0" by simp_all
  then show ?thesis by fastforce
next
  case (status_failed md0 md fs cs st md1)
  then have "tr = (EvGetMD req (Inr md0) # fs @ cs @ [EvGetMD req (Inr md1)]) @
      [EvStatusMD (md1\<lparr>md_Status := st\<rparr>) (Inl e)]" "n = 0" by simp_all
  then show ?thesis by fastforce
qed auto

subsection \<open>Claims about every reconcile\<close>

lemma mdReconcile_run:
  assumes "run_state (mdReconcile (tracedMD K lib gw) req) (w, []) = (out, (w', tr))"
  shows "md_run lib (gw \<noteq> None) req tr out"
  using producesD [OF mdReconcile_produces assms] by simp

text \<open>A model that is being deleted, on the store in memory, with the no-op gateway client.\<close>

definition deletingMD :: ModelDeployment where
  "deletingMD = exampleMD\<lparr>md_ObjectMeta := (md_ObjectMeta exampleMD)
     \<lparr>om_DeletionTimestamp := Some 7, om_Finalizers := [modelDeploymentFinalizer]\<rparr>\<rparr>"

definition oneModel :: "ModelDeployment \<Rightarrow> cluster" where
  "oneModel md = emptyCluster\<lparr>cl_MDs := [mdKey md \<mapsto> md]\<rparr>"

abbreviation memMD :: "(cluster \<times> memError event list, memError) MDReconciler" where
  "memMD \<equiv> tracedMD mem_kube mem_lib (Some NoopClient)"

lemma deletingMD_run:
  "run_state (mdReconcile memMD (''default'', ''qwen-7b'')) (oneModel deletingMD, []) =
     (Done 0 None, (emptyCluster,
       [EvGetMD (''default'', ''qwen-7b'') (Inr deletingMD), EvDeregister ''qwen-7b'' None,
        EvUpdateMD (deletingMD\<lparr>md_ObjectMeta := (md_ObjectMeta deletingMD)\<lparr>om_Finalizers := []\<rparr>\<rparr>)
          (Inr (deletingMD\<lparr>md_ObjectMeta := (md_ObjectMeta deletingMD)\<lparr>om_Finalizers := []\<rparr>\<rparr>))]))"
  by (simp add: mdReconcile_def mdHandleDeletion_def tracedMD_def traced_def tracedGateway_def
      mem_kube_def mem_lib_def NoopClient_def memGet_def memUpdateMD_def oneModel_def emptyCluster_def
      deletingMD_def exampleMD_def emptyMeta_def finish_def andThen_def lifted_def checked_def
      returnWith_def run_logged Let_def)

text \<open>
  C11 (deletion). When the fetched object is marked for deletion and carries the finalizer, the
  reconcile deregisters the model from the gateway (when one is configured), once and before
  anything else, then writes the object without the finalizer, and returns that write's error: the
  gateway's own error holds nothing up. Without the finalizer it makes no further call. In neither
  case is a child resource read or written.
\<close>

theorem md_deletion:
  assumes "run_state (mdReconcile (tracedMD K lib gw) req) (w, []) =
      (out, (w', EvGetMD req (Inr md) # rest))"
    and "om_DeletionTimestamp (md_ObjectMeta md) \<noteq> None"
  shows "if ContainsFinalizer lib (md_ObjectMeta md) modelDeploymentFinalizer
    then \<exists>ds r. rest = ds @ [EvUpdateMD (md\<lparr>md_ObjectMeta :=
             RemoveFinalizer lib (md_ObjectMeta md) modelDeploymentFinalizer\<rparr>) r] \<and>
           (if gw = None then ds = [] else \<exists>q. ds = [EvDeregister (md_Name md) q]) \<and>
           out = Done 0 (failure r)
    else rest = [] \<and> out = Done 0 None"
  using mdReconcile_run [OF assms(1)] assms(2)
  by (elim md_run_deletedE) (auto simp: deregisterEvents_def)

theorem md_deletion_witness:
  "\<exists>r. [EvDeregister ''qwen-7b'' None,
        EvUpdateMD (deletingMD\<lparr>md_ObjectMeta := (md_ObjectMeta deletingMD)\<lparr>om_Finalizers := []\<rparr>\<rparr>)
          (Inr (deletingMD\<lparr>md_ObjectMeta := (md_ObjectMeta deletingMD)\<lparr>om_Finalizers := []\<rparr>\<rparr>))] =
     [EvDeregister ''qwen-7b'' None, EvUpdateMD (deletingMD\<lparr>md_ObjectMeta :=
        RemoveFinalizer mem_lib (md_ObjectMeta deletingMD) modelDeploymentFinalizer\<rparr>) r]"
proof -
  have d: "om_DeletionTimestamp (md_ObjectMeta deletingMD) \<noteq> None" by (simp add: deletingMD_def)
  have f: "ContainsFinalizer mem_lib (md_ObjectMeta deletingMD) modelDeploymentFinalizer"
    by (simp add: mem_lib_def deletingMD_def)
  show ?thesis
    using md_deletion [OF deletingMD_run d] f by auto
qed

text \<open>
  C13 (registration). The gateway is told about a model at most once per reconcile, as its very
  last call, right after a status update that succeeded and came back with phase Ready; what is
  registered is that object's name and endpoint. The outcome is success whatever the gateway
  answers.
\<close>

theorem md_register_last:
  assumes "run_state (mdReconcile (tracedMD K lib gw) req) (w, []) = (out, (w', tr))"
    and "EvRegister m r \<in> set tr"
  shows "gw \<noteq> None \<and> out = Done 0 None \<and> (\<exists>xs md1 md2.
    tr = xs @ [EvStatusMD md1 (Inr md2), EvRegister m r] \<and>
    mdst_Phase (md_Status md2) = ''Ready'' \<and> m = mdGatewayModel md2)"
  using md_run_register [OF mdReconcile_run [OF assms(1)] assms(2)] by simp

text \<open>A model that serves: its children exist and its one replica is ready.\<close>

definition servingMD :: ModelDeployment where
  "servingMD = exampleMD\<lparr>md_ObjectMeta := (md_ObjectMeta exampleMD)
     \<lparr>om_Finalizers := [modelDeploymentFinalizer]\<rparr>,
     md_Spec := (md_Spec exampleMD)\<lparr>mds_Engine := ''vllm''\<rparr>\<rparr>"

lemma servingMD_simps [simp]:
  "md_Name servingMD = ''qwen-7b''" "md_Namespace servingMD = ''default''"
  "om_DeletionTimestamp (md_ObjectMeta servingMD) = None"
  "om_Finalizers (md_ObjectMeta servingMD) = [modelDeploymentFinalizer]"
  "mds_Engine (md_Spec servingMD) = ''vllm''" "mds_Replicas (md_Spec servingMD) = Some 1"
  by (simp_all add: servingMD_def exampleMD_def emptyMeta_def zeroMDSpec_def)

definition servingDep :: Deployment where
  "servingDep = (the (BuildDeployment (quantityOk mem_lib) servingMD ''vllm'' None))
     \<lparr>dep_Status := \<lparr>dst_ReadyReplicas = 1, dst_Replicas = 1\<rparr>\<rparr>"

definition servingCluster :: cluster where
  "servingCluster = (oneModel servingMD)\<lparr>
     cl_PVCs := [(''default'', ''qwen-7b-cache'') \<mapsto>
       the (BuildPVC (quantityOk mem_lib) servingMD ''vllm'')],
     cl_Deployments := [(''default'', ''qwen-7b'') \<mapsto> servingDep],
     cl_Services := [(''default'', ''qwen-7b'') \<mapsto> BuildService servingMD ''vllm'']\<rparr>"

lemma mem_quantities: "quantity_laws (quantityOk mem_lib)"
  by (simp add: quantity_laws_def mem_lib_def)

lemma servingMD_run:
  "\<exists>w' tr. run_state (mdReconcile memMD (''default'', ''qwen-7b'')) (servingCluster, []) =
     (Done 0 None, (w', tr)) \<and> EvRegister (mdGatewayModel (servingMD\<lparr>md_Status :=
       mdComputeStatus servingMD ''vllm'' \<lparr>dst_ReadyReplicas = 1, dst_Replicas = 1\<rparr> 0\<rparr>)) None \<in> set tr"
proof -
  obtain b where b: "BuildDeployment (quantityOk mem_lib) servingMD ''vllm'' None = Some b"
    using BuildDeployment_total_iff [OF mem_quantities, of servingMD "''vllm''" None]
    by (auto simp: mem_lib_def)
  obtain p where p: "BuildPVC (quantityOk mem_lib) servingMD ''vllm'' = Some p"
    using BuildPVC_total [OF mem_quantities, of servingMD "''vllm''"] by auto
  have keys: "om_Name (dep_ObjectMeta b) = ''qwen-7b''" "om_Namespace (dep_ObjectMeta b) = ''default''"
    "om_Name (pvc_ObjectMeta p) = ''qwen-7b-cache''" "om_Namespace (pvc_ObjectMeta p) = ''default''"
    using BuildDeployment_key [OF b] BuildPVC_key [OF p] by simp_all
  have svc: "om_Name (svc_ObjectMeta (BuildService servingMD ''vllm'')) = ''qwen-7b''"
    "om_Namespace (svc_ObjectMeta (BuildService servingMD ''vllm'')) = ''default''"
    using BuildService_key [of servingMD "''vllm''"] by simp_all
  have e: "ResolveEngine s ''vllm'' = ''vllm''" for s
    by (simp add: ResolveEngine_def ResolveEngineEx_def)
  have phase: "mdst_Phase (mdComputeStatus servingMD ''vllm'' \<lparr>dst_ReadyReplicas = 1, dst_Replicas = 1\<rparr> 0) =
      ''Ready''"
    by (simp add: mdComputeStatus_def Let_def mdPhase_def desiredReplicas_def)
  show ?thesis
    by (simp add: mdReconcile_def mdHandleDeletion_def mdEnsureFinalizer_def mdChildren_def
        mdFindPlatform_def mdEnsurePVC_def mdEnsureDeployment_def mdEnsureService_def mdReadReplicas_def
        mdPublishStatus_def mdRegister_def tracedMD_def traced_def tracedGateway_def
        mem_kube_def memGet_def memModify_def NoopClient_def servingCluster_def servingDep_def
        oneModel_def emptyCluster_def finish_def andThen_def lifted_def checked_def proceed_def
        orPanic_def run_logged Let_def b p keys svc e phase mem_lib_def [THEN arg_cong [of _ _ ContainsFinalizer]])
qed

theorem md_register_last_witness:
  "mdst_Phase (md_Status (servingMD\<lparr>md_Status :=
     mdComputeStatus servingMD ''vllm'' \<lparr>dst_ReadyReplicas = 1, dst_Replicas = 1\<rparr> 0\<rparr>)) = ''Ready'' \<and>
   (\<exists>md2. mdst_Phase (md_Status md2) = ''Ready'' \<and> mdGatewayModel md2 = mdGatewayModel (servingMD\<lparr>md_Status :=
       mdComputeStatus servingMD ''vllm'' \<lparr>dst_ReadyReplicas = 1, dst_Replicas = 1\<rparr> 0\<rparr>))"
proof -
  obtain w' tr where r: "run_state (mdReconcile memMD (''default'', ''qwen-7b'')) (servingCluster, []) =
     (Done 0 None, (w', tr))"
    and m: "EvRegister (mdGatewayModel (servingMD\<lparr>md_Status :=
       mdComputeStatus servingMD ''vllm'' \<lparr>dst_ReadyReplicas = 1, dst_Replicas = 1\<rparr> 0\<rparr>)) None \<in> set tr"
    using servingMD_run by blast
  have "mdst_Phase (mdComputeStatus servingMD ''vllm'' \<lparr>dst_ReadyReplicas = 1, dst_Replicas = 1\<rparr> 0) =
      ''Ready''"
    by (simp add: mdComputeStatus_def Let_def mdPhase_def desiredReplicas_def)
  then show ?thesis using md_register_last [OF r m] by auto
qed

text \<open>
  Errors. A reconcile that returns an error asks for no requeue delay; the error is that of
  its last call, which is a call to the API server and never one to the gateway, or that of
  \<open>SetControllerReference\<close>: nothing is done after a failure.
\<close>

theorem md_error_is_last:
  assumes "run_state (mdReconcile (tracedMD K lib gw) req) (w, []) = (Done n (Some e), (w', tr))"
  shows "n = 0 \<and>
    ((\<exists>xs ev. tr = xs @ [ev] \<and> event_error ev = Some e \<and>
        (\<forall>m r. ev \<noteq> EvRegister m r) \<and> (\<forall>i r. ev \<noteq> EvDeregister i r)) \<or>
     (\<exists>m m'. SetControllerReference lib m m' = Inl e))"
  using md_run_error [OF mdReconcile_run [OF assms]] .

text \<open>A client whose first read fails.\<close>

definition failingRead :: "(cluster, memError) kube" where
  "failingRead = mem_kube\<lparr>GetMD := (\<lambda>k. ret (Inl (Raw AlreadyExists)))\<rparr>"

lemma failingRead_run:
  "run_state (mdReconcile (tracedMD failingRead mem_lib None) req) (emptyCluster, []) =
     (Done 0 (Some (Raw AlreadyExists)), (emptyCluster, [EvGetMD req (Inl (Raw AlreadyExists))]))"
  by (simp add: mdReconcile_def tracedMD_def traced_def failingRead_def mem_lib_def finish_def
      andThen_def lifted_def returnWith_def run_logged)

theorem md_error_is_last_witness:
  "\<exists>xs ev. [EvGetMD (''default'', ''qwen-7b'') (Inl (Raw AlreadyExists))] = xs @ [ev] \<and>
     event_error ev = Some (Raw AlreadyExists)"
  using md_error_is_last [OF failingRead_run [of "(''default'', ''qwen-7b'')"]]
  by (auto simp: mem_lib_def)

subsection \<open>Children and panics\<close>

text \<open>The writes of children.\<close>

fun isChildWrite :: "'e event \<Rightarrow> bool" where
  "isChildWrite (EvCreatePVC x r) = True"
| "isChildWrite (EvCreateDeployment x r) = True"
| "isChildWrite (EvUpdateDeployment x r) = True"
| "isChildWrite (EvCreateService x r) = True"
| "isChildWrite _ = False"

lemma no_child_write:
  "finalizerEvents lib md0 md es \<Longrightarrow> ev \<in> set es \<Longrightarrow> \<not> isChildWrite ev"
  "deregisterEvents g md es \<Longrightarrow> ev \<in> set es \<Longrightarrow> \<not> isChildWrite ev"
  "registerEvents g md es \<Longrightarrow> ev \<in> set es \<Longrightarrow> \<not> isChildWrite ev"
  by (auto simp: finalizerEvents_def deregisterEvents_def registerEvents_def split: if_splits)

lemma md_run_child_writes:
  assumes "md_run lib g req tr out"
  shows "\<exists>md. \<forall>ev \<in> set tr. isChildWrite ev \<longrightarrow> childEvent lib md ev"
  using assms
proof cases
  case (children_failed md0 md fs cs)
  then show ?thesis by (intro exI [of _ md]) (auto simp: list_all_iff dest: no_child_write)
next
  case (refetch_failed md0 md fs cs)
  then show ?thesis by (intro exI [of _ md]) (auto simp: list_all_iff dest: no_child_write)
next
  case (status_failed md0 md fs cs)
  then show ?thesis by (intro exI [of _ md]) (auto simp: list_all_iff dest: no_child_write)
next
  case (synced md0 md fs cs)
  then show ?thesis by (intro exI [of _ md]) (auto simp: list_all_iff dest: no_child_write)
qed (auto dest: no_child_write)

lemma adopted_owned:
  assumes "ownerLaws lib" and "om_OwnerReferences (mt b) = []" and "adopted lib md mt b x"
  shows "mt x = ownedMeta (md_ObjectMeta md) (mt b)"
  using assms by (simp add: adopted_def ownerLaws_def)

definition childOf :: "ModelDeployment \<Rightarrow> string \<Rightarrow> ObjectMeta \<Rightarrow> bool" where
  "childOf md sfx m \<longleftrightarrow>
     metaKey m = (md_Namespace md, md_Name md @ sfx) \<and>
     om_Labels m ''kube-llmops/model'' = Some (md_Name md) \<and>
     om_Labels m ''kube-llmops/engine'' = Some (engineOf md) \<and>
     om_OwnerReferences m = [\<lparr>or_Kind = ''ModelDeployment'', or_Name = md_Name md\<rparr>]"

lemma servingMD_creates:
  "\<exists>out w' tr. run_state (mdReconcile memMD (''default'', ''qwen-7b'')) (oneModel servingMD, []) =
     (out, (w', tr)) \<and>
   EvCreateService ((BuildService servingMD ''vllm'')\<lparr>svc_ObjectMeta :=
      ownedMeta (md_ObjectMeta servingMD) (svc_ObjectMeta (BuildService servingMD ''vllm''))\<rparr>) (Inr ()) \<in> set tr"
proof -
  obtain b where b: "BuildDeployment (quantityOk mem_lib) servingMD ''vllm'' None = Some b"
    using BuildDeployment_total_iff [OF mem_quantities, of servingMD "''vllm''" None]
    by (auto simp: mem_lib_def)
  obtain p where p: "BuildPVC (quantityOk mem_lib) servingMD ''vllm'' = Some p"
    using BuildPVC_total [OF mem_quantities, of servingMD "''vllm''"] by auto
  have keys: "om_Name (dep_ObjectMeta b) = ''qwen-7b''" "om_Namespace (dep_ObjectMeta b) = ''default''"
    "om_Name (pvc_ObjectMeta p) = ''qwen-7b-cache''" "om_Namespace (pvc_ObjectMeta p) = ''default''"
    using BuildDeployment_key [OF b] BuildPVC_key [OF p] by simp_all
  have svc: "om_Name (svc_ObjectMeta (BuildService servingMD ''vllm'')) = ''qwen-7b''"
    "om_Namespace (svc_ObjectMeta (BuildService servingMD ''vllm'')) = ''default''"
    using BuildService_key [of servingMD "''vllm''"] by simp_all
  have e: "ResolveEngine s ''vllm'' = ''vllm''" for s
    by (simp add: ResolveEngine_def ResolveEngineEx_def)
  have q: "quantityOk mem_lib = (\<lambda>s. True)" by (simp add: mem_lib_def)
  have lib: "IsNotFound mem_lib (Raw NotFound)" "ContainsFinalizer mem_lib m f = (f \<in> set (om_Finalizers m))"
    "SetControllerReference mem_lib ow m = Inr (ownedMeta ow m)" for m f ow
    by (simp_all add: mem_lib_def)
  show ?thesis
    by (simp add: mdReconcile_def mdHandleDeletion_def mdEnsureFinalizer_def mdChildren_def
        mdFindPlatform_def mdEnsurePVC_def mdEnsureDeployment_def mdEnsureService_def mdReadReplicas_def
        mdPublishStatus_def mdRegister_def tracedMD_def traced_def tracedGateway_def
        mem_kube_def memGet_def memModify_def memCreate_def NoopClient_def
        oneModel_def emptyCluster_def finish_def andThen_def lifted_def checked_def proceed_def
        orPanic_def run_logged Let_def b p keys svc e lib ownedMeta_def split: if_splits)
qed

text \<open>
  C35 (children). All children that one reconcile creates belong to one model: they carry its
  namespace, its name (the PVC with the suffix \<open>-cache\<close>), labels with its name and its resolved
  engine, the same for all of them, and it is their only owner, so that deleting the model
  collects them. An existing Deployment is given the labels of that model and engine.
\<close>

theorem md_children_owned:
  assumes "ownerLaws lib"
    and "run_state (mdReconcile (tracedMD K lib gw) req) (w, []) = (out, (w', tr))"
  shows "\<exists>md. \<forall>ev \<in> set tr. case ev of
      EvCreatePVC x r \<Rightarrow> childOf md ''-cache'' (pvc_ObjectMeta x)
    | EvCreateDeployment x r \<Rightarrow> childOf md '''' (dep_ObjectMeta x)
    | EvCreateService x r \<Rightarrow> childOf md '''' (svc_ObjectMeta x)
    | EvUpdateDeployment x r \<Rightarrow>
        om_Labels (dep_ObjectMeta x) = deploymentLabels (md_Name md) (engineOf md)
    | _ \<Rightarrow> True"
proof -
  obtain md where md: "ev \<in> set tr \<Longrightarrow> isChildWrite ev \<Longrightarrow> childEvent lib md ev" for ev
    using md_run_child_writes [OF mdReconcile_run [OF assms(2)]] by blast
  have "childOf md ''-cache'' (pvc_ObjectMeta x)" if ev: "EvCreatePVC x r \<in> set tr" for x r
  proof -
    obtain b where b: "BuildPVC (quantityOk lib) md (engineOf md) = Some b"
      and a: "adopted lib md pvc_ObjectMeta b x" using md [OF ev] by auto
    show ?thesis
      using adopted_owned [OF assms(1) _ a] pvc_builder.child_unowned [OF b]
        pvc_builder.child_labels [OF b] pvc_builder.child_key [OF b]
      by (simp add: childOf_def ownedMeta_def)
  qed
  moreover have "childOf md '''' (dep_ObjectMeta x)" if ev: "EvCreateDeployment x r \<in> set tr" for x r
  proof -
    obtain b p where b: "BuildDeployment (quantityOk lib) md (engineOf md) p = Some b"
      and a: "adopted lib md dep_ObjectMeta b x" using md [OF ev] by auto
    show ?thesis
      using adopted_owned [OF assms(1) _ a] dep_builder.child_unowned [OF b]
        dep_builder.child_labels [OF b] dep_builder.child_key [OF b]
      by (simp add: childOf_def ownedMeta_def)
  qed
  moreover have "childOf md '''' (svc_ObjectMeta x)" if ev: "EvCreateService x r \<in> set tr" for x r
  proof -
    have a: "adopted lib md svc_ObjectMeta (BuildService md (engineOf md)) x" using md [OF ev] by auto
    show ?thesis
      using adopted_owned [OF assms(1) _ a] svc_builder.child_unowned [OF refl]
        svc_builder.child_labels [OF refl] svc_builder.child_key [OF refl]
      by (simp add: childOf_def ownedMeta_def)
  qed
  moreover have "om_Labels (dep_ObjectMeta x) = deploymentLabels (md_Name md) (engineOf md)"
    if ev: "EvUpdateDeployment x r \<in> set tr" for x r
    using md [OF ev] by (auto elim!: BuildDeployment_SomeD)
  ultimately show ?thesis by (intro exI [of _ md]) (auto split: event.splits)
qed

theorem md_children_owned_witness:
  "\<exists>md (x :: Service). childOf md '''' (svc_ObjectMeta x) \<and>
     svc_ObjectMeta x = ownedMeta (md_ObjectMeta servingMD) (svc_ObjectMeta (BuildService servingMD ''vllm''))"
proof -
  obtain out w' tr where r: "run_state (mdReconcile memMD (''default'', ''qwen-7b'')) (oneModel servingMD, []) =
      (out, (w', tr))"
    and c: "EvCreateService ((BuildService servingMD ''vllm'')\<lparr>svc_ObjectMeta :=
      ownedMeta (md_ObjectMeta servingMD) (svc_ObjectMeta (BuildService servingMD ''vllm''))\<rparr>) (Inr ()) \<in> set tr"
    using servingMD_creates by blast
  obtain md where md: "\<forall>ev \<in> set tr. case ev of
      EvCreatePVC x r \<Rightarrow> childOf md ''-cache'' (pvc_ObjectMeta x)
    | EvCreateDeployment x r \<Rightarrow> childOf md '''' (dep_ObjectMeta x)
    | EvCreateService x r \<Rightarrow> childOf md '''' (svc_ObjectMeta x)
    | EvUpdateDeployment x r \<Rightarrow>
        om_Labels (dep_ObjectMeta x) = deploymentLabels (md_Name md) (engineOf md)
    | _ \<Rightarrow> True"
    using md_children_owned [OF mem.owners r] by (rule exE)
  have "childOf md '''' (ownedMeta (md_ObjectMeta servingMD) (svc_ObjectMeta (BuildService servingMD ''vllm'')))"
    using bspec [OF md c] by simp
  then show ?thesis
    by (intro exI [of _ md] exI [of _ "(BuildService servingMD ''vllm'')\<lparr>svc_ObjectMeta :=
      ownedMeta (md_ObjectMeta servingMD) (svc_ObjectMeta (BuildService servingMD ''vllm''))\<rparr>"]) simp
qed

end
