(* ===== verification/BuilderProps.thy ===== *)
theory BuilderProps
  imports BuilderFacts Examples
begin

section \<open>Properties of the builders\<close>

text \<open>
  The claims about the objects that are built for a \<open>ModelDeployment\<close>, each with a witness on
  the resources of \<open>Examples\<close>.
\<close>

definition anyQuantity :: "string \<Rightarrow> bool" where
  "anyQuantity s = True"

lemma anyQuantity_laws: "quantity_laws anyQuantity"
  by (simp add: quantity_laws_def anyQuantity_def)

lemma exampleMD_builds: "\<exists>d. BuildDeployment anyQuantity md e p = Some d"
  using BuildDeployment_total_iff [OF anyQuantity_laws, of md e p] by (auto simp: anyQuantity_def)

subsection \<open>Selectors and ports\<close>

lemma deploymentLabels_lookup:
  "deploymentLabels n e ''app.kubernetes.io/name'' = Some e"
  "deploymentLabels n e ''app.kubernetes.io/instance'' = Some n"
  "deploymentLabels n e ''kube-llmops/model'' = Some n"
  by (simp_all add: deploymentLabels_def)

lemma map_le_upd_empty: "[k \<mapsto> v] \<subseteq>\<^sub>m m \<longleftrightarrow> m k = Some v"
  by (auto simp: map_le_def)

lemma map_le_upd2: "k \<noteq> k' \<Longrightarrow> [k \<mapsto> v, k' \<mapsto> v'] \<subseteq>\<^sub>m m \<longleftrightarrow> m k = Some v \<and> m k' = Some v'"
  by (auto simp: map_le_def)

lemma selector_le_labels:
  "[''app.kubernetes.io/name'' \<mapsto> e, ''kube-llmops/model'' \<mapsto> n] \<subseteq>\<^sub>m deploymentLabels n' e' \<longleftrightarrow>
     n = n' \<and> e = e'"
proof -
  have "[''app.kubernetes.io/name'' \<mapsto> e, ''kube-llmops/model'' \<mapsto> n] \<subseteq>\<^sub>m deploymentLabels n' e' \<longleftrightarrow>
      deploymentLabels n' e' ''app.kubernetes.io/name'' = Some e \<and>
      deploymentLabels n' e' ''kube-llmops/model'' = Some n"
    by (rule map_le_upd2) simp
  then show ?thesis by (auto simp: deploymentLabels_lookup)
qed

lemma instance_le_labels:
  "[''app.kubernetes.io/instance'' \<mapsto> n] \<subseteq>\<^sub>m deploymentLabels n' e' \<longleftrightarrow> n = n'"
  by (auto simp: map_le_upd_empty deploymentLabels_lookup)

text \<open>
  Services reach their pods. The Service built for a model and an engine selects the pods of
  a Deployment built for a model and an engine exactly when both agree; the Deployment's own
  selector needs the model only. So one model's Service never reaches another model's pods, and a
  Service that was built for the previous engine of a model reaches none of its new pods.
\<close>

theorem service_selects_pods:
  assumes "BuildDeployment qok md' e' p = Some d"
  shows "(svc_Selector (BuildService md e) \<subseteq>\<^sub>m dsp_TemplateLabels (dep_Spec d) \<longleftrightarrow>
            md_Name md = md_Name md' \<and> e = e') \<and>
         (\<forall>d2 q. BuildDeployment qok md e q = Some d2 \<longrightarrow>
            (dsp_MatchLabels (dep_Spec d2) \<subseteq>\<^sub>m dsp_TemplateLabels (dep_Spec d) \<longleftrightarrow>
               md_Name md = md_Name md'))"
  using assms
  by (auto elim!: BuildDeployment_SomeD
      simp: BuildService_def Let_def selector_le_labels instance_le_labels)

theorem service_selects_pods_witness:
  "\<exists>d. BuildDeployment anyQuantity exampleMD ''vllm'' None = Some d \<and>
     svc_Selector (BuildService exampleMD ''vllm'') \<subseteq>\<^sub>m dsp_TemplateLabels (dep_Spec d) \<and>
     \<not> svc_Selector (BuildService exampleMD ''llamacpp'') \<subseteq>\<^sub>m dsp_TemplateLabels (dep_Spec d)"
proof -
  obtain d where d: "BuildDeployment anyQuantity exampleMD ''vllm'' None = Some d"
    using exampleMD_builds by blast
  show ?thesis
    using d service_selects_pods [OF d, of exampleMD "''vllm''"]
      service_selects_pods [OF d, of exampleMD "''llamacpp''"] by auto
qed

text \<open>
  Ports agree for known engines only. The container port and the probe port of the
  Deployment, the target port of the Service and the port of the status endpoint are all the same
  exactly when the engine is one of the three in the table of engines; for any other engine (the
  resolver also answers \<open>sglang\<close> and \<open>chitu\<close>) the Deployment has port 0 and an empty image while
  Service and endpoint say 8000.
\<close>

theorem ports_agree_iff_known:
  assumes "BuildDeployment qok md e p = Some d"
  shows "\<exists>c. ps_Containers (dsp_PodSpec (dep_Spec d)) = [c] \<and>
     (map cp_ContainerPort (co_Ports c) = map svp_TargetPort (svc_Ports (BuildService md e)) \<longleftrightarrow>
        engines e \<noteq> None) \<and>
     map svp_TargetPort (svc_Ports (BuildService md e)) = [EnginePort e] \<and>
     map_option pr_Port (co_ReadinessProbe c) = Some (ec_Port (engineConfigOf e)) \<and>
     map cp_ContainerPort (co_Ports c) = [ec_Port (engineConfigOf e)] \<and>
     (engines e = None \<longrightarrow>
        co_Image c = '''' \<and> map cp_ContainerPort (co_Ports c) = [0] \<and> EnginePort e = 8000)"
proof -
  have p: "ec_Port (engineConfigOf e) = EnginePort e \<longleftrightarrow> engines e \<noteq> None"
    using engineConfigOf_known [of e] engines_Some_iff [of e] engineConfigOf_unknown [of e]
      EnginePort_range [of e] by auto
  have n: "engines e = None \<Longrightarrow> EnginePort e = 8000"
    by (simp add: EnginePort_def)
  show ?thesis
    using assms p n engineConfigOf_unknown [of e]
    by (auto elim!: BuildDeployment_SomeD simp: BuildService_def Let_def getEnginePort_EnginePort)
qed

theorem ports_agree_iff_known_witness:
  "\<exists>d c. BuildDeployment anyQuantity exampleMD ''sglang'' None = Some d \<and>
     ps_Containers (dsp_PodSpec (dep_Spec d)) = [c] \<and> co_Image c = '''' \<and>
     map cp_ContainerPort (co_Ports c) \<noteq> map svp_TargetPort (svc_Ports (BuildService exampleMD ''sglang''))"
proof -
  obtain d where d: "BuildDeployment anyQuantity exampleMD ''sglang'' None = Some d"
    using exampleMD_builds by blast
  have "engines ''sglang'' = None" by (simp add: engines_def)
  with d ports_agree_iff_known [OF d] show ?thesis by blast
qed

text \<open>
  Accepted specs and buildable engines. For a spec that passes admission, the resolver's
  engine is in the table of engines exactly when it was named explicitly or the source is not of
  the MoE/VLM family. Admission rejects \<open>sglang\<close> as an explicit engine, and yet automatic
  detection chooses it, an engine no builder knows.
\<close>

theorem accepted_engine_known:
  assumes "ValidateModelDeploymentSpec spec = None"
  shows "engines (ResolveEngine (mds_Source spec) (mds_Engine spec)) \<noteq> None \<longleftrightarrow>
     mds_Engine spec \<notin> {'''', ''auto''} \<or> family_of (ToLower (mds_Source spec)) [] \<noteq> SGL"
proof (cases "mds_Engine spec \<in> {'''', ''auto''}")
  case True
  have "family_of s [] \<noteq> DomesticGPU" for s
    by (simp add: family_of_def)
  with True show ?thesis
    by (auto simp: ResolveEngine_def ResolveEngineEx_auto family_engine_def engines_def
        split: family.splits)
next
  case False
  with assms show ?thesis
    by (auto simp: ResolveEngine_def ResolveEngineEx_explicit engines_def validEngines_def
        ValidateModelDeploymentSpec_None_iff md_spec_ok_def)
qed

definition deepseekSpec :: ModelDeploymentSpec where
  "deepseekSpec = (md_Spec exampleMD)\<lparr>mds_Source := ''deepseek-ai/DeepSeek-R1'', mds_Engine := ''auto''\<rparr>"

theorem accepted_engine_known_witness:
  "ValidateModelDeploymentSpec deepseekSpec = None \<and>
   engines (ResolveEngine (mds_Source deepseekSpec) (mds_Engine deepseekSpec)) = None"
proof -
  have v: "ValidateModelDeploymentSpec deepseekSpec = None"
    by (simp add: ValidateModelDeploymentSpec_def deepseekSpec_def exampleMD_def zeroMDSpec_def
        validEngines_def validAccelerators_def)
  have f: "family_of (ToLower ''deepseek-ai/DeepSeek-R1'') [] = SGL" by code_simp
  have s: "mds_Source deepseekSpec = ''deepseek-ai/DeepSeek-R1''" "mds_Engine deepseekSpec = ''auto''"
    by (simp_all add: deepseekSpec_def)
  show ?thesis
    using v accepted_engine_known [OF v] f s by simp
qed

subsection \<open>Arguments, volumes, resources\<close>

text \<open>
  Deterministic engine arguments. The argument list ends with the user's \<open>EngineArgs\<close>, key
  by key in ascending order; those pairs are exactly the map, and the list does not depend on the
  order in which Go iterates over the map.
\<close>

theorem engine_args_deterministic:
  assumes "distinct (map fst (mds_EngineArgs (md_Spec md)))"
    and "mset m = mset (mds_EngineArgs (md_Spec md))"
  shows "\<exists>base kvs.
     buildEngineArgs md e slug port = base @ concat (map (\<lambda>(k, v). [k, v]) kvs) \<and>
     sorted (map fst kvs) \<and> distinct (map fst kvs) \<and>
     map_of kvs = map_of (mds_EngineArgs (md_Spec md)) \<and>
     (e \<notin> {''vllm'', ''tei'', ''llamacpp''} \<longrightarrow> base = []) \<and>
     buildEngineArgs (md\<lparr>md_Spec := (md_Spec md)\<lparr>mds_EngineArgs := m\<rparr>\<rparr>) e slug port =
       buildEngineArgs md e slug port"
proof -
  let ?u = "userArgs (mds_EngineArgs (md_Spec md))"
  let ?b = "buildEngineArgs (md\<lparr>md_Spec := (md_Spec md)\<lparr>mds_EngineArgs := []\<rparr>\<rparr>) e slug port"
  have a: "buildEngineArgs md e slug port = ?b @ concat (map (\<lambda>(k, v). [k, v]) ?u)"
    using buildEngineArgs_split [of md e slug port] by (simp add: flatArgs_def)
  have s: "sorted (map fst ?u)" "distinct (map fst ?u)"
    using assms(1) by (simp_all add: userArgs_keys)
  have b: "e \<notin> {''vllm'', ''tei'', ''llamacpp''} \<longrightarrow> ?b = []"
    by (simp add: buildEngineArgs_def)
  have "userArgs m = ?u"
    using assms by (metis userArgs_perm)
  then have "buildEngineArgs (md\<lparr>md_Spec := (md_Spec md)\<lparr>mds_EngineArgs := m\<rparr>\<rparr>) e slug port =
      buildEngineArgs md e slug port"
    using buildEngineArgs_split [of "md\<lparr>md_Spec := (md_Spec md)\<lparr>mds_EngineArgs := m\<rparr>\<rparr>" e slug port]
      buildEngineArgs_split [of md e slug port] by simp
  with a s b map_of_userArgs show ?thesis by blast
qed

definition argsMD :: ModelDeployment where
  "argsMD = exampleMD\<lparr>md_Spec := (md_Spec exampleMD)\<lparr>
     mds_EngineArgs := [(''--max-model-len'', ''4096''), (''--dtype'', ''half'')]\<rparr>\<rparr>"

theorem engine_args_deterministic_witness:
  "buildEngineArgs (argsMD\<lparr>md_Spec := (md_Spec argsMD)\<lparr>mds_EngineArgs :=
       [(''--dtype'', ''half''), (''--max-model-len'', ''4096'')]\<rparr>\<rparr>) ''vllm'' ''m'' 8000 =
     buildEngineArgs argsMD ''vllm'' ''m'' 8000"
proof -
  have d: "distinct (map fst (mds_EngineArgs (md_Spec argsMD)))"
    by (simp add: argsMD_def)
  have m: "mset [(''--dtype'', ''half''), (''--max-model-len'', ''4096'')] =
      mset (mds_EngineArgs (md_Spec argsMD))"
    by (simp add: argsMD_def)
  show ?thesis
    using engine_args_deterministic [OF d m] by blast
qed

text \<open>
  Mounts are declared. In a built Deployment every volume mount of every container, init
  containers included, names a declared volume, volumes and mount paths are not declared twice,
  and the model cache is the claim that \<open>BuildPVC\<close> creates for the same model.
\<close>

theorem mounts_declared:
  assumes "BuildDeployment qok md e p = Some d"
  shows "(\<forall>c \<in> set (ps_InitContainers (dsp_PodSpec (dep_Spec d))) \<union>
             set (ps_Containers (dsp_PodSpec (dep_Spec d))).
           set (map vm_Name (co_VolumeMounts c)) \<subseteq> set (map vol_Name (ps_Volumes (dsp_PodSpec (dep_Spec d))))
           \<and> distinct (map vm_MountPath (co_VolumeMounts c))) \<and>
         distinct (map vol_Name (ps_Volumes (dsp_PodSpec (dep_Spec d)))) \<and>
         (\<forall>pvc. BuildPVC qok md e = Some pvc \<longrightarrow>
           (\<exists>v \<in> set (ps_Volumes (dsp_PodSpec (dep_Spec d))). vol_Name v = ''model-cache'' \<and>
              vol_Source v = PersistentVolumeClaim (om_Name (pvc_ObjectMeta pvc))))"
proof -
  obtain vs ms where v: "buildVolumes qok e (md_Name md) = Some (vs, ms)"
    and vols: "ps_Volumes (dsp_PodSpec (dep_Spec d)) = vs"
    and ics: "ps_InitContainers (dsp_PodSpec (dep_Spec d)) =
           buildInitContainers md p (modelSlug (mds_Source (md_Spec md)))"
    and cs: "\<And>c. c \<in> set (ps_Containers (dsp_PodSpec (dep_Spec d))) \<Longrightarrow> co_VolumeMounts c = ms"
    using assms by (elim BuildDeployment_SomeD) auto
  note m = buildVolumes_mounts [OF v]
  have cache: "''model-cache'' \<in> set (map vol_Name vs)"
    using m(3) by force
  have "co_VolumeMounts c = [\<lparr>vm_Name = ''model-cache'', vm_MountPath = ''/models''\<rparr>]"
    if "c \<in> set (ps_InitContainers (dsp_PodSpec (dep_Spec d)))" for c
    using that buildInitContainers_mounts by (simp add: ics)
  moreover have "om_Name (pvc_ObjectMeta pvc) = md_Name md @ ''-cache''"
    if "BuildPVC qok md e = Some pvc" for pvc
    using that by (rule pvc_builder.child_name)
  ultimately show ?thesis
    using m cs cache unfolding vols by (auto simp flip: set_map)
qed

theorem mounts_declared_witness:
  "\<exists>d. BuildDeployment anyQuantity exampleMD ''vllm'' (Some examplePlatform) = Some d \<and>
     distinct (map vol_Name (ps_Volumes (dsp_PodSpec (dep_Spec d))))"
proof -
  obtain d where d: "BuildDeployment anyQuantity exampleMD ''vllm'' (Some examplePlatform) = Some d"
    using exampleMD_builds by blast
  with mounts_declared [OF d] show ?thesis by blast
qed

text \<open>
  Panics and resources. With Kubernetes' own quantities, building a Deployment panics exactly
  when the memory or CPU text of the spec is not a quantity, which no admission check excludes;
  building the claim never panics. When it does not panic, limits and requests are equal and hold
  the GPU count under the resource name of the accelerator, CPU and memory as given.
\<close>

theorem deployment_resources:
  assumes "quantity_laws qok"
  shows "(BuildDeployment qok md e p = None \<longleftrightarrow>
            (mr_Memory (mds_Resources (md_Spec md)) \<noteq> '''' \<and>
               \<not> qok (mr_Memory (mds_Resources (md_Spec md)))) \<or>
            (mr_CPU (mds_Resources (md_Spec md)) \<noteq> '''' \<and>
               \<not> qok (mr_CPU (mds_Resources (md_Spec md))))) \<and>
         BuildPVC qok md e \<noteq> None \<and>
         (\<forall>d. BuildDeployment qok md e p = Some d \<longrightarrow>
            (\<exists>c. ps_Containers (dsp_PodSpec (dep_Spec d)) = [c] \<and>
               rr_Requests (co_Resources c) = rr_Limits (co_Resources c) \<and>
               rr_Limits (co_Resources c) (resolveGPUResource md) =
                 (if mr_GPU (mds_Resources (md_Spec md)) > 0
                  then Some (Quantity (showInt (mr_GPU (mds_Resources (md_Spec md)))))
                  else if resolveGPUResource md = ''cpu'' \<and> mr_CPU (mds_Resources (md_Spec md)) \<noteq> ''''
                  then Some (Quantity (mr_CPU (mds_Resources (md_Spec md))))
                  else if resolveGPUResource md = ''memory'' \<and>
                          mr_Memory (mds_Resources (md_Spec md)) \<noteq> ''''
                  then Some (Quantity (mr_Memory (mds_Resources (md_Spec md))))
                  else None)))"
proof (intro conjI allI impI)
  show "BuildDeployment qok md e p = None \<longleftrightarrow>
            (mr_Memory (mds_Resources (md_Spec md)) \<noteq> '''' \<and>
               \<not> qok (mr_Memory (mds_Resources (md_Spec md)))) \<or>
            (mr_CPU (mds_Resources (md_Spec md)) \<noteq> '''' \<and>
               \<not> qok (mr_CPU (mds_Resources (md_Spec md))))"
    using BuildDeployment_total_iff [OF assms, of md e p] by blast
  show "BuildPVC qok md e \<noteq> None"
    using assms by (rule BuildPVC_total)
  fix d
  assume "BuildDeployment qok md e p = Some d"
  then obtain rs c where rs: "buildContainerResources qok md (resolveGPUResource md) = Some rs"
    and c: "ps_Containers (dsp_PodSpec (dep_Spec d)) = [c]" "co_Resources c = rs"
    by (elim BuildDeployment_SomeD) auto
  show "\<exists>c. ps_Containers (dsp_PodSpec (dep_Spec d)) = [c] \<and>
               rr_Requests (co_Resources c) = rr_Limits (co_Resources c) \<and>
               rr_Limits (co_Resources c) (resolveGPUResource md) =
                 (if mr_GPU (mds_Resources (md_Spec md)) > 0
                  then Some (Quantity (showInt (mr_GPU (mds_Resources (md_Spec md)))))
                  else if resolveGPUResource md = ''cpu'' \<and> mr_CPU (mds_Resources (md_Spec md)) \<noteq> ''''
                  then Some (Quantity (mr_CPU (mds_Resources (md_Spec md))))
                  else if resolveGPUResource md = ''memory'' \<and>
                          mr_Memory (mds_Resources (md_Spec md)) \<noteq> ''''
                  then Some (Quantity (mr_Memory (mds_Resources (md_Spec md))))
                  else None)"
    using c buildContainerResources_Some [OF rs] by (simp add: Let_def)
qed

theorem deployment_resources_witness:
  "quantity_laws anyQuantity \<and> BuildPVC anyQuantity exampleMD ''vllm'' \<noteq> None \<and>
   BuildDeployment anyQuantity exampleMD ''vllm'' None \<noteq> None"
proof -
  have "BuildDeployment anyQuantity exampleMD ''vllm'' None \<noteq> None"
    using exampleMD_builds by fastforce
  with anyQuantity_laws deployment_resources [OF anyQuantity_laws, of exampleMD "''vllm''" None]
  show ?thesis by blast
qed

text \<open>
  Canary and spot have no effect: The three built objects do not depend on the \<open>canary\<close> and
  \<open>spot\<close> fields of the spec: configuring a canary changes no child resource.
\<close>

theorem canary_ignored:
  fixes md :: ModelDeployment and c :: "CanaryConfig option" and s :: "SpotConfig option"
  defines "md' \<equiv> md\<lparr>md_Spec := (md_Spec md)\<lparr>mds_Canary := c, mds_Spot := s\<rparr>\<rparr>"
  shows "BuildDeployment qok md' e p = BuildDeployment qok md e p \<and>
         BuildService md' e = BuildService md e \<and> BuildPVC qok md' e = BuildPVC qok md e"
proof (intro conjI)
  show "BuildDeployment qok md' e p = BuildDeployment qok md e p"
    unfolding md'_def by (rule BuildDeployment_cong) simp_all
  show "BuildService md' e = BuildService md e"
    by (simp add: md'_def BuildService_def)
  show "BuildPVC qok md' e = BuildPVC qok md e"
    by (simp add: md'_def BuildPVC_def)
qed

end
