(* ===== verification/ModelDeploymentGoals.thy ===== *)
theory ModelDeploymentGoals
  imports ModelDeploymentStore ModelDeploymentProps BuilderProps
begin

section \<open>Properties of the ModelDeployment controller on a quiescent cluster\<close>

text \<open>
  Consequences of the goal: convergence in one reconcile, stability, release of deleted objects,
  and what happens to the Service when the engine of a model changes. Each claim holds for every
  client with the laws of \<open>kube_store\<close>; the witnesses use the store in memory.
\<close>

definition reconcilerOf ::
  "('w, 'e) kube \<Rightarrow> 'e klib \<Rightarrow> ('w, 'e) gatewayClient option \<Rightarrow> ('w, 'e) MDReconciler" where
  "reconcilerOf K lib gw = \<lparr>mdr_Client = K, mdr_Lib = lib, mdr_GatewayClient = gw\<rparr>"

definition gatewayApart :: "('w, 'e) gatewayClient option \<Rightarrow> ('w \<Rightarrow> cluster) \<Rightarrow> bool" where
  "gatewayApart gw view \<longleftrightarrow> (case gw of None \<Rightarrow> True | Some g \<Rightarrow> gateway_client g view)"

lemma apartD: "gatewayApart gw view \<Longrightarrow> gw = Some g \<Longrightarrow> gateway_client g view"
  by (simp add: gatewayApart_def)

lemma noop_apart: "gatewayApart (Some NoopClient) view"
  by (simp add: gatewayApart_def noop.gateway_client_axioms)

lemma exampleMD_simps [simp]:
  "mdKey exampleMD = (''default'', ''qwen-7b'')" "md_Name exampleMD = ''qwen-7b''"
  "md_Namespace exampleMD = ''default''"
  "om_DeletionTimestamp (md_ObjectMeta exampleMD) = None"
  by (simp_all add: exampleMD_def emptyMeta_def)

lemma exampleMD_parses: "quantitiesParse (quantityOk mem_lib) md"
  using mem_quantities by (simp add: quantitiesParse_def mem_lib_def)

lemma oneModel_ok:
  "cluster_ok (oneModel md)" "cl_MDs (oneModel md) (mdKey md) = Some md"
  by (auto simp: oneModel_def cluster_ok_def emptyCluster_def split: if_splits)

lemma oneModel_candidate [simp]: "candidate ns (oneModel md) pl \<longleftrightarrow> pl = None"
  by (simp add: candidate_def oneModel_def emptyCluster_def split: option.splits)

lemma reconciler_goal:
  assumes "kube_store K lib view" and "gatewayApart gw view" and "cluster_ok (view w)"
    and "cl_MDs (view w) (mdKey md) = Some md" and "om_DeletionTimestamp (md_ObjectMeta md) = None"
    and "quantitiesParse (quantityOk lib) md"
    and "run_state (mdReconcile (reconcilerOf K lib gw) (mdKey md)) w = (out, w')"
  shows "out = Done 0 None \<and> (\<exists>n pl. candidate (md_Namespace md) (view w) pl \<and>
    view w' = md_goal (quantityOk lib) pl n md (view w))"
  by (rule wpD [OF kube_store.wp_Reconcile [OF assms(1) apartD [OF assms(2)] assms(3-6)]
      assms(7) [unfolded reconcilerOf_def]])

text \<open>
  C2 (one reconcile reaches the goal). On a quiescent cluster, for a model that is not being
  deleted and whose quantities parse, \<open>Reconcile\<close> succeeds, and the cluster it leaves is the one
  the specification gives: the finalizer is set; a PVC, a Deployment and a Service exist, made by
  the builders for the resolved engine and owned by the model where there was none; an existing
  Deployment has the built spec and labels; the status tells its replicas; nothing else changed.
  The Deployment is built with some platform of the namespace, with none only if there is none.
\<close>

theorem md_reaches_goal:
  assumes "kube_store K lib view" and "gatewayApart gw view" and "cluster_ok (view w)"
    and "cl_MDs (view w) (mdKey md) = Some md" and "om_DeletionTimestamp (md_ObjectMeta md) = None"
    and "quantitiesParse (quantityOk lib) md"
    and "run_state (mdReconcile (reconcilerOf K lib gw) (mdKey md)) w = (out, w')"
  shows "out = Done 0 None \<and> (\<exists>n pl. candidate (md_Namespace md) (view w) pl \<and>
    view w' = md_goal (quantityOk lib) pl n md (view w))"
  by (rule reconciler_goal [OF assms])

theorem md_reaches_goal_witness:
  "\<exists>n. snd (run_state (mdReconcile (reconcilerOf mem_kube mem_lib (Some NoopClient))
     (''default'', ''qwen-7b'')) (oneModel exampleMD)) =
   md_goal (quantityOk mem_lib) None n exampleMD (oneModel exampleMD)"
  using md_reaches_goal [OF mem.kube_store_axioms noop_apart oneModel_ok(1) oneModel_ok(2)
      _ exampleMD_parses surjective_pairing, of exampleMD] by simp



text \<open>
  C12 (release). On a quiescent cluster, reconciling a model that is marked for deletion and whose
  only finalizer is the operator's succeeds and removes exactly that object; its children are left
  to the garbage collector.
\<close>

theorem md_release:
  assumes "kube_store K lib view" and "gatewayApart gw view"
    and "cl_MDs (view w) (mdKey md) = Some md" and "om_DeletionTimestamp (md_ObjectMeta md) \<noteq> None"
    and "om_Finalizers (md_ObjectMeta md) = [modelDeploymentFinalizer]"
    and "run_state (mdReconcile (reconcilerOf K lib gw) (mdKey md)) w = (out, w')"
  shows "out = Done 0 None \<and> view w' = cl_MDs_update (\<lambda>m. m(mdKey md := None)) (view w)"
  by (rule wpD [OF kube_store.wp_Reconcile_deleted [OF assms(1) apartD [OF assms(2)] assms(3-5)]
      assms(6) [unfolded reconcilerOf_def]])

theorem md_release_witness:
  "cl_MDs (snd (run_state (mdReconcile (reconcilerOf mem_kube mem_lib (Some NoopClient))
     (mdKey deletingMD)) (oneModel deletingMD))) (mdKey deletingMD) = None"
proof -
  have "om_DeletionTimestamp (md_ObjectMeta deletingMD) \<noteq> None"
    "om_Finalizers (md_ObjectMeta deletingMD) = [modelDeploymentFinalizer]"
    by (simp_all add: deletingMD_def)
  from md_release [OF mem.kube_store_axioms noop_apart oneModel_ok(2) this surjective_pairing]
  show ?thesis by (simp add: oneModel_def)
qed

subsection \<open>A change of the engine\<close>

definition editMD :: "ModelDeployment \<Rightarrow> cluster \<Rightarrow> cluster" where
  "editMD md = cl_MDs_update (\<lambda>m. m(mdKey md \<mapsto> md))"

lemma goal_service_after_edit:
  assumes "mdKey md2 = mdKey md" and "quantitiesParse qok md2" and "cl_Services c (mdKey md) = None"
  shows "\<exists>s d. cl_Services (md_goal qok pl2 n2 md2 (editMD md2 (md_goal qok pl1 n1 md c))) (mdKey md) = Some s \<and>
    cl_Deployments (md_goal qok pl2 n2 md2 (editMD md2 (md_goal qok pl1 n1 md c))) (mdKey md) = Some d \<and>
    (svc_Selector s \<subseteq>\<^sub>m dsp_TemplateLabels (dep_Spec d)) = (mdEngine md2 = mdEngine md)"
proof -
  let ?c2 = "editMD md2 (md_goal qok pl1 n1 md c)"
  obtain p d where d: "BuildDeployment qok (withFinalizer md2) (mdEngine md2)
      pl2 = Some d"
    using assms(2) by (metis quantitiesParse_builds withFinalizer_simps(9))
  have "dsp_TemplateLabels (dep_Spec (goalDeployment qok pl2 (withFinalizer md2) ?c2)) =
      deploymentLabels (md_Name md2) (mdEngine md2)"
    using d by (auto simp: goalDeployment_def elim!: BuildDeployment_SomeD split: option.splits)
  moreover have "svc_Selector (goalService (withFinalizer md2) ?c2) =
      [''app.kubernetes.io/name'' \<mapsto> mdEngine md, ''kube-llmops/model'' \<mapsto> md_Name md]"
    using assms(1,3) by (simp add: goalService_def editMD_def md_goal_def Let_def BuildService_def)
  ultimately show ?thesis
    using assms(1) selector_le_labels [of "mdEngine md" "md_Name md" "md_Name md2" "mdEngine md2"]
    by (auto simp: md_goal_def [of qok pl2 n2] Let_def)
qed

text \<open>
  C24 (an engine change cuts the Service off). A model is reconciled on a quiescent cluster in which
  it has no Service yet; then its spec is edited and it is reconciled again. Both succeed; the
  Service is never updated, so afterwards it selects the pods of the Deployment exactly when the
  edit kept the engine: after an engine change the endpoint in the status reaches no pod.
\<close>

theorem engine_change_strands_service:
  assumes "kube_store K lib view" and "gatewayApart gw view" and "cluster_ok (view w)"
    and "cl_MDs (view w) (mdKey md) = Some md" and "om_DeletionTimestamp (md_ObjectMeta md) = None"
    and "quantitiesParse (quantityOk lib) md" and "cl_Services (view w) (mdKey md) = None"
    and "run_state (mdReconcile (reconcilerOf K lib gw) (mdKey md)) w = (out1, w1)"
    and "mdKey md2 = mdKey md" and "om_DeletionTimestamp (md_ObjectMeta md2) = None"
    and "quantitiesParse (quantityOk lib) md2" and "view u = editMD md2 (view w1)"
    and "run_state (mdReconcile (reconcilerOf K lib gw) (mdKey md2)) u = (out2, u')"
  shows "out2 = Done 0 None \<and> (\<exists>s d. cl_Services (view u') (mdKey md) = Some s \<and>
    cl_Deployments (view u') (mdKey md) = Some d \<and>
    (svc_Selector s \<subseteq>\<^sub>m dsp_TemplateLabels (dep_Spec d)) = (mdEngine md2 = mdEngine md))"
proof -
  note run = reconciler_goal [OF assms(1,2)]
  obtain n1 pl1 where w1: "view w1 = md_goal (quantityOk lib) pl1 n1 md (view w)"
    using run [OF assms(3-6,8)] by blast
  have "cluster_ok (view u)"
    unfolding assms(12) w1 editMD_def using md_goal_ok [OF assms(3,6)] assms(9)
    by (auto simp: cluster_ok_def)
  moreover have "cl_MDs (view u) (mdKey md2) = Some md2"
    by (simp add: assms(12) editMD_def)
  ultimately obtain n2 pl2 where "out2 = Done 0 None" "view u' = md_goal (quantityOk lib) pl2 n2 md2 (view u)"
    using run [OF _ _ assms(10,11,13)] by blast
  then show ?thesis
    using goal_service_after_edit [OF assms(9,11,7), of pl2 n2 pl1 n1] by (simp add: assms(12) w1)
qed

text \<open>The model of the witness is first served by vLLM, then by TEI.\<close>

definition engineMD :: "string \<Rightarrow> ModelDeployment" where
  "engineMD e = exampleMD\<lparr>md_Spec := (md_Spec exampleMD)\<lparr>mds_Engine := e\<rparr>\<rparr>"

lemma engineMD_simps [simp]:
  "mdKey (engineMD e) = (''default'', ''qwen-7b'')"
  "om_DeletionTimestamp (md_ObjectMeta (engineMD e)) = None"
  "md_Name (engineMD e) = ''qwen-7b''" "md_Namespace (engineMD e) = ''default''"
  "e \<notin> {'''', ''auto''} \<Longrightarrow> mdEngine (engineMD e) = e"
  by (simp_all add: engineMD_def mdEngine_def ResolveEngine_def ResolveEngineEx_explicit)

theorem engine_change_strands_service_witness:
  "\<exists>s d u'. u' = snd (run_state (mdReconcile (reconcilerOf mem_kube mem_lib None) (''default'', ''qwen-7b''))
       (editMD (engineMD ''tei'') (snd (run_state (mdReconcile (reconcilerOf mem_kube mem_lib None)
          (''default'', ''qwen-7b'')) (oneModel (engineMD ''vllm'')))))) \<and>
     cl_Services u' (''default'', ''qwen-7b'') = Some s \<and>
     cl_Deployments u' (''default'', ''qwen-7b'') = Some d \<and>
     \<not> svc_Selector s \<subseteq>\<^sub>m dsp_TemplateLabels (dep_Spec d)"
proof -
  have ns: "cl_Services (oneModel (engineMD ''vllm'')) (mdKey (engineMD ''vllm'')) = None"
    by (simp add: oneModel_def emptyCluster_def)
  have gw: "gatewayApart None (\<lambda>c :: cluster. c)" by (simp add: gatewayApart_def)
  have ne: "mdEngine (engineMD ''tei'') \<noteq> mdEngine (engineMD ''vllm'')" by simp
  show ?thesis
    using engine_change_strands_service [OF mem.kube_store_axioms gw oneModel_ok(1) oneModel_ok(2) _
        exampleMD_parses ns surjective_pairing _ _ exampleMD_parses refl surjective_pairing,
        of "engineMD ''tei''"] ne
    by simp
qed

subsection \<open>The status\<close>

text \<open>
  Conditions: \<open>setCondition\<close> treats the condition list as a map from types: the condition of
  the given type becomes the given one, every other is kept, and the types stay in their order, a
  new one at the end; so a list without repeated types never gets one.
\<close>

theorem conditions_like_map:
  "List.find (\<lambda>x. c_Type x = t) (setCondition cs c) =
     (if t = c_Type c then Some c else List.find (\<lambda>x. c_Type x = t) cs) \<and>
   map c_Type (setCondition cs c) =
     (if c_Type c \<in> set (map c_Type cs) then map c_Type cs else map c_Type cs @ [c_Type c]) \<and>
   distinct (map c_Type (setCondition cs c)) = distinct (map c_Type cs)"
  using find_setCondition [of t cs c] types_setCondition [of cs c] by auto

text \<open>
  Phase and condition agree. The computed status is Ready exactly when at least one replica
  is wanted and all wanted ones are ready, so never for a model scaled to zero; the \<open>Ready\<close>
  condition is \<open>True\<close> in exactly that case and carries the generation of the object; conditions
  of other types are untouched.
\<close>

theorem md_status_ready:
  "(mdst_Phase (mdComputeStatus md e d n) = ''Ready'') =
     (0 < desiredReplicas md \<and> desiredReplicas md \<le> dst_ReadyReplicas d) \<and>
   (\<exists>c. List.find (\<lambda>x. c_Type x = ''Ready'') (mdst_Conditions (mdComputeStatus md e d n)) = Some c \<and>
      (c_Status c = ConditionTrue) = (mdst_Phase (mdComputeStatus md e d n) = ''Ready'') \<and>
      c_ObservedGeneration c = om_Generation (md_ObjectMeta md)) \<and>
   List.find (\<lambda>x. c_Type x \<noteq> ''Ready'' \<and> c_Type x = t) (mdst_Conditions (mdComputeStatus md e d n)) =
     List.find (\<lambda>x. c_Type x \<noteq> ''Ready'' \<and> c_Type x = t) (mdst_Conditions (md_Status md))"
proof (intro conjI)
  have other: "List.find (\<lambda>x. c_Type x \<noteq> ''Ready'' \<and> c_Type x = t) (setCondition cs (mdReadyCond md p r k n)) =
      List.find (\<lambda>x. c_Type x \<noteq> ''Ready'' \<and> c_Type x = t) cs" for cs p r k
    by (induction cs) auto
  then show "List.find (\<lambda>x. c_Type x \<noteq> ''Ready'' \<and> c_Type x = t) (mdst_Conditions (mdComputeStatus md e d n)) =
     List.find (\<lambda>x. c_Type x \<noteq> ''Ready'' \<and> c_Type x = t) (mdst_Conditions (md_Status md))"
    by (simp add: mdComputeStatus_def Let_def)
qed (auto simp: mdComputeStatus_def Let_def mdPhase_def find_setCondition mdReadyCond_def)

end
