(* ===== verification/Workflow.thy ===== *)
theory Workflow
  imports ApiTypes Json
begin

section \<open>The Argo workflow of a FineTuneRun (internal/builder/workflow.go)\<close>

text \<open>
  \<open>BuildArgoWorkflow\<close> makes the untyped workflow object: six templates, a DAG that chains them,
  one shared volume. The definitions follow the Go function part by part.
\<close>

definition envVar :: "string \<Rightarrow> string \<Rightarrow> jval" where
  "envVar name value = JObj [(''name'', JStr name), (''value'', JStr value)]"

definition dagTask :: "string \<Rightarrow> string \<Rightarrow> string list \<Rightarrow> jval" where
  "dagTask name template deps =
     (let t = [(''name'', JStr name), (''template'', JStr template)]
      in JObj (if length deps > 0 then jset t ''dependencies'' (JArr (map JStr deps)) else t))"

text \<open>\<open>buildGPUResources\<close>; a nil result is the empty object, whose \<open>len\<close> is 0 too.\<close>

definition buildGPUResources :: "ModelResources \<Rightarrow> jobj" where
  "buildGPUResources r =
     (let limits = (if mr_GPU r > 0 then jset [] ''nvidia.com/gpu'' (JStr (showInt (mr_GPU r)))
                    else []);
          requests = [];
          (limits, requests) =
            (if mr_Memory r \<noteq> ''''
             then (jset limits ''memory'' (JStr (mr_Memory r)),
                   jset requests ''memory'' (JStr (mr_Memory r)))
             else (limits, requests));
          (limits, requests) =
            (if mr_CPU r \<noteq> ''''
             then (jset limits ''cpu'' (JStr (mr_CPU r)), jset requests ''cpu'' (JStr (mr_CPU r)))
             else (limits, requests))
      in if length limits = 0 \<and> length requests = 0 then []
         else let res = [];
                  res = (if length limits > 0 then jset res ''limits'' (JObj limits) else res);
                  res = (if length requests > 0 then jset res ''requests'' (JObj requests) else res)
              in res)"

definition workflowName :: "FineTuneRun \<Rightarrow> string" where
  "workflowName ftr =
     (let outputTrunc = fts_OutputName (ftr_Spec ftr);
          outputTrunc = (if length outputTrunc > 8 then take 8 outputTrunc else outputTrunc)
      in TrimRight (ftr_Name ftr @ ''-'' @ outputTrunc) (CHR ''-''))"

text \<open>A task template: a name and its container.\<close>

definition taskTemplate :: "string \<Rightarrow> jobj \<Rightarrow> jval" where
  "taskTemplate name container = JObj [(''name'', JStr name), (''container'', JObj container)]"

definition BuildArgoWorkflow :: "FineTuneRun \<Rightarrow> string \<Rightarrow> jval" where
  "BuildArgoWorkflow ftr releaseName =
     (let name = workflowName ftr;
          mlflowURL = ''http://'' @ releaseName @ ''-mlflow:5000'';
          minioEndpoint = releaseName @ ''-minio:9000'';
          labels = JObj [(''app.kubernetes.io/name'', JStr ''finetune''),
                         (''app.kubernetes.io/part-of'', JStr ''kube-llmops''),
                         (''kube-llmops/finetunerun'', JStr (ftr_Name ftr))];
          workspaceMount = JObj [(''name'', JStr ''workspace''), (''mountPath'', JStr ''/workspace'')];
          prepareData = taskTemplate ''prepare-data''
            [(''image'', JStr ''kube-llmops/model-loader:latest''),
             (''env'', JArr [envVar ''S3_ENDPOINT'' minioEndpoint,
                             envVar ''MODEL_SOURCE'' (fts_BaseModel (ftr_Spec ftr))]),
             (''volumeMounts'', JArr [workspaceMount])];
          finetuneContainer =
            [(''image'', JStr ''hiyouga/llamafactory:latest''),
             (''env'', JArr [envVar ''MLFLOW_TRACKING_URI'' mlflowURL,
                             envVar ''MLFLOW_EXPERIMENT_NAME'' (fts_OutputName (ftr_Spec ftr))]),
             (''volumeMounts'', JArr [workspaceMount])];
          res = buildGPUResources (fts_Resources (ftr_Spec ftr));
          finetuneContainer = jset_if (length res > 0) ''resources'' (JObj res) finetuneContainer;
          finetune = taskTemplate ''finetune'' finetuneContainer;
          mergeUpload = taskTemplate ''merge-upload''
            [(''image'', JStr ''kube-llmops/model-loader:latest''),
             (''env'', JArr [envVar ''MLFLOW_TRACKING_URI'' mlflowURL,
                             envVar ''S3_ENDPOINT'' minioEndpoint]),
             (''volumeMounts'', JArr [workspaceMount])];
          evaluate = taskTemplate ''evaluate''
            [(''image'', JStr ''python:3.13-slim''), (''volumeMounts'', JArr [workspaceMount])];
          qualityGate = taskTemplate ''quality-gate''
            [(''image'', JStr ''python:3.13-slim''), (''volumeMounts'', JArr [workspaceMount])];
          deploy = taskTemplate ''deploy''
            [(''image'', JStr ''bitnami/kubectl:latest''), (''volumeMounts'', JArr [workspaceMount])];
          mainTemplate = JObj [(''name'', JStr ''main''), (''dag'', JObj [(''tasks'', JArr
            [dagTask ''prepare-data'' ''prepare-data'' [],
             dagTask ''finetune'' ''finetune'' [''prepare-data''],
             dagTask ''merge-upload'' ''merge-upload'' [''finetune''],
             dagTask ''evaluate'' ''evaluate'' [''merge-upload''],
             dagTask ''quality-gate'' ''quality-gate'' [''evaluate''],
             dagTask ''deploy'' ''deploy'' [''quality-gate'']])])];
          volumeClaimTemplates = [JObj
            [(''metadata'', JObj [(''name'', JStr ''workspace'')]),
             (''spec'', JObj [(''accessModes'', JArr [JStr ''ReadWriteOnce'']),
                (''resources'', JObj [(''requests'', JObj [(''storage'', JStr ''10Gi'')])])])]]
      in JObj
           [(''apiVersion'', JStr ''argoproj.io/v1alpha1''),
            (''kind'', JStr ''Workflow''),
            (''metadata'', JObj [(''name'', JStr name),
                                 (''namespace'', JStr (ftr_Namespace ftr)),
                                 (''labels'', labels)]),
            (''spec'', JObj
               [(''serviceAccountName'', JStr (releaseName @ ''-finetune'')),
                (''activeDeadlineSeconds'', JInt 21600),
                (''entrypoint'', JStr ''main''),
                (''volumeClaimTemplates'', JArr volumeClaimTemplates),
                (''templates'', JArr [mainTemplate, prepareData, finetune, mergeUpload, evaluate,
                                      qualityGate, deploy])])])"

subsection \<open>Reading a workflow back\<close>

text \<open>
  What Argo reads from a workflow: the templates, the tasks of the entry point's DAG with their
  dependencies, the volumes that the containers mount and the claims of the workflow.
\<close>

definition wf_templates :: "jval \<Rightarrow> jval list" where
  "wf_templates w = jitems (jpath w [''spec'', ''templates''])"

definition wf_template :: "jval \<Rightarrow> string \<Rightarrow> jval option" where
  "wf_template w n = List.find (\<lambda>t. jget t ''name'' = Some (JStr n)) (wf_templates w)"

definition wf_tasks :: "jval \<Rightarrow> jval list" where
  "wf_tasks w =
     (case wf_template w (jstr (jpath w [''spec'', ''entrypoint''])) of
        None \<Rightarrow> []
      | Some t \<Rightarrow> jitems (jpath t [''dag'', ''tasks'']))"

definition task_name :: "jval \<Rightarrow> string" where
  "task_name t = jstr (jget t ''name'')"

definition task_deps :: "jval \<Rightarrow> string list" where
  "task_deps t = map (\<lambda>d. jstr (Some d)) (jitems (jget t ''dependencies''))"

definition task_image :: "jval \<Rightarrow> jval \<Rightarrow> string" where
  "task_image w t =
     (case wf_template w (jstr (jget t ''template'')) of
        None \<Rightarrow> ''''
      | Some u \<Rightarrow> jstr (jpath u [''container'', ''image'']))"

definition wf_mounts :: "jval \<Rightarrow> string list" where
  "wf_mounts w = concat (map (\<lambda>t. map (\<lambda>m. jstr (jget m ''name''))
     (jitems (jpath t [''container'', ''volumeMounts'']))) (wf_templates w))"

definition wf_claims :: "jval \<Rightarrow> string list" where
  "wf_claims w = map (\<lambda>c. jstr (jpath c [''metadata'', ''name'']))
     (jitems (jpath w [''spec'', ''volumeClaimTemplates'']))"

text \<open>
  A DAG in topological order: every dependency of a task is an earlier task; the names of the
  tasks are distinct.
\<close>

fun topological :: "string list \<Rightarrow> jval list \<Rightarrow> bool" where
  "topological seen [] = True"
| "topological seen (t # ts) =
     (task_name t \<notin> set seen \<and> list_all (\<lambda>d. d \<in> set seen) (task_deps t) \<and>
      topological (task_name t # seen) ts)"

text \<open>
  One completion of a task: Argo may complete a task that is not complete yet when all its
  dependencies are complete. \<open>dag_run ts tr\<close> holds of every order \<open>tr\<close> in which the tasks
  \<open>ts\<close> can complete.
\<close>

inductive dag_run :: "jval list \<Rightarrow> string list \<Rightarrow> bool" for ts where
  dag_start: "dag_run ts []"
| dag_complete: "dag_run ts tr \<Longrightarrow> t \<in> set ts \<Longrightarrow> task_name t \<notin> set tr \<Longrightarrow>
    set (task_deps t) \<subseteq> set tr \<Longrightarrow> dag_run ts (tr @ [task_name t])"

inductive_cases dag_run_snocE: "dag_run ts (tr @ [n])"

end
