(* ===== verification/WorkflowProps.thy ===== *)
theory WorkflowProps
  imports Workflow Examples Validation
begin

section \<open>Properties of the Argo workflow\<close>

subsection \<open>The parts of a built workflow\<close>

lemma task_dagTask [simp]:
  "task_name (dagTask n t ds) = n" "task_deps (dagTask n t ds) = ds"
  "jget (dagTask n t ds) ''template'' = Some (JStr t)"
  by (auto simp: task_name_def task_deps_def dagTask_def Let_def comp_def)

lemma template_simps [simp]:
  "jget (taskTemplate n c) ''name'' = Some (JStr n)"
  "jget (taskTemplate n c) ''container'' = Some (JObj c)"
  by (simp_all add: taskTemplate_def)

definition pipeline :: "string list" where
  "pipeline =
     [''prepare-data'', ''finetune'', ''merge-upload'', ''evaluate'', ''quality-gate'', ''deploy'']"

text \<open>The chain: each task depends on the one before it.\<close>

fun chain :: "string list \<Rightarrow> string list \<Rightarrow> jval list" where
  "chain deps [] = []"
| "chain deps (n # ns) = dagTask n n deps # chain [n] ns"

text \<open>What every container of the workflow has: an image and the shared workspace.\<close>

definition worker :: "jobj \<Rightarrow> bool" where
  "worker c \<longleftrightarrow> jstr (map_of c ''image'') \<noteq> '''' \<and>
     map_of c ''volumeMounts'' =
       Some (JArr [JObj [(''name'', JStr ''workspace''), (''mountPath'', JStr ''/workspace'')]])"

lemma templates_built:
  "\<exists>cs. wf_templates (BuildArgoWorkflow f rel) =
       JObj [(''name'', JStr ''main''), (''dag'', JObj [(''tasks'', JArr (chain [] pipeline))])]
       # map2 taskTemplate pipeline cs \<and> length cs = 6 \<and> list_all worker cs"
  unfolding BuildArgoWorkflow_def Let_def wf_templates_def
  by (rule exI [of _ "[c1, c2, c3, c4, c5, c6]" for c1 c2 c3 c4 c5 c6], intro conjI,
      simp add: pipeline_def, simp, simp add: worker_def map_of_jset_if)

lemma entrypoint_built: "jpath (BuildArgoWorkflow f rel) [''spec'', ''entrypoint''] = Some (JStr ''main'')"
  by (simp add: BuildArgoWorkflow_def Let_def)

lemma tasks_built: "wf_tasks (BuildArgoWorkflow f rel) = chain [] pipeline"
proof -
  obtain cs where "wf_templates (BuildArgoWorkflow f rel) =
       JObj [(''name'', JStr ''main''), (''dag'', JObj [(''tasks'', JArr (chain [] pipeline))])]
       # map2 taskTemplate pipeline cs"
    using templates_built by blast
  then show ?thesis
    unfolding wf_tasks_def wf_template_def entrypoint_built by simp
qed

lemma metadata_built:
  "jpath (BuildArgoWorkflow f rel) [''metadata'', ''name''] = Some (JStr (workflowName f))"
  "jpath (BuildArgoWorkflow f rel) [''metadata'', ''namespace''] = Some (JStr (ftr_Namespace f))"
  "jpath (BuildArgoWorkflow f rel) [''metadata'', ''labels'', ''kube-llmops/finetunerun''] =
     Some (JStr (ftr_Name f))"
  by (simp_all add: BuildArgoWorkflow_def Let_def)

lemma length6: "length cs = 6 \<longleftrightarrow> (\<exists>a b c d e f. cs = [a, b, c, d, e, f])"
  by (auto simp: numeral_eq_Suc length_Suc_conv)

lemma images_built:
  "list_all (\<lambda>t. task_image (BuildArgoWorkflow f rel) t \<noteq> '''') (chain [] pipeline)"
proof -
  obtain cs where "wf_templates (BuildArgoWorkflow f rel) =
       JObj [(''name'', JStr ''main''), (''dag'', JObj [(''tasks'', JArr (chain [] pipeline))])]
       # map2 taskTemplate pipeline cs" and "length cs = 6" and "list_all worker cs"
    using templates_built by blast
  then show ?thesis
    by (auto simp: task_image_def wf_template_def length6 pipeline_def worker_def)
qed

lemma mounts_built: "set (wf_mounts (BuildArgoWorkflow f rel)) \<subseteq> {''workspace''}"
proof -
  obtain cs where "wf_templates (BuildArgoWorkflow f rel) =
       JObj [(''name'', JStr ''main''), (''dag'', JObj [(''tasks'', JArr (chain [] pipeline))])]
       # map2 taskTemplate pipeline cs" and "length cs = 6" and "list_all worker cs"
    using templates_built by blast
  then show ?thesis
    by (auto simp: wf_mounts_def length6 pipeline_def worker_def)
qed

lemma claims_built: "wf_claims (BuildArgoWorkflow f rel) = [''workspace'']"
  by (simp add: wf_claims_def BuildArgoWorkflow_def Let_def)

lemma json_ok_buildGPUResources: "json_ok (JObj (buildGPUResources r))"
  by (auto simp: buildGPUResources_def Let_def)

lemma json_ok_built: "json_ok (BuildArgoWorkflow f rel)"
proof -
  have "json_ok (JObj (jset_if g ''resources'' (JObj (buildGPUResources r))
     [(''image'', i), (''env'', JArr [envVar a b, envVar c d]), (''volumeMounts'', JArr [m])]))"
    if "json_ok m" "json_ok i" for g r i a b c d m
    using that json_ok_buildGPUResources
    by (intro json_ok_jset_if) (simp_all add: envVar_def)
  then show ?thesis
    unfolding BuildArgoWorkflow_def Let_def taskTemplate_def
    by (simp add: envVar_def dagTask_def Let_def)
qed

subsection \<open>Chains run in order\<close>

lemma chain_names: "map task_name (chain ds ns) = ns"
  by (induction ns arbitrary: ds) simp_all

lemma chain_deps:
  "t \<in> set (chain ds ns) \<Longrightarrow>
     \<exists>us vs. ns = us @ task_name t # vs \<and> task_deps t = (if us = [] then ds else [last us])"
proof (induction ns arbitrary: ds)
  case (Cons n ns)
  show ?case
  proof (cases "t = dagTask n n ds")
    case True
    then have "n # ns = [] @ task_name t # ns \<and> task_deps t = (if [] = [] then ds else [last []])"
      by simp
    then show ?thesis by blast
  next
    case False
    with Cons obtain us vs where "ns = us @ task_name t # vs"
      and "task_deps t = (if us = [] then [n] else [last us])"
      by fastforce
    then have "n # ns = (n # us) @ task_name t # vs \<and>
        task_deps t = (if n # us = [] then ds else [last (n # us)])"
      by simp
    then show ?thesis by blast
  qed
qed simp

lemma dag_run_chain:
  assumes "distinct ns" and "dag_run (chain [] ns) tr"
  shows "prefix tr ns"
  using assms(2)
proof induction
  case dag_start
  show ?case by simp
next
  case (dag_complete tr t)
  obtain us vs where ns: "ns = us @ task_name t # vs"
    and deps: "task_deps t = (if us = [] then [] else [last us])"
    using chain_deps [OF dag_complete(2)] by metis
  obtain zs where tr: "ns = tr @ zs" using dag_complete.IH by (auto simp: prefix_def)
  have "us = tr"
  proof (rule ccontr)
    assume "us \<noteq> tr"
    have "length us = length tr"
    proof (rule ccontr)
      assume ne: "length us \<noteq> length tr"
      show False
      proof (cases "length us < length tr")
        case True
        then have "ns ! length us \<in> set tr" using tr by (simp add: nth_append)
        then show False using ns dag_complete(3) by simp
      next
        case False
        with ne have lt: "length tr < length us" by simp
        then have "us \<noteq> []" by auto
        then have "last us \<in> set tr" using deps dag_complete(4) by simp
        then obtain i where i: "i < length tr" "tr ! i = last us" by (auto simp: in_set_conv_nth)
        have "ns ! i = ns ! (length us - 1)"
          using i ns tr lt \<open>us \<noteq> []\<close> by (metis (no_types, lifting) diff_less last_conv_nth
              length_greater_0_conv less_one nth_append)
        moreover have "i < length ns" "length us - 1 < length ns" "i \<noteq> length us - 1"
          using i lt ns by auto
        ultimately show False using assms(1) by (simp add: nth_eq_iff_index_eq)
      qed
    qed
    with ns tr \<open>us \<noteq> tr\<close> show False by (simp add: append_eq_append_conv)
  qed
  with ns show ?case by simp
qed

lemma topological_chain:
  assumes "distinct ns" and "set seen \<inter> set ns = {}" and "set ds \<subseteq> set seen"
  shows "topological seen (chain ds ns)"
  using assms
proof (induction ns arbitrary: seen ds)
  case (Cons n ns)
  have "topological (n # seen) (chain [n] ns)"
    using Cons.prems by (intro Cons.IH) auto
  then show ?case using Cons.prems by (auto simp: list_all_iff)
qed simp

lemma distinct_pipeline: "distinct pipeline"
  by (simp add: pipeline_def)

text \<open>
  C36 (the workflow is well formed). The built workflow is a proper object (no member is given
  twice); it is named, placed and labelled after its run; the tasks of its entry point are
  distinct and listed in topological order; each task's template exists and has an image; each
  volume that a container mounts has a claim.
\<close>

theorem workflow_well_formed:
  "json_ok (BuildArgoWorkflow f rel) \<and>
   jpath (BuildArgoWorkflow f rel) [''metadata'', ''namespace''] = Some (JStr (ftr_Namespace f)) \<and>
   jpath (BuildArgoWorkflow f rel) [''metadata'', ''labels'', ''kube-llmops/finetunerun''] =
     Some (JStr (ftr_Name f)) \<and>
   map task_name (wf_tasks (BuildArgoWorkflow f rel)) =
     [''prepare-data'', ''finetune'', ''merge-upload'', ''evaluate'', ''quality-gate'', ''deploy''] \<and>
   topological [] (wf_tasks (BuildArgoWorkflow f rel)) \<and>
   list_all (\<lambda>t. task_image (BuildArgoWorkflow f rel) t \<noteq> '''')
     (wf_tasks (BuildArgoWorkflow f rel)) \<and>
   set (wf_mounts (BuildArgoWorkflow f rel)) \<subseteq> set (wf_claims (BuildArgoWorkflow f rel))"
proof (intro conjI)
  have tasks: "wf_tasks (BuildArgoWorkflow f rel) = chain [] pipeline" by (rule tasks_built)
  show "json_ok (BuildArgoWorkflow f rel)" by (rule json_ok_built)
  show "map task_name (wf_tasks (BuildArgoWorkflow f rel)) =
     [''prepare-data'', ''finetune'', ''merge-upload'', ''evaluate'', ''quality-gate'', ''deploy'']"
    unfolding tasks chain_names by (simp add: pipeline_def)
  show "topological [] (wf_tasks (BuildArgoWorkflow f rel))"
    unfolding tasks by (intro topological_chain distinct_pipeline) simp_all
  show "list_all (\<lambda>t. task_image (BuildArgoWorkflow f rel) t \<noteq> '''')
     (wf_tasks (BuildArgoWorkflow f rel))"
    unfolding tasks by (rule images_built)
  show "set (wf_mounts (BuildArgoWorkflow f rel)) \<subseteq> set (wf_claims (BuildArgoWorkflow f rel))"
    by (simp add: mounts_built claims_built)
qed (rule metadata_built)+

subsection \<open>Order of execution\<close>

lemma prefix_pipeline_run:
  assumes "distinct ns" and "prefix tr ns"
  shows "dag_run (chain [] ns) tr"
  using assms(2)
proof (induction tr rule: rev_induct)
  case (snoc n tr)
  then obtain zs where ns: "ns = tr @ n # zs" by (auto simp: prefix_def)
  have "dag_run (chain [] ns) tr" using snoc by (auto dest: append_prefixD)
  moreover obtain t where t: "t \<in> set (chain [] ns)" "task_name t = n"
    using chain_names [of "[]" ns] ns by (metis in_set_conv_decomp in_set_conv_nth nth_map
        length_map nth_mem)
  moreover have "n \<notin> set tr" using assms(1) ns by simp
  moreover have "set (task_deps t) \<subseteq> set tr"
  proof -
    obtain us vs where "ns = us @ n # vs" and d: "task_deps t = (if us = [] then [] else [last us])"
      using chain_deps [OF t(1)] t(2) by metis
    with ns assms(1) have "us = tr" using append_Cons_eq_iff [of n tr zs us vs] by auto
    with d show ?thesis by simp
  qed
  ultimately show ?case using dag_complete by blast
qed (rule dag_start)

text \<open>
  C32 (the steps run one after the other). The orders in which Argo can complete the tasks of a
  built workflow, when it completes a task only after its dependencies, are exactly the initial
  parts of data preparation, fine-tuning, merge and upload, evaluation, quality gate, deployment:
  no step can be skipped or overtaken, and nothing blocks before the last one.
\<close>

theorem steps_run_in_order:
  "dag_run (wf_tasks (BuildArgoWorkflow f rel)) tr \<longleftrightarrow>
     prefix tr [''prepare-data'', ''finetune'', ''merge-upload'', ''evaluate'', ''quality-gate'',
                ''deploy'']"
proof -
  have "dag_run (chain [] pipeline) tr \<longleftrightarrow> prefix tr pipeline"
    using dag_run_chain prefix_pipeline_run distinct_pipeline by blast
  then show ?thesis unfolding tasks_built by (simp add: pipeline_def)
qed

subsection \<open>Name, resources, ignored fields\<close>

lemma TrimRight_split: "\<exists>k. s = TrimRight s c @ replicate k c"
proof -
  have "takeWhile (\<lambda>x. x = c) (rev s) = replicate (length (takeWhile (\<lambda>x. x = c) (rev s))) c"
    by (rule replicate_length_same [symmetric]) (auto dest: set_takeWhileD)
  then have "rev s = replicate (length (takeWhile (\<lambda>x. x = c) (rev s))) c @ dropWhile (\<lambda>x. x = c) (rev s)"
    using takeWhile_dropWhile_id [of "\<lambda>x. x = c" "rev s"] by metis
  then have "s = TrimRight s c @ replicate (length (takeWhile (\<lambda>x. x = c) (rev s))) c"
    unfolding TrimRight_def by (metis rev_append rev_replicate rev_rev_ident)
  then show ?thesis by blast
qed

lemma TrimRight_not_HasSuffix: "\<not> HasSuffix (TrimRight s c) [c]"
  using TrimRight_no_suffix [of s c] by (auto simp: HasSuffix_def suffix_def)

text \<open>
  Name of the workflow: The workflow's name is the run's name, a hyphen and the first eight
  bytes of the output name, less exactly the trailing hyphens: it extends the run's name by at
  most nine bytes and never ends in a hyphen.
\<close>

theorem workflow_name_shape:
  "\<exists>n k. jpath (BuildArgoWorkflow f rel) [''metadata'', ''name''] = Some (JStr n) \<and>
     ftr_Name f @ ''-'' @ take 8 (fts_OutputName (ftr_Spec f)) = n @ replicate k (CHR ''-'') \<and>
     \<not> HasSuffix n ''-'' \<and> length n \<le> length (ftr_Name f) + 9"
proof -
  let ?s = "ftr_Name f @ ''-'' @ take 8 (fts_OutputName (ftr_Spec f))"
  have n: "workflowName f = TrimRight ?s (CHR ''-'')"
    by (simp add: workflowName_def Let_def)
  obtain k where "?s = workflowName f @ replicate k (CHR ''-'')"
    using TrimRight_split [of ?s] unfolding n by blast
  moreover have "\<not> HasSuffix (workflowName f) ''-''"
    unfolding n by (rule TrimRight_not_HasSuffix)
  moreover have "length (workflowName f) \<le> length (ftr_Name f) + 9"
    using length_TrimRight [of ?s "CHR ''-''"] unfolding n by simp
  ultimately show ?thesis using metadata_built by blast
qed

definition runNamed :: "string \<Rightarrow> string \<Rightarrow> FineTuneRun" where
  "runNamed n out = exampleFTR\<lparr>ftr_ObjectMeta := (ftr_ObjectMeta exampleFTR)\<lparr>om_Name := n\<rparr>,
     ftr_Spec := (ftr_Spec exampleFTR)\<lparr>fts_OutputName := out\<rparr>\<rparr>"

text \<open>
  Workflow names collide. The name does not determine the run: two runs of one namespace
  with different names and different outputs, both accepted by admission, can get workflows of
  the same name; creating the second one then fails.
\<close>

theorem workflow_names_collide:
  "\<exists>f g. ftr_Namespace f = ftr_Namespace g \<and> ftr_Name f \<noteq> ftr_Name g \<and>
     fts_OutputName (ftr_Spec f) \<noteq> fts_OutputName (ftr_Spec g) \<and>
     ValidateFineTuneRunSpec (ftr_Spec f) = None \<and> ValidateFineTuneRunSpec (ftr_Spec g) = None \<and>
     jpath (BuildArgoWorkflow f rel) [''metadata'', ''name''] =
       jpath (BuildArgoWorkflow g rel) [''metadata'', ''name'']"
proof (intro exI conjI)
  let ?f = "runNamed ''chat'' ''lora-v1''" and ?g = "runNamed ''chat-lora'' ''v1''"
  show "jpath (BuildArgoWorkflow ?f rel) [''metadata'', ''name''] =
       jpath (BuildArgoWorkflow ?g rel) [''metadata'', ''name'']"
    unfolding metadata_built by (simp add: workflowName_def runNamed_def TrimRight_def exampleFTR_def)
qed (simp_all add: runNamed_def exampleFTR_def ValidateFineTuneRunSpec_def validMethods_def
    validTypes_def zeroFTRSpec_def zeroTraining_def)

lemma BuildArgoWorkflow_cong:
  assumes "ftr_ObjectMeta f = ftr_ObjectMeta g"
    and "fts_BaseModel (ftr_Spec f) = fts_BaseModel (ftr_Spec g)"
    and "fts_OutputName (ftr_Spec f) = fts_OutputName (ftr_Spec g)"
    and "fts_Resources (ftr_Spec f) = fts_Resources (ftr_Spec g)"
  shows "BuildArgoWorkflow f rel = BuildArgoWorkflow g rel"
  unfolding BuildArgoWorkflow_def workflowName_def assms ..

text \<open>
  Fields without effect. The workflow does not depend on the run's method, data source,
  training parameters, evaluation, quality gate and deploy settings: with all of them changed
  the built workflow is the same, so each run evaluates, gates and deploys.
\<close>

theorem workflow_ignores:
  "BuildArgoWorkflow (f\<lparr>ftr_Spec := (ftr_Spec f)\<lparr>fts_Method := m, fts_DataSource := d,
       fts_Training := t, fts_Evaluation := e, fts_QualityGate := q, fts_Deploy := dp\<rparr>,
       ftr_Status := st\<rparr>) rel = BuildArgoWorkflow f rel"
  by (rule BuildArgoWorkflow_cong) simp_all

definition wf_container :: "jval \<Rightarrow> string \<Rightarrow> jval option" where
  "wf_container w n = Option.bind (wf_template w n) (\<lambda>t. jget t ''container'')"

lemma buildGPUResources_path:
  "jpath (JObj (buildGPUResources r)) [''limits'', k] =
     (if k = ''cpu'' \<and> mr_CPU r \<noteq> '''' then Some (JStr (mr_CPU r))
      else if k = ''memory'' \<and> mr_Memory r \<noteq> '''' then Some (JStr (mr_Memory r))
      else if k = ''nvidia.com/gpu'' \<and> mr_GPU r > 0 then Some (JStr (showInt (mr_GPU r)))
      else None)"
  "jpath (JObj (buildGPUResources r)) [''requests'', k] =
     (if k = ''cpu'' \<and> mr_CPU r \<noteq> '''' then Some (JStr (mr_CPU r))
      else if k = ''memory'' \<and> mr_Memory r \<noteq> '''' then Some (JStr (mr_Memory r))
      else None)"
  by (auto simp: buildGPUResources_def Let_def)

lemma buildGPUResources_Nil:
  "buildGPUResources r = [] \<longleftrightarrow> mr_GPU r \<le> 0 \<and> mr_Memory r = '''' \<and> mr_CPU r = ''''"
  by (auto simp: buildGPUResources_def Let_def)

lemma finetune_container:
  "\<exists>c. wf_container (BuildArgoWorkflow f rel) ''finetune'' = Some (JObj (jset_if
      (length (buildGPUResources (fts_Resources (ftr_Spec f))) > 0) ''resources''
      (JObj (buildGPUResources (fts_Resources (ftr_Spec f)))) c)) \<and> map_of c ''resources'' = None"
  unfolding BuildArgoWorkflow_def Let_def wf_container_def wf_template_def wf_templates_def
  by (rule exI, rule conjI) (simp, simp)

text \<open>
  Resources of the training step: The container of the fine-tuning step asks for exactly
  the configured resources: CPU and memory as request and limit, GPUs only as a limit (which
  Kubernetes takes as the request), nothing for a zero GPU count or an empty text.
\<close>

theorem training_resources:
  "\<exists>c. wf_container (BuildArgoWorkflow f rel) ''finetune'' = Some c \<and>
     (\<forall>k. jpath c [''resources'', ''limits'', k] =
       (let r = fts_Resources (ftr_Spec f) in
        if k = ''cpu'' \<and> mr_CPU r \<noteq> '''' then Some (JStr (mr_CPU r))
        else if k = ''memory'' \<and> mr_Memory r \<noteq> '''' then Some (JStr (mr_Memory r))
        else if k = ''nvidia.com/gpu'' \<and> mr_GPU r > 0 then Some (JStr (showInt (mr_GPU r)))
        else None)) \<and>
     (\<forall>k. jpath c [''resources'', ''requests'', k] =
       (let r = fts_Resources (ftr_Spec f) in
        if k = ''cpu'' \<and> mr_CPU r \<noteq> '''' then Some (JStr (mr_CPU r))
        else if k = ''memory'' \<and> mr_Memory r \<noteq> '''' then Some (JStr (mr_Memory r))
        else None))"
proof -
  let ?r = "fts_Resources (ftr_Spec f)"
  obtain c where c: "wf_container (BuildArgoWorkflow f rel) ''finetune'' = Some (JObj (jset_if
      (length (buildGPUResources ?r) > 0) ''resources'' (JObj (buildGPUResources ?r)) c))"
    and none: "map_of c ''resources'' = None"
    using finetune_container by blast
  have path: "jpath (JObj (jset_if (length (buildGPUResources ?r) > 0) ''resources''
      (JObj (buildGPUResources ?r)) c)) (''resources'' # ks) =
      (if buildGPUResources ?r = [] then None else jpath (JObj (buildGPUResources ?r)) ks)" for ks
    by (simp add: map_of_jset_if none)
  have "jpath (JObj (jset_if (length (buildGPUResources ?r) > 0) ''resources''
      (JObj (buildGPUResources ?r)) c)) (''resources'' # ks) = jpath (JObj (buildGPUResources ?r)) ks"
    if "ks = [a, b]" for ks a b
    using that unfolding path by simp
  then show ?thesis
    unfolding c option.inject ex_simps(1) Let_def buildGPUResources_path [symmetric] by blast
qed

end
