(* ===== verification/FineTuneRunCtl.thy ===== *)
theory FineTuneRunCtl
  imports ModelDeploymentCtl Workflow
begin

section \<open>The FineTuneRun controller (internal/controller/finetunerun\_controller.go)\<close>

text \<open>
  \<open>Reconcile\<close> of \<open>FineTuneRunReconciler\<close>: it creates the Argo workflow once and then copies the
  workflow's phase into the status until the run is terminal. One definition per branch of the Go
  function; \<open>setCondition\<close> is the one of the ModelDeployment controller.
\<close>

record ('w, 'e) FTRReconciler =
  ftrr_Client :: "('w, 'e) kube"
  ftrr_Lib :: "'e klib"
  ftrr_ReleaseName :: string

definition isNoCRDError :: "'e klib \<Rightarrow> 'e error \<Rightarrow> bool" where
  "isNoCRDError lib err =
     (if IsNotFound lib err then True
      else if IsNoMatchError lib err then True
      else case StatusErrorCode lib err of
             Some code \<Rightarrow> code = 404
           | None \<Rightarrow> False)"

definition conditionStatus :: "bool \<Rightarrow> string" where
  "conditionStatus ok = (if ok then ConditionTrue else ConditionFalse)"

fun capitalizeFirst :: "string \<Rightarrow> string" where
  "capitalizeFirst [] = ''Unknown''"
| "capitalizeFirst (b # s) =
     (if CHR ''a'' \<le> b \<and> b \<le> CHR ''z'' then char_of (of_char b - 32 :: nat) # s else b # s)"

text \<open>\<open>refetchAndUpdateStatus\<close>; the caller goes on with the object that the server returned.\<close>

definition ftRefetchAndUpdateStatus ::
  "('w, 'e) FTRReconciler \<Rightarrow> NamespacedName \<Rightarrow> FineTuneRunStatus \<Rightarrow> ('w, 'e, FineTuneRun) go" where
  "ftRefetchAndUpdateStatus r req status =
     andThen (checked (GetFTR (ftrr_Client r) req)) (\<lambda>ftr.
       checked (StatusUpdateFTR (ftrr_Client r) (ftr\<lparr>ftr_Status := status\<rparr>)))"

text \<open>The condition \<open>WorkflowReady\<close>.\<close>

definition ftCondition :: "FineTuneRun \<Rightarrow> string \<Rightarrow> string \<Rightarrow> string \<Rightarrow> int \<Rightarrow> Condition" where
  "ftCondition ftr status reason message now =
     \<lparr>c_Type = ''WorkflowReady'', c_Status = status, c_Reason = reason, c_Message = message,
      c_LastTransitionTime = now, c_ObservedGeneration = om_Generation (ftr_ObjectMeta ftr)\<rparr>"

definition ftSetCondition :: "FineTuneRunStatus \<Rightarrow> Condition \<Rightarrow> FineTuneRunStatus" where
  "ftSetCondition st cond = st\<lparr>ftst_Conditions := setCondition (ftst_Conditions st) cond\<rparr>"

definition ftTerminal :: "string \<Rightarrow> bool" where
  "ftTerminal phase \<longleftrightarrow> phase = ''Succeeded'' \<or> phase = ''Failed''"

text \<open>The workflow was deleted.\<close>

definition ftWorkflowGone ::
  "('w, 'e) FTRReconciler \<Rightarrow> NamespacedName \<Rightarrow> FineTuneRun \<Rightarrow> ('w, 'e, 'e outcome) go" where
  "ftWorkflowGone r req ftr =
     andThen (lifted (TimeNow (ftrr_Client r))) (\<lambda>now.
     let st = ftSetCondition ((ftr_Status ftr)\<lparr>ftst_Phase := ''Failed''\<rparr>)
                (ftCondition ftr ConditionFalse ''WorkflowNotFound'' ''Argo Workflow was deleted'' now)
     in andThen (ftRefetchAndUpdateStatus r req st) (\<lambda>ftr. proceed (Done 0 None)))"

text \<open>Map the Argo phase to the phase of the run, with the time of completion.\<close>

definition ftMapPhase ::
  "('w, 'e) FTRReconciler \<Rightarrow> string \<Rightarrow> FineTuneRunStatus \<Rightarrow> ('w, 'e, FineTuneRunStatus) go" where
  "ftMapPhase r argoPhase st =
     (if argoPhase = ''Succeeded'' then
        andThen (lifted (TimeNow (ftrr_Client r))) (\<lambda>now.
          proceed (st\<lparr>ftst_Phase := ''Succeeded'', ftst_CompletionTime := Some now\<rparr>))
      else if argoPhase = ''Failed'' \<or> argoPhase = ''Error'' then
        andThen (lifted (TimeNow (ftrr_Client r))) (\<lambda>now.
          proceed (st\<lparr>ftst_Phase := ''Failed'', ftst_CompletionTime := Some now\<rparr>))
      else if argoPhase = ''Running'' then proceed (st\<lparr>ftst_Phase := ''Training''\<rparr>)
      else proceed (st\<lparr>ftst_Phase := ''Pending''\<rparr>))"

definition ftSyncStatus ::
  "('w, 'e) FTRReconciler \<Rightarrow> NamespacedName \<Rightarrow> FineTuneRun \<Rightarrow> jval \<Rightarrow> ('w, 'e, 'e outcome) go" where
  "ftSyncStatus r req ftr wfl =
     (let argoPhase = NestedString (ftrr_Lib r) wfl [''status'', ''phase''] in
      andThen (ftMapPhase r argoPhase (ftr_Status ftr)) (\<lambda>st.
      andThen (lifted (TimeNow (ftrr_Client r))) (\<lambda>now.
      let st = ftSetCondition st (ftCondition ftr (conditionStatus (argoPhase = ''Succeeded''))
                 (''ArgoPhase'' @ capitalizeFirst argoPhase)
                 (''Argo Workflow phase: '' @ argoPhase) now)
      in andThen (ftRefetchAndUpdateStatus r req st) (\<lambda>ftr.
           if \<not> ftTerminal (ftst_Phase (ftr_Status ftr)) then proceed (Done 30 None)
           else proceed (Done 0 None)))))"

text \<open>2. The workflow is known: copy its state.\<close>

definition ftSyncWorkflow ::
  "('w, 'e) FTRReconciler \<Rightarrow> NamespacedName \<Rightarrow> FineTuneRun \<Rightarrow> ('w, 'e, 'e outcome) go" where
  "ftSyncWorkflow r req ftr =
     andThen (lifted (GetWorkflow (ftrr_Client r)
                (ftr_Namespace ftr, ftst_ArgoWorkflow (ftr_Status ftr)))) (\<lambda>wfl.
       case wfl of
         Inl err \<Rightarrow> if IsNotFound (ftrr_Lib r) err then ftWorkflowGone r req ftr
                    else returnWith (Done 0 (Some err))
       | Inr wfl \<Rightarrow> ftSyncStatus r req ftr wfl)"

definition ftReleaseName :: "('w, 'e) FTRReconciler \<Rightarrow> string" where
  "ftReleaseName r = (if ftrr_ReleaseName r = '''' then ''kube-llmops'' else ftrr_ReleaseName r)"

text \<open>3. Create the workflow; 4. a missing Argo CRD fails the run; 5. note the workflow.\<close>

definition ftCreateWorkflow ::
  "('w, 'e) FTRReconciler \<Rightarrow> NamespacedName \<Rightarrow> FineTuneRun \<Rightarrow> ('w, 'e, 'e outcome) go" where
  "ftCreateWorkflow r req ftr =
     (let wfl = BuildArgoWorkflow ftr (ftReleaseName r);
          (ignored, wfl) = SetWorkflowOwner (ftrr_Lib r) (ftr_ObjectMeta ftr) wfl in
      andThen (lifted (CreateWorkflow (ftrr_Client r) wfl)) (\<lambda>created.
      case created of
        Inl err \<Rightarrow>
          if isNoCRDError (ftrr_Lib r) err then
            andThen (lifted (TimeNow (ftrr_Client r))) (\<lambda>now.
            let st = ftSetCondition ((ftr_Status ftr)\<lparr>ftst_Phase := ''Failed''\<rparr>)
                       (ftCondition ftr ConditionFalse ''ArgoCRDMissing''
                          ''Argo Workflows CRD is not installed in the cluster'' now)
            in andThen (ftRefetchAndUpdateStatus r req st) (\<lambda>ftr. proceed (Done 0 None)))
          else returnWith (Done 0 (Some err))
      | Inr _ \<Rightarrow>
          andThen (lifted (TimeNow (ftrr_Client r))) (\<lambda>now.
          let st = ftSetCondition ((ftr_Status ftr)\<lparr>ftst_Phase := ''Pending'',
                       ftst_ArgoWorkflow := WorkflowGetName (ftrr_Lib r) wfl,
                       ftst_StartTime := Some now\<rparr>)
                     (ftCondition ftr ConditionFalse ''WorkflowCreated''
                        ''Argo Workflow has been created'' now)
          in andThen (ftRefetchAndUpdateStatus r req st) (\<lambda>ftr. proceed (Done 30 None)))))"

definition ftReconcile ::
  "('w, 'e) FTRReconciler \<Rightarrow> NamespacedName \<Rightarrow> ('w, 'e outcome) state" where
  "ftReconcile r req = finish
     (andThen (lifted (GetFTR (ftrr_Client r) req)) (\<lambda>ftr.
        case ftr of
          Inl err \<Rightarrow>
            if IsNotFound (ftrr_Lib r) err then returnWith (Done 0 None)
            else returnWith (Done 0 (Some err))
        | Inr ftr \<Rightarrow>
            if ftst_Phase (ftr_Status ftr) = ''Succeeded'' \<or> ftst_Phase (ftr_Status ftr) = ''Failed''
            then returnWith (Done 0 None)
            else if ftst_ArgoWorkflow (ftr_Status ftr) \<noteq> '''' then ftSyncWorkflow r req ftr
            else ftCreateWorkflow r req ftr))"

end
