(* ===== verification/FineTuneRunProps.thy ===== *)
theory FineTuneRunProps
  imports FineTuneRunCtl KubeStore WorkflowProps
begin

section \<open>Properties of the FineTuneRun controller\<close>

subsection \<open>The protocol of a reconcile\<close>

text \<open>
  The calls of one reconcile, for every API server: \<open>ft_run\<close> is the abstract protocol, with one
  rule per way through the code.
\<close>

definition tracedFT :: "('w, 'e) kube \<Rightarrow> 'e klib \<Rightarrow> string \<Rightarrow> ('w \<times> 'e event list, 'e) FTRReconciler" where
  "tracedFT K lib rel = \<lparr>ftrr_Client = traced K, ftrr_Lib = lib, ftrr_ReleaseName = rel\<rparr>"

lemma tracedFT_simps [simp]:
  "ftrr_Client (tracedFT K lib rel) = traced K" "ftrr_Lib (tracedFT K lib rel) = lib"
  "ftrr_ReleaseName (tracedFT K lib rel) = rel"
  by (simp_all add: tracedFT_def)

text \<open>Publishing a status: it fails with the error of its last call, or returns the stored run.\<close>

definition ftPublishing ::
  "NamespacedName \<Rightarrow> FineTuneRunStatus \<Rightarrow> 'e outcome + FineTuneRun \<Rightarrow> 'e event list \<Rightarrow> bool" where
  "ftPublishing req st r es \<longleftrightarrow>
     (case r of
        Inl out \<Rightarrow> (\<exists>e. out = Done 0 (Some e) \<and> (es = [EvGetFTR req (Inl e)] \<or>
          (\<exists>f. es = [EvGetFTR req (Inr f), EvStatusFTR (f\<lparr>ftr_Status := st\<rparr>) (Inl e)])))
      | Inr f2 \<Rightarrow> (\<exists>f. es = [EvGetFTR req (Inr f), EvStatusFTR (f\<lparr>ftr_Status := st\<rparr>) (Inr f2)]))"

lemma ftPublish_block: "produces (ftRefetchAndUpdateStatus (tracedFT K lib rel) req st) (ftPublishing req st)"
  unfolding ftRefetchAndUpdateStatus_def
  by (rule producesI) (auto simp: wp_rules ftPublishing_def split: sum.splits intro!: traced_wp)

definition phaseOf :: "string \<Rightarrow> string" where
  "phaseOf argoPhase =
     (if argoPhase = ''Succeeded'' then ''Succeeded''
      else if argoPhase \<in> {''Failed'', ''Error''} then ''Failed''
      else if argoPhase = ''Running'' then ''Training'' else ''Pending'')"

text \<open>The status that a reconcile computes from the run \<open>f\<close> and the Argo phase.\<close>

definition syncedStatus :: "FineTuneRun \<Rightarrow> string \<Rightarrow> FineTuneRunStatus \<Rightarrow> bool" where
  "syncedStatus f argoPhase st \<longleftrightarrow>
     (\<exists>t now. st = ftSetCondition ((ftr_Status f)\<lparr>ftst_Phase := phaseOf argoPhase,
          ftst_CompletionTime := (if ftTerminal (phaseOf argoPhase) then Some t
                                  else ftst_CompletionTime (ftr_Status f))\<rparr>)
        (ftCondition f (conditionStatus (argoPhase = ''Succeeded'')) (''ArgoPhase'' @ capitalizeFirst argoPhase)
           (''Argo Workflow phase: '' @ argoPhase) now))"

definition failedStatus :: "FineTuneRun \<Rightarrow> string \<Rightarrow> FineTuneRunStatus \<Rightarrow> bool" where
  "failedStatus f reason st \<longleftrightarrow>
     (\<exists>msg now. st = ftSetCondition ((ftr_Status f)\<lparr>ftst_Phase := ''Failed''\<rparr>)
        (ftCondition f ConditionFalse reason msg now))"

definition createdStatus :: "FineTuneRun \<Rightarrow> string \<Rightarrow> FineTuneRunStatus \<Rightarrow> bool" where
  "createdStatus f name st \<longleftrightarrow>
     (\<exists>now. st = ftSetCondition ((ftr_Status f)\<lparr>ftst_Phase := ''Pending'', ftst_ArgoWorkflow := name,
          ftst_StartTime := Some now\<rparr>)
        (ftCondition f ConditionFalse ''WorkflowCreated'' ''Argo Workflow has been created'' now))"

lemma failedStatusI:
  "failedStatus f reason (ftSetCondition ((ftr_Status f)\<lparr>ftst_Phase := ''Failed''\<rparr>)
     (ftCondition f ConditionFalse reason msg now))"
  unfolding failedStatus_def by blast

lemma createdStatusI:
  "createdStatus f name (ftSetCondition ((ftr_Status f)\<lparr>ftst_Phase := ''Pending'', ftst_ArgoWorkflow := name,
       ftst_StartTime := Some now\<rparr>)
     (ftCondition f ConditionFalse ''WorkflowCreated'' ''Argo Workflow has been created'' now))"
  unfolding createdStatus_def by blast

definition isNow :: "'e event \<Rightarrow> bool" where
  "isNow ev \<longleftrightarrow> (\<exists>n. ev = EvNow n)"

definition workflowFor :: "'e klib \<Rightarrow> string \<Rightarrow> FineTuneRun \<Rightarrow> jval" where
  "workflowFor lib rel f = snd (SetWorkflowOwner lib (ftr_ObjectMeta f)
     (BuildArgoWorkflow f (if rel = '''' then ''kube-llmops'' else rel)))"

abbreviation ftPhase :: "FineTuneRun \<Rightarrow> string" where
  "ftPhase f \<equiv> ftst_Phase (ftr_Status f)"

abbreviation ftWorkflow :: "FineTuneRun \<Rightarrow> string" where
  "ftWorkflow f \<equiv> ftst_ArgoWorkflow (ftr_Status f)"

definition requeue :: "FineTuneRun \<Rightarrow> int" where
  "requeue f = (if ftTerminal (ftPhase f) then 0 else 30)"

inductive ft_run :: "'e klib \<Rightarrow> string \<Rightarrow> NamespacedName \<Rightarrow> 'e event list \<Rightarrow> 'e outcome \<Rightarrow> bool"
  for lib rel req where
  ft_absent: "IsNotFound lib e \<Longrightarrow> ft_run lib rel req [EvGetFTR req (Inl e)] (Done 0 None)"
| ft_get_failed: "\<not> IsNotFound lib e \<Longrightarrow> ft_run lib rel req [EvGetFTR req (Inl e)] (Done 0 (Some e))"
| ft_finished: "ftTerminal (ftPhase f) \<Longrightarrow> ft_run lib rel req [EvGetFTR req (Inr f)] (Done 0 None)"
| ft_lookup_failed:
    "\<not> ftTerminal (ftPhase f) \<Longrightarrow> ftWorkflow f \<noteq> '''' \<Longrightarrow> \<not> IsNotFound lib e \<Longrightarrow>
     ft_run lib rel req [EvGetFTR req (Inr f), EvGetWorkflow (ftr_Namespace f, ftWorkflow f) (Inl e)]
       (Done 0 (Some e))"
| ft_workflow_gone:
    "\<not> ftTerminal (ftPhase f) \<Longrightarrow> ftWorkflow f \<noteq> '''' \<Longrightarrow> IsNotFound lib e \<Longrightarrow>
     failedStatus f ''WorkflowNotFound'' st \<Longrightarrow> list_all isNow ns \<Longrightarrow> ftPublishing req st r ps \<Longrightarrow>
     ft_run lib rel req
       (EvGetFTR req (Inr f) # EvGetWorkflow (ftr_Namespace f, ftWorkflow f) (Inl e) # ns @ ps)
       (case r of Inl out \<Rightarrow> out | Inr f2 \<Rightarrow> Done 0 None)"
| ft_synced:
    "\<not> ftTerminal (ftPhase f) \<Longrightarrow> ftWorkflow f \<noteq> '''' \<Longrightarrow>
     syncedStatus f (NestedString lib w [''status'', ''phase'']) st \<Longrightarrow> list_all isNow ns \<Longrightarrow>
     ftPublishing req st r ps \<Longrightarrow>
     ft_run lib rel req
       (EvGetFTR req (Inr f) # EvGetWorkflow (ftr_Namespace f, ftWorkflow f) (Inr w) # ns @ ps)
       (case r of Inl out \<Rightarrow> out | Inr f2 \<Rightarrow> Done (requeue f2) None)"
| ft_create_failed:
    "\<not> ftTerminal (ftPhase f) \<Longrightarrow> ftWorkflow f = '''' \<Longrightarrow> \<not> isNoCRDError lib e \<Longrightarrow>
     ft_run lib rel req [EvGetFTR req (Inr f), EvCreateWorkflow (workflowFor lib rel f) (Inl e)]
       (Done 0 (Some e))"
| ft_crd_missing:
    "\<not> ftTerminal (ftPhase f) \<Longrightarrow> ftWorkflow f = '''' \<Longrightarrow> isNoCRDError lib e \<Longrightarrow>
     failedStatus f ''ArgoCRDMissing'' st \<Longrightarrow> list_all isNow ns \<Longrightarrow> ftPublishing req st r ps \<Longrightarrow>
     ft_run lib rel req
       (EvGetFTR req (Inr f) # EvCreateWorkflow (workflowFor lib rel f) (Inl e) # ns @ ps)
       (case r of Inl out \<Rightarrow> out | Inr f2 \<Rightarrow> Done 0 None)"
| ft_created:
    "\<not> ftTerminal (ftPhase f) \<Longrightarrow> ftWorkflow f = '''' \<Longrightarrow>
     createdStatus f (WorkflowGetName lib (workflowFor lib rel f)) st \<Longrightarrow> list_all isNow ns \<Longrightarrow>
     ftPublishing req st r ps \<Longrightarrow>
     ft_run lib rel req
       (EvGetFTR req (Inr f) # EvCreateWorkflow (workflowFor lib rel f) (Inr x) # ns @ ps)
       (case r of Inl out \<Rightarrow> out | Inr f2 \<Rightarrow> Done 30 None)"

subsection \<open>Reconcile refines the protocol\<close>

lemma ftNowPublish_block:
  "produces (andThen (lifted (TimeNow (traced K))) (\<lambda>now.
      andThen (ftRefetchAndUpdateStatus (tracedFT K lib rel) req (S now)) (\<lambda>f. proceed (out f))))
    (\<lambda>r es. \<exists>now q ps. es = EvNow now # ps \<and> ftPublishing req (S now) q ps \<and>
       r = (case q of Inl o1 \<Rightarrow> Inl o1 | Inr f2 \<Rightarrow> Inr (out f2)))"
proof (rule produces_andThen)
  show "produces (lifted (TimeNow (traced K))) (\<lambda>r es. \<exists>now. r = Inr now \<and> es = [EvNow now])"
    by (rule producesI) (auto simp: wp_rules intro!: traced_wp)
  show "produces (andThen (ftRefetchAndUpdateStatus (tracedFT K lib rel) req (S now)) (\<lambda>f. proceed (out f)))
      (\<lambda>r es. \<exists>q. ftPublishing req (S now) q es \<and>
         r = (case q of Inl o1 \<Rightarrow> Inl o1 | Inr f2 \<Rightarrow> Inr (out f2)))" for now
    by (rule produces_andThen [OF ftPublish_block, where R = "\<lambda>f r es. r = Inr (out f) \<and> es = []"])
       (auto intro!: producesI simp: wp_rules split: sum.splits)
qed auto

lemma ftWorkflowGone_block:
  "produces (ftWorkflowGone (tracedFT K lib rel) req f) (\<lambda>r es. \<exists>st ns q ps.
     es = ns @ ps \<and> list_all isNow ns \<and> failedStatus f ''WorkflowNotFound'' st \<and> ftPublishing req st q ps \<and>
     r = (case q of Inl o1 \<Rightarrow> Inl o1 | Inr f2 \<Rightarrow> Inr (Done 0 None)))"
  unfolding ftWorkflowGone_def Let_def tracedFT_simps
proof (rule produces_mono [OF ftNowPublish_block], elim exE conjE, goal_cases)
  case (1 r es now q ps)
  then show ?case
    by (intro exI [of _ "_ :: FineTuneRunStatus"] exI [of _ "[EvNow now]"] exI [of _ q] exI [of _ ps])
       (auto simp: isNow_def failedStatus_def)
qed

lemma ftMapPhase_block:
  "produces (ftMapPhase (tracedFT K lib rel) p st) (\<lambda>r es. list_all isNow es \<and> (\<exists>t.
     r = Inr (st\<lparr>ftst_Phase := phaseOf p, ftst_CompletionTime :=
       (if ftTerminal (phaseOf p) then Some t else ftst_CompletionTime st)\<rparr>)))"
  unfolding ftMapPhase_def
  by (rule producesI) (auto simp: wp_rules isNow_def phaseOf_def ftTerminal_def intro!: traced_wp)

lemma ftSyncStatus_block:
  "produces (ftSyncStatus (tracedFT K lib rel) req f w) (\<lambda>r es. \<exists>st ns q ps.
     es = ns @ ps \<and> list_all isNow ns \<and> syncedStatus f (NestedString lib w [''status'', ''phase'']) st \<and>
     ftPublishing req st q ps \<and>
     r = (case q of Inl o1 \<Rightarrow> Inl o1 | Inr f2 \<Rightarrow> Inr (Done (requeue f2) None)))"
proof -
  let ?p = "NestedString lib w [''status'', ''phase'']"
  have r: "(\<lambda>f. if \<not> ftTerminal (ftPhase f) then proceed (Done 30 None) else proceed (Done 0 None)) =
      (\<lambda>f. proceed (Done (requeue f) None))"
    by (auto simp: requeue_def)
  show ?thesis
    unfolding ftSyncStatus_def Let_def tracedFT_simps r
  proof (rule produces_andThen [OF ftMapPhase_block ftNowPublish_block], goal_cases)
    case (2 x es r fs)
    then obtain t now q ps where x: "x = (ftr_Status f)\<lparr>ftst_Phase := phaseOf ?p, ftst_CompletionTime :=
       (if ftTerminal (phaseOf ?p) then Some t else ftst_CompletionTime (ftr_Status f))\<rparr>"
      and "fs = EvNow now # ps"
      and "ftPublishing req (ftSetCondition x (ftCondition f (conditionStatus (?p = ''Succeeded''))
         (''ArgoPhase'' @ capitalizeFirst ?p) (''Argo Workflow phase: '' @ ?p) now)) q ps"
      and "r = (case q of Inl o1 \<Rightarrow> Inl o1 | Inr f2 \<Rightarrow> Inr (Done (requeue f2) None))"
      by auto
    moreover from x have "syncedStatus f ?p (ftSetCondition x (ftCondition f (conditionStatus (?p = ''Succeeded''))
         (''ArgoPhase'' @ capitalizeFirst ?p) (''Argo Workflow phase: '' @ ?p) now))"
      unfolding syncedStatus_def by blast
    moreover have "list_all isNow (es @ [EvNow now])" using 2 by (simp add: isNow_def)
    ultimately show ?case
      by (intro exI [of _ "_ :: FineTuneRunStatus"] exI [of _ "es @ [EvNow now]"] exI [of _ q] exI [of _ ps])
         auto
  qed auto
qed

lemma ftSyncWorkflow_block:
  "produces (ftSyncWorkflow (tracedFT K lib rel) req f) (\<lambda>r es. ftWorkflow f \<noteq> '''' \<longrightarrow> \<not> ftTerminal (ftPhase f) \<longrightarrow>
     ft_run lib rel req (EvGetFTR req (Inr f) # es) (case r of Inl out \<Rightarrow> out | Inr out \<Rightarrow> out))"
  unfolding ftSyncWorkflow_def tracedFT_simps
proof (rule produces_andThen)
  show "produces (lifted (GetWorkflow (traced K) (ftr_Namespace f, ftWorkflow f)))
      (\<lambda>r es. \<exists>x. r = Inr x \<and> es = [EvGetWorkflow (ftr_Namespace f, ftWorkflow f) x])"
    by (rule producesI) (auto simp: wp_rules intro!: traced_wp)
  show "produces (case x of
         Inl err \<Rightarrow> if IsNotFound lib err then ftWorkflowGone (tracedFT K lib rel) req f
                    else returnWith (Done 0 (Some err))
       | Inr w \<Rightarrow> ftSyncStatus (tracedFT K lib rel) req f w)
      (\<lambda>r es. ftWorkflow f \<noteq> '''' \<longrightarrow> \<not> ftTerminal (ftPhase f) \<longrightarrow>
         ft_run lib rel req (EvGetFTR req (Inr f) # EvGetWorkflow (ftr_Namespace f, ftWorkflow f) x # es)
           (case r of Inl out \<Rightarrow> out | Inr out \<Rightarrow> out))" for x
  proof (cases x)
    case (Inl e)
    show ?thesis
    proof (cases "IsNotFound lib e")
      case True
      have "produces (ftWorkflowGone (tracedFT K lib rel) req f)
        (\<lambda>r es. ftWorkflow f \<noteq> '''' \<longrightarrow> \<not> ftTerminal (ftPhase f) \<longrightarrow>
         ft_run lib rel req (EvGetFTR req (Inr f) # EvGetWorkflow (ftr_Namespace f, ftWorkflow f) (Inl e) # es)
           (case r of Inl out \<Rightarrow> out | Inr out \<Rightarrow> out))"
      proof (rule produces_mono [OF ftWorkflowGone_block], elim exE conjE, goal_cases)
        case (1 r es st ns q ps)
        then show ?case
          using ft_workflow_gone [of f lib e st ns req q ps rel] True by (auto split: sum.splits)
      qed
      with True Inl show ?thesis by simp
    next
      case False
      with Inl show ?thesis
        by (auto intro!: producesI simp: wp_rules ft_lookup_failed)
    qed
  next
    case (Inr w)
    have "produces (ftSyncStatus (tracedFT K lib rel) req f w)
        (\<lambda>r es. ftWorkflow f \<noteq> '''' \<longrightarrow> \<not> ftTerminal (ftPhase f) \<longrightarrow>
         ft_run lib rel req (EvGetFTR req (Inr f) # EvGetWorkflow (ftr_Namespace f, ftWorkflow f) (Inr w) # es)
           (case r of Inl out \<Rightarrow> out | Inr out \<Rightarrow> out))"
    proof (rule produces_mono [OF ftSyncStatus_block], elim exE conjE, goal_cases)
      case (1 r es st ns q ps)
      then show ?case
        using ft_synced [of f lib w st ns req q ps rel] by (auto split: sum.splits)
    qed
    with Inr show ?thesis by simp
  qed
qed auto

lemma ftCreateWorkflow_block:
  "produces (ftCreateWorkflow (tracedFT K lib rel) req f) (\<lambda>r es. ftWorkflow f = '''' \<longrightarrow> \<not> ftTerminal (ftPhase f) \<longrightarrow>
     ft_run lib rel req (EvGetFTR req (Inr f) # es) (case r of Inl out \<Rightarrow> out | Inr out \<Rightarrow> out))"
proof -
  have w: "SetWorkflowOwner lib (ftr_ObjectMeta f) (BuildArgoWorkflow f (ftReleaseName (tracedFT K lib rel))) =
      (fst (SetWorkflowOwner lib (ftr_ObjectMeta f) (BuildArgoWorkflow f (ftReleaseName (tracedFT K lib rel)))),
       workflowFor lib rel f)"
    by (simp add: workflowFor_def ftReleaseName_def)
  show ?thesis
    unfolding ftCreateWorkflow_def tracedFT_simps Let_def
  proof (subst w, unfold prod.case, rule produces_andThen)
    show "produces (lifted (CreateWorkflow (traced K) (workflowFor lib rel f)))
        (\<lambda>r es. \<exists>x. r = Inr x \<and> es = [EvCreateWorkflow (workflowFor lib rel f) x])"
      by (rule producesI) (auto simp: wp_rules intro!: traced_wp)
    show "produces (case x of
        Inl err \<Rightarrow>
          if isNoCRDError lib err then
            andThen (lifted (TimeNow (traced K))) (\<lambda>now.
            andThen (ftRefetchAndUpdateStatus (tracedFT K lib rel) req
              (ftSetCondition ((ftr_Status f)\<lparr>ftst_Phase := ''Failed''\<rparr>)
                       (ftCondition f ConditionFalse ''ArgoCRDMissing''
                          ''Argo Workflows CRD is not installed in the cluster'' now)))
              (\<lambda>f. proceed (Done 0 None)))
          else returnWith (Done 0 (Some err))
      | Inr _ \<Rightarrow>
          andThen (lifted (TimeNow (traced K))) (\<lambda>now.
          andThen (ftRefetchAndUpdateStatus (tracedFT K lib rel) req
            (ftSetCondition ((ftr_Status f)\<lparr>ftst_Phase := ''Pending'',
                       ftst_ArgoWorkflow := WorkflowGetName lib (workflowFor lib rel f),
                       ftst_StartTime := Some now\<rparr>)
                     (ftCondition f ConditionFalse ''WorkflowCreated''
                        ''Argo Workflow has been created'' now)))
            (\<lambda>f. proceed (Done 30 None))))
      (\<lambda>r es. ftWorkflow f = '''' \<longrightarrow> \<not> ftTerminal (ftPhase f) \<longrightarrow>
         ft_run lib rel req (EvGetFTR req (Inr f) # EvCreateWorkflow (workflowFor lib rel f) x # es)
           (case r of Inl out \<Rightarrow> out | Inr out \<Rightarrow> out))" for x
    proof (cases x)
      case (Inl e)
      show ?thesis
      proof (cases "isNoCRDError lib e")
        case True
        show ?thesis
          unfolding Inl sum.case if_P [OF True]
        proof (rule produces_mono [OF ftNowPublish_block], elim exE conjE, goal_cases)
          case (1 r es now q ps)
          then show ?case
            using ft_crd_missing [where st = "ftSetCondition ((ftr_Status f)\<lparr>ftst_Phase := ''Failed''\<rparr>)
                       (ftCondition f ConditionFalse ''ArgoCRDMissing''
                          ''Argo Workflows CRD is not installed in the cluster'' now)"
                and ns = "[EvNow now]" and r = q and ps = ps and f = f and lib = lib and e = e and req = req and rel = rel] True
            by (auto simp: isNow_def failedStatusI split: sum.splits)
        qed
      next
        case False
        with Inl show ?thesis
          by (auto intro!: producesI simp: wp_rules ft_create_failed)
      qed
    next
      case (Inr u)
      show ?thesis
        unfolding Inr sum.case
      proof (rule produces_mono [OF ftNowPublish_block], elim exE conjE, goal_cases)
        case (1 r es now q ps)
        then show ?case
          using ft_created [where st = "ftSetCondition ((ftr_Status f)\<lparr>ftst_Phase := ''Pending'',
                       ftst_ArgoWorkflow := WorkflowGetName lib (workflowFor lib rel f),
                       ftst_StartTime := Some now\<rparr>)
                     (ftCondition f ConditionFalse ''WorkflowCreated''
                        ''Argo Workflow has been created'' now)"
              and ns = "[EvNow now]" and r = q and ps = ps and f = f and lib = lib and x = u and req = req and rel = rel]
          by (auto simp: isNow_def createdStatusI split: sum.splits)
      qed
    qed
  qed auto
qed

lemma ftReconcile_produces:
  "produces (ftReconcile (tracedFT K lib rel) req) (\<lambda>out es. ft_run lib rel req es out)"
  unfolding ftReconcile_def tracedFT_simps
proof (rule produces_finish [where P = "\<lambda>r es. ft_run lib rel req es (case r of Inl out \<Rightarrow> out | Inr out \<Rightarrow> out)"],
    rule produces_andThen)
  show "produces (lifted (GetFTR (traced K) req)) (\<lambda>r es. \<exists>x. r = Inr x \<and> es = [EvGetFTR req x])"
    by (rule producesI) (auto simp: wp_rules intro!: traced_wp)
  show "produces (case x of
          Inl err \<Rightarrow>
            if IsNotFound lib err then returnWith (Done 0 None)
            else returnWith (Done 0 (Some err))
        | Inr ftr \<Rightarrow>
            if ftPhase ftr = ''Succeeded'' \<or> ftPhase ftr = ''Failed''
            then returnWith (Done 0 None)
            else if ftWorkflow ftr \<noteq> '''' then ftSyncWorkflow (tracedFT K lib rel) req ftr
            else ftCreateWorkflow (tracedFT K lib rel) req ftr)
      (\<lambda>r es. ft_run lib rel req (EvGetFTR req x # es) (case r of Inl out \<Rightarrow> out | Inr out \<Rightarrow> out))" for x
  proof (cases x)
    case (Inl e)
    then show ?thesis by (auto simp: wp_rules intro!: producesI intro: ft_absent ft_get_failed)
  next
    case (Inr f)
    consider "ftTerminal (ftPhase f)" | "\<not> ftTerminal (ftPhase f)" "ftWorkflow f \<noteq> ''''"
      | "\<not> ftTerminal (ftPhase f)" "ftWorkflow f = ''''" by blast
    then show ?thesis
    proof cases
      case 1
      then show ?thesis
        unfolding Inr sum.case by (auto simp: wp_rules ftTerminal_def intro!: producesI ft_finished)
    next
      case 2
      then show ?thesis
        unfolding Inr sum.case
        by (simp add: ftTerminal_def) (rule produces_mono [OF ftSyncWorkflow_block], simp add: ftTerminal_def)
    next
      case 3
      then show ?thesis
        unfolding Inr sum.case
        by (simp add: ftTerminal_def) (rule produces_mono [OF ftCreateWorkflow_block], simp add: ftTerminal_def)
    qed
  qed
qed auto

subsection \<open>Claims about every reconcile\<close>

lemma ftReconcile_run:
  assumes "run_state (ftReconcile (tracedFT K lib rel) req) (w, []) = (out, (w', tr))"
  shows "ft_run lib rel req tr out"
  using producesD [OF ftReconcile_produces assms] by simp

inductive_cases ft_run_fetchedE: "ft_run lib rel req (EvGetFTR req (Inr f) # rest) out"

text \<open>
  C8 (Reconcile of a run follows the protocol). Whatever the API server answers, the calls of a
  reconcile of a FineTuneRun, with their results, and its outcome are a run of the protocol
  \<open>ft_run\<close>.
\<close>

theorem ft_reconcile_refines:
  "wp (ftReconcile (tracedFT K lib rel) req) (\<lambda>out s. ft_run lib rel req (snd s) out) (w, [])"
  by (rule produces_wp [OF ftReconcile_produces]) simp

lemma ftPublishing_no_create:
  "ftPublishing req st r ps \<Longrightarrow> EvCreateWorkflow x q \<notin> set ps"
  by (auto simp: ftPublishing_def split: sum.splits)

lemma isNow_no_create: "list_all isNow ns \<Longrightarrow> EvCreateWorkflow x q \<notin> set ns"
  by (auto simp: list_all_iff isNow_def)

text \<open>
  C18 (a workflow is created only once). A reconcile creates a workflow only as its second call,
  for a fetched run that is not terminal and has none noted, and never twice; the workflow is the
  built one with its owner set. When the creation succeeds and so does the status update, the
  stored status notes the workflow's name and phase Pending.
\<close>

theorem ft_creates_once:
  assumes "run_state (ftReconcile (tracedFT K lib rel) req) (w, []) = (out, (w', tr))"
    and "EvCreateWorkflow x q \<in> set tr"
  shows "\<exists>f rest. tr = EvGetFTR req (Inr f) # EvCreateWorkflow x q # rest \<and>
    \<not> ftTerminal (ftPhase f) \<and> ftWorkflow f = '''' \<and> x = workflowFor lib rel f \<and>
    (\<forall>y p. EvCreateWorkflow y p \<notin> set rest) \<and>
    (\<forall>f1 r. q = Inr () \<longrightarrow> EvStatusFTR f1 r \<in> set rest \<longrightarrow>
       ftWorkflow f1 = WorkflowGetName lib x \<and> ftPhase f1 = ''Pending'')"
  using ftReconcile_run [OF assms(1)]
proof cases
  case (ft_crd_missing f e st ns r ps)
  then show ?thesis
    using assms(2) by (auto dest: ftPublishing_no_create isNow_no_create)
next
  case (ft_created f st ns r ps u)
  then have st: "ftst_ArgoWorkflow st = WorkflowGetName lib (workflowFor lib rel f)" "ftst_Phase st = ''Pending''"
    by (auto simp: createdStatus_def ftSetCondition_def)
  have "ftWorkflow f1 = WorkflowGetName lib (workflowFor lib rel f) \<and> ftPhase f1 = ''Pending''"
    if "EvStatusFTR f1 p \<in> set (ns @ ps)" for f1 p
  proof -
    have "EvStatusFTR f1 p \<in> set ps"
      using that \<open>list_all isNow ns\<close> by (auto simp: list_all_iff isNow_def)
    then have "ftr_Status f1 = st"
      using \<open>ftPublishing req st r ps\<close> by (auto simp: ftPublishing_def split: sum.splits)
    with st show ?thesis by simp
  qed
  then show ?thesis
    using ft_created assms(2) by (auto dest: ftPublishing_no_create isNow_no_create)
qed (use assms(2) in \<open>auto dest: ftPublishing_no_create isNow_no_create\<close>)

text \<open>A new run on the store in memory.\<close>

definition oneRun :: "FineTuneRun \<Rightarrow> cluster" where
  "oneRun f = emptyCluster\<lparr>cl_FTRs := [metaKey (ftr_ObjectMeta f) \<mapsto> f]\<rparr>"

lemma exampleFTR_creates:
  "\<exists>out w' tr. run_state (ftReconcile (tracedFT mem_kube mem_lib '''') (''default'', ''gemma-lora-v1''))
      (oneRun exampleFTR, []) = (out, (w', tr)) \<and>
    EvCreateWorkflow (workflowFor mem_lib '''' exampleFTR) (Inr ()) \<in> set tr"
proof -
  have m: "metaKey (ftr_ObjectMeta exampleFTR) = (''default'', ''gemma-lora-v1'')"
    "ftPhase exampleFTR = ''''" "ftWorkflow exampleFTR = ''''"
    by (simp_all add: exampleFTR_def emptyMeta_def zeroFTRStatus_def)
  have w: "workflowFor mem_lib '''' exampleFTR = BuildArgoWorkflow exampleFTR ''kube-llmops''"
    "SetWorkflowOwner mem_lib (ftr_ObjectMeta exampleFTR) v = (None, v)" for v
    by (simp_all add: workflowFor_def mem_lib_def)
  show ?thesis
    by (simp add: ftReconcile_def ftCreateWorkflow_def tracedFT_def traced_def mem_kube_def memGet_def
        memCreate_def memModify_def oneRun_def emptyCluster_def ftReleaseName_def finish_def andThen_def
        lifted_def checked_def proceed_def run_logged ftRefetchAndUpdateStatus_def m [simplified] w Let_def)
qed

theorem ft_creates_once_witness:
  "\<exists>f. \<not> ftTerminal (ftPhase f) \<and> ftWorkflow f = '''' \<and>
     workflowFor mem_lib '''' exampleFTR = workflowFor mem_lib '''' f"
  using exampleFTR_creates ft_creates_once [of mem_kube mem_lib "''''" "(''default'', ''gemma-lora-v1'')"
      "oneRun exampleFTR" _ _ _ "workflowFor mem_lib '''' exampleFTR" "Inr ()"] by blast

end
