(* ===== verification/FineTuneRunStore.thy ===== *)
theory FineTuneRunStore
  imports FineTuneRunProps
begin

section \<open>The life of a FineTuneRun on a quiescent API server\<close>

text \<open>
  \<open>ftGoal\<close> is what one reconcile does to the cluster. On top of it, \<open>ft_reach\<close> is the state
  machine in which reconciles of one run interleave with Argo, which may create, change and delete
  workflows at any time.
\<close>

abbreviation ftKey :: "FineTuneRun \<Rightarrow> NamespacedName" where
  "ftKey f \<equiv> metaKey (ftr_ObjectMeta f)"

definition argoPhase :: "jval \<Rightarrow> string" where
  "argoPhase w = jstr (jpath w [''status'', ''phase''])"

definition putFTR :: "FineTuneRun \<Rightarrow> FineTuneRunStatus \<Rightarrow> cluster \<Rightarrow> cluster" where
  "putFTR f st = cl_FTRs_update (\<lambda>m. m(ftKey f \<mapsto> f\<lparr>ftr_Status := st\<rparr>))"

definition putWorkflow :: "NamespacedName \<Rightarrow> jval \<Rightarrow> cluster \<Rightarrow> cluster" where
  "putWorkflow k w = cl_Workflows_update (\<lambda>m. m(k \<mapsto> w))"

definition newWorkflowKey :: "FineTuneRun \<Rightarrow> NamespacedName" where
  "newWorkflowKey f = (ftr_Namespace f, workflowName f)"

definition ftGoal :: "FineTuneRun \<Rightarrow> cluster \<Rightarrow> 'e outcome \<Rightarrow> cluster \<Rightarrow> bool" where
  "ftGoal f c out c' \<longleftrightarrow>
     (if ftTerminal (ftPhase f) then out = Done 0 None \<and> c' = c
      else if ftWorkflow f \<noteq> '''' then
        (case cl_Workflows c (ftr_Namespace f, ftWorkflow f) of
           None \<Rightarrow> \<exists>st. failedStatus f ''WorkflowNotFound'' st \<and> c' = putFTR f st c \<and> out = Done 0 None
         | Some w \<Rightarrow> \<exists>st. syncedStatus f (argoPhase w) st \<and> c' = putFTR f st c \<and>
             out = Done (if ftTerminal (ftst_Phase st) then 0 else 30) None)
      else
        (case cl_Workflows c (newWorkflowKey f) of
           None \<Rightarrow> \<exists>st w. createdStatus f (workflowName f) st \<and> workflowKey w = newWorkflowKey f \<and>
             c' = putFTR f st (putWorkflow (newWorkflowKey f) w c) \<and> out = Done 30 None
         | Some w \<Rightarrow> c' = c \<and> (\<exists>e. out = Done 0 (Some e))))"

lemma workflowKey_built: "workflowKey (BuildArgoWorkflow f rel) = newWorkflowKey f"
  unfolding workflowKey_def newWorkflowKey_def metadata_built by simp

context kube_store
begin

abbreviation ftRecon :: "string \<Rightarrow> ('w, 'e) FTRReconciler" where
  "ftRecon rel \<equiv> \<lparr>ftrr_Client = K, ftrr_Lib = lib, ftrr_ReleaseName = rel\<rparr>"

lemma wp_ftPublish:
  assumes "cl_FTRs (view w) (ftKey f) = Some f"
    and "\<And>w'. view w' = putFTR f st (view w) \<Longrightarrow> Q (Inr (f\<lparr>ftr_Status := st\<rparr>)) w'"
  shows "wp (ftRefetchAndUpdateStatus (ftRecon rel) (ftKey f) st) Q w"
proof (simp add: ftRefetchAndUpdateStatus_def wp_rules, rule wp_getLaw [OF get_ftr], goal_cases)
  case (2 x w')
  with assms(1) show ?case
    by (simp add: wp_rules, intro wp_modifyLaw [OF status_ftr]) (auto simp: putFTR_def intro: assms(2))
qed (simp add: assms)

lemma wp_ftNow: "(\<And>n w'. view w' = view w \<Longrightarrow> Q (Inr n) w') \<Longrightarrow> wp (lifted (TimeNow K)) Q w"
  by (simp add: wp_rules, rule wp_mono [OF now]) simp

lemma wp_ftNowPublish:
  assumes "cl_FTRs (view w) (ftKey f) = Some f"
    and "\<And>n w'. view w' = putFTR f (S n) (view w) \<Longrightarrow> Q (Inr (out (f\<lparr>ftr_Status := S n\<rparr>))) w'"
  shows "wp (andThen (lifted (TimeNow K)) (\<lambda>n.
      andThen (ftRefetchAndUpdateStatus (ftRecon rel) (ftKey f) (S n)) (\<lambda>f. proceed (out f)))) Q w"
  unfolding wp_andThen wp_proceed
proof (rule wp_ftNow, unfold sum.case, rule wp_ftPublish, goal_cases)
  case (2 n w1 w2)
  then show ?case using assms(2) by simp
qed (use assms(1) in simp)

lemma wp_ftMapPhase:
  assumes "\<And>t w'. view w' = view w \<Longrightarrow> Q (Inr (st\<lparr>ftst_Phase := phaseOf p, ftst_CompletionTime :=
       (if ftTerminal (phaseOf p) then Some t else ftst_CompletionTime st)\<rparr>)) w'"
  shows "wp (ftMapPhase (ftRecon rel) p st) Q w"
proof -
  consider "p = ''Succeeded''" | "p \<noteq> ''Succeeded''" "p = ''Failed'' \<or> p = ''Error''"
    | "p = ''Running''" | "p \<notin> {''Succeeded'', ''Failed'', ''Error'', ''Running''}" by blast
  then show ?thesis
  proof cases
    case 1
    show ?thesis
      unfolding ftMapPhase_def if_P [OF 1] FTRReconciler.select_convs wp_andThen wp_proceed
      by (rule wp_ftNow) (use assms 1 in \<open>simp add: phaseOf_def ftTerminal_def\<close>)
  next
    case 2
    show ?thesis
      unfolding ftMapPhase_def if_not_P [OF 2(1)] if_P [OF 2(2)] FTRReconciler.select_convs
        wp_andThen wp_proceed
      by (rule wp_ftNow) (use assms 2 in \<open>auto simp add: phaseOf_def ftTerminal_def\<close>)
  next
    case 3
    then show ?thesis
      using assms [of w] by (simp add: ftMapPhase_def wp_proceed phaseOf_def ftTerminal_def)
  next
    case 4
    then show ?thesis
      using assms [of w] by (simp add: ftMapPhase_def wp_proceed phaseOf_def ftTerminal_def)
  qed
qed

lemma wp_ftSyncStatus:
  assumes "cl_FTRs (view w) (ftKey f) = Some f" and "\<not> ftTerminal (ftPhase f)" and "ftWorkflow f \<noteq> ''''"
    and "cl_Workflows (view w) (ftr_Namespace f, ftWorkflow f) = Some v"
  shows "wp (ftSyncStatus (ftRecon rel) (ftKey f) f v)
    (\<lambda>r w'. \<exists>out. r = Inr out \<and> ftGoal f (view w) out (view w')) w"
proof -
  have p: "NestedString lib v [''status'', ''phase''] = argoPhase v"
    using workflows by (simp add: workflowLaws_def argoPhase_def)
  have r: "(\<lambda>f. if \<not> ftTerminal (ftPhase f) then proceed (Done 30 None) else proceed (Done 0 None)) =
      (\<lambda>f. proceed (Done (requeue f) None))"
    by (auto simp: requeue_def)
  define S where "S = (\<lambda>st n. ftSetCondition st
      (ftCondition f (conditionStatus (argoPhase v = ''Succeeded'')) (''ArgoPhase'' @ capitalizeFirst (argoPhase v))
         (''Argo Workflow phase: '' @ argoPhase v) n))"
  have "wp (andThen (ftMapPhase (ftRecon rel) (argoPhase v) (ftr_Status f)) (\<lambda>st.
      andThen (lifted (TimeNow K)) (\<lambda>n. andThen (ftRefetchAndUpdateStatus (ftRecon rel) (ftKey f) (S st n))
        (\<lambda>f. proceed (Done (requeue f) None)))))
    (\<lambda>r w'. \<exists>out. r = Inr out \<and> ftGoal f (view w) out (view w')) w"
    unfolding wp_andThen [of "ftMapPhase _ _ _"]
  proof (rule wp_ftMapPhase, unfold sum.case, rule wp_ftNowPublish, goal_cases)
    case (2 t w2 n w3)
    let ?st = "S ((ftr_Status f)\<lparr>ftst_Phase := phaseOf (argoPhase v), ftst_CompletionTime :=
        (if ftTerminal (phaseOf (argoPhase v)) then Some t else ftst_CompletionTime (ftr_Status f))\<rparr>) n"
    have "syncedStatus f (argoPhase v) ?st" unfolding syncedStatus_def S_def by blast
    moreover have "view w3 = putFTR f ?st (view w)" using 2 by simp
    moreover have "requeue (f\<lparr>ftr_Status := ?st\<rparr>) = (if ftTerminal (ftst_Phase ?st) then 0 else 30)"
      by (simp add: requeue_def)
    ultimately show ?case
      unfolding ftGoal_def if_not_P [OF assms(2)] if_P [OF assms(3)] assms(4) option.case by blast
  qed (use assms(1) in simp)
  then show ?thesis
    unfolding ftSyncStatus_def FTRReconciler.select_convs Let_def p r S_def .
qed

lemma wp_ftSync:
  assumes "cl_FTRs (view w) (ftKey f) = Some f" and "\<not> ftTerminal (ftPhase f)" and "ftWorkflow f \<noteq> ''''"
  shows "wp (ftSyncWorkflow (ftRecon rel) (ftKey f) f)
    (\<lambda>r w'. \<exists>out. r = Inr out \<and> ftGoal f (view w) out (view w')) w"
  unfolding ftSyncWorkflow_def FTRReconciler.select_convs wp_andThen wp_lifted sum.case
proof (rule wp_getLaw [OF get_wf], unfold sum.case, goal_cases)
  case (1 e w1)
  then have f1: "cl_FTRs (view w1) (ftKey f) = Some f" using assms by simp
  show ?case
    unfolding if_P [OF 1(3)] ftWorkflowGone_def FTRReconciler.select_convs Let_def
  proof (rule wp_ftNowPublish [OF f1], goal_cases)
    case (1 n w2)
    then show ?case
      unfolding ftGoal_def if_not_P [OF assms(2)] if_P [OF assms(3)]
      using \<open>cl_Workflows (view w) _ = None\<close> \<open>view w1 = view w\<close>
      by (auto intro!: exI failedStatusI)
  qed
next
  case (2 v w1)
  then show ?case using wp_ftSyncStatus [of w1 f v rel] assms by simp
qed

lemma wp_ftCreate:
  assumes "cl_FTRs (view w) (ftKey f) = Some f" and "\<not> ftTerminal (ftPhase f)" and "ftWorkflow f = ''''"
  shows "wp (ftCreateWorkflow (ftRecon rel) (ftKey f) f)
    (\<lambda>r w'. case r of Inl out \<Rightarrow> ftGoal f (view w) out (view w') | Inr out \<Rightarrow> ftGoal f (view w) out (view w')) w"
proof -
  obtain o1 v where v: "SetWorkflowOwner lib (ftr_ObjectMeta f) (BuildArgoWorkflow f (ftReleaseName (ftRecon rel))) =
      (o1, v)" by fastforce
  then have k: "workflowKey v = newWorkflowKey f"
    using workflows workflowKey_built by (metis snd_conv workflowLaws_def)
  then have n: "WorkflowGetName lib v = workflowName f"
    using workflows by (simp add: workflowLaws_def workflowKey_def newWorkflowKey_def)
  show ?thesis
  proof (cases "cl_Workflows (view w) (newWorkflowKey f)")
    case None
    have c: "cl_Workflows (view w) (workflowKey v) = None" using None k by simp
    show ?thesis
      unfolding ftCreateWorkflow_def FTRReconciler.select_convs Let_def v prod.case
        wp_andThen [of "lifted (CreateWorkflow _ _)"] wp_lifted sum.case
    proof (rule wp_createLaw [OF create_wf c], unfold sum.case, rule wp_ftNowPublish, goal_cases)
      case (2 w1 n1 w2)
      then show ?case
        using assms(2,3) None k n by (auto simp: ftGoal_def putWorkflow_def intro!: exI createdStatusI)
    qed (simp add: assms(1))
  next
    case (Some old)
    have "wp (CreateWorkflow K v) (\<lambda>r w'. view w' = view w \<and> (\<exists>e. r = Inl e \<and> \<not> isNoCRDError lib e)) w"
      by (rule wp_mono, rule create_wf [unfolded createLaw_def, rule_format])
         (auto simp: k Some isNoCRDError_def split: option.splits)
    then show ?thesis
      unfolding ftCreateWorkflow_def FTRReconciler.select_convs Let_def v prod.case
        wp_andThen wp_lifted sum.case
      by (rule wp_mono) (use assms(2,3) Some in \<open>auto simp: ftGoal_def wp_returnWith\<close>)
  qed
qed

lemma wp_ftReconcile:
  assumes "cl_FTRs (view w) (ftKey f) = Some f"
  shows "wp (ftReconcile (ftRecon rel) (ftKey f)) (\<lambda>out w'. ftGoal f (view w) out (view w')) w"
  unfolding ftReconcile_def FTRReconciler.select_convs wp_finish wp_andThen wp_lifted sum.case
proof (rule wp_getLaw [OF get_ftr], unfold sum.case, goal_cases)
  case (2 x w1)
  then have x: "x = f" and v1: "view w1 = view w" using assms by simp_all
  have f1: "cl_FTRs (view w1) (ftKey f) = Some f" using assms v1 by simp
  consider "ftTerminal (ftPhase f)" | "\<not> ftTerminal (ftPhase f)" "ftWorkflow f \<noteq> ''''"
    | "\<not> ftTerminal (ftPhase f)" "ftWorkflow f = ''''" by blast
  then show ?case
  proof cases
    case 1
    then show ?thesis by (auto simp: x v1 ftGoal_def ftTerminal_def wp_rules)
  next
    case 2
    have "wp (ftSyncWorkflow (ftRecon rel) (ftKey f) f) (\<lambda>r w'. case r of Inl out \<Rightarrow> ftGoal f (view w) out (view w')
          | Inr out \<Rightarrow> ftGoal f (view w) out (view w')) w1"
      by (rule wp_mono [OF wp_ftSync [OF f1 2, of rel]]) (auto simp: v1)
    with 2 show ?thesis by (simp add: x ftTerminal_def)
  next
    case 3
    have "wp (ftCreateWorkflow (ftRecon rel) (ftKey f) f) (\<lambda>r w'. case r of Inl out \<Rightarrow> ftGoal f (view w) out (view w')
          | Inr out \<Rightarrow> ftGoal f (view w) out (view w')) w1"
      using wp_ftCreate [OF f1 3, of rel] unfolding v1 .
    with 3 show ?thesis by (simp add: x ftTerminal_def)
  qed
qed (simp add: assms)

end

end
