(* ===== verification/FineTuneRunLife.thy ===== *)
theory FineTuneRunLife
  imports FineTuneRunStore
begin

section \<open>The life of a FineTuneRun\<close>

text \<open>
  Reconciles of one run interleave with Argo Workflows, which creates, runs and deletes workflows
  at any time: \<open>ft_reach\<close> is the set of worlds that this state machine reaches. Its invariants hold
  for every API server that satisfies the laws of \<open>kube_store\<close>.
\<close>

definition ftReconcilerOf :: "('w, 'e) kube \<Rightarrow> 'e klib \<Rightarrow> string \<Rightarrow> ('w, 'e) FTRReconciler" where
  "ftReconcilerOf K lib rel = \<lparr>ftrr_Client = K, ftrr_Lib = lib, ftrr_ReleaseName = rel\<rparr>"

lemma ftReconcilerOf_simps [simp]:
  "ftrr_Client (ftReconcilerOf K lib rel) = K" "ftrr_Lib (ftReconcilerOf K lib rel) = lib"
  by (simp_all add: ftReconcilerOf_def)

lemma ftReconcile_goal:
  assumes "kube_store K lib view" and "cl_FTRs (view w) (ftKey f) = Some f"
    and "run_state (ftReconcile (ftReconcilerOf K lib rel) (ftKey f)) w = (out, w')"
  shows "ftGoal f (view w) out (view w')"
  using wpD [OF kube_store.wp_ftReconcile [OF assms(1,2)] assms(3) [unfolded ftReconcilerOf_def]] .

inductive ft_reach ::
  "('w, 'e) kube \<Rightarrow> 'e klib \<Rightarrow> ('w \<Rightarrow> cluster) \<Rightarrow> string \<Rightarrow> NamespacedName \<Rightarrow> 'w \<Rightarrow> 'w \<Rightarrow> bool"
  for K lib view rel key w0 where
  start: "ft_reach K lib view rel key w0 w0"
| reconcile: "ft_reach K lib view rel key w0 w \<Longrightarrow>
    run_state (ftReconcile (ftReconcilerOf K lib rel) key) w = (out, w') \<Longrightarrow>
    ft_reach K lib view rel key w0 w'"
| argo: "ft_reach K lib view rel key w0 w \<Longrightarrow>
    view w' = cl_Workflows_update (\<lambda>_. ws) (view w) \<Longrightarrow> ft_reach K lib view rel key w0 w'"

subsection \<open>One reconcile, seen on the run\<close>

text \<open>The status that a reconcile stores, as a transition of the run's own state machine.\<close>

inductive ft_move :: "FineTuneRunStatus \<Rightarrow> FineTuneRunStatus \<Rightarrow> bool" where
  stay: "ft_move st st"
| create: "ftst_Phase st = '''' \<Longrightarrow> ftst_ArgoWorkflow st = '''' \<Longrightarrow> n \<noteq> '''' \<Longrightarrow>
    ftst_Phase st' = ''Pending'' \<Longrightarrow> ftst_ArgoWorkflow st' = n \<Longrightarrow> ftst_StartTime st' = Some t \<Longrightarrow>
    ftst_CompletionTime st' = ftst_CompletionTime st \<Longrightarrow> ft_move st st'"
| progress: "ftst_Phase st \<in> {''Pending'', ''Training''} \<Longrightarrow> ftst_ArgoWorkflow st \<noteq> '''' \<Longrightarrow>
    ftst_Phase st' \<in> {''Pending'', ''Training''} \<Longrightarrow>
    ftst_ArgoWorkflow st' = ftst_ArgoWorkflow st \<Longrightarrow> ftst_StartTime st' = ftst_StartTime st \<Longrightarrow>
    ftst_CompletionTime st' = ftst_CompletionTime st \<Longrightarrow> ft_move st st'"
| complete: "ftst_Phase st \<in> {''Pending'', ''Training''} \<Longrightarrow> ftst_ArgoWorkflow st \<noteq> '''' \<Longrightarrow>
    ftTerminal (ftst_Phase st') \<Longrightarrow>
    ftst_ArgoWorkflow st' = ftst_ArgoWorkflow st \<Longrightarrow> ftst_StartTime st' = ftst_StartTime st \<Longrightarrow>
    ftst_CompletionTime st' = Some t \<Longrightarrow> ft_move st st'"
| vanish: "ftst_Phase st \<in> {''Pending'', ''Training''} \<Longrightarrow> ftst_ArgoWorkflow st \<noteq> '''' \<Longrightarrow>
    ftst_Phase st' = ''Failed'' \<Longrightarrow>
    ftst_ArgoWorkflow st' = ftst_ArgoWorkflow st \<Longrightarrow> ftst_StartTime st' = ftst_StartTime st \<Longrightarrow>
    ftst_CompletionTime st' = ftst_CompletionTime st \<Longrightarrow> ft_move st st'"

inductive_cases ft_moveE: "ft_move st st'"

text \<open>The states a run can be in.\<close>

definition ft_ok :: "FineTuneRunStatus \<Rightarrow> bool" where
  "ft_ok st \<longleftrightarrow>
     ftst_Phase st \<in> {'''', ''Pending'', ''Training'', ''Succeeded'', ''Failed''} \<and>
     (ftst_ArgoWorkflow st = '''' \<longleftrightarrow> ftst_Phase st = '''') \<and>
     (ftst_StartTime st = None \<longleftrightarrow> ftst_Phase st = '''') \<and>
     (ftst_Phase st = ''Succeeded'' \<longrightarrow> ftst_CompletionTime st \<noteq> None) \<and>
     (ftst_CompletionTime st \<noteq> None \<longrightarrow> ftTerminal (ftst_Phase st))"

lemma ft_ok_move: "ft_move st st' \<Longrightarrow> ft_ok st \<Longrightarrow> ft_ok st'"
  by (erule ft_moveE) (auto simp: ft_ok_def ftTerminal_def)

lemma ft_move_terminal: "ft_move st st' \<Longrightarrow> ftTerminal (ftst_Phase st) \<Longrightarrow> st' = st"
  by (erule ft_moveE) (auto simp: ftTerminal_def)

lemma ft_move_workflow:
  "ft_move st st' \<Longrightarrow> ftst_ArgoWorkflow st \<noteq> '''' \<Longrightarrow>
     ftst_ArgoWorkflow st' = ftst_ArgoWorkflow st \<and> ftst_StartTime st' = ftst_StartTime st"
  by (erule ft_moveE) auto

lemma syncedStatus_simps:
  assumes "syncedStatus f p st"
  shows "ftst_Phase st = phaseOf p" "ftst_ArgoWorkflow st = ftWorkflow f"
    "ftst_StartTime st = ftst_StartTime (ftr_Status f)"
    "ftTerminal (phaseOf p) \<Longrightarrow> ftst_CompletionTime st \<noteq> None"
    "\<not> ftTerminal (phaseOf p) \<Longrightarrow> ftst_CompletionTime st = ftst_CompletionTime (ftr_Status f)"
  using assms by (auto simp: syncedStatus_def ftSetCondition_def)

lemma failedStatus_simps:
  assumes "failedStatus f r st"
  shows "ftst_Phase st = ''Failed''" "ftst_ArgoWorkflow st = ftWorkflow f"
    "ftst_StartTime st = ftst_StartTime (ftr_Status f)"
    "ftst_CompletionTime st = ftst_CompletionTime (ftr_Status f)"
  using assms by (auto simp: failedStatus_def ftSetCondition_def)

lemma createdStatus_simps:
  assumes "createdStatus f n st"
  shows "ftst_Phase st = ''Pending''" "ftst_ArgoWorkflow st = n" "ftst_StartTime st \<noteq> None"
    "ftst_CompletionTime st = ftst_CompletionTime (ftr_Status f)"
  using assms by (auto simp: createdStatus_def ftSetCondition_def)

lemma phaseOf_cases: "phaseOf p \<in> {''Pending'', ''Training''} \<or> ftTerminal (phaseOf p)"
  by (simp add: phaseOf_def ftTerminal_def)

lemma ft_ok_alive:
  "ft_ok st \<Longrightarrow> \<not> ftTerminal (ftst_Phase st) \<Longrightarrow> ftst_ArgoWorkflow st \<noteq> '''' \<Longrightarrow>
     ftst_Phase st \<in> {''Pending'', ''Training''}"
  by (auto simp: ft_ok_def ftTerminal_def)

lemma TrimRight_nonempty: "x \<in> set s \<Longrightarrow> x \<noteq> c \<Longrightarrow> TrimRight s c \<noteq> ''''"
  using TrimRight_split [of s c] by (metis append_Nil in_set_replicate)

lemma workflowName_nonempty:
  assumes "\<exists>c\<in>set (ftr_Name f). c \<noteq> CHR ''-''"
  shows "workflowName f \<noteq> ''''"
proof -
  obtain c where "c \<in> set (ftr_Name f)" "c \<noteq> CHR ''-''" using assms by blast
  then show ?thesis
    unfolding workflowName_def Let_def by (intro TrimRight_nonempty [of c]) auto
qed

text \<open>What \<open>ftGoal\<close> means for the run itself.\<close>

lemma ftGoal_move:
  assumes "ftGoal f c out c'" and "cl_FTRs c (ftKey f) = Some f" and "ft_ok (ftr_Status f)"
    and "\<exists>x\<in>set (ftr_Name f). x \<noteq> CHR ''-''"
  obtains st where "cl_FTRs c' (ftKey f) = Some (f\<lparr>ftr_Status := st\<rparr>)" and "ft_move (ftr_Status f) st"
proof -
  have same: "cl_FTRs c (ftKey f) = Some (f\<lparr>ftr_Status := ftr_Status f\<rparr>)"
    using assms(2) by simp
  consider "c' = c"
    | p st where "ftWorkflow f \<noteq> ''''" "\<not> ftTerminal (ftPhase f)" "syncedStatus f p st" "c' = putFTR f st c"
    | r st where "ftWorkflow f \<noteq> ''''" "\<not> ftTerminal (ftPhase f)" "failedStatus f r st" "c' = putFTR f st c"
    | st w where "ftWorkflow f = ''''" "createdStatus f (workflowName f) st"
        "c' = putFTR f st (putWorkflow (newWorkflowKey f) w c)"
    using assms(1) unfolding ftGoal_def by (auto split: if_splits option.splits)
  then show thesis
  proof cases
    case 1
    then show thesis using same stay that by blast
  next
    case 2
    note s = syncedStatus_simps [OF 2(3)]
    have "ft_move (ftr_Status f) st"
    proof (cases "ftTerminal (phaseOf p)")
      case True
      then obtain t where "ftst_CompletionTime st = Some t" using s(4) by blast
      with True show ?thesis
        by (intro complete [OF ft_ok_alive [OF assms(3) 2(2,1)] 2(1)]) (simp_all add: s)
    next
      case False
      then show ?thesis
        using phaseOf_cases [of p]
        by (intro progress [OF ft_ok_alive [OF assms(3) 2(2,1)] 2(1)]) (simp_all add: s)
    qed
    then show thesis using that 2(4) by (simp add: putFTR_def)
  next
    case 3
    have "ft_move (ftr_Status f) st"
      by (rule vanish [OF ft_ok_alive [OF assms(3) 3(2,1)] 3(1)]) (simp_all add: failedStatus_simps [OF 3(3)])
    then show thesis using that 3(4) by (simp add: putFTR_def)
  next
    case 4
    note s = createdStatus_simps [OF 4(2)]
    obtain t where "ftst_StartTime st = Some t" using s(3) by blast
    then have "ft_move (ftr_Status f) st"
      using assms(3) 4(1) workflowName_nonempty [OF assms(4)]
      by (intro create [where n = "workflowName f" and t = t]) (simp_all add: s ft_ok_def)
    then show thesis using that 4(3) by (simp add: putFTR_def)
  qed
qed

subsection \<open>Invariants of the state machine\<close>

lemma ft_reach_invariant:
  assumes "kube_store K lib view"
    and "cl_FTRs (view w0) (ftKey f) = Some f" and "ft_ok (ftr_Status f)"
    and "\<exists>x\<in>set (ftr_Name f). x \<noteq> CHR ''-''"
    and "ft_reach K lib view rel (ftKey f) w0 w"
  shows "\<exists>st. cl_FTRs (view w) (ftKey f) = Some (f\<lparr>ftr_Status := st\<rparr>) \<and> ft_ok st \<and>
    (ftTerminal (ftPhase f) \<longrightarrow> st = ftr_Status f) \<and>
    (ftWorkflow f \<noteq> '''' \<longrightarrow> ftst_ArgoWorkflow st = ftWorkflow f \<and>
       ftst_StartTime st = ftst_StartTime (ftr_Status f))"
  using assms(5)
proof induction
  case start
  then show ?case using assms(2,3) by (intro exI [of _ "ftr_Status f"]) simp
next
  case (reconcile w out w')
  then obtain st where st: "cl_FTRs (view w) (ftKey f) = Some (f\<lparr>ftr_Status := st\<rparr>)" "ft_ok st"
    "ftTerminal (ftPhase f) \<longrightarrow> st = ftr_Status f"
    "ftWorkflow f \<noteq> '''' \<longrightarrow> ftst_ArgoWorkflow st = ftWorkflow f \<and>
       ftst_StartTime st = ftst_StartTime (ftr_Status f)" by blast
  let ?g = "f\<lparr>ftr_Status := st\<rparr>"
  have "ftGoal ?g (view w) out (view w')"
    by (rule ftReconcile_goal [OF assms(1)]) (use st(1) reconcile(2) in simp_all)
  then obtain st' where "cl_FTRs (view w') (ftKey ?g) = Some (?g\<lparr>ftr_Status := st'\<rparr>)"
      and m: "ft_move (ftr_Status ?g) st'"
    by (rule ftGoal_move) (use st(1,2) assms(4) in simp_all)
  then show ?case
    using st ft_ok_move [OF m] ft_move_terminal [OF m] ft_move_workflow [OF m]
    by (intro exI [of _ st']) auto
next
  case (argo w w' ws)
  then show ?case by simp
qed

lemma ft_ok_new: "ft_ok zeroFTRStatus"
  by (simp add: ft_ok_def zeroFTRStatus_def)

lemma exampleFTR_simps [simp]:
  "ftKey exampleFTR = (''default'', ''gemma-lora-v1'')" "ftr_Status exampleFTR = zeroFTRStatus"
  "ftr_Name exampleFTR = ''gemma-lora-v1''" "ftr_Namespace exampleFTR = ''default''"
  by (simp_all add: exampleFTR_def emptyMeta_def)

lemma zeroFTRStatus_simps [simp]:
  "ftst_Phase zeroFTRStatus = ''''" "ftst_ArgoWorkflow zeroFTRStatus = ''''"
  by (simp_all add: zeroFTRStatus_def)

lemma oneRun_simps [simp]:
  "cl_FTRs (oneRun f) (ftKey f) = Some f" "cl_Workflows (oneRun f) = Map.empty"
  by (simp_all add: oneRun_def emptyCluster_def)

text \<open>
  C3 (life of a run). Start from a stored run in a regular state, for example a new one, and let
  reconciles and arbitrary changes to the workflows of the cluster happen in any order. At every
  point the stored run differs from the first one in its status only, and its status is regular:
  the phase is empty, Pending, Training, Succeeded or Failed; a workflow and a start time are noted
  exactly when the phase is not empty; a completion time is noted when the run has succeeded, and
  only when it is terminal. A terminal run never changes again, and a run never forgets or changes
  its workflow and its start time.
\<close>

theorem ft_lifecycle:
  assumes "kube_store K lib view"
    and "cl_FTRs (view w0) (ftKey f) = Some f" and "ft_ok (ftr_Status f)"
    and "\<exists>x\<in>set (ftr_Name f). x \<noteq> CHR ''-''"
    and "ft_reach K lib view rel (ftKey f) w0 w"
  shows "\<exists>st. cl_FTRs (view w) (ftKey f) = Some (f\<lparr>ftr_Status := st\<rparr>) \<and> ft_ok st \<and>
    (ftTerminal (ftPhase f) \<longrightarrow> st = ftr_Status f) \<and>
    (ftWorkflow f \<noteq> '''' \<longrightarrow> ftst_ArgoWorkflow st = ftWorkflow f \<and>
       ftst_StartTime st = ftst_StartTime (ftr_Status f))"
  using ft_reach_invariant [OF assms] .

theorem ft_lifecycle_witness:
  "\<exists>st. cl_FTRs (snd (run_state (ftReconcile (ftReconcilerOf mem_kube mem_lib '''') (''default'', ''gemma-lora-v1''))
      (oneRun exampleFTR))) (''default'', ''gemma-lora-v1'') = Some (exampleFTR\<lparr>ftr_Status := st\<rparr>) \<and> ft_ok st"
proof -
  have "ft_reach mem_kube mem_lib (\<lambda>c. c) '''' (ftKey exampleFTR) (oneRun exampleFTR)
      (snd (run_state (ftReconcile (ftReconcilerOf mem_kube mem_lib '''') (ftKey exampleFTR)) (oneRun exampleFTR)))"
    by (rule ft_reach.reconcile [OF ft_reach.start surjective_pairing])
  from ft_lifecycle [OF mem.kube_store_axioms oneRun_simps(1) _ _ this] show ?thesis
    using ft_ok_new by auto
qed

subsection \<open>From creation to completion\<close>

text \<open>
  C10 (a run comes to its end). A new run whose workflow name is free gets its workflow, and is
  Pending and looked at again after 30 seconds. Whatever the API server holds when Argo has brought
  this workflow to an end, the next reconcile makes the run Succeeded or Failed accordingly, notes
  the completion time and asks for no further one; and from then on reconciles change nothing.
\<close>

theorem ft_comes_to_end:
  assumes "kube_store K lib view"
    and "cl_FTRs (view w0) (ftKey f) = Some f" and "ftr_Status f = zeroFTRStatus"
    and "\<exists>x\<in>set (ftr_Name f). x \<noteq> CHR ''-''"
    and "cl_Workflows (view w0) (newWorkflowKey f) = None"
    and "run_state (ftReconcile (ftReconcilerOf K lib rel) (ftKey f)) w0 = (out1, w1)"
    and "cl_FTRs (view u) (ftKey f) = cl_FTRs (view w1) (ftKey f)"
    and "cl_Workflows (view u) (newWorkflowKey f) = Some x"
    and "argoPhase x \<in> {''Succeeded'', ''Failed'', ''Error''}"
    and "run_state (ftReconcile (ftReconcilerOf K lib rel) (ftKey f)) u = (out2, w2)"
    and "run_state (ftReconcile (ftReconcilerOf K lib rel) (ftKey f)) w2 = (out3, w3)"
  shows "out1 = Done 30 None \<and> cl_Workflows (view w1) (newWorkflowKey f) \<noteq> None \<and>
    out2 = Done 0 None \<and>
    (\<exists>st t. cl_FTRs (view w2) (ftKey f) = Some (f\<lparr>ftr_Status := st\<rparr>) \<and>
       ftst_Phase st = (if argoPhase x = ''Succeeded'' then ''Succeeded'' else ''Failed'') \<and>
       ftst_ArgoWorkflow st = workflowName f \<and> ftst_CompletionTime st = Some t) \<and>
    out3 = Done 0 None \<and> view w3 = view w2"
proof -
  note goal = ftReconcile_goal [OF assms(1)]
  have "ftGoal f (view w0) out1 (view w1)" using goal [OF assms(2,6)] .
  with assms(3,5) obtain st w where c: "createdStatus f (workflowName f) st"
      "view w1 = putFTR f st (putWorkflow (newWorkflowKey f) w (view w0))" "out1 = Done 30 None"
    by (auto simp: ftGoal_def ftTerminal_def)
  note s = createdStatus_simps [OF c(1)]
  let ?g = "f\<lparr>ftr_Status := st\<rparr>"
  have u: "cl_FTRs (view u) (ftKey ?g) = Some ?g"
    using assms(7) c(2) by (simp add: putFTR_def)
  have "ftGoal ?g (view u) out2 (view w2)" by (rule goal [OF u]) (use assms(10) in simp)
  with assms(8) workflowName_nonempty [OF assms(4)] obtain st' where
      y: "syncedStatus ?g (argoPhase x) st'" "view w2 = putFTR ?g st' (view u)"
        "out2 = Done (if ftTerminal (ftst_Phase st') then 0 else 30) None"
    by (auto simp: ftGoal_def ftTerminal_def s newWorkflowKey_def)
  note s' = syncedStatus_simps [OF y(1)]
  have t: "phaseOf (argoPhase x) = (if argoPhase x = ''Succeeded'' then ''Succeeded'' else ''Failed'')"
    using assms(9) by (auto simp: phaseOf_def)
  then have p: "ftTerminal (ftst_Phase st')" by (simp add: s' ftTerminal_def)
  let ?h = "f\<lparr>ftr_Status := st'\<rparr>"
  have h: "cl_FTRs (view w2) (ftKey ?h) = Some ?h" using y(2) by (simp add: putFTR_def)
  have "ftGoal ?h (view w2) out3 (view w3)" by (rule goal [OF h]) (use assms(11) in simp)
  then show ?thesis
    using c(2,3) h y(3) p s' s(2) t by (auto simp: ftGoal_def putFTR_def putWorkflow_def)
qed

definition argoEnds :: "FineTuneRun \<Rightarrow> string \<Rightarrow> cluster \<Rightarrow> cluster" where
  "argoEnds f phase = putWorkflow (newWorkflowKey f) (JObj [(''status'', JObj [(''phase'', JStr phase)])])"

lemma argoEnds_simps:
  "cl_FTRs (argoEnds f phase c) = cl_FTRs c"
  "cl_Workflows (argoEnds f phase c) (newWorkflowKey f) = Some (JObj [(''status'', JObj [(''phase'', JStr phase)])])"
  "argoPhase (JObj [(''status'', JObj [(''phase'', JStr phase)])]) = phase"
  by (simp_all add: argoEnds_def putWorkflow_def argoPhase_def)

theorem ft_comes_to_end_witness:
  "\<exists>st. cl_FTRs (snd (run_state (ftReconcile (ftReconcilerOf mem_kube mem_lib '''') (''default'', ''gemma-lora-v1''))
        (argoEnds exampleFTR ''Succeeded''
          (snd (run_state (ftReconcile (ftReconcilerOf mem_kube mem_lib '''') (''default'', ''gemma-lora-v1''))
             (oneRun exampleFTR)))))) (''default'', ''gemma-lora-v1'') = Some (exampleFTR\<lparr>ftr_Status := st\<rparr>) \<and>
     ftst_Phase st = ''Succeeded''"
proof -
  have n: "\<exists>x\<in>set (ftr_Name exampleFTR). x \<noteq> CHR ''-''" by simp
  have p: "argoPhase (JObj [(''status'', JObj [(''phase'', JStr ''Succeeded'')])]) \<in> {''Succeeded'', ''Failed'', ''Error''}"
    by (simp add: argoEnds_simps(3))
  have w: "cl_Workflows (oneRun exampleFTR) (newWorkflowKey exampleFTR) = None" by simp
  have k: "ftKey exampleFTR = (''default'', ''gemma-lora-v1'')" by simp
  let ?step = "run_state (ftReconcile (ftReconcilerOf mem_kube mem_lib '''') (ftKey exampleFTR))"
  let ?w1 = "snd (?step (oneRun exampleFTR))"
  let ?u = "argoEnds exampleFTR ''Succeeded'' ?w1"
  have u: "cl_FTRs ?u (ftKey exampleFTR) = cl_FTRs ?w1 (ftKey exampleFTR)"
    by (simp only: argoEnds_simps)
  have "\<exists>st t. cl_FTRs (snd (?step ?u)) (ftKey exampleFTR) = Some (exampleFTR\<lparr>ftr_Status := st\<rparr>) \<and>
       ftst_Phase st = ''Succeeded'' \<and> ftst_ArgoWorkflow st = workflowName exampleFTR \<and>
       ftst_CompletionTime st = Some t"
  proof -
    note first = ft_comes_to_end [OF mem.kube_store_axioms oneRun_simps(1) exampleFTR_simps(2) n w]
    note second = first [OF surjective_pairing u]
    note third = second [OF argoEnds_simps(2) p]
    show ?thesis
      using third [OF surjective_pairing surjective_pairing]
      unfolding argoEnds_simps(3) if_P [OF refl] by (elim conjE)
  qed
  then show ?thesis unfolding k by blast
qed

subsection \<open>A lost status update\<close>

context kube_store
begin

lemma wp_ftCreate_lost:
  assumes "cl_FTRs (view w) (ftKey f) = Some f"
    and "\<not> ftTerminal (ftPhase f)" and "ftWorkflow f = ''''" and "cl_Workflows (view w) (newWorkflowKey f) = None"
    and lost: "\<And>x w. wp (op x) (\<lambda>r w'. view w' = view w \<and> (\<exists>e. r = Inl e)) w"
  shows "wp (ftReconcile (ftReconcilerOf (K\<lparr>StatusUpdateFTR := op\<rparr>) lib rel) (ftKey f)) (\<lambda>out w'.
    \<exists>e v. out = Done 0 (Some e) \<and> view w' = putWorkflow (newWorkflowKey f) v (view w)) w"
proof -
  let ?r = "ftReconcilerOf (K\<lparr>StatusUpdateFTR := op\<rparr>) lib rel"
  obtain o1 v where v: "SetWorkflowOwner lib (ftr_ObjectMeta f) (BuildArgoWorkflow f (ftReleaseName ?r)) =
      (o1, v)" by fastforce
  then have k: "workflowKey v = newWorkflowKey f"
    using workflows workflowKey_built by (metis snd_conv workflowLaws_def)
  have pub: "wp (ftRefetchAndUpdateStatus ?r (ftKey f) st)
      (\<lambda>r w2. view w2 = view w1 \<and> (\<exists>e. r = Inl (Done 0 (Some e)))) w1"
    if "cl_FTRs (view w1) (ftKey f) = Some f" for st w1
    unfolding ftRefetchAndUpdateStatus_def wp_andThen wp_checked ftReconcilerOf_simps
  proof (simp, rule wp_getLaw [OF get_ftr], goal_cases)
    case (2 x w2)
    then show ?case
      by (simp add: wp_rules) (rule wp_mono [OF lost], auto)
  qed (simp add: that)
  have "wp (ftCreateWorkflow ?r (ftKey f) f) (\<lambda>r w'. \<exists>e v. r = Inl (Done 0 (Some e)) \<and>
      view w' = putWorkflow (newWorkflowKey f) v (view w)) w1" if "view w1 = view w" for w1
    unfolding ftCreateWorkflow_def Let_def ftReconcilerOf_simps v prod.case wp_andThen wp_lifted sum.case
  proof (simp, rule wp_createLaw [OF create_wf], goal_cases)
    case (2 w2)
    then have v2: "view w2 = putWorkflow (newWorkflowKey f) v (view w)"
      using k that by (simp add: putWorkflow_def)
    show ?case
    proof (simp add: wp_andThen wp_lifted, rule wp_mono [OF now], goal_cases)
      case (1 t w3)
      then have "cl_FTRs (view w3) (ftKey f) = Some f"
        using v2 assms(1) by (simp add: putWorkflow_def)
      then show ?case
        by (rule wp_mono [OF pub]) (use 1 v2 in auto)
    qed
  qed (use that k assms(4) in simp)
  then have c: "view w1 = view w \<Longrightarrow> wp (ftCreateWorkflow ?r (ftKey f) f)
      (\<lambda>r w'. case r of Inl out \<Rightarrow> \<exists>e v. out = Done 0 (Some e) \<and> view w' = putWorkflow (newWorkflowKey f) v (view w)
        | Inr out \<Rightarrow> \<exists>e v. out = Done 0 (Some e) \<and> view w' = putWorkflow (newWorkflowKey f) v (view w)) w1" for w1
    by (rule wp_mono) auto
  show ?thesis
    unfolding ftReconcile_def wp_finish wp_andThen wp_lifted sum.case
  proof (simp, rule wp_getLaw [OF get_ftr], goal_cases)
    case (2 x w1)
    then show ?case using assms(1-3) c by (simp add: ftTerminal_def)
  qed (simp add: assms(1))
qed

end

abbreviation ftAgain :: "('w, 'e) kube \<Rightarrow> 'e klib \<Rightarrow> string \<Rightarrow> NamespacedName \<Rightarrow> 'w \<Rightarrow> 'w" where
  "ftAgain K lib rel key w \<equiv> snd (run_state (ftReconcile (ftReconcilerOf K lib rel) key) w)"

lemma ft_stuck_again:
  assumes "kube_store K lib view" and "cl_FTRs (view w) (ftKey f) = Some f"
    and "\<not> ftTerminal (ftPhase f)" and "ftWorkflow f = ''''" and "cl_Workflows (view w) (newWorkflowKey f) \<noteq> None"
  shows "view (ftAgain K lib rel (ftKey f) w) = view w"
    and "\<exists>e. fst (run_state (ftReconcile (ftReconcilerOf K lib rel) (ftKey f)) w) = Done 0 (Some e)"
proof -
  have "ftGoal f (view w) (fst (run_state (ftReconcile (ftReconcilerOf K lib rel) (ftKey f)) w))
      (view (ftAgain K lib rel (ftKey f) w))"
    by (rule ftReconcile_goal [OF assms(1,2) surjective_pairing])
  then show "view (ftAgain K lib rel (ftKey f) w) = view w"
    and "\<exists>e. fst (run_state (ftReconcile (ftReconcilerOf K lib rel) (ftKey f)) w) = Done 0 (Some e)"
    using assms(3-5) by (auto simp: ftGoal_def)
qed

text \<open>
  C27 (a lost status update strands the run). Suppose the status update of the reconcile that creates
  the workflow fails. The reconcile ends with an error and leaves the workflow behind; every later
  reconcile, with an API server that works again, ends with an error and changes nothing, however
  often it is tried: the name of the workflow is taken, and nothing looks the workflow up.
\<close>

theorem ft_lost_update_strands:
  assumes "kube_store K lib view" and "cl_FTRs (view w) (ftKey f) = Some f"
    and "\<not> ftTerminal (ftPhase f)" and "ftWorkflow f = ''''" and "cl_Workflows (view w) (newWorkflowKey f) = None"
    and "\<And>x w. wp (op x) (\<lambda>r w'. view w' = view w \<and> (\<exists>e. r = Inl e)) w"
    and "run_state (ftReconcile (ftReconcilerOf (K\<lparr>StatusUpdateFTR := op\<rparr>) lib rel) (ftKey f)) w = (out, w1)"
  shows "(\<exists>e. out = Done 0 (Some e)) \<and> cl_FTRs (view w1) (ftKey f) = Some f \<and>
    cl_Workflows (view w1) (newWorkflowKey f) \<noteq> None \<and>
    view ((ftAgain K lib rel (ftKey f) ^^ n) w1) = view w1 \<and>
    (\<exists>e. fst (run_state (ftReconcile (ftReconcilerOf K lib rel) (ftKey f))
       ((ftAgain K lib rel (ftKey f) ^^ n) w1)) = Done 0 (Some e))"
proof -
  have 1: "\<exists>e v. out = Done 0 (Some e) \<and> view w1 = putWorkflow (newWorkflowKey f) v (view w)"
    using wpD [OF kube_store.wp_ftCreate_lost [OF assms(1-6)] assms(7)] .
  then have f: "cl_FTRs (view w1) (ftKey f) = Some f" "cl_Workflows (view w1) (newWorkflowKey f) \<noteq> None"
    using assms(2) by (auto simp: putWorkflow_def)
  have n: "view ((ftAgain K lib rel (ftKey f) ^^ n) w1) = view w1"
    by (induction n) (simp_all add: ft_stuck_again(1) [OF assms(1) _ assms(3,4)] f)
  show ?thesis
    using 1 f n ft_stuck_again(2) [OF assms(1) _ assms(3,4), of "(ftAgain K lib rel (ftKey f) ^^ n) w1" rel]
    by auto
qed

definition lostUpdate :: "FineTuneRun \<Rightarrow> (cluster, memError error + FineTuneRun) state" where
  "lostUpdate x = State (\<lambda>c. (Inl (Raw AlreadyExists), c))"

theorem ft_lost_update_strands_witness:
  "\<exists>e. fst (run_state (ftReconcile (ftReconcilerOf mem_kube mem_lib '''') (''default'', ''gemma-lora-v1''))
     (ftAgain (mem_kube\<lparr>StatusUpdateFTR := lostUpdate\<rparr>) mem_lib '''' (''default'', ''gemma-lora-v1'')
        (oneRun exampleFTR))) = Done 0 (Some e)"
proof -
  have t: "\<not> ftTerminal (ftPhase exampleFTR)" "ftWorkflow exampleFTR = ''''"
    "cl_Workflows (oneRun exampleFTR) (newWorkflowKey exampleFTR) = None"
    by (simp_all add: ftTerminal_def)
  have l: "wp (lostUpdate x) (\<lambda>r c'. c' = c \<and> (\<exists>e. r = Inl e)) c" for x c
    by (simp add: lostUpdate_def wp_def)
  have k: "ftKey exampleFTR = (''default'', ''gemma-lora-v1'')" by simp
  show ?thesis
    using ft_lost_update_strands [where op = lostUpdate and rel = "''''" and n = 0,
        OF mem.kube_store_axioms oneRun_simps(1) t l surjective_pairing]
    unfolding k funpow_0 by blast
qed

end
