(* ===== verification/HelmValues.thy ===== *)
theory HelmValues
  imports ApiTypes Json
begin

section \<open>Helm values of a platform (internal/helmbridge/values.go)\<close>

text \<open>
  \<open>TranslateValues\<close>, with one definition per part of the map: \<open>modelValues\<close> is the body of the
  loop over the models, \<open>globalValues\<close> the section \<open>global\<close>, \<open>litellmValues\<close> the gateway. The
  lemmas read the written values back by path.
\<close>

abbreviation enabledObj :: "bool \<Rightarrow> jval" where
  "enabledObj b \<equiv> JObj [(''enabled'', JBool b)]"

definition stringMap :: "(string \<times> string) list \<Rightarrow> jval" where
  "stringMap m = JObj (map (\<lambda>(k, v). (k, JStr v)) m)"

definition modelValues :: "ModelSpec \<Rightarrow> jobj" where
  "modelValues m =
     (let model = [(''name'', JStr (mdl_Name m)), (''source'', JStr (mdl_Source m))];
          model = jset_if (mdl_Engine m \<noteq> '''') ''engine'' (JStr (mdl_Engine m)) model;
          model = jset_if (mdl_Replicas m > 0) ''replicas'' (JInt (mdl_Replicas m)) model;
          res = [];
          res = jset res ''gpu'' (JInt (mr_GPU (mdl_Resources m)));
          res = jset_if (mr_CPU (mdl_Resources m) \<noteq> '''') ''cpu'' (JStr (mr_CPU (mdl_Resources m))) res;
          res = jset_if (mr_Memory (mdl_Resources m) \<noteq> '''') ''memory''
                  (JStr (mr_Memory (mdl_Resources m))) res;
          model = jset model ''resources'' (JObj res)
      in jset_if (length (mdl_EngineArgs m) > 0) ''engineArgs'' (stringMap (mdl_EngineArgs m)) model)"

definition globalValues :: "LLMPlatformSpec \<Rightarrow> jobj" where
  "globalValues spec =
     (let glob = [];
          glob = jset glob ''modules'' (JObj
            [(''rag'', enabledObj (et_Enabled (mo_RAG (lps_Modules spec)))),
             (''finetune'', enabledObj (et_Enabled (mo_Finetune (lps_Modules spec)))),
             (''security'', enabledObj (et_Enabled (mo_Security (lps_Modules spec))))]);
          ms = lps_ModelStore spec;
          glob = jset glob ''modelStore'' (JObj
            [(''endpoint'', JStr (ms_Endpoint ms)),
             (''bucket'', JStr (ms_Bucket ms)),
             (''accessKey'', JStr (ms_AccessKey ms)),
             (''secretKey'', JStr (ms_SecretKey ms)),
             (''hfTransferConcurrency'', JInt (ms_HFTransferConcurrency ms)),
             (''image'', JStr (ms_Image ms))]);
          glob = jset_if (lps_HFToken spec \<noteq> '''') ''hfToken'' (JStr (lps_HFToken spec)) glob;
          glob = jset_if (length (lps_Models spec) > 0) ''models''
                   (JArr (map (\<lambda>m. JObj (modelValues m)) (lps_Models spec))) glob
      in jset glob ''nodePort'' (JObj
           [(''enabled'', JBool (np_Enabled (lps_NodePort spec))),
            (''host'', JStr (np_Host (lps_NodePort spec)))]))"

definition litellmValues :: "GatewaySpec \<Rightarrow> jobj" where
  "litellmValues gw =
     (let litellm = [(''enabled'', JBool (gw_Enabled gw))];
          litellm = jset_if (gw_Routing gw \<noteq> '''') ''routingStrategy'' (JStr (gw_Routing gw)) litellm;
          litellm = jset_if (gw_MasterKey gw \<noteq> '''') ''masterKey'' (JStr (gw_MasterKey gw)) litellm;
          litellm = jset_if (im_Tag (gw_Image gw) \<noteq> '''') ''image''
                      (JObj [(''tag'', JStr (im_Tag (gw_Image gw)))]) litellm
      in if gw_LangfuseEnabled gw then
           jset (jset (jset litellm ''langfuseEnabled'' (JBool True))
                  ''langfusePublicKey'' (JStr (gw_LangfusePublicKey gw)))
             ''langfuseSecretKey'' (JStr (gw_LangfuseSecretKey gw))
         else litellm)"

definition TranslateValues :: "LLMPlatform \<Rightarrow> jobj" where
  "TranslateValues platform =
     (let spec = lp_Spec platform;
          vals = [];
          vals = jset vals ''global'' (JObj (globalValues spec));
          vals = jset vals ''litellm'' (JObj (litellmValues (lps_Gateway spec)));
          vals = jset vals ''observability'' (enabledObj (ob_Enabled (lps_Observability spec)));
          vals = jset vals ''langfuse'' (enabledObj (et_Enabled (ob_Langfuse (lps_Observability spec))));
          vals = jset vals ''logging'' (enabledObj (lg_Enabled (lps_Logging spec)));
          vals = jset vals ''keycloak'' (enabledObj (kc_Enabled (lps_Keycloak spec)));
          vals = jset vals ''postgresql'' (enabledObj (pg_Enabled (lps_PostgreSQL spec)));
          vals = jset vals ''keda'' (enabledObj (kd_Enabled (lps_KEDA spec)));
          vals = jset vals ''fluid'' (enabledObj (ms_Enabled (lps_ModelStore spec)));
          vals = jset_if (ig_Enabled (lps_Ingress spec)) ''ingress'' (JObj
                   [(''enabled'', JBool True),
                    (''className'', JStr (ig_ClassName (lps_Ingress spec))),
                    (''host'', JStr (ig_Host (lps_Ingress spec)))]) vals
      in jset vals ''headlamp'' (enabledObj (et_Enabled (lps_Headlamp spec))))"

subsection \<open>Reading the values back\<close>

lemma modelValues_path:
  "map_of (modelValues m) ''name'' = Some (JStr (mdl_Name m))"
  "map_of (modelValues m) ''source'' = Some (JStr (mdl_Source m))"
  "map_of (modelValues m) ''engine'' = (if mdl_Engine m = '''' then None else Some (JStr (mdl_Engine m)))"
  "map_of (modelValues m) ''replicas'' = (if mdl_Replicas m > 0 then Some (JInt (mdl_Replicas m)) else None)"
  "map_of (modelValues m) ''engineArgs'' =
     (if mdl_EngineArgs m = [] then None else Some (stringMap (mdl_EngineArgs m)))"
  "jpath (JObj (modelValues m)) [''resources'', ''gpu''] = Some (JInt (mr_GPU (mdl_Resources m)))"
  by (simp_all add: modelValues_def Let_def map_of_jset_if)

lemma globalValues_path:
  "map_of (globalValues s) ''modules'' = Some (JObj
     [(''rag'', enabledObj (et_Enabled (mo_RAG (lps_Modules s)))),
      (''finetune'', enabledObj (et_Enabled (mo_Finetune (lps_Modules s)))),
      (''security'', enabledObj (et_Enabled (mo_Security (lps_Modules s))))])"
  "map_of (globalValues s) ''modelStore'' = Some (JObj
            [(''endpoint'', JStr (ms_Endpoint (lps_ModelStore s))),
             (''bucket'', JStr (ms_Bucket (lps_ModelStore s))),
             (''accessKey'', JStr (ms_AccessKey (lps_ModelStore s))),
             (''secretKey'', JStr (ms_SecretKey (lps_ModelStore s))),
             (''hfTransferConcurrency'', JInt (ms_HFTransferConcurrency (lps_ModelStore s))),
             (''image'', JStr (ms_Image (lps_ModelStore s)))])"
  "map_of (globalValues s) ''hfToken'' = (if lps_HFToken s = '''' then None else Some (JStr (lps_HFToken s)))"
  "map_of (globalValues s) ''models'' = (if lps_Models s = [] then None
     else Some (JArr (map (\<lambda>m. JObj (modelValues m)) (lps_Models s))))"
  "map_of (globalValues s) ''nodePort'' = Some (JObj
     [(''enabled'', JBool (np_Enabled (lps_NodePort s))), (''host'', JStr (np_Host (lps_NodePort s)))])"
  by (simp_all add: globalValues_def Let_def map_of_jset_if)

lemma litellmValues_path:
  "map_of (litellmValues g) ''enabled'' = Some (JBool (gw_Enabled g))"
  "map_of (litellmValues g) ''routingStrategy'' =
     (if gw_Routing g = '''' then None else Some (JStr (gw_Routing g)))"
  "map_of (litellmValues g) ''masterKey'' =
     (if gw_MasterKey g = '''' then None else Some (JStr (gw_MasterKey g)))"
  by (simp_all add: litellmValues_def Let_def map_of_jset_if)

lemma TranslateValues_path:
  "map_of (TranslateValues p) ''global'' = Some (JObj (globalValues (lp_Spec p)))"
  "map_of (TranslateValues p) ''litellm'' = Some (JObj (litellmValues (lps_Gateway (lp_Spec p))))"
  "map_of (TranslateValues p) ''observability'' = Some (enabledObj (ob_Enabled (lps_Observability (lp_Spec p))))"
  "map_of (TranslateValues p) ''langfuse'' =
     Some (enabledObj (et_Enabled (ob_Langfuse (lps_Observability (lp_Spec p)))))"
  "map_of (TranslateValues p) ''logging'' = Some (enabledObj (lg_Enabled (lps_Logging (lp_Spec p))))"
  "map_of (TranslateValues p) ''fluid'' = Some (enabledObj (ms_Enabled (lps_ModelStore (lp_Spec p))))"
  "map_of (TranslateValues p) ''ingress'' = (if ig_Enabled (lps_Ingress (lp_Spec p)) then
     Some (JObj [(''enabled'', JBool True), (''className'', JStr (ig_ClassName (lps_Ingress (lp_Spec p)))),
       (''host'', JStr (ig_Host (lps_Ingress (lp_Spec p))))]) else None)"
  by (simp_all add: TranslateValues_def Let_def map_of_jset_if)

subsection \<open>The values are well-formed\<close>

lemmas json_ok_sets = json_ok_jset json_ok_jset_if

lemma json_ok_strings: "distinct (map fst m) \<Longrightarrow> json_ok (stringMap m)"
  by (auto simp: stringMap_def list_all_iff comp_def case_prod_beta)

lemma json_ok_modelValues:
  "distinct (map fst (mdl_EngineArgs m)) \<Longrightarrow> json_ok (JObj (modelValues m))"
  unfolding modelValues_def Let_def
  by (intro json_ok_sets json_ok_strings) simp_all

lemma json_ok_globalValues:
  "\<forall>m\<in>set (lps_Models s). distinct (map fst (mdl_EngineArgs m)) \<Longrightarrow> json_ok (JObj (globalValues s))"
  unfolding globalValues_def Let_def
  by (intro json_ok_sets) (auto simp: list_all_iff json_ok_modelValues simp del: json_ok.simps(2), simp_all)

lemma json_ok_litellmValues: "json_ok (JObj (litellmValues g))"
  unfolding litellmValues_def Let_def
  by (cases "gw_LangfuseEnabled g"; simp only: if_True if_False; intro json_ok_sets; simp)

lemma json_ok_TranslateValues:
  "\<forall>m\<in>set (lps_Models (lp_Spec p)). distinct (map fst (mdl_EngineArgs m)) \<Longrightarrow> json_ok (JObj (TranslateValues p))"
  unfolding TranslateValues_def Let_def
  by (intro json_ok_sets json_ok_globalValues json_ok_litellmValues) simp_all

subsection \<open>What the values keep of the specification\<close>

text \<open>
  \<open>readSpec\<close> reads a specification off a values map; a missing value reads as Go's zero value.
  \<open>canonSpec\<close> is the part of a specification that the values carry: the fields that
  \<open>TranslateValues\<close> does not look at are zero, and so are fields under a disabled toggle.
\<close>

fun jbool :: "jval option \<Rightarrow> bool" where
  "jbool (Some (JBool b)) = b"
| "jbool _ = False"

fun jint :: "jval option \<Rightarrow> int" where
  "jint (Some (JInt n)) = n"
| "jint _ = 0"

fun jstrings :: "jval option \<Rightarrow> (string \<times> string) list" where
  "jstrings (Some (JObj m)) = map (\<lambda>(k, v). (k, jstr (Some v))) m"
| "jstrings _ = []"

definition readModel :: "jval \<Rightarrow> ModelSpec" where
  "readModel v = \<lparr>mdl_Name = jstr (jget v ''name''), mdl_Source = jstr (jget v ''source''),
     mdl_Engine = jstr (jget v ''engine''), mdl_Replicas = jint (jget v ''replicas''),
     mdl_Resources = \<lparr>mr_GPU = jint (jpath v [''resources'', ''gpu'']),
       mr_Memory = jstr (jpath v [''resources'', ''memory'']),
       mr_CPU = jstr (jpath v [''resources'', ''cpu''])\<rparr>,
     mdl_EngineArgs = jstrings (jget v ''engineArgs'')\<rparr>"

definition readSpec :: "jval \<Rightarrow> LLMPlatformSpec" where
  "readSpec v = zeroLPSpec\<lparr>
     lps_Gateway := (lps_Gateway zeroLPSpec)\<lparr>
       gw_Enabled := jbool (jpath v [''litellm'', ''enabled'']),
       gw_MasterKey := jstr (jpath v [''litellm'', ''masterKey'']),
       gw_Routing := jstr (jpath v [''litellm'', ''routingStrategy'']),
       gw_Image := \<lparr>im_Repository = '''', im_Tag = jstr (jpath v [''litellm'', ''image'', ''tag''])\<rparr>,
       gw_LangfuseEnabled := jbool (jpath v [''litellm'', ''langfuseEnabled'']),
       gw_LangfusePublicKey := jstr (jpath v [''litellm'', ''langfusePublicKey'']),
       gw_LangfuseSecretKey := jstr (jpath v [''litellm'', ''langfuseSecretKey''])\<rparr>,
     lps_Observability := (lps_Observability zeroLPSpec)\<lparr>
       ob_Enabled := jbool (jpath v [''observability'', ''enabled'']),
       ob_Langfuse := \<lparr>et_Enabled = jbool (jpath v [''langfuse'', ''enabled''])\<rparr>\<rparr>,
     lps_Logging := \<lparr>lg_Enabled = jbool (jpath v [''logging'', ''enabled''])\<rparr>,
     lps_Modules := \<lparr>mo_RAG = \<lparr>et_Enabled = jbool (jpath v [''global'', ''modules'', ''rag'', ''enabled''])\<rparr>,
       mo_Finetune = \<lparr>et_Enabled = jbool (jpath v [''global'', ''modules'', ''finetune'', ''enabled''])\<rparr>,
       mo_Security = \<lparr>et_Enabled = jbool (jpath v [''global'', ''modules'', ''security'', ''enabled''])\<rparr>\<rparr>,
     lps_ModelStore := \<lparr>ms_Enabled = jbool (jpath v [''fluid'', ''enabled'']),
       ms_Endpoint = jstr (jpath v [''global'', ''modelStore'', ''endpoint'']),
       ms_Bucket = jstr (jpath v [''global'', ''modelStore'', ''bucket'']),
       ms_AccessKey = jstr (jpath v [''global'', ''modelStore'', ''accessKey'']),
       ms_SecretKey = jstr (jpath v [''global'', ''modelStore'', ''secretKey'']),
       ms_HFTransferConcurrency = jint (jpath v [''global'', ''modelStore'', ''hfTransferConcurrency'']),
       ms_Image = jstr (jpath v [''global'', ''modelStore'', ''image''])\<rparr>,
     lps_HFToken := jstr (jpath v [''global'', ''hfToken'']),
     lps_Models := map readModel (jitems (jpath v [''global'', ''models''])),
     lps_Keycloak := \<lparr>kc_Enabled = jbool (jpath v [''keycloak'', ''enabled''])\<rparr>,
     lps_PostgreSQL := \<lparr>pg_Enabled = jbool (jpath v [''postgresql'', ''enabled''])\<rparr>,
     lps_KEDA := \<lparr>kd_Enabled = jbool (jpath v [''keda'', ''enabled''])\<rparr>,
     lps_NodePort := \<lparr>np_Enabled = jbool (jpath v [''global'', ''nodePort'', ''enabled'']),
       np_Host = jstr (jpath v [''global'', ''nodePort'', ''host''])\<rparr>,
     lps_Ingress := \<lparr>ig_Enabled = jbool (jpath v [''ingress'', ''enabled'']),
       ig_ClassName = jstr (jpath v [''ingress'', ''className'']),
       ig_Host = jstr (jpath v [''ingress'', ''host''])\<rparr>,
     lps_Headlamp := \<lparr>et_Enabled = jbool (jpath v [''headlamp'', ''enabled''])\<rparr>\<rparr>"

definition canonModel :: "ModelSpec \<Rightarrow> ModelSpec" where
  "canonModel m = m\<lparr>mdl_Replicas := max 0 (mdl_Replicas m)\<rparr>"

definition canonSpec :: "LLMPlatformSpec \<Rightarrow> LLMPlatformSpec" where
  "canonSpec s = s\<lparr>
     lps_Gateway := (lps_Gateway s)\<lparr>
       gw_Image := (gw_Image (lps_Gateway s))\<lparr>im_Repository := ''''\<rparr>,
       gw_RateLimiting := off, gw_BudgetControl := off,
       gw_LangfusePublicKey := (if gw_LangfuseEnabled (lps_Gateway s)
         then gw_LangfusePublicKey (lps_Gateway s) else ''''),
       gw_LangfuseSecretKey := (if gw_LangfuseEnabled (lps_Gateway s)
         then gw_LangfuseSecretKey (lps_Gateway s) else '''')\<rparr>,
     lps_Observability := (lps_Observability s)\<lparr>
       ob_Grafana := \<lparr>gf_AdminPassword = '''', gf_OIDC = off\<rparr>\<rparr>,
     lps_Models := map canonModel (lps_Models s),
     lps_Ingress := (if ig_Enabled (lps_Ingress s) then lps_Ingress s
       else \<lparr>ig_Enabled = False, ig_ClassName = '''', ig_Host = ''''\<rparr>)\<rparr>"

lemma jstrings_stringMap: "jstrings (Some (stringMap m)) = m"
  by (simp add: stringMap_def comp_def case_prod_beta)

lemma readModel_values: "readModel (JObj (modelValues m)) = canonModel m"
proof -
  have "jpath (JObj (modelValues m)) [''resources'', ''memory''] =
      (if mr_Memory (mdl_Resources m) = '''' then None else Some (JStr (mr_Memory (mdl_Resources m))))"
    "jpath (JObj (modelValues m)) [''resources'', ''cpu''] =
      (if mr_CPU (mdl_Resources m) = '''' then None else Some (JStr (mr_CPU (mdl_Resources m))))"
    by (simp_all add: modelValues_def Let_def map_of_jset_if)
  then show ?thesis
    by (simp add: readModel_def canonModel_def modelValues_path jstrings_stringMap del: jpath.simps)
qed

lemma litellm_read:
  "jstr (map_of (litellmValues g) ''routingStrategy'') = gw_Routing g"
  "jstr (map_of (litellmValues g) ''masterKey'') = gw_MasterKey g"
  "jstr (Option.bind (map_of (litellmValues g) ''image'') (\<lambda>w. jget w ''tag'')) = im_Tag (gw_Image g)"
  "jbool (map_of (litellmValues g) ''langfuseEnabled'') = gw_LangfuseEnabled g"
  "jstr (map_of (litellmValues g) ''langfusePublicKey'') =
     (if gw_LangfuseEnabled g then gw_LangfusePublicKey g else '''')"
  "jstr (map_of (litellmValues g) ''langfuseSecretKey'') =
     (if gw_LangfuseEnabled g then gw_LangfuseSecretKey g else '''')"
  by (simp_all add: litellmValues_def Let_def map_of_jset_if)

lemma global_read:
  "jstr (map_of (globalValues s) ''hfToken'') = lps_HFToken s"
  "map readModel (jitems (map_of (globalValues s) ''models'')) = map canonModel (lps_Models s)"
  by (simp_all add: globalValues_path readModel_values comp_def)

lemma toggles_read:
  "map_of (TranslateValues p) ''keycloak'' = Some (enabledObj (kc_Enabled (lps_Keycloak (lp_Spec p))))"
  "map_of (TranslateValues p) ''postgresql'' = Some (enabledObj (pg_Enabled (lps_PostgreSQL (lp_Spec p))))"
  "map_of (TranslateValues p) ''keda'' = Some (enabledObj (kd_Enabled (lps_KEDA (lp_Spec p))))"
  "map_of (TranslateValues p) ''headlamp'' = Some (enabledObj (et_Enabled (lps_Headlamp (lp_Spec p))))"
  by (simp_all add: TranslateValues_def Let_def map_of_jset_if)

lemma ingress_read:
  "\<lparr>ig_Enabled = jbool (Option.bind (map_of (TranslateValues p) ''ingress'') (\<lambda>w. jget w ''enabled'')),
     ig_ClassName = jstr (Option.bind (map_of (TranslateValues p) ''ingress'') (\<lambda>w. jget w ''className'')),
     ig_Host = jstr (Option.bind (map_of (TranslateValues p) ''ingress'') (\<lambda>w. jget w ''host''))\<rparr> =
   (if ig_Enabled (lps_Ingress (lp_Spec p)) then lps_Ingress (lp_Spec p)
    else \<lparr>ig_Enabled = False, ig_ClassName = '''', ig_Host = ''''\<rparr>)"
  by (simp add: TranslateValues_path)

lemma read_values: "readSpec (JObj (TranslateValues p)) = canonSpec (lp_Spec p)"
proof (rule LLMPlatformSpec.equality, goal_cases)
  case 1
  show ?case
    by (rule GatewaySpec.equality)
       (simp_all add: readSpec_def canonSpec_def zeroLPSpec_def TranslateValues_path litellm_read
         litellmValues_path(1))
next
  case 2
  show ?case
    by (rule ObservabilitySpec.equality)
       (simp_all add: readSpec_def canonSpec_def zeroLPSpec_def TranslateValues_path)
next
  case 12
  show ?case
    using ingress_read [of p]
    by (simp add: readSpec_def canonSpec_def zeroLPSpec_def)
qed (simp_all add: readSpec_def canonSpec_def zeroLPSpec_def TranslateValues_path toggles_read
      global_read globalValues_path(1,2,5))

lemma modelValues_canon: "modelValues (canonModel m) = modelValues m"
  by (simp add: modelValues_def canonModel_def max_def Let_def)

lemma values_canon: "TranslateValues (p\<lparr>lp_Spec := canonSpec (lp_Spec p)\<rparr>) = TranslateValues p"
proof -
  have "globalValues (canonSpec s) = globalValues s" for s
    by (simp add: globalValues_def canonSpec_def comp_def modelValues_canon)
  moreover have "litellmValues (lps_Gateway (canonSpec s)) = litellmValues (lps_Gateway s)" for s
    by (simp add: litellmValues_def canonSpec_def)
  ultimately show ?thesis
    by (simp add: TranslateValues_def Let_def) (simp add: canonSpec_def jset_if_def)
qed

lemma values_spec_only: "lp_Spec p = lp_Spec q \<Longrightarrow> TranslateValues p = TranslateValues q"
  by (simp add: TranslateValues_def)

text \<open>
  C33 (values carry the specification). Reading the translated values back gives the specification,
  less exactly the fields that have no value: the image repository, rate limiting, budget control and
  the Grafana settings, replica counts below zero, and what stands under a disabled Langfuse or
  ingress toggle. So two platforms get the same values exactly when they agree on all other fields.
\<close>

theorem helm_values_roundtrip:
  "readSpec (JObj (TranslateValues p)) = canonSpec (lp_Spec p) \<and>
   (TranslateValues p = TranslateValues q) = (canonSpec (lp_Spec p) = canonSpec (lp_Spec q))"
proof -
  have "TranslateValues p = TranslateValues q" if "canonSpec (lp_Spec p) = canonSpec (lp_Spec q)"
  proof -
    have "TranslateValues (p\<lparr>lp_Spec := canonSpec (lp_Spec p)\<rparr>) =
        TranslateValues (q\<lparr>lp_Spec := canonSpec (lp_Spec q)\<rparr>)"
      by (rule values_spec_only) (simp add: that)
    then show ?thesis by (simp only: values_canon)
  qed
  then show ?thesis by (metis read_values)
qed

end
