(* ===== verification/LLMPlatformCtl.thy ===== *)
theory LLMPlatformCtl
  imports ModelDeploymentCtl HelmValues
begin

section \<open>The LLMPlatform controller (internal/controller/llmplatform\_controller.go)\<close>

text \<open>
  \<open>Reconcile\<close> of \<open>LLMPlatformReconciler\<close>: it installs or upgrades the platform's Helm release
  with the values translated from the specification. One definition per block of the Go function;
  \<open>setCondition\<close> is the one of the ModelDeployment controller. The reconciler tests the dynamic
  type of its \<open>HelmClient\<close>: \<open>lpr_AsSDK\<close> is \<open>FixStuckRelease\<close> of the client when that is an
  \<open>SDKClient\<close>, and \<open>None\<close> for any other client.
\<close>

record ('w, 'e) LPReconciler =
  lpr_Client :: "('w, 'e) kube"
  lpr_Lib :: "'e klib"
  lpr_HelmClient :: "('w, 'e) helmClient"
  lpr_AsSDK :: "(string \<Rightarrow> string \<Rightarrow> ('w, bool option) state) option"
  lpr_ChartPath :: string

definition sdkReconciler ::
  "('w, 'e) kube \<Rightarrow> 'e klib \<Rightarrow> ('w, 'e, 'cfg, 'chart) helmSDK \<Rightarrow> string \<Rightarrow> ('w, 'e) LPReconciler" where
  "sdkReconciler K lib sdk path = \<lparr>lpr_Client = K, lpr_Lib = lib, lpr_HelmClient = SDKClient sdk,
     lpr_AsSDK = Some (FixStuckRelease (SDKClient sdk)), lpr_ChartPath = path\<rparr>"

text \<open>
  \<open>refetchAndUpdateStatus\<close>; the caller goes on with the object that the server returned, whose
  generation may be newer than that of the object first fetched.
\<close>

definition lpRefetchAndUpdateStatus ::
  "('w, 'e) LPReconciler \<Rightarrow> NamespacedName \<Rightarrow> LLMPlatformStatus \<Rightarrow> ('w, 'e, LLMPlatform) go" where
  "lpRefetchAndUpdateStatus r req status =
     andThen (checked (GetLP (lpr_Client r) req)) (\<lambda>p.
       checked (StatusUpdateLP (lpr_Client r) (p\<lparr>lp_Status := status\<rparr>)))"

text \<open>Step 2: the platform is up to date, or being installed or upgraded.\<close>

definition lpSkip :: "LLMPlatform \<Rightarrow> bool" where
  "lpSkip p \<longleftrightarrow>
     lpst_ObservedGeneration (lp_Status p) = om_Generation (lp_ObjectMeta p) \<and>
     (lpst_Phase (lp_Status p) = ''Ready'' \<or> lpst_Phase (lp_Status p) = ''Upgrading'' \<or>
      lpst_Phase (lp_Status p) = ''Installing'')"

definition lpChartPath :: "('w, 'e) LPReconciler \<Rightarrow> string" where
  "lpChartPath r = (if lpr_ChartPath r = '''' then ''charts/kube-llmops-stack'' else lpr_ChartPath r)"

text \<open>The condition \<open>HelmRelease\<close>.\<close>

definition lpCondition :: "LLMPlatform \<Rightarrow> string \<Rightarrow> string \<Rightarrow> string \<Rightarrow> int \<Rightarrow> Condition" where
  "lpCondition p status reason message now =
     \<lparr>c_Type = ''HelmRelease'', c_Status = status, c_Reason = reason, c_Message = message,
      c_LastTransitionTime = now, c_ObservedGeneration = om_Generation (lp_ObjectMeta p)\<rparr>"

definition lpSetCondition :: "LLMPlatformStatus \<Rightarrow> Condition \<Rightarrow> LLMPlatformStatus" where
  "lpSetCondition st cond = st\<lparr>lpst_Conditions := setCondition (lpst_Conditions st) cond\<rparr>"

text \<open>Step 3: recover a stuck release.\<close>

definition lpFixStuck :: "('w, 'e) LPReconciler \<Rightarrow> string \<Rightarrow> string \<Rightarrow> ('w, 'e, unit) go" where
  "lpFixStuck r releaseName namespace =
     (case lpr_AsSDK r of
        None \<Rightarrow> proceed ()
      | Some fixStuck \<Rightarrow>
          andThen (lifted (fixStuck releaseName namespace)) (\<lambda>res.
          andThen (orPanic res) (\<lambda>fixed.
            if fixed then returnWith (Done 5 None) else proceed ())))"

text \<open>Publish that the operation begins.\<close>

definition lpBegin ::
  "('w, 'e) LPReconciler \<Rightarrow> NamespacedName \<Rightarrow> LLMPlatform \<Rightarrow> string \<Rightarrow> string \<Rightarrow> ('w, 'e, LLMPlatform) go" where
  "lpBegin r req p phase message =
     andThen (lifted (TimeNow (lpr_Client r))) (\<lambda>now.
       lpRefetchAndUpdateStatus r req
         (lpSetCondition ((lp_Status p)\<lparr>lpst_Phase := phase,
              lpst_ObservedGeneration := om_Generation (lp_ObjectMeta p)\<rparr>)
            (lpCondition p ConditionFalse phase message now)))"

text \<open>The operation failed: publish it and return its error.\<close>

definition lpFailed ::
  "('w, 'e) LPReconciler \<Rightarrow> NamespacedName \<Rightarrow> LLMPlatform \<Rightarrow> string \<Rightarrow> string \<Rightarrow> 'e error \<Rightarrow>
     ('w, 'e, LLMPlatformStatus) go" where
  "lpFailed r req p reason message err =
     andThen (lifted (TimeNow (lpr_Client r))) (\<lambda>now.
     andThen (lpRefetchAndUpdateStatus r req
         (lpSetCondition ((lp_Status p)\<lparr>lpst_Phase := ''Failed''\<rparr>)
            (lpCondition p ConditionFalse reason message now)))
       (\<lambda>p. returnWith (Done 0 (Some err))))"

text \<open>The operation succeeded: the status to publish.\<close>

definition lpSucceeded ::
  "('w, 'e) LPReconciler \<Rightarrow> LLMPlatform \<Rightarrow> release option \<Rightarrow> string \<Rightarrow> string \<Rightarrow>
     ('w, 'e, LLMPlatformStatus) go" where
  "lpSucceeded r p rel reason message =
     andThen (orPanic rel) (\<lambda>rel.
     andThen (lifted (TimeNow (lpr_Client r))) (\<lambda>now.
       proceed (lpSetCondition ((lp_Status p)\<lparr>lpst_Phase := ''Ready'', lpst_HelmRelease := rel_Name rel,
            lpst_HelmRevision := rel_Version rel,
            lpst_ObservedGeneration := om_Generation (lp_ObjectMeta p)\<rparr>)
         (lpCondition p ConditionTrue reason message now))))"

definition lpInstall ::
  "('w, 'e) LPReconciler \<Rightarrow> NamespacedName \<Rightarrow> LLMPlatform \<Rightarrow> string \<Rightarrow> string \<Rightarrow> jobj \<Rightarrow>
     ('w, 'e, LLMPlatformStatus) go" where
  "lpInstall r req p releaseName namespace values =
     andThen (lpBegin r req p ''Installing'' ''Helm release is being installed'') (\<lambda>p.
     andThen (lifted (Install (lpr_HelmClient r) releaseName namespace (lpChartPath r) values)) (\<lambda>res.
     case res of
       Inl installErr \<Rightarrow> lpFailed r req p ''InstallFailed''
         (''Helm install failed: '' @ ErrorText (lpr_Lib r) installErr) installErr
     | Inr rel \<Rightarrow> lpSucceeded r p rel ''InstallSucceeded'' ''Helm release installed successfully''))"

definition lpUpgrade ::
  "('w, 'e) LPReconciler \<Rightarrow> NamespacedName \<Rightarrow> LLMPlatform \<Rightarrow> string \<Rightarrow> string \<Rightarrow> jobj \<Rightarrow>
     ('w, 'e, LLMPlatformStatus) go" where
  "lpUpgrade r req p releaseName namespace values =
     andThen (lpBegin r req p ''Upgrading'' ''Helm release is being upgraded'') (\<lambda>p.
     andThen (lifted (Upgrade (lpr_HelmClient r) releaseName namespace (lpChartPath r) values)) (\<lambda>res.
     case res of
       Inl upgradeErr \<Rightarrow> lpFailed r req p ''UpgradeFailed''
         (''Helm upgrade failed: '' @ ErrorText (lpr_Lib r) upgradeErr) upgradeErr
     | Inr rel \<Rightarrow> lpSucceeded r p rel ''UpgradeSucceeded'' ''Helm release upgraded successfully''))"

text \<open>Steps 3 to 5 for a fetched platform.\<close>

definition lpApply ::
  "('w, 'e) LPReconciler \<Rightarrow> NamespacedName \<Rightarrow> LLMPlatform \<Rightarrow> ('w, 'e, 'e outcome) go" where
  "lpApply r req p =
     (let values = TranslateValues p; releaseName = lp_Name p; namespace = lp_Namespace p in
      andThen (lpFixStuck r releaseName namespace) (\<lambda>_.
      andThen (lifted (GetRelease (lpr_HelmClient r) releaseName namespace)) (\<lambda>existing.
      andThen (case existing of
          Inl err \<Rightarrow> lpInstall r req p releaseName namespace values
        | Inr None \<Rightarrow> lpInstall r req p releaseName namespace values
        | Inr (Some rel) \<Rightarrow> lpUpgrade r req p releaseName namespace values) (\<lambda>status.
      andThen (lpRefetchAndUpdateStatus r req status) (\<lambda>p.
        proceed (Done 0 None))))))"

definition lpReconcile :: "('w, 'e) LPReconciler \<Rightarrow> NamespacedName \<Rightarrow> ('w, 'e outcome) state" where
  "lpReconcile r req = finish
     (andThen (lifted (GetLP (lpr_Client r) req)) (\<lambda>p.
        case p of
          Inl err \<Rightarrow>
            if IsNotFound (lpr_Lib r) err then returnWith (Done 0 None)
            else returnWith (Done 0 (Some err))
        | Inr p \<Rightarrow> if lpSkip p then returnWith (Done 0 None) else lpApply r req p))"

end
