(* ===== verification/LLMPlatformProps.thy ===== *)
theory LLMPlatformProps
  imports LLMPlatformCtl
begin

section \<open>Properties of the LLMPlatform controller\<close>

text \<open>
  The calls of one reconcile, for every API server and every Helm client: \<open>lp_run\<close> is the abstract
  protocol, \<open>lp_op\<close> its part around the Helm operation.
\<close>

definition untraced :: "('w, 'a) state \<Rightarrow> ('w \<times> 'ev list, 'a) state" where
  "untraced m = State (\<lambda>(w, tr). case run_state m w of (r, w') \<Rightarrow> (r, (w', tr)))"

definition loggedHelm :: "('w, 'e) helmClient \<Rightarrow> ('w \<times> 'e event list, 'e) helmClient" where
  "loggedHelm H = \<lparr>
     Install = (\<lambda>n ns c v. logged (EvHelmInstall n ns c v) (Install H n ns c v)),
     Upgrade = (\<lambda>n ns c v. logged (EvHelmUpgrade n ns c v) (Upgrade H n ns c v)),
     GetRelease = (\<lambda>n ns. logged (EvHelmGet n ns) (GetRelease H n ns)),
     Uninstall = (\<lambda>n ns. untraced (Uninstall H n ns)),
     Rollback = (\<lambda>n ns v. untraced (Rollback H n ns v))\<rparr>"

definition tracedLP :: "('w, 'e) LPReconciler \<Rightarrow> ('w \<times> 'e event list, 'e) LPReconciler" where
  "tracedLP r = \<lparr>lpr_Client = traced (lpr_Client r), lpr_Lib = lpr_Lib r,
     lpr_HelmClient = loggedHelm (lpr_HelmClient r),
     lpr_AsSDK = map_option (\<lambda>f n ns. logged (EvHelmFix n ns) (f n ns)) (lpr_AsSDK r),
     lpr_ChartPath = lpr_ChartPath r\<rparr>"

lemma tracedLP_simps [simp]:
  "lpr_Client (tracedLP r) = traced (lpr_Client r)" "lpr_Lib (tracedLP r) = lpr_Lib r"
  "lpr_HelmClient (tracedLP r) = loggedHelm (lpr_HelmClient r)" "lpChartPath (tracedLP r) = lpChartPath r"
  by (simp_all add: tracedLP_def lpChartPath_def)

lemma loggedHelm_wp:
  "(\<And>r w'. P r (w', tr @ [EvHelmGet n ns r])) \<Longrightarrow> wp (GetRelease (loggedHelm H) n ns) P (w, tr)"
  "(\<And>r w'. Q r (w', tr @ [EvHelmInstall n ns c v r])) \<Longrightarrow> wp (Install (loggedHelm H) n ns c v) Q (w, tr)"
  "(\<And>r w'. R r (w', tr @ [EvHelmUpgrade n ns c v r])) \<Longrightarrow> wp (Upgrade (loggedHelm H) n ns c v) R (w, tr)"
  by (simp_all add: loggedHelm_def wp_logged)

subsection \<open>The statuses that a reconcile publishes\<close>

definition lpAbsent :: "'e releaseResult \<Rightarrow> bool" where
  "lpAbsent g = (case g of Inl e \<Rightarrow> True | Inr None \<Rightarrow> True | Inr (Some rel) \<Rightarrow> False)"

definition lpBegun :: "bool \<Rightarrow> LLMPlatform \<Rightarrow> int \<Rightarrow> LLMPlatformStatus" where
  "lpBegun inst p now =
     (let phase = (if inst then ''Installing'' else ''Upgrading'') in
      lpSetCondition ((lp_Status p)\<lparr>lpst_Phase := phase,
          lpst_ObservedGeneration := om_Generation (lp_ObjectMeta p)\<rparr>)
        (lpCondition p ConditionFalse phase
           (if inst then ''Helm release is being installed'' else ''Helm release is being upgraded'') now))"

definition lpFailure :: "'e klib \<Rightarrow> bool \<Rightarrow> 'e error \<Rightarrow> LLMPlatform \<Rightarrow> int \<Rightarrow> LLMPlatformStatus" where
  "lpFailure lib inst err p now =
     lpSetCondition ((lp_Status p)\<lparr>lpst_Phase := ''Failed''\<rparr>)
       (lpCondition p ConditionFalse (if inst then ''InstallFailed'' else ''UpgradeFailed'')
          ((if inst then ''Helm install failed: '' else ''Helm upgrade failed: '') @ ErrorText lib err) now)"

definition lpSuccess :: "bool \<Rightarrow> release \<Rightarrow> LLMPlatform \<Rightarrow> int \<Rightarrow> LLMPlatformStatus" where
  "lpSuccess inst rel p now =
     lpSetCondition ((lp_Status p)\<lparr>lpst_Phase := ''Ready'', lpst_HelmRelease := rel_Name rel,
         lpst_HelmRevision := rel_Version rel, lpst_ObservedGeneration := om_Generation (lp_ObjectMeta p)\<rparr>)
       (lpCondition p ConditionTrue (if inst then ''InstallSucceeded'' else ''UpgradeSucceeded'')
          (if inst then ''Helm release installed successfully'' else ''Helm release upgraded successfully'')
          now)"

definition lpPublishing ::
  "NamespacedName \<Rightarrow> LLMPlatformStatus \<Rightarrow> 'e outcome + LLMPlatform \<Rightarrow> 'e event list \<Rightarrow> bool" where
  "lpPublishing req st r es \<longleftrightarrow>
     (case r of
        Inl out \<Rightarrow> (\<exists>e. out = Done 0 (Some e) \<and> (es = [EvGetLP req (Inl e)] \<or>
          (\<exists>f. es = [EvGetLP req (Inr f), EvStatusLP (f\<lparr>lp_Status := st\<rparr>) (Inl e)])))
      | Inr f2 \<Rightarrow> (\<exists>f. es = [EvGetLP req (Inr f), EvStatusLP (f\<lparr>lp_Status := st\<rparr>) (Inr f2)]))"

lemma lpPublish_block: "produces (lpRefetchAndUpdateStatus (tracedLP r) req st) (lpPublishing req st)"
  unfolding lpRefetchAndUpdateStatus_def
  by (rule producesI) (auto simp: wp_rules lpPublishing_def split: sum.splits intro!: traced_wp)

definition lpHelmOp ::
  "bool \<Rightarrow> string \<Rightarrow> string \<Rightarrow> string \<Rightarrow> jobj \<Rightarrow> 'e releaseResult \<Rightarrow> 'e event" where
  "lpHelmOp inst n ns path v res = (if inst then EvHelmInstall n ns path v res else EvHelmUpgrade n ns path v res)"

subsection \<open>The protocol\<close>

inductive lp_op ::
  "'e klib \<Rightarrow> string \<Rightarrow> NamespacedName \<Rightarrow> bool \<Rightarrow> LLMPlatform \<Rightarrow>
     'e outcome + LLMPlatformStatus \<Rightarrow> 'e event list \<Rightarrow> bool"
  for lib path req inst p where
  op_unannounced: "lpPublishing req (lpBegun inst p t) (Inl out) ps \<Longrightarrow>
    lp_op lib path req inst p (Inl out) (EvNow t # ps)"
| op_failed: "lpPublishing req (lpBegun inst p t) (Inr p2) ps \<Longrightarrow>
    lpPublishing req (lpFailure lib inst e p2 u) r qs \<Longrightarrow>
    lp_op lib path req inst p (Inl (case r of Inl out \<Rightarrow> out | Inr p3 \<Rightarrow> Done 0 (Some e)))
      (EvNow t # ps @ lpHelmOp inst (lp_Name p) (lp_Namespace p) path (TranslateValues p) (Inl e) # EvNow u # qs)"
| op_nil: "lpPublishing req (lpBegun inst p t) (Inr p2) ps \<Longrightarrow>
    lp_op lib path req inst p (Inl Panic)
      (EvNow t # ps @ [lpHelmOp inst (lp_Name p) (lp_Namespace p) path (TranslateValues p) (Inr None)])"
| op_done: "lpPublishing req (lpBegun inst p t) (Inr p2) ps \<Longrightarrow>
    lp_op lib path req inst p (Inr (lpSuccess inst rel p2 u))
      (EvNow t # ps @ [lpHelmOp inst (lp_Name p) (lp_Namespace p) path (TranslateValues p) (Inr (Some rel)), EvNow u])"

definition lpChecked :: "bool \<Rightarrow> LLMPlatform \<Rightarrow> 'e event list \<Rightarrow> bool" where
  "lpChecked sdk p es \<longleftrightarrow>
     es = (if sdk then [EvHelmFix (lp_Name p) (lp_Namespace p) (Some False)] else [])"

inductive lp_run ::
  "'e klib \<Rightarrow> string \<Rightarrow> bool \<Rightarrow> NamespacedName \<Rightarrow> 'e event list \<Rightarrow> 'e outcome \<Rightarrow> bool"
  for lib path sdk req where
  lp_absent: "IsNotFound lib e \<Longrightarrow> lp_run lib path sdk req [EvGetLP req (Inl e)] (Done 0 None)"
| lp_get_failed: "\<not> IsNotFound lib e \<Longrightarrow> lp_run lib path sdk req [EvGetLP req (Inl e)] (Done 0 (Some e))"
| lp_skipped: "lpSkip p \<Longrightarrow> lp_run lib path sdk req [EvGetLP req (Inr p)] (Done 0 None)"
| lp_recovered: "\<not> lpSkip p \<Longrightarrow> sdk \<Longrightarrow>
    lp_run lib path sdk req [EvGetLP req (Inr p), EvHelmFix (lp_Name p) (lp_Namespace p) (Some True)]
      (Done 5 None)"
| lp_fix_panic: "\<not> lpSkip p \<Longrightarrow> sdk \<Longrightarrow>
    lp_run lib path sdk req [EvGetLP req (Inr p), EvHelmFix (lp_Name p) (lp_Namespace p) None] Panic"
| lp_stopped: "\<not> lpSkip p \<Longrightarrow> lpChecked sdk p fs \<Longrightarrow> lp_op lib path req (lpAbsent g) p (Inl out) es \<Longrightarrow>
    lp_run lib path sdk req (EvGetLP req (Inr p) # fs @ EvHelmGet (lp_Name p) (lp_Namespace p) g # es) out"
| lp_completed: "\<not> lpSkip p \<Longrightarrow> lpChecked sdk p fs \<Longrightarrow> lp_op lib path req (lpAbsent g) p (Inr st) es \<Longrightarrow>
    lpPublishing req st r qs \<Longrightarrow>
    lp_run lib path sdk req (EvGetLP req (Inr p) # fs @ EvHelmGet (lp_Name p) (lp_Namespace p) g # es @ qs)
      (case r of Inl out \<Rightarrow> out | Inr p2 \<Rightarrow> Done 0 None)"

subsection \<open>The code follows the protocol\<close>

lemma lpBegin_block:
  "produces (lpBegin (tracedLP r) req p ''Installing'' ''Helm release is being installed'')
     (\<lambda>res es. \<exists>t ps. es = EvNow t # ps \<and> lpPublishing req (lpBegun True p t) res ps)"
  "produces (lpBegin (tracedLP r) req p ''Upgrading'' ''Helm release is being upgraded'')
     (\<lambda>res es. \<exists>t ps. es = EvNow t # ps \<and> lpPublishing req (lpBegun False p t) res ps)"
proof -
  have now: "produces (lifted (TimeNow (traced K))) (\<lambda>r es. \<exists>t. r = Inr t \<and> es = [EvNow t])" for K
    by (rule producesI) (auto simp: wp_rules intro!: traced_wp)
  show "produces (lpBegin (tracedLP r) req p ''Installing'' ''Helm release is being installed'')
     (\<lambda>res es. \<exists>t ps. es = EvNow t # ps \<and> lpPublishing req (lpBegun True p t) res ps)"
    unfolding lpBegin_def tracedLP_simps
    by (rule produces_andThen [OF now lpPublish_block]) (auto simp: lpBegun_def Let_def)
  show "produces (lpBegin (tracedLP r) req p ''Upgrading'' ''Helm release is being upgraded'')
     (\<lambda>res es. \<exists>t ps. es = EvNow t # ps \<and> lpPublishing req (lpBegun False p t) res ps)"
    unfolding lpBegin_def tracedLP_simps
    by (rule produces_andThen [OF now lpPublish_block]) (auto simp: lpBegun_def Let_def)
qed

lemma now_block: "produces (lifted (TimeNow (traced K))) (\<lambda>r es. \<exists>t. r = Inr t \<and> es = [EvNow t])"
  by (rule producesI) (auto simp: wp_rules intro!: traced_wp)

lemma lpFailed_block:
  "produces (lpFailed (tracedLP r) req p (if inst then ''InstallFailed'' else ''UpgradeFailed'')
       ((if inst then ''Helm install failed: '' else ''Helm upgrade failed: '') @ ErrorText (lpr_Lib r) e) e)
     (\<lambda>res es. \<exists>u q qs. es = EvNow u # qs \<and> lpPublishing req (lpFailure (lpr_Lib r) inst e p u) q qs \<and>
        res = Inl (case q of Inl out \<Rightarrow> out | Inr p3 \<Rightarrow> Done 0 (Some e)))"
  unfolding lpFailed_def tracedLP_simps
proof (rule produces_andThen [OF now_block])
  fix now
  show "produces (andThen (lpRefetchAndUpdateStatus (tracedLP r) req
        (lpSetCondition ((lp_Status p)\<lparr>lpst_Phase := ''Failed''\<rparr>)
          (lpCondition p ConditionFalse (if inst then ''InstallFailed'' else ''UpgradeFailed'')
            ((if inst then ''Helm install failed: '' else ''Helm upgrade failed: '') @ ErrorText (lpr_Lib r) e)
            now)))
      (\<lambda>p. returnWith (Done 0 (Some e))))
    (\<lambda>res es. \<exists>q. lpPublishing req (lpFailure (lpr_Lib r) inst e p now) q es \<and>
        res = Inl (case q of Inl out \<Rightarrow> out | Inr p3 \<Rightarrow> Done 0 (Some e)))"
  proof (rule produces_andThen [OF lpPublish_block])
    show "produces (returnWith (Done 0 (Some e))) (\<lambda>res es. res = Inl (Done 0 (Some e)) \<and> es = [])"
      by (rule producesI) (simp add: wp_rules)
  qed (auto simp: lpFailure_def)
qed auto

lemma lpSucceeded_block:
  "produces (lpSucceeded (tracedLP r) p rel
       (if inst then ''InstallSucceeded'' else ''UpgradeSucceeded'')
       (if inst then ''Helm release installed successfully'' else ''Helm release upgraded successfully''))
     (\<lambda>res es. case rel of None \<Rightarrow> res = Inl Panic \<and> es = []
        | Some x \<Rightarrow> \<exists>u. res = Inr (lpSuccess inst x p u) \<and> es = [EvNow u])"
  unfolding lpSucceeded_def tracedLP_simps
  by (rule producesI) (auto simp: wp_rules lpSuccess_def split: option.splits intro!: traced_wp)

lemma helm_block:
  "produces (lifted (Install (loggedHelm H) n ns c v)) (\<lambda>r es. \<exists>x. r = Inr x \<and> es = [lpHelmOp True n ns c v x])"
  "produces (lifted (Upgrade (loggedHelm H) n ns c v)) (\<lambda>r es. \<exists>x. r = Inr x \<and> es = [lpHelmOp False n ns c v x])"
  "produces (lifted (GetRelease (loggedHelm H) n ns)) (\<lambda>r es. \<exists>x. r = Inr x \<and> es = [EvHelmGet n ns x])"
  by (rule producesI, auto simp: wp_rules lpHelmOp_def intro!: loggedHelm_wp)+

text \<open>The result of the Helm call, published: what follows the announcement \<open>ps\<close> of the operation.\<close>

lemma lpOutcome_block:
  "produces (case res of
       Inl e \<Rightarrow> lpFailed (tracedLP r) req p2 (if inst then ''InstallFailed'' else ''UpgradeFailed'')
         ((if inst then ''Helm install failed: '' else ''Helm upgrade failed: '') @ ErrorText (lpr_Lib r) e) e
     | Inr rel \<Rightarrow> lpSucceeded (tracedLP r) p2 rel
         (if inst then ''InstallSucceeded'' else ''UpgradeSucceeded'')
         (if inst then ''Helm release installed successfully'' else ''Helm release upgraded successfully''))
     (\<lambda>x es. \<forall>t ps. lpPublishing req (lpBegun inst p t) (Inr p2) ps \<longrightarrow>
        lp_op (lpr_Lib r) path req inst p x
        (EvNow t # ps @ lpHelmOp inst (lp_Name p) (lp_Namespace p) path (TranslateValues p) res # es))"
proof (cases res)
  case (Inl e)
  show ?thesis
    unfolding Inl sum.case
    by (rule produces_mono [OF lpFailed_block]) (auto intro: op_failed)
next
  case (Inr rel)
  show ?thesis
    unfolding Inr sum.case
    by (rule produces_mono [OF lpSucceeded_block])
       (auto split: option.splits intro: op_nil op_done)
qed

lemmas lpOutcome_install = lpOutcome_block [where inst = True, unfolded if_True]
lemmas lpOutcome_upgrade = lpOutcome_block [where inst = False, unfolded if_False]

lemma lp_op_after:
  assumes "\<exists>y. Inr x = (Inr y :: 'x + 'e releaseResult) \<and> es = [lpHelmOp inst (lp_Name p) (lp_Namespace p) path (TranslateValues p) y]"
    and "\<forall>t ps. lpPublishing req (lpBegun inst p t) (Inr p2) ps \<longrightarrow> lp_op lib path req inst p q
        (EvNow t # ps @ lpHelmOp inst (lp_Name p) (lp_Namespace p) path (TranslateValues p) x # fs)"
  shows "\<forall>t ps. lpPublishing req (lpBegun inst p t) (Inr p2) ps \<longrightarrow>
     lp_op lib path req inst p q (EvNow t # ps @ es @ fs)"
  using assms by simp

lemma lp_op_begun:
  assumes "\<exists>t ps. es = EvNow t # ps \<and> lpPublishing req (lpBegun inst p t) (Inr p2) ps"
    and "\<forall>t ps. lpPublishing req (lpBegun inst p t) (Inr p2) ps \<longrightarrow> lp_op lib path req inst p q (EvNow t # ps @ fs)"
  shows "lp_op lib path req inst p q (es @ fs)"
  using assms by auto

lemma lpInstall_block:
  "produces (lpInstall (tracedLP r) req p (lp_Name p) (lp_Namespace p) (TranslateValues p))
     (lp_op (lpr_Lib r) (lpChartPath r) req True p)"
  unfolding lpInstall_def tracedLP_simps
proof (rule produces_andThen [OF lpBegin_block(1), where R = "\<lambda>p2 q es. \<forall>t ps.
      lpPublishing req (lpBegun True p t) (Inr p2) ps \<longrightarrow>
      lp_op (lpr_Lib r) (lpChartPath r) req True p q (EvNow t # ps @ es)"],
    rule produces_andThen [OF helm_block(1) lpOutcome_install [where path = "lpChartPath r" and p = p and req = req]], goal_cases)
  case 2
  then show ?case by (rule lp_op_after)
next
  case 4
  then show ?case by (rule lp_op_begun)
qed (auto intro: op_unannounced)

lemma lpUpgrade_block:
  "produces (lpUpgrade (tracedLP r) req p (lp_Name p) (lp_Namespace p) (TranslateValues p))
     (lp_op (lpr_Lib r) (lpChartPath r) req False p)"
  unfolding lpUpgrade_def tracedLP_simps
proof (rule produces_andThen [OF lpBegin_block(2), where R = "\<lambda>p2 q es. \<forall>t ps.
      lpPublishing req (lpBegun False p t) (Inr p2) ps \<longrightarrow>
      lp_op (lpr_Lib r) (lpChartPath r) req False p q (EvNow t # ps @ es)"],
    rule produces_andThen [OF helm_block(2) lpOutcome_upgrade [where path = "lpChartPath r" and p = p and req = req]], goal_cases)
  case 2
  then show ?case by (rule lp_op_after)
next
  case 4
  then show ?case by (rule lp_op_begun)
qed (auto intro: op_unannounced)


fun lpFixResult :: "bool option \<Rightarrow> 'e outcome + unit" where
  "lpFixResult None = Inl Panic"
| "lpFixResult (Some True) = Inl (Done 5 None)"
| "lpFixResult (Some False) = Inr ()"

lemma lpFixResult_Inr: "Inr u = lpFixResult b \<longleftrightarrow> b = Some False"
  by (cases b rule: lpFixResult.cases) simp_all

lemma lpFixResult_Inl:
  "Inl out = lpFixResult b \<longleftrightarrow> b = None \<and> out = Panic \<or> b = Some True \<and> out = Done 5 None"
  by (cases b rule: lpFixResult.cases) auto

lemma lpFixStuck_block:
  "produces (lpFixStuck (tracedLP r) n ns) (\<lambda>res es.
     if lpr_AsSDK r = None then res = Inr () \<and> es = []
     else \<exists>b. es = [EvHelmFix n ns b] \<and> res = lpFixResult b)"
proof (cases "lpr_AsSDK r")
  case None
  then show ?thesis
    unfolding lpFixStuck_def tracedLP_def by (auto simp: wp_rules intro!: producesI)
next
  case (Some f)
  have rest: "produces (andThen (orPanic b) (\<lambda>x. if x then returnWith (Done 5 None) else proceed ()))
      (\<lambda>res es. es = [] \<and> res = lpFixResult b)" for b
    by (rule producesI, cases b rule: lpFixResult.cases) (simp_all add: wp_rules)
  have call: "produces (lifted (logged (EvHelmFix n ns) (f n ns))) (\<lambda>r es. \<exists>b. r = Inr b \<and> es = [EvHelmFix n ns b])"
    by (rule producesI) (auto simp: wp_rules intro!: wp_logged)
  show ?thesis
    unfolding lpFixStuck_def tracedLP_def Some LPReconciler.select_convs option.map option.case
    by (rule produces_andThen [OF call rest]) auto
qed

definition lpOpTail ::
  "('w, 'e) LPReconciler \<Rightarrow> NamespacedName \<Rightarrow> LLMPlatform \<Rightarrow> bool \<Rightarrow> 'e outcome + 'e outcome \<Rightarrow>
     'e event list \<Rightarrow> bool" where
  "lpOpTail r req p inst res es \<longleftrightarrow>
     (\<exists>out. lp_op (lpr_Lib r) (lpChartPath r) req inst p (Inl out) es \<and> res = Inl out) \<or>
     (\<exists>st q qs es1. es = es1 @ qs \<and> lp_op (lpr_Lib r) (lpChartPath r) req inst p (Inr st) es1 \<and>
        lpPublishing req st q qs \<and> res = (case q of Inl out \<Rightarrow> Inl out | Inr p2 \<Rightarrow> Inr (Done 0 None)))"

lemma lpTail_block:
  assumes "produces m (lp_op (lpr_Lib r) (lpChartPath r) req inst p)"
  shows "produces (andThen m (\<lambda>status. andThen (lpRefetchAndUpdateStatus (tracedLP r) req status)
      (\<lambda>p. proceed (Done 0 None)))) (lpOpTail r req p inst)"
proof (rule produces_andThen [OF assms, where R = "\<lambda>st res es. \<exists>q. lpPublishing req st q es \<and>
     res = (case q of Inl out \<Rightarrow> Inl out | Inr p2 \<Rightarrow> Inr (Done 0 None))"], goal_cases)
  case (1 st)
  show ?case
  proof (rule produces_andThen [OF lpPublish_block])
    show "produces (proceed (Done 0 None)) (\<lambda>res es. res = Inr (Done 0 None) \<and> es = [])"
      by (rule producesI) (simp add: wp_rules)
  qed (auto split: sum.splits)
next
  case (3 st es q fs)
  then show ?case
    unfolding lpOpTail_def by blast
qed (simp_all add: lpOpTail_def)

lemma lpApply_block:
  "produces (lpApply (tracedLP r) req p) (\<lambda>res es. \<not> lpSkip p \<longrightarrow>
     lp_run (lpr_Lib r) (lpChartPath r) (lpr_AsSDK r \<noteq> None) req (EvGetLP req (Inr p) # es)
       (case res of Inl out \<Rightarrow> out | Inr out \<Rightarrow> out))"
  unfolding lpApply_def Let_def tracedLP_simps
proof (rule produces_andThen [OF lpFixStuck_block, where R = "\<lambda>_ res es. \<exists>g fs.
     es = EvHelmGet (lp_Name p) (lp_Namespace p) g # fs \<and> lpOpTail r req p (lpAbsent g) res fs"],
   rule produces_andThen [OF helm_block(3), where R = "\<lambda>g. lpOpTail r req p (lpAbsent g)"], goal_cases)
  case (1 u g)
  have op: "produces (case g of
       Inl e \<Rightarrow> lpInstall (tracedLP r) req p (lp_Name p) (lp_Namespace p) (TranslateValues p)
     | Inr None \<Rightarrow> lpInstall (tracedLP r) req p (lp_Name p) (lp_Namespace p) (TranslateValues p)
     | Inr (Some rel) \<Rightarrow> lpUpgrade (tracedLP r) req p (lp_Name p) (lp_Namespace p) (TranslateValues p))
     (lp_op (lpr_Lib r) (lpChartPath r) req (lpAbsent g) p)"
  proof (cases g)
    case (Inl e)
    then show ?thesis by (simp only: lpAbsent_def sum.case lpInstall_block)
  next
    case (Inr y)
    then show ?thesis
      by (cases y) (simp_all only: lpAbsent_def sum.case option.case lpInstall_block lpUpgrade_block)
  qed
  show ?case by (rule lpTail_block [OF op])
next
  case (4 out es)
  then obtain b where "es = [EvHelmFix (lp_Name p) (lp_Namespace p) b]" and sdk: "lpr_AsSDK r \<noteq> None"
    and "b = None \<and> out = Panic \<or> b = Some True \<and> out = Done 5 None"
    by (auto simp: lpFixResult_Inl split: if_splits)
  then show ?case
    using lp_fix_panic [OF _ sdk] lp_recovered [OF _ sdk] by (elim disjE conjE) (simp_all only: sum.case, blast+)
next
  case (5 u es res fs)
  then obtain g gs where fs: "fs = EvHelmGet (lp_Name p) (lp_Namespace p) g # gs"
    and t: "lpOpTail r req p (lpAbsent g) res gs" by blast
  have c: "lpChecked (lpr_AsSDK r \<noteq> None) p es"
    using 5(1) by (simp only: lpChecked_def lpFixResult_Inr split: if_splits) auto
  have "lp_run (lpr_Lib r) (lpChartPath r) (lpr_AsSDK r \<noteq> None) req
      (EvGetLP req (Inr p) # es @ EvHelmGet (lp_Name p) (lp_Namespace p) g # gs)
      (case res of Inl out \<Rightarrow> out | Inr out \<Rightarrow> out)" if s: "\<not> lpSkip p"
    using t unfolding lpOpTail_def
  proof (elim disjE exE conjE, goal_cases)
    case (1 out)
    then show ?case using lp_stopped [OF s c, of "lpr_Lib r" "lpChartPath r" req g out gs] by simp
  next
    case (2 st q qs es1)
    then show ?case
      using lp_completed [OF s c, of "lpr_Lib r" "lpChartPath r" req g st es1 q qs]
      by (simp split: sum.splits)
  qed
  then show ?case by (simp add: fs)
qed auto

lemma lpReconcile_produces:
  "produces (lpReconcile (tracedLP r) req)
     (\<lambda>out es. lp_run (lpr_Lib r) (lpChartPath r) (lpr_AsSDK r \<noteq> None) req es out)"
  unfolding lpReconcile_def tracedLP_simps
proof (rule produces_finish [where P = "\<lambda>res es. lp_run (lpr_Lib r) (lpChartPath r) (lpr_AsSDK r \<noteq> None) req es
     (case res of Inl out \<Rightarrow> out | Inr out \<Rightarrow> out)"], rule produces_andThen)
  show "produces (lifted (GetLP (traced (lpr_Client r)) req)) (\<lambda>r es. \<exists>x. r = Inr x \<and> es = [EvGetLP req x])"
    by (rule producesI) (auto simp: wp_rules intro!: traced_wp)
  show "produces (case x of
          Inl err \<Rightarrow> if IsNotFound (lpr_Lib r) err then returnWith (Done 0 None)
            else returnWith (Done 0 (Some err))
        | Inr p \<Rightarrow> if lpSkip p then returnWith (Done 0 None) else lpApply (tracedLP r) req p)
      (\<lambda>res es. lp_run (lpr_Lib r) (lpChartPath r) (lpr_AsSDK r \<noteq> None) req (EvGetLP req x # es)
         (case res of Inl out \<Rightarrow> out | Inr out \<Rightarrow> out))" for x
  proof (cases x)
    case (Inl e)
    then show ?thesis by (auto simp: wp_rules intro!: producesI intro: lp_absent lp_get_failed)
  next
    case (Inr p)
    show ?thesis
    proof (cases "lpSkip p")
      case True
      with Inr show ?thesis by (auto simp: wp_rules intro!: producesI intro: lp_skipped)
    next
      case False
      then show ?thesis
        unfolding Inr sum.case if_not_P [OF False]
        by (intro produces_mono [OF lpApply_block]) simp
    qed
  qed
qed auto

text \<open>
  C9 (Reconcile of a platform follows the protocol). Whatever the API server and Helm answer, the
  calls of a reconcile of an LLMPlatform, with their arguments and results, and its outcome are a run
  of the protocol \<open>lp_run\<close>.
\<close>

theorem lp_reconcile_refines:
  "wp (lpReconcile (tracedLP r) req)
     (\<lambda>out s. lp_run (lpr_Lib r) (lpChartPath r) (lpr_AsSDK r \<noteq> None) req (snd s) out) (w, [])"
  by (rule produces_wp [OF lpReconcile_produces]) simp

subsection \<open>Claims about every reconcile\<close>

fun isHelmOp :: "'e event \<Rightarrow> bool" where
  "isHelmOp (EvHelmInstall n ns c v r) = True"
| "isHelmOp (EvHelmUpgrade n ns c v r) = True"
| "isHelmOp _ = False"

lemma lpReconcile_run:
  assumes "run_state (lpReconcile (tracedLP r) req) (w, []) = (out, (w', tr))"
  shows "lp_run (lpr_Lib r) (lpChartPath r) (lpr_AsSDK r \<noteq> None) req tr out"
  using producesD [OF lpReconcile_produces assms] by simp

lemma isHelmOp_op [simp]: "isHelmOp (lpHelmOp inst n ns path v res)"
  by (simp add: lpHelmOp_def)

lemma lpPublishing_quiet: "lpPublishing req st q es \<Longrightarrow> list_all (\<lambda>ev. \<not> isHelmOp ev) es"
  by (auto simp: lpPublishing_def split: sum.splits)

lemma lpChecked_quiet: "lpChecked sdk p fs \<Longrightarrow> list_all (\<lambda>ev. \<not> isHelmOp ev) fs"
  by (simp add: lpChecked_def split: if_splits)

text \<open>The Helm operation in a run of \<open>lp_op\<close>, with what stands before and after it.\<close>

definition announcedOp :: "string \<Rightarrow> NamespacedName \<Rightarrow> bool \<Rightarrow> LLMPlatform \<Rightarrow> 'e event list \<Rightarrow> bool" where
  "announcedOp path req inst p es \<longleftrightarrow>
     (\<exists>t p2 ps res post. lpPublishing req (lpBegun inst p t) (Inr p2) ps \<and>
        es = EvNow t # ps @ lpHelmOp inst (lp_Name p) (lp_Namespace p) path (TranslateValues p) res # post \<and>
        list_all (\<lambda>ev. \<not> isHelmOp ev) post)"

lemma lp_op_announced:
  assumes "lp_op lib path req inst p x es" and "list_ex isHelmOp es"
  shows "announcedOp path req inst p es"
  using assms
proof cases
  case (op_unannounced t out ps)
  then show ?thesis
    using assms(2) lpPublishing_quiet by (fastforce simp: list_all_iff list_ex_iff)
next
  case (op_failed t p2 ps e u q qs)
  have "list_all (\<lambda>ev. \<not> isHelmOp ev) (EvNow u # qs)"
    using lpPublishing_quiet [OF op_failed(4)] by simp
  then show ?thesis
    unfolding announcedOp_def using op_failed(2,3) by blast
next
  case (op_nil t p2 ps)
  have "list_all (\<lambda>ev. \<not> isHelmOp ev) []" by simp
  then show ?thesis unfolding announcedOp_def using op_nil(2,3) by blast
next
  case (op_done t p2 ps rel u)
  have "list_all (\<lambda>ev. \<not> isHelmOp ev) [EvNow u]" by simp
  then show ?thesis unfolding announcedOp_def using op_done(2,3) by blast
qed

lemma announcedOp_append:
  assumes "announcedOp path req inst p es" and "list_all (\<lambda>ev. \<not> isHelmOp ev) qs"
  shows "announcedOp path req inst p (es @ qs)"
proof -
  obtain t p2 ps res post where "lpPublishing req (lpBegun inst p t) (Inr p2) ps"
    and es: "es = EvNow t # ps @ lpHelmOp inst (lp_Name p) (lp_Namespace p) path (TranslateValues p) res # post"
    and "list_all (\<lambda>ev. \<not> isHelmOp ev) post"
    using assms(1) unfolding announcedOp_def by blast
  then show ?thesis
    unfolding announcedOp_def using assms(2)
    by (intro exI [of _ t] exI [of _ p2] exI [of _ ps] exI [of _ res] exI [of _ "post @ qs"]) (simp add: es)
qed

text \<open>
  C14 (Helm is asked once, after the announcement). When a reconcile installs or upgrades a release,
  it had fetched a platform that is not up to date and not already being worked on, had asked Helm
  for the release, and had successfully published the phase Installing or Upgrading with the
  generation it had fetched; the operation is an installation exactly when Helm did not know the
  release, its values are those translated from the fetched specification, under the platform's
  name and namespace, and no other installation or upgrade follows in the same reconcile.
\<close>

theorem lp_helm_once:
  assumes "run_state (lpReconcile (tracedLP r) req) (w, []) = (out, (w', tr))"
    and "list_ex isHelmOp tr"
  shows "\<exists>p fs g es. tr = EvGetLP req (Inr p) # fs @ EvHelmGet (lp_Name p) (lp_Namespace p) g # es \<and>
    \<not> lpSkip p \<and> lpChecked (lpr_AsSDK r \<noteq> None) p fs \<and>
    announcedOp (lpChartPath r) req (lpAbsent g) p es"
  using lpReconcile_run [OF assms(1)]
proof cases
  case (lp_stopped p fs g es)
  then have "list_ex isHelmOp es"
    using assms(2) lpChecked_quiet [OF lp_stopped(3)] by (auto simp: list_ex_iff list_all_iff)
  then show ?thesis using lp_op_announced [OF lp_stopped(4)] lp_stopped by blast
next
  case (lp_completed p fs g st es q qs)
  note quiet = lpPublishing_quiet [OF lp_completed(6)]
  have "list_ex isHelmOp es"
    using assms(2) lpChecked_quiet [OF lp_completed(4)] quiet
    by (auto simp: lp_completed(1) list_ex_iff list_all_iff)
  then show ?thesis
    using announcedOp_append [OF lp_op_announced [OF lp_completed(5)] quiet] lp_completed by blast
qed (use assms(2) in simp_all)

end
