(* ===== verification/LLMPlatformStore.thy ===== *)
theory LLMPlatformStore
  imports LLMPlatformProps KubeStore
begin

section \<open>The platform controller on a quiescent API server\<close>

text \<open>
  \<open>helm_store\<close> extends the laws of the API server by those of a Helm client for which no operation
  fails: reading a release returns the stored one or an error, an installation and an upgrade store
  the release with the given values. \<open>memHelm\<close> is such a client in memory. The lemma \<open>wp_lpApply\<close>
  follows one reconcile through the store; it leaves room for what others do to the cluster while
  Helm is being asked (\<open>G\<close>) and while it works (\<open>E\<close>).
\<close>

abbreviation lpKey :: "LLMPlatform \<Rightarrow> NamespacedName" where
  "lpKey p \<equiv> metaKey (lp_ObjectMeta p)"

definition putLP :: "LLMPlatform \<Rightarrow> LLMPlatformStatus \<Rightarrow> cluster \<Rightarrow> cluster" where
  "putLP p st = cl_LPs_update (\<lambda>m. m(lpKey p \<mapsto> p\<lparr>lp_Status := st\<rparr>))"

definition putRelease :: "string \<Rightarrow> string \<Rightarrow> jobj \<Rightarrow> release \<Rightarrow> cluster \<Rightarrow> cluster" where
  "putRelease n ns v x = cl_Releases_update (\<lambda>m. m((n, ns) \<mapsto> (x, v)))"

lemma putLP_simps [simp]:
  "cl_LPs (putLP p st c) = (cl_LPs c)(lpKey p \<mapsto> p\<lparr>lp_Status := st\<rparr>)"
  "cl_Releases (putLP p st c) = cl_Releases c"
  by (simp_all add: putLP_def)

lemma putRelease_simps [simp]:
  "cl_LPs (putRelease n ns v x c) = cl_LPs c"
  "cl_Releases (putRelease n ns v x c) = (cl_Releases c)((n, ns) \<mapsto> (x, v))"
  by (simp_all add: putRelease_def)

lemma putLP_overwrite:
  "putLP (q\<lparr>lp_Status := a\<rparr>) b (putRelease n ns v x (putLP q a c)) = putLP q b (putRelease n ns v x c)"
  by (simp add: putLP_def putRelease_def comp_def)

text \<open>A release is settled unless it hangs in one of Helm's pending states.\<close>

definition settled :: "release \<Rightarrow> bool" where
  "settled x \<longleftrightarrow> (\<exists>s. rel_Info x = Some s \<and> s \<notin> {''pending-install'', ''pending-upgrade'', ''pending-rollback''})"

definition settledIn :: "cluster \<Rightarrow> string \<Rightarrow> string \<Rightarrow> bool" where
  "settledIn c n ns \<longleftrightarrow> (case cl_Releases c (n, ns) of None \<Rightarrow> True | Some (x, v) \<Rightarrow> settled x)"

locale helm_store = kube_store K lib view
  for K :: "('w, 'e) kube" and lib :: "'e klib" and view :: "'w \<Rightarrow> cluster" +
  fixes H :: "('w, 'e) helmClient"
  assumes get_release: "wp (GetRelease H n ns) (\<lambda>r w'. view w' = view w \<and>
      (case cl_Releases (view w) (n, ns) of
         None \<Rightarrow> \<exists>e. r = Inl e
       | Some (x, v) \<Rightarrow> r = Inr (Some x))) w"
    and install: "cl_Releases (view w) (n, ns) = None \<Longrightarrow>
      wp (Install H n ns path v) (\<lambda>r w'. \<exists>x. r = Inr (Some x) \<and> rel_Name x = n \<and> settled x \<and>
        view w' = putRelease n ns v x (view w)) w"
    and upgrade: "cl_Releases (view w) (n, ns) = Some old \<Longrightarrow>
      wp (Upgrade H n ns path v) (\<lambda>r w'. \<exists>x. r = Inr (Some x) \<and> rel_Name x = n \<and> settled x \<and>
        view w' = putRelease n ns v x (view w)) w"

definition lpReconcilerOf ::
  "('w, 'e) kube \<Rightarrow> 'e klib \<Rightarrow> ('w, 'e) helmClient \<Rightarrow> bool \<Rightarrow> string \<Rightarrow> ('w, 'e) LPReconciler" where
  "lpReconcilerOf K lib H sdk path = \<lparr>lpr_Client = K, lpr_Lib = lib, lpr_HelmClient = H,
     lpr_AsSDK = (if sdk then Some (FixStuckRelease H) else None), lpr_ChartPath = path\<rparr>"

lemma lpReconcilerOf_simps [simp]:
  "lpr_Client (lpReconcilerOf K lib H sdk path) = K" "lpr_Lib (lpReconcilerOf K lib H sdk path) = lib"
  "lpr_HelmClient (lpReconcilerOf K lib H sdk path) = H"
  "lpr_AsSDK (lpReconcilerOf K lib H sdk path) = (if sdk then Some (FixStuckRelease H) else None)"
  by (simp_all add: lpReconcilerOf_def)

subsection \<open>One reconcile\<close>

context kube_store
begin

lemma wp_lpPublish:
  assumes "lpr_Client r = K" and "cl_LPs (view w) (lpKey q) = Some q"
    and "\<And>w'. view w' = putLP q st (view w) \<Longrightarrow> Q (Inr (q\<lparr>lp_Status := st\<rparr>)) w'"
  shows "wp (lpRefetchAndUpdateStatus r (lpKey q) st) Q w"
proof (simp add: lpRefetchAndUpdateStatus_def wp_rules assms(1), rule wp_getLaw [OF get_lp], goal_cases)
  case (2 x w')
  with assms(2) show ?case
    by (simp add: wp_rules, intro wp_modifyLaw [OF status_lp]) (auto simp: putLP_def intro: assms(3))
qed (simp add: assms)

lemma wp_lpNow:
  assumes "lpr_Client r = K" and "\<And>n w'. view w' = view w \<Longrightarrow> wp (k n) Q w'"
  shows "wp (andThen (lifted (TimeNow (lpr_Client r))) k) Q w"
  by (simp add: wp_andThen wp_lifted assms(1), rule wp_mono [OF now]) (simp add: assms(2))

text \<open>
  The statuses of the two publications. \<open>p\<close> is the platform first fetched, \<open>q\<close> what is stored when
  the operation is announced.
\<close>

lemma wp_lpBegin:
  assumes "lpr_Client r = K" and "cl_LPs (view w) (lpKey q) = Some q"
    and "\<And>t w'. view w' = putLP q (lpBegun inst p t) (view w) \<Longrightarrow>
      Q (Inr (q\<lparr>lp_Status := lpBegun inst p t\<rparr>)) w'"
  shows "wp (lpBegin r (lpKey q) p (if inst then ''Installing'' else ''Upgrading'')
     (if inst then ''Helm release is being installed'' else ''Helm release is being upgraded'')) Q w"
  unfolding lpBegin_def
proof (rule wp_lpNow [OF assms(1)], rule wp_lpPublish [OF assms(1)], goal_cases)
  case (2 n w1 w2)
  then show ?case using assms(3) [of w2 n] by (simp add: lpBegun_def Let_def)
qed (simp add: assms(2))

lemma wp_lpSucceeded:
  assumes "lpr_Client r = K" and "\<And>t w'. view w' = view w \<Longrightarrow> Q (Inr (lpSuccess inst x p t)) w'"
  shows "wp (lpSucceeded r p (Some x) (if inst then ''InstallSucceeded'' else ''UpgradeSucceeded'')
     (if inst then ''Helm release installed successfully'' else ''Helm release upgraded successfully'')) Q w"
  unfolding lpSucceeded_def wp_andThen [of "orPanic _"]
  by (simp only: wp_orPanic option.case sum.case, rule wp_lpNow [OF assms(1)])
     (simp only: wp_proceed assms(2) flip: lpSuccess_def)

lemma wp_lpInstall:
  assumes "lpr_Client r = K" and "cl_LPs (view w) (lpKey q) = Some q"
    and "\<And>t w0. view w0 = putLP q (lpBegun True p t) (view w) \<Longrightarrow>
      wp (Install (lpr_HelmClient r) n ns (lpChartPath r) v) (\<lambda>res w'. \<exists>x. res = Inr (Some x) \<and> T t x w') w0"
    and "\<And>t x w1 t2 w2. T t x w1 \<Longrightarrow> view w2 = view w1 \<Longrightarrow>
      Q (Inr (lpSuccess True x (q\<lparr>lp_Status := lpBegun True p t\<rparr>) t2)) w2"
  shows "wp (lpInstall r (lpKey q) p n ns v) Q w"
  unfolding lpInstall_def wp_andThen [of "lpBegin _ _ _ _ _"]
proof (rule wp_lpBegin [where inst = True, unfolded if_True if_False, OF assms(1,2)], unfold sum.case wp_andThen wp_lifted,
    rule wp_mono, erule assms(3), elim exE conjE, goal_cases)
  case (1 t w1 res w2 x)
  show ?case
    unfolding 1(2) sum.case
    by (rule wp_lpSucceeded [where inst = True, unfolded if_True if_False, OF assms(1)])
       (use assms(4) 1(3) in blast)
qed

lemma wp_lpUpgrade:
  assumes "lpr_Client r = K" and "cl_LPs (view w) (lpKey q) = Some q"
    and "\<And>t w0. view w0 = putLP q (lpBegun False p t) (view w) \<Longrightarrow>
      wp (Upgrade (lpr_HelmClient r) n ns (lpChartPath r) v) (\<lambda>res w'. \<exists>x. res = Inr (Some x) \<and> T t x w') w0"
    and "\<And>t x w1 t2 w2. T t x w1 \<Longrightarrow> view w2 = view w1 \<Longrightarrow>
      Q (Inr (lpSuccess False x (q\<lparr>lp_Status := lpBegun False p t\<rparr>) t2)) w2"
  shows "wp (lpUpgrade r (lpKey q) p n ns v) Q w"
  unfolding lpUpgrade_def wp_andThen [of "lpBegin _ _ _ _ _"]
proof (rule wp_lpBegin [where inst = False, unfolded if_True if_False, OF assms(1,2)], unfold sum.case wp_andThen wp_lifted,
    rule wp_mono, erule assms(3), elim exE conjE, goal_cases)
  case (1 t w1 res w2 x)
  show ?case
    unfolding 1(2) sum.case
    by (rule wp_lpSucceeded [where inst = False, unfolded if_True if_False, OF assms(1)])
       (use assms(4) 1(3) in blast)
qed

lemma wp_lpApply:
  assumes "lpr_Client r = K"
    and fixed: "wp (lpFixStuck r (lp_Name p) (lp_Namespace p)) (\<lambda>res w'. res = Inr () \<and> view w' = view w) w"
    and get: "\<And>w0. view w0 = view w \<Longrightarrow>
      wp (GetRelease (lpr_HelmClient r) (lp_Name p) (lp_Namespace p)) (\<lambda>g w'. view w' = c1 \<and> lpAbsent g = inst) w0"
    and q: "cl_LPs c1 (lpKey q) = Some q"
    and op: "\<And>t w0. view w0 = putLP q (lpBegun inst p t) c1 \<Longrightarrow>
      wp ((if inst then Install (lpr_HelmClient r) else Upgrade (lpr_HelmClient r))
            (lp_Name p) (lp_Namespace p) (lpChartPath r) (TranslateValues p))
        (\<lambda>res w'. \<exists>x. res = Inr (Some x) \<and> R x \<and>
           view w' = putRelease (lp_Name p) (lp_Namespace p) (TranslateValues p) x (view w0)) w0"
  shows "wp (lpApply r (lpKey q) p) (\<lambda>out w'. out = Inr (Done 0 None) \<and>
     (\<exists>x t u. R x \<and> view w' = putLP q (lpSuccess inst x (q\<lparr>lp_Status := lpBegun inst p t\<rparr>) u)
        (putRelease (lp_Name p) (lp_Namespace p) (TranslateValues p) x c1))) w"
proof -
  let ?v = "TranslateValues p" and ?n = "lp_Name p" and ?ns = "lp_Namespace p"
  let ?T = "\<lambda>t x w'. R x \<and> view w' = putRelease ?n ?ns ?v x (putLP q (lpBegun inst p t) c1)"
  let ?Q = "\<lambda>out w'. out = Inr (Done 0 None) \<and> (\<exists>x t u. R x \<and>
      view w' = putLP q (lpSuccess inst x (q\<lparr>lp_Status := lpBegun inst p t\<rparr>) u) (putRelease ?n ?ns ?v x c1))"
  let ?S = "\<lambda>res w2. \<exists>t x u. res = Inr (lpSuccess inst x (q\<lparr>lp_Status := lpBegun inst p t\<rparr>) u) \<and> ?T t x w2"
  have opi: "wp (lpInstall r (lpKey q) p ?n ?ns ?v) ?S w1" if v: "view w1 = c1" and i: "inst" for w1
  proof (rule wp_lpInstall [where T = ?T, OF assms(1)])
    show "wp (Install (lpr_HelmClient r) ?n ?ns (lpChartPath r) ?v) (\<lambda>res w'. \<exists>x. res = Inr (Some x) \<and> ?T t x w') w0"
      if "view w0 = putLP q (lpBegun True p t) (view w1)" for t w0
      using op [of w0 t] that v i by simp
  qed (use q v i in auto)
  have opu: "wp (lpUpgrade r (lpKey q) p ?n ?ns ?v) ?S w1" if v: "view w1 = c1" and i: "\<not> inst" for w1
  proof (rule wp_lpUpgrade [where T = ?T, OF assms(1)])
    show "wp (Upgrade (lpr_HelmClient r) ?n ?ns (lpChartPath r) ?v) (\<lambda>res w'. \<exists>x. res = Inr (Some x) \<and> ?T t x w') w0"
      if "view w0 = putLP q (lpBegun False p t) (view w1)" for t w0
      using op [of w0 t] that v i by simp
  qed (use q v i in auto)
  have branch: "wp (case g of Inl err \<Rightarrow> lpInstall r (lpKey q) p ?n ?ns ?v
       | Inr None \<Rightarrow> lpInstall r (lpKey q) p ?n ?ns ?v
       | Inr (Some rel) \<Rightarrow> lpUpgrade r (lpKey q) p ?n ?ns ?v) ?S w1"
    if "view w1 = c1" and "lpAbsent g = inst" for g w1
    using opi [OF that(1)] opu [OF that(1)] that(2)
    by (auto simp: lpAbsent_def split: sum.splits option.splits)
  have publish: "wp (andThen (lpRefetchAndUpdateStatus r (lpKey q) st) (\<lambda>p. proceed (Done 0 None))) ?Q w2"
    if "?T t x w2" and "st = lpSuccess inst x (q\<lparr>lp_Status := lpBegun inst p t\<rparr>) u" for st t x u w2
  proof -
    let ?q = "q\<lparr>lp_Status := lpBegun inst p t\<rparr>"
    have "wp (lpRefetchAndUpdateStatus r (lpKey ?q) st)
        (\<lambda>res w'. case res of Inl out \<Rightarrow> ?Q (Inl out) w' | Inr y \<Rightarrow> ?Q (Inr (Done 0 None)) w') w2"
    proof (rule wp_lpPublish [OF assms(1)], goal_cases)
      case (2 w')
      then have "view w' = putLP q st (putRelease ?n ?ns ?v x c1)"
        using that(1) by (simp add: putLP_overwrite)
      then show ?case using that by auto
    qed (use that in simp)
    then show ?thesis unfolding wp_andThen wp_proceed by simp
  qed
  show ?thesis
    unfolding lpApply_def Let_def wp_andThen [of "lpFixStuck _ _ _"]
  proof (rule wp_mono [OF fixed], elim conjE, simp only: sum.case, unfold wp_andThen [of "lifted _"] wp_lifted sum.case,
      rule wp_mono, erule get, elim conjE, goal_cases)
    case (1 a w1 g w2)
    show ?case
      unfolding wp_andThen [of "case_sum _ _ _"]
    proof (rule wp_mono, rule branch [OF 1(3,4)], elim exE conjE, goal_cases)
      case (1 res w3 t x u)
      show ?case
        unfolding 1(1) sum.case by (rule publish [OF conjI [OF 1(2,3)] refl])
    qed
  qed
qed

end

subsection \<open>A reconcile brings the platform to its goal\<close>

definition lpGoal :: "LLMPlatform \<Rightarrow> cluster \<Rightarrow> 'e outcome \<Rightarrow> cluster \<Rightarrow> bool" where
  "lpGoal p c out c' \<longleftrightarrow> out = Done 0 None \<and>
     (if lpSkip p then c' = c
      else \<exists>x t u. (rel_Name x = lp_Name p \<and> settled x) \<and>
        c' = putLP p (lpSuccess (cl_Releases c (lp_Name p, lp_Namespace p) = None) x
               (p\<lparr>lp_Status := lpBegun (cl_Releases c (lp_Name p, lp_Namespace p) = None) p t\<rparr>) u)
             (putRelease (lp_Name p) (lp_Namespace p) (TranslateValues p) x c))"

context helm_store
begin

lemma wp_get_release:
  "wp (GetRelease H n ns) (\<lambda>r w'. view w' = view w \<and> lpAbsent r = (cl_Releases (view w) (n, ns) = None) \<and>
     (\<forall>x. r = Inr (Some x) \<longrightarrow> settledIn (view w) n ns \<longrightarrow> settled x)) w"
proof (cases "cl_Releases (view w) (n, ns)")
  case None
  show ?thesis
    by (rule wp_mono [OF get_release]) (auto simp: None lpAbsent_def)
next
  case (Some y)
  show ?thesis
    by (rule wp_mono [OF get_release]) (auto simp: Some lpAbsent_def settledIn_def split: prod.splits)
qed

lemma wp_fix_settled:
  assumes "settledIn (view w) n ns"
  shows "wp (FixStuckRelease H n ns) (\<lambda>res w'. res = Some False \<and> view w' = view w) w"
  unfolding FixStuckRelease_def wp_bind
proof (rule wp_mono, rule wp_get_release, elim conjE, goal_cases)
  case (1 r w')
  consider e where "r = Inl e" | "r = Inr None" | x where "r = Inr (Some x)"
    by (metis option.exhaust sum.exhaust)
  then show ?case
  proof cases
    case (3 x)
    with 1(3) assms obtain s where "rel_Info x = Some s"
      "s \<notin> {''pending-install'', ''pending-upgrade'', ''pending-rollback''}"
      unfolding settled_def by blast
    with 3 1(1) show ?thesis by (simp add: wp_return)
  qed (use 1(1) in \<open>simp_all add: wp_return\<close>)
qed

lemma wp_lpFix:
  assumes "settledIn (view w) n ns"
  shows "wp (lpFixStuck (lpReconcilerOf K lib H sdk path) n ns) (\<lambda>res w'. res = Inr () \<and> view w' = view w) w"
proof (cases sdk)
  case True
  then show ?thesis
    by (simp add: lpFixStuck_def wp_andThen wp_lifted, intro wp_mono [OF wp_fix_settled [OF assms]])
       (simp add: wp_rules)
qed (simp add: lpFixStuck_def wp_rules)

lemma wp_lpReconcile:
  assumes "cl_LPs (view w) (lpKey p) = Some p" and "settledIn (view w) (lp_Name p) (lp_Namespace p)"
  shows "wp (lpReconcile (lpReconcilerOf K lib H sdk path) (lpKey p)) (\<lambda>out w'. lpGoal p (view w) out (view w')) w"
  unfolding lpReconcile_def lpReconcilerOf_simps wp_finish wp_andThen wp_lifted sum.case
proof (rule wp_getLaw [OF get_lp], unfold sum.case, goal_cases)
  case (2 x w1)
  then have x: "x = p" and v1: "view w1 = view w" using assms by simp_all
  let ?inst = "cl_Releases (view w) (lp_Name p, lp_Namespace p) = None"
  let ?R = "\<lambda>x. rel_Name x = lp_Name p \<and> settled x"
  show ?case
  proof (cases "lpSkip p")
    case True
    then show ?thesis by (simp add: x v1 wp_rules lpGoal_def)
  next
    case False
    have "wp (lpApply (lpReconcilerOf K lib H sdk path) (lpKey p) p) (\<lambda>out w'. out = Inr (Done 0 None) \<and>
     (\<exists>x t u. ?R x \<and> view w' = putLP p (lpSuccess ?inst x (p\<lparr>lp_Status := lpBegun ?inst p t\<rparr>) u)
        (putRelease (lp_Name p) (lp_Namespace p) (TranslateValues p) x (view w)))) w1"
    proof (rule wp_lpApply, goal_cases)
      case (3 w0)
      show ?case
        unfolding lpReconcilerOf_simps by (rule wp_mono [OF wp_get_release]) (simp add: 3 v1)
    next
      case (5 t w0)
      then have rel: "cl_Releases (view w0) = cl_Releases (view w)" by simp
      show ?case
      proof (cases ?inst)
        case True
        then show ?thesis
          unfolding lpReconcilerOf_simps if_P [OF True] using rel by (intro wp_mono [OF install]) simp_all
      next
        case no: False
        then obtain old where "cl_Releases (view w0) (lp_Name p, lp_Namespace p) = Some old"
          unfolding rel by blast
        then show ?thesis
          unfolding lpReconcilerOf_simps if_not_P [OF no] by (intro wp_mono [OF upgrade]) simp_all
      qed
    next
      case 2
      show ?case using wp_lpFix [of w1 "lp_Name p" "lp_Namespace p" sdk path] assms(2) v1 by simp
    next
      case 4
      show ?case using assms(1) .
    qed simp
    then show ?thesis
      unfolding x if_not_P [OF False]
      by (rule wp_mono) (use False in \<open>auto simp: lpGoal_def\<close>)
  qed
qed (simp add: assms)

end

subsection \<open>A Helm client in memory\<close>

definition memHelmApply ::
  "bool \<Rightarrow> string \<Rightarrow> string \<Rightarrow> string \<Rightarrow> jobj \<Rightarrow> (cluster, memError releaseResult) state" where
  "memHelmApply inst n ns path v = State (\<lambda>c.
     case cl_Releases c (n, ns) of
       None \<Rightarrow> if inst then
           let x = \<lparr>rel_Name = n, rel_Version = 1, rel_Info = Some ''deployed''\<rparr>
           in (Inr (Some x), putRelease n ns v x c)
         else (Inl (Raw NotFound), c)
     | Some (old, _) \<Rightarrow> if inst then (Inl (Raw AlreadyExists), c)
         else let x = \<lparr>rel_Name = n, rel_Version = rel_Version old + 1, rel_Info = Some ''deployed''\<rparr>
           in (Inr (Some x), putRelease n ns v x c))"

definition memHelm :: "(cluster, memError) helmClient" where
  "memHelm = \<lparr>
     Install = memHelmApply True,
     Upgrade = memHelmApply False,
     GetRelease = (\<lambda>n ns. State (\<lambda>c. (case cl_Releases c (n, ns) of
        None \<Rightarrow> Inl (Raw NotFound) | Some (x, v) \<Rightarrow> Inr (Some x), c))),
     Uninstall = (\<lambda>n ns. State (\<lambda>c. (None, cl_Releases_update (\<lambda>m. m((n, ns) := None)) c))),
     Rollback = (\<lambda>n ns v. State (\<lambda>c. (None, c)))\<rparr>"

interpretation memh: helm_store mem_kube mem_lib "\<lambda>c. c" memHelm
  by unfold_locales
     (auto simp: memHelm_def memHelmApply_def wp_def settled_def Let_def split: option.splits)

end
