(* ===== verification/LLMPlatformGoals.thy ===== *)
theory LLMPlatformGoals
  imports LLMPlatformStore
begin

section \<open>What reconciles of a platform achieve\<close>

text \<open>
  The goal of a reconcile on a quiescent store, and the two ways in which the controller misses it:
  a platform whose last status update was lost is skipped for ever, and an edit that arrives between
  the first read and the announcement is recorded as done though Helm got the old values.
\<close>

abbreviation lpRun ::
  "('w, 'e) kube \<Rightarrow> 'e klib \<Rightarrow> ('w, 'e) helmClient \<Rightarrow> bool \<Rightarrow> string \<Rightarrow> NamespacedName \<Rightarrow> 'w \<Rightarrow> 'e outcome \<times> 'w" where
  "lpRun K lib H sdk path key w \<equiv> run_state (lpReconcile (lpReconcilerOf K lib H sdk path) key) w"

lemma lpReconcile_goal:
  assumes "helm_store K lib view H" and "cl_LPs (view w) (lpKey p) = Some p"
    and "settledIn (view w) (lp_Name p) (lp_Namespace p)"
    and "lpRun K lib H sdk path (lpKey p) w = (out, w')"
  shows "lpGoal p (view w) out (view w')"
  by (rule wpD [OF helm_store.wp_lpReconcile [OF assms(1-3)] assms(4)])

lemma lpSuccess_simps:
  "lpst_Phase (lpSuccess inst x p t) = ''Ready''"
  "lpst_ObservedGeneration (lpSuccess inst x p t) = om_Generation (lp_ObjectMeta p)"
  "lpst_HelmRelease (lpSuccess inst x p t) = rel_Name x"
  "lpst_HelmRevision (lpSuccess inst x p t) = rel_Version x"
  by (simp_all add: lpSuccess_def lpSetCondition_def)

lemma lpSuccess_condition:
  "\<exists>c. List.find (\<lambda>y. c_Type y = ''HelmRelease'') (lpst_Conditions (lpSuccess inst x p t)) = Some c \<and>
     c_Status c = ConditionTrue"
  by (simp add: lpSuccess_def lpSetCondition_def find_setCondition lpCondition_def)

lemma lpSkip_ready:
  "lpst_Phase st = ''Ready'' \<Longrightarrow> lpst_ObservedGeneration st = om_Generation (lp_ObjectMeta p) \<Longrightarrow>
     lpSkip (p\<lparr>lp_Status := st\<rparr>)"
  by (simp add: lpSkip_def)

text \<open>A skipped platform: no call but the first read, for every API server and every Helm client.\<close>

lemma lp_skipped_unchanged:
  assumes "kube_store K lib view" and "cl_LPs (view w) (lpKey p) = Some p" and "lpSkip p"
    and "lpr_Client r = K" and "lpr_Lib r = lib"
    and "run_state (lpReconcile r (lpKey p)) w = (out, w')"
  shows "out = Done 0 None" and "view w' = view w"
proof -
  have "wp (lpReconcile r (lpKey p)) (\<lambda>out w'. out = Done 0 None \<and> view w' = view w) w"
    unfolding lpReconcile_def assms(4,5) wp_finish wp_andThen wp_lifted sum.case
    by (rule wp_getLaw [OF kube_store.get_lp [OF assms(1)]]) (use assms(2,3) in \<open>auto simp: wp_rules\<close>)
  from wpD [OF this assms(6)] show "out = Done 0 None" and "view w' = view w" by simp_all
qed

definition examplePlatform :: LLMPlatform where
  "examplePlatform = \<lparr>lp_TypeMeta = zeroTypeMeta,
     lp_ObjectMeta = emptyMeta\<lparr>om_Name := ''kube-llmops'', om_Namespace := ''default'', om_Generation := 1\<rparr>,
     lp_Spec = zeroLPSpec, lp_Status = zeroLPStatus\<rparr>"

definition onePlatform :: "LLMPlatform \<Rightarrow> cluster" where
  "onePlatform p = emptyCluster\<lparr>cl_LPs := [lpKey p \<mapsto> p]\<rparr>"

lemma onePlatform_simps [simp]:
  "cl_LPs (onePlatform p) (lpKey p) = Some p" "cl_Releases (onePlatform p) = Map.empty"
  "settledIn (onePlatform p) n ns"
  by (simp_all add: onePlatform_def emptyCluster_def settledIn_def)

lemma examplePlatform_simps [simp]:
  "lpKey examplePlatform = (''default'', ''kube-llmops'')" "lp_Name examplePlatform = ''kube-llmops''"
  "lp_Namespace examplePlatform = ''default''" "\<not> lpSkip examplePlatform"
  by (simp_all add: examplePlatform_def emptyMeta_def lpSkip_def zeroLPStatus_def)

subsection \<open>The goal\<close>

text \<open>
  C4 (a reconcile installs the platform, and then rests). For a platform that is not up to date,
  whose release does not hang, the reconcile succeeds: the release of its name holds the values
  translated from the specification, and the platform is Ready, with its own generation as the
  observed one, the release's name and revision, and a \<open>HelmRelease\<close> condition that is \<open>True\<close>. The
  next reconcile changes nothing.
\<close>

theorem lp_reaches_goal:
  assumes "helm_store K lib view H" and "cl_LPs (view w) (lpKey p) = Some p"
    and "settledIn (view w) (lp_Name p) (lp_Namespace p)" and "\<not> lpSkip p"
    and "lpRun K lib H sdk path (lpKey p) w = (out, w')"
    and "lpRun K lib H sdk path (lpKey p) w' = (out2, w2)"
  shows "out = Done 0 None \<and>
    (\<exists>st x c. cl_LPs (view w') (lpKey p) = Some (p\<lparr>lp_Status := st\<rparr>) \<and>
       cl_Releases (view w') (lp_Name p, lp_Namespace p) = Some (x, TranslateValues p) \<and>
       lpst_Phase st = ''Ready'' \<and> lpst_ObservedGeneration st = om_Generation (lp_ObjectMeta p) \<and>
       lpst_HelmRelease st = lp_Name p \<and> lpst_HelmRevision st = rel_Version x \<and>
       List.find (\<lambda>y. c_Type y = ''HelmRelease'') (lpst_Conditions st) = Some c \<and> c_Status c = ConditionTrue) \<and>
    out2 = Done 0 None \<and> view w2 = view w'"
proof -
  let ?inst = "cl_Releases (view w) (lp_Name p, lp_Namespace p) = None"
  obtain x t u where out: "out = Done 0 None" and x: "rel_Name x = lp_Name p"
    and w': "view w' = putLP p (lpSuccess ?inst x (p\<lparr>lp_Status := lpBegun ?inst p t\<rparr>) u)
       (putRelease (lp_Name p) (lp_Namespace p) (TranslateValues p) x (view w))"
    using lpReconcile_goal [OF assms(1-3,5)] assms(4) unfolding lpGoal_def by auto
  define st where "st = lpSuccess ?inst x (p\<lparr>lp_Status := lpBegun ?inst p t\<rparr>) u"
  let ?q = "p\<lparr>lp_Status := st\<rparr>"
  have q: "cl_LPs (view w') (lpKey ?q) = Some ?q" unfolding w' st_def by simp
  have skip: "lpSkip ?q" unfolding st_def by (rule lpSkip_ready) (simp_all add: lpSuccess_simps)
  have K: "kube_store K lib view" using assms(1) by (simp add: helm_store_def)
  have second: "run_state (lpReconcile (lpReconcilerOf K lib H sdk path) (lpKey ?q)) w' = (out2, w2)"
    using assms(6) by simp
  have quiet: "out2 = Done 0 None" "view w2 = view w'"
    by (rule lp_skipped_unchanged [OF K q skip _ _ second]; simp)+
  obtain c where c: "List.find (\<lambda>y. c_Type y = ''HelmRelease'') (lpst_Conditions st) = Some c"
    "c_Status c = ConditionTrue"
    using lpSuccess_condition unfolding st_def by blast
  have "cl_Releases (view w') (lp_Name p, lp_Namespace p) = Some (x, TranslateValues p)"
    unfolding w' by simp
  moreover have "cl_LPs (view w') (lpKey p) = Some (p\<lparr>lp_Status := st\<rparr>)" using q by simp
  ultimately show ?thesis
    using out x quiet c lpSuccess_simps [of ?inst x "p\<lparr>lp_Status := lpBegun ?inst p t\<rparr>" u]
    unfolding st_def [symmetric] by auto
qed

theorem lp_reaches_goal_witness:
  "\<exists>st. cl_LPs (snd (lpRun mem_kube mem_lib memHelm True '''' (''default'', ''kube-llmops'') (onePlatform examplePlatform)))
     (''default'', ''kube-llmops'') = Some (examplePlatform\<lparr>lp_Status := st\<rparr>) \<and> lpst_Phase st = ''Ready''"
  using lp_reaches_goal [OF memh.helm_store_axioms onePlatform_simps(1) onePlatform_simps(3) examplePlatform_simps(4)
      surjective_pairing surjective_pairing, where sdk = True and path = "''''"]
  unfolding examplePlatform_simps(1) by blast

subsection \<open>The announcement is a trap\<close>

lemma lpSkip_begun: "lpSkip (p\<lparr>lp_Status := lpBegun inst p t\<rparr>)"
  by (simp add: lpSkip_def lpBegun_def lpSetCondition_def Let_def)

text \<open>
  C25 (an announced platform is left alone). Before Helm is called, the status announces the
  operation, with the generation that is being worked on. A platform found in this status, because
  the process died during the operation or its last status update failed, is skipped: every
  reconcile succeeds without a change, however often it runs, whatever state the release is in and
  even with a client that could recover a stuck one, until the specification is edited.
\<close>

theorem lp_announcement_traps:
  assumes "kube_store K lib view"
    and "cl_LPs (view w) (lpKey p) = Some (p\<lparr>lp_Status := lpBegun inst p t\<rparr>)"
  shows "view (((\<lambda>w. snd (lpRun K lib H sdk path (lpKey p) w)) ^^ n) w) = view w \<and>
    fst (lpRun K lib H sdk path (lpKey p) (((\<lambda>w. snd (lpRun K lib H sdk path (lpKey p) w)) ^^ n) w)) = Done 0 None"
proof -
  let ?step = "\<lambda>w. snd (lpRun K lib H sdk path (lpKey p) w)"
  let ?q = "p\<lparr>lp_Status := lpBegun inst p t\<rparr>"
  have again: "view (?step u) = view w" "fst (lpRun K lib H sdk path (lpKey p) u) = Done 0 None"
    if "view u = view w" for u
  proof -
    have q: "cl_LPs (view u) (lpKey ?q) = Some ?q" using assms(2) that by simp
    have run: "run_state (lpReconcile (lpReconcilerOf K lib H sdk path) (lpKey ?q)) u =
        (fst (lpRun K lib H sdk path (lpKey p) u), ?step u)" by simp
    show "view (?step u) = view w"
      using lp_skipped_unchanged(2) [OF assms(1) q lpSkip_begun _ _ run] that by simp
    show "fst (lpRun K lib H sdk path (lpKey p) u) = Done 0 None"
      using lp_skipped_unchanged(1) [OF assms(1) q lpSkip_begun _ _ run] by simp
  qed
  have "view ((?step ^^ n) w) = view w"
    by (induction n) (simp_all add: again(1))
  then show ?thesis using again(2) by blast
qed

theorem lp_announcement_traps_witness:
  "fst (lpRun mem_kube mem_lib memHelm True '''' (''default'', ''kube-llmops'')
     (onePlatform (examplePlatform\<lparr>lp_Status := lpBegun True examplePlatform 0\<rparr>))) = Done 0 None"
proof -
  have "cl_LPs (onePlatform (examplePlatform\<lparr>lp_Status := lpBegun True examplePlatform 0\<rparr>)) (lpKey examplePlatform) =
      Some (examplePlatform\<lparr>lp_Status := lpBegun True examplePlatform 0\<rparr>)"
    using onePlatform_simps(1) [of "examplePlatform\<lparr>lp_Status := lpBegun True examplePlatform 0\<rparr>"] by simp
  from lp_announcement_traps [OF mem.kube_store_axioms this, where n = 0 and H = memHelm and sdk = True and path = "''''"]
  show ?thesis unfolding examplePlatform_simps(1) funpow_0 by blast
qed

subsection \<open>An edit before the announcement\<close>

text \<open>While Helm looks for the release, the user stores \<open>q\<close>: a newer version of the platform.\<close>

definition editedGet :: "LLMPlatform \<Rightarrow> ('w \<Rightarrow> cluster) \<Rightarrow> (string \<Rightarrow> string \<Rightarrow> ('w, 'e releaseResult) state) \<Rightarrow> bool" where
  "editedGet q view op \<longleftrightarrow> (\<forall>n ns w. wp (op n ns)
     (\<lambda>r w'. (\<exists>e. r = Inl e) \<and> view w' = cl_LPs_update (\<lambda>m. m(lpKey q \<mapsto> q)) (view w)) w)"

context helm_store
begin

lemma wp_edit_race:
  assumes "cl_LPs (view w) (lpKey p) = Some p" and "\<not> lpSkip p"
    and "cl_Releases (view w) (lp_Name p, lp_Namespace p) = None"
    and "lpKey q = lpKey p" and "editedGet q view get"
  shows "wp (lpReconcile (lpReconcilerOf K lib (H\<lparr>GetRelease := get\<rparr>) False path) (lpKey p)) (\<lambda>out w'.
     out = Done 0 None \<and> (\<exists>x t u. rel_Name x = lp_Name p \<and>
       view w' = putLP q (lpSuccess True x (q\<lparr>lp_Status := lpBegun True p t\<rparr>) u)
         (putRelease (lp_Name p) (lp_Namespace p) (TranslateValues p) x
            (cl_LPs_update (\<lambda>m. m(lpKey q \<mapsto> q)) (view w))))) w"
  unfolding lpReconcile_def lpReconcilerOf_simps wp_finish wp_andThen wp_lifted sum.case
proof (rule wp_getLaw [OF get_lp], unfold sum.case, goal_cases)
  case (2 y w1)
  then have y: "y = p" and v1: "view w1 = view w" using assms(1) by simp_all
  let ?c1 = "cl_LPs_update (\<lambda>m. m(lpKey q \<mapsto> q)) (view w)"
  let ?r = "lpReconcilerOf K lib (H\<lparr>GetRelease := get\<rparr>) False path"
  have helm: "GetRelease (H\<lparr>GetRelease := get\<rparr>) = get" "Install (H\<lparr>GetRelease := get\<rparr>) = Install H"
    by simp_all
  have "wp (lpApply ?r (lpKey q) p) (\<lambda>out w'. out = Inr (Done 0 None) \<and>
     (\<exists>x t u. rel_Name x = lp_Name p \<and> view w' = putLP q (lpSuccess True x (q\<lparr>lp_Status := lpBegun True p t\<rparr>) u)
        (putRelease (lp_Name p) (lp_Namespace p) (TranslateValues p) x ?c1))) w1"
  proof (rule wp_lpApply, goal_cases)
    case (3 w0)
    show ?case
      unfolding lpReconcilerOf_simps helm
      by (rule wp_mono, rule assms(5) [unfolded editedGet_def, rule_format]) (auto simp: 3 v1 lpAbsent_def)
  next
    case (5 t w0)
    then have "cl_Releases (view w0) (lp_Name p, lp_Namespace p) = None" using assms(3) by simp
    then show ?case
      unfolding lpReconcilerOf_simps helm if_True
      by (intro wp_mono [OF install]) auto
  next
    case 2
    show ?case by (simp add: lpFixStuck_def wp_rules)
  qed simp_all
  then show ?case
    unfolding y if_not_P [OF assms(2)] assms(4) by (rule wp_mono) auto
qed (simp add: assms(1))

end

text \<open>
  C26 (an edit before the announcement is lost). Suppose the user edits the platform after the
  reconcile has read it and before the announcement is published. The reconcile then installs the
  values of the old specification, but records the generation of the new one, because the
  publication continues with the object it fetched last. The platform counts as up to date: further
  reconciles change nothing, and the new specification is never applied.
\<close>

theorem lp_edit_race:
  assumes "helm_store K lib view H" and "cl_LPs (view w) (lpKey p) = Some p" and "\<not> lpSkip p"
    and "cl_Releases (view w) (lp_Name p, lp_Namespace p) = None"
    and "lpKey q = lpKey p" and "editedGet q view get"
    and "lpRun K lib (H\<lparr>GetRelease := get\<rparr>) False path (lpKey p) w = (out, w')"
    and "lpRun K lib H sdk path (lpKey p) w' = (out2, w2)"
  shows "(\<exists>st x. cl_LPs (view w') (lpKey p) = Some (q\<lparr>lp_Status := st\<rparr>) \<and> lpst_Phase st = ''Ready'' \<and>
       lpst_ObservedGeneration st = om_Generation (lp_ObjectMeta q) \<and>
       cl_Releases (view w') (lp_Name p, lp_Namespace p) = Some (x, TranslateValues p)) \<and>
    out2 = Done 0 None \<and> view w2 = view w'"
proof -
  let ?P = "\<lambda>w'. \<exists>x t u. rel_Name x = lp_Name p \<and>
       view w' = putLP q (lpSuccess True x (q\<lparr>lp_Status := lpBegun True p t\<rparr>) u)
         (putRelease (lp_Name p) (lp_Namespace p) (TranslateValues p) x
            (cl_LPs_update (\<lambda>m. m(lpKey q \<mapsto> q)) (view w)))"
  have "?P w'" using wpD [OF helm_store.wp_edit_race [OF assms(1-6)] assms(7)] by blast
  then obtain x t u where
    w': "view w' = putLP q (lpSuccess True x (q\<lparr>lp_Status := lpBegun True p t\<rparr>) u)
         (putRelease (lp_Name p) (lp_Namespace p) (TranslateValues p) x
            (cl_LPs_update (\<lambda>m. m(lpKey q \<mapsto> q)) (view w)))" by blast
  define st where "st = lpSuccess True x (q\<lparr>lp_Status := lpBegun True p t\<rparr>) u"
  let ?q = "q\<lparr>lp_Status := st\<rparr>"
  have stored: "cl_LPs (view w') (lpKey ?q) = Some ?q" unfolding w' st_def by simp
  have skip: "lpSkip ?q" unfolding st_def by (rule lpSkip_ready) (simp_all add: lpSuccess_simps)
  have K: "kube_store K lib view" using assms(1) by (simp add: helm_store_def)
  have second: "run_state (lpReconcile (lpReconcilerOf K lib H sdk path) (lpKey ?q)) w' = (out2, w2)"
    using assms(5,8) by simp
  have "out2 = Done 0 None" "view w2 = view w'"
    by (rule lp_skipped_unchanged [OF K stored skip _ _ second]; simp)+
  moreover have "cl_Releases (view w') (lp_Name p, lp_Namespace p) = Some (x, TranslateValues p)"
    unfolding w' by simp
  moreover have "cl_LPs (view w') (lpKey p) = Some ?q" using stored assms(5) by simp
  moreover have "lpst_Phase st = ''Ready''" "lpst_ObservedGeneration st = om_Generation (lp_ObjectMeta q)"
    by (simp_all add: st_def lpSuccess_simps)
  ultimately show ?thesis by blast
qed

text \<open>The example: while Helm is asked, the user switches the RAG module on.\<close>

definition editedPlatform :: LLMPlatform where
  "editedPlatform = examplePlatform\<lparr>
     lp_ObjectMeta := (lp_ObjectMeta examplePlatform)\<lparr>om_Generation := 2\<rparr>,
     lp_Spec := zeroLPSpec\<lparr>lps_Modules := \<lparr>mo_RAG = \<lparr>et_Enabled = True\<rparr>, mo_Finetune = off, mo_Security = off\<rparr>\<rparr>\<rparr>"

definition editingGet :: "LLMPlatform \<Rightarrow> string \<Rightarrow> string \<Rightarrow> (cluster, memError releaseResult) state" where
  "editingGet q n ns = State (\<lambda>c. (Inl (Raw NotFound), cl_LPs_update (\<lambda>m. m(lpKey q \<mapsto> q)) c))"

lemma editedPlatform_values: "TranslateValues editedPlatform \<noteq> TranslateValues examplePlatform"
proof -
  have "jpath (JObj (TranslateValues editedPlatform)) [''global'', ''modules'', ''rag'', ''enabled''] \<noteq>
      jpath (JObj (TranslateValues examplePlatform)) [''global'', ''modules'', ''rag'', ''enabled'']"
    by (simp add: TranslateValues_path globalValues_path editedPlatform_def examplePlatform_def zeroLPSpec_def off_def)
  then show ?thesis by auto
qed

theorem lp_edit_race_witness:
  "\<exists>w' st x v. w' = snd (lpRun mem_kube mem_lib (memHelm\<lparr>GetRelease := editingGet editedPlatform\<rparr>) False ''''
        (''default'', ''kube-llmops'') (onePlatform examplePlatform)) \<and>
     cl_LPs w' (''default'', ''kube-llmops'') = Some (editedPlatform\<lparr>lp_Status := st\<rparr>) \<and>
     lpst_ObservedGeneration st = 2 \<and> cl_Releases w' (''kube-llmops'', ''default'') = Some (x, v) \<and>
     v \<noteq> TranslateValues editedPlatform"
proof -
  have e: "editedGet editedPlatform (\<lambda>c. c) (editingGet editedPlatform)"
    by (simp add: editedGet_def editingGet_def wp_def)
  have k: "lpKey editedPlatform = lpKey examplePlatform" "om_Generation (lp_ObjectMeta editedPlatform) = 2"
    by (simp_all add: editedPlatform_def)
  have r: "cl_Releases (onePlatform examplePlatform) (lp_Name examplePlatform, lp_Namespace examplePlatform) = None"
    by simp
  show ?thesis
    using lp_edit_race [OF memh.helm_store_axioms onePlatform_simps(1) examplePlatform_simps(4) r k(1) e
        surjective_pairing surjective_pairing, where path = "''''" and sdk = False] editedPlatform_values
    unfolding examplePlatform_simps k(2) by metis
qed

subsection \<open>A reconcile that asks Helm\<close>

theorem lp_helm_once_witness:
  "\<exists>p fs g es. \<not> lpSkip p \<and> lpChecked False p (fs :: memError event list) \<and>
     announcedOp ''charts/kube-llmops-stack'' (''default'', ''kube-llmops'')
       (lpAbsent (g :: memError releaseResult)) p (es :: memError event list)"
proof -
  let ?r = "lpReconcilerOf mem_kube mem_lib memHelm False ''''"
  let ?res = "run_state (lpReconcile (tracedLP ?r) (''default'', ''kube-llmops'')) (onePlatform examplePlatform, [])"
  have m: "metaKey (lp_ObjectMeta examplePlatform) = (''default'', ''kube-llmops'')" by simp
  have skip: "lpSkip examplePlatform = False" by simp
  have t: "list_ex isHelmOp (snd (snd ?res))"
    by (simp add: lpReconcile_def lpApply_def lpFixStuck_def lpInstall_def lpBegin_def lpSucceeded_def
        lpRefetchAndUpdateStatus_def tracedLP_def loggedHelm_def traced_def lpReconcilerOf_def mem_kube_def memGet_def
        memModify_def memHelm_def memHelmApply_def onePlatform_def emptyCluster_def finish_def andThen_def lifted_def
        checked_def proceed_def orPanic_def run_logged m [simplified] skip Let_def)
  have run: "run_state (lpReconcile (tracedLP ?r) (''default'', ''kube-llmops'')) (onePlatform examplePlatform, []) =
      (fst ?res, (fst (snd ?res), snd (snd ?res)))" by simp
  have c: "lpChartPath ?r = ''charts/kube-llmops-stack''" "(lpr_AsSDK ?r \<noteq> None) = False"
    by (simp_all add: lpChartPath_def lpReconcilerOf_def)
  show ?thesis
    using lp_helm_once [OF run t] unfolding c by blast
qed

end
