(* ===== verification/Migrate.thy ===== *)
theory Migrate
  imports HelmValues
begin

section \<open>Migration of a Helm release to custom resources\<close>

text \<open>
  The repository migrates twice: the program \<open>cmd/migrate/main.go\<close> and the command
  \<open>kubectl llmops migrate\<close> (\<open>internal/cli/cmd/migrate.go\<close>). Both read the values of a release and
  write one \<open>LLMPlatform\<close> and one \<open>ModelDeployment\<close> per model. Running \<open>helm\<close> and decoding its
  output are parameters; YAML encoding is left out: a written file is its path with the object.
\<close>

text \<open>A read \<open>m[k]\<close> of an absent key gives nil; a type assertion to an object or an array may fail.\<close>

definition goIndex :: "jobj \<Rightarrow> string \<Rightarrow> jval" where
  "goIndex m k = (case map_of m k of None \<Rightarrow> JNull | Some v \<Rightarrow> v)"

fun asObject :: "jval \<Rightarrow> jobj option" where
  "asObject (JObj m) = Some m"
| "asObject _ = None"

fun asArray :: "jval \<Rightarrow> jval list" where
  "asArray (JArr xs) = xs"
| "asArray _ = []"

type_synonym files = "(string \<times> jval) list"

text \<open>\<open>os.WriteFile\<close>: a later write to the same path replaces the earlier one.\<close>

abbreviation writeFile :: "string \<Rightarrow> jval \<Rightarrow> files \<Rightarrow> files" where
  "writeFile path v fs \<equiv> AList.update path v fs"

subsection \<open>The program cmd/migrate\<close>

definition generatePlatform :: "jobj \<Rightarrow> string \<Rightarrow> jobj" where
  "generatePlatform values name =
     (let spec = [];
          spec = (case asObject (goIndex values ''litellm'') of
              Some litellm \<Rightarrow> jset spec ''gateway'' (JObj [(''enabled'', goIndex litellm ''enabled'')])
            | None \<Rightarrow> spec);
          spec = (case asObject (goIndex values ''observability'') of
              Some obs \<Rightarrow> jset spec ''observability'' (JObj [(''enabled'', goIndex obs ''enabled'')])
            | None \<Rightarrow> spec);
          spec = (case asObject (goIndex values ''global'') of
              Some glob \<Rightarrow>
                let spec = (case asObject (goIndex glob ''modules'') of
                        Some modules \<Rightarrow> jset spec ''modules'' (JObj modules) | None \<Rightarrow> spec);
                    spec = (case asObject (goIndex glob ''modelStore'') of
                        Some ms \<Rightarrow> jset spec ''modelStore'' (JObj ms) | None \<Rightarrow> spec)
                in (case asObject (goIndex glob ''nodePort'') of
                        Some np \<Rightarrow> jset spec ''nodePort'' (JObj np) | None \<Rightarrow> spec)
            | None \<Rightarrow> spec)
      in [(''apiVersion'', JStr ''llmops.kubellmops.io/v1alpha1''), (''kind'', JStr ''LLMPlatform''),
          (''metadata'', JObj [(''name'', JStr name)]), (''spec'', JObj spec)])"

definition generateModelDeployment :: "jobj \<Rightarrow> jobj" where
  "generateModelDeployment model =
     (let spec = [(''source'', goIndex model ''source'')];
          spec = (case map_of model ''replicas'' of Some replicas \<Rightarrow> jset spec ''replicas'' replicas | None \<Rightarrow> spec);
          spec = (case map_of model ''resources'' of Some resources \<Rightarrow> jset spec ''resources'' resources | None \<Rightarrow> spec);
          spec = (case map_of model ''engineArgs'' of Some engineArgs \<Rightarrow> jset spec ''engineArgs'' engineArgs | None \<Rightarrow> spec);
          spec = (case map_of model ''engine'' of Some engine \<Rightarrow> jset spec ''engine'' engine | None \<Rightarrow> spec)
      in [(''apiVersion'', JStr ''llmops.kubellmops.io/v1alpha1''), (''kind'', JStr ''ModelDeployment''),
          (''metadata'', JObj [(''name'', goIndex model ''name'')]), (''spec'', JObj spec)])"

definition modelFileName :: "string \<Rightarrow> jobj \<Rightarrow> string" where
  "modelFileName dir model =
     dir @ ''/modeldeployment_'' @ ReplaceAll (jstr (Some (goIndex model ''name''))) (CHR ''-'') ''_'' @ ''.yaml''"

definition generateModel :: "jval \<Rightarrow> files \<Rightarrow> files" where
  "generateModel m fs =
     (case asObject m of
        None \<Rightarrow> fs
      | Some model \<Rightarrow> writeFile (modelFileName ''generated'' model) (JObj (generateModelDeployment model)) fs)"

definition generateFiles :: "jobj \<Rightarrow> string \<Rightarrow> files" where
  "generateFiles values releaseName =
     (let fs = writeFile ''generated/llmplatform.yaml'' (JObj (generatePlatform values releaseName)) []
      in case asObject (goIndex values ''global'') of
           None \<Rightarrow> fs
         | Some glob \<Rightarrow> fold generateModel (asArray (goIndex glob ''models'')) fs)"

subsection \<open>The command kubectl llmops migrate\<close>

definition migratePlatform :: "jobj \<Rightarrow> string \<Rightarrow> jobj" where
  "migratePlatform values name =
     (let spec = [];
          spec = (case asObject (goIndex values ''litellm'') of
              Some litellm \<Rightarrow> jset spec ''gateway'' (JObj [(''enabled'', goIndex litellm ''enabled'')])
            | None \<Rightarrow> spec);
          spec = (case asObject (goIndex values ''observability'') of
              Some obs \<Rightarrow> jset spec ''observability'' (JObj [(''enabled'', goIndex obs ''enabled'')])
            | None \<Rightarrow> spec);
          spec = (case asObject (goIndex values ''global'') of
              Some glob \<Rightarrow>
                let spec = (case asObject (goIndex glob ''modules'') of
                        Some modules \<Rightarrow> jset spec ''modules'' (JObj modules) | None \<Rightarrow> spec);
                    spec = (case asObject (goIndex glob ''modelStore'') of
                        Some ms \<Rightarrow> jset spec ''modelStore'' (JObj ms) | None \<Rightarrow> spec)
                in (case asObject (goIndex glob ''nodePort'') of
                        Some np \<Rightarrow> jset spec ''nodePort'' (JObj np) | None \<Rightarrow> spec)
            | None \<Rightarrow> spec)
      in [(''apiVersion'', JStr ''llmops.kubellmops.io/v1alpha1''), (''kind'', JStr ''LLMPlatform''),
          (''metadata'', JObj [(''name'', JStr name)]), (''spec'', JObj spec)])"

text \<open>The loop over the copied keys.\<close>

definition copyKey :: "jobj \<Rightarrow> string \<Rightarrow> jobj \<Rightarrow> jobj" where
  "copyKey model key spec = (case map_of model key of Some v \<Rightarrow> jset spec key v | None \<Rightarrow> spec)"

definition migrateModelDeployment :: "jobj \<Rightarrow> jobj" where
  "migrateModelDeployment model =
     (let spec = fold (copyKey model) [''replicas'', ''resources'', ''engineArgs'', ''engine'']
                   [(''source'', goIndex model ''source'')]
      in [(''apiVersion'', JStr ''llmops.kubellmops.io/v1alpha1''), (''kind'', JStr ''ModelDeployment''),
          (''metadata'', JObj [(''name'', goIndex model ''name'')]), (''spec'', JObj spec)])"

definition migrateModel :: "string \<Rightarrow> jval \<Rightarrow> files \<Rightarrow> files" where
  "migrateModel outputDir m fs =
     (case asObject m of
        None \<Rightarrow> fs
      | Some model \<Rightarrow> writeFile (modelFileName outputDir model) (JObj (migrateModelDeployment model)) fs)"

definition migrateFiles :: "string \<Rightarrow> jobj \<Rightarrow> string \<Rightarrow> files" where
  "migrateFiles outputDir values releaseName =
     (let fs = writeFile (outputDir @ ''/llmplatform.yaml'') (JObj (migratePlatform values releaseName)) []
      in case asObject (goIndex values ''global'') of
           None \<Rightarrow> fs
         | Some glob \<Rightarrow> fold (migrateModel outputDir) (asArray (goIndex glob ''models'')) fs)"

subsection \<open>The two migrations agree\<close>

lemma migrateModelDeployment_eq: "migrateModelDeployment = generateModelDeployment"
  by (rule ext) (simp add: migrateModelDeployment_def generateModelDeployment_def copyKey_def Let_def)

lemma migrateModel_eq: "migrateModel ''generated'' = generateModel"
  by (intro ext) (simp only: migrateModel_def generateModel_def migrateModelDeployment_eq)

lemma migratePlatform_eq: "migratePlatform = generatePlatform"
  by (intro ext) (simp only: migratePlatform_def generatePlatform_def)

text \<open>
  Two migrations, one result. Into the directory \<open>generated\<close> the command and the program write
  the same files with the same objects, for all values, whatever parts of them are missing or have
  another type than expected.
\<close>

theorem migrations_agree: "migrateFiles ''generated'' values rel = generateFiles values rel"
proof -
  have "''generated'' @ ''/llmplatform.yaml'' = ''generated/llmplatform.yaml''" by simp
  then show ?thesis
    unfolding migrateFiles_def generateFiles_def migratePlatform_eq migrateModel_eq by (simp only:)
qed

subsection \<open>What a migration keeps\<close>

text \<open>
  \<open>decodePlatform\<close> is the API server's decoding of the written resource, field by field under the
  names of the struct tags; an absent field is zero. \<open>keptSpec\<close> is the part of a specification that
  survives the way through Helm values and migration.
\<close>

definition decodePlatform :: "jval \<Rightarrow> LLMPlatformSpec" where
  "decodePlatform v = zeroLPSpec\<lparr>
     lps_Gateway := (lps_Gateway zeroLPSpec)\<lparr>
       gw_Enabled := jbool (jpath v [''spec'', ''gateway'', ''enabled'']),
       gw_MasterKey := jstr (jpath v [''spec'', ''gateway'', ''masterKey'']),
       gw_Routing := jstr (jpath v [''spec'', ''gateway'', ''routing'']),
       gw_LangfuseEnabled := jbool (jpath v [''spec'', ''gateway'', ''langfuseEnabled''])\<rparr>,
     lps_Observability := (lps_Observability zeroLPSpec)\<lparr>
       ob_Enabled := jbool (jpath v [''spec'', ''observability'', ''enabled'']),
       ob_Langfuse := \<lparr>et_Enabled = jbool (jpath v [''spec'', ''observability'', ''langfuse'', ''enabled''])\<rparr>\<rparr>,
     lps_Logging := \<lparr>lg_Enabled = jbool (jpath v [''spec'', ''logging'', ''enabled''])\<rparr>,
     lps_Modules := \<lparr>mo_RAG = \<lparr>et_Enabled = jbool (jpath v [''spec'', ''modules'', ''rag'', ''enabled''])\<rparr>,
       mo_Finetune = \<lparr>et_Enabled = jbool (jpath v [''spec'', ''modules'', ''finetune'', ''enabled''])\<rparr>,
       mo_Security = \<lparr>et_Enabled = jbool (jpath v [''spec'', ''modules'', ''security'', ''enabled''])\<rparr>\<rparr>,
     lps_ModelStore := \<lparr>ms_Enabled = jbool (jpath v [''spec'', ''modelStore'', ''enabled'']),
       ms_Endpoint = jstr (jpath v [''spec'', ''modelStore'', ''endpoint'']),
       ms_Bucket = jstr (jpath v [''spec'', ''modelStore'', ''bucket'']),
       ms_AccessKey = jstr (jpath v [''spec'', ''modelStore'', ''accessKey'']),
       ms_SecretKey = jstr (jpath v [''spec'', ''modelStore'', ''secretKey'']),
       ms_HFTransferConcurrency = jint (jpath v [''spec'', ''modelStore'', ''hfTransferConcurrency'']),
       ms_Image = jstr (jpath v [''spec'', ''modelStore'', ''image''])\<rparr>,
     lps_HFToken := jstr (jpath v [''spec'', ''hfToken'']),
     lps_Models := map readModel (jitems (jpath v [''spec'', ''models''])),
     lps_Keycloak := \<lparr>kc_Enabled = jbool (jpath v [''spec'', ''keycloak'', ''enabled''])\<rparr>,
     lps_PostgreSQL := \<lparr>pg_Enabled = jbool (jpath v [''spec'', ''postgresql'', ''enabled''])\<rparr>,
     lps_KEDA := \<lparr>kd_Enabled = jbool (jpath v [''spec'', ''keda'', ''enabled''])\<rparr>,
     lps_NodePort := \<lparr>np_Enabled = jbool (jpath v [''spec'', ''nodePort'', ''enabled'']),
       np_Host = jstr (jpath v [''spec'', ''nodePort'', ''host''])\<rparr>,
     lps_Ingress := \<lparr>ig_Enabled = jbool (jpath v [''spec'', ''ingress'', ''enabled'']),
       ig_ClassName = jstr (jpath v [''spec'', ''ingress'', ''className'']),
       ig_Host = jstr (jpath v [''spec'', ''ingress'', ''host''])\<rparr>,
     lps_Headlamp := \<lparr>et_Enabled = jbool (jpath v [''spec'', ''headlamp'', ''enabled''])\<rparr>\<rparr>"

definition keptSpec :: "LLMPlatformSpec \<Rightarrow> LLMPlatformSpec" where
  "keptSpec s = zeroLPSpec\<lparr>
     lps_Gateway := (lps_Gateway zeroLPSpec)\<lparr>gw_Enabled := gw_Enabled (lps_Gateway s)\<rparr>,
     lps_Observability := (lps_Observability zeroLPSpec)\<lparr>ob_Enabled := ob_Enabled (lps_Observability s)\<rparr>,
     lps_Modules := lps_Modules s,
     lps_ModelStore := (lps_ModelStore s)\<lparr>ms_Enabled := False\<rparr>,
     lps_NodePort := lps_NodePort s\<rparr>"

text \<open>The migrated specification of a platform's own values.\<close>

lemma goIndex_values:
  "goIndex (TranslateValues p) ''litellm'' = JObj (litellmValues (lps_Gateway (lp_Spec p)))"
  "goIndex (TranslateValues p) ''observability'' = enabledObj (ob_Enabled (lps_Observability (lp_Spec p)))"
  "goIndex (TranslateValues p) ''global'' = JObj (globalValues (lp_Spec p))"
  "goIndex (litellmValues g) ''enabled'' = JBool (gw_Enabled g)"
  by (simp_all add: goIndex_def TranslateValues_path litellmValues_path(1))

lemma migratePlatform_values:
  "migratePlatform (TranslateValues p) name =
     [(''apiVersion'', JStr ''llmops.kubellmops.io/v1alpha1''), (''kind'', JStr ''LLMPlatform''),
      (''metadata'', JObj [(''name'', JStr name)]),
      (''spec'', JObj
        [(''gateway'', enabledObj (gw_Enabled (lps_Gateway (lp_Spec p)))),
         (''observability'', enabledObj (ob_Enabled (lps_Observability (lp_Spec p)))),
         (''modules'', the (map_of (globalValues (lp_Spec p)) ''modules'')),
         (''modelStore'', the (map_of (globalValues (lp_Spec p)) ''modelStore'')),
         (''nodePort'', the (map_of (globalValues (lp_Spec p)) ''nodePort''))])]"
  unfolding migratePlatform_def
  by (simp add: goIndex_values) (simp add: goIndex_def globalValues_path(1,2,5))

text \<open>
  C38 (what a migration keeps). The platform resource that is generated from the values of a
  platform's own release has, of the specification, exactly: the switches of gateway and
  observability, the modules, the node port and the model store, the last without its switch, which
  Helm keeps in another place. Everything else comes back as zero: master key and routing, Langfuse,
  logging, Keycloak, PostgreSQL, KEDA, ingress, the HuggingFace token, Headlamp.
\<close>

theorem migration_keeps:
  "decodePlatform (JObj (migratePlatform (TranslateValues p) name)) = keptSpec (lp_Spec p)"
  unfolding migratePlatform_values
  by (rule LLMPlatformSpec.equality)
     (simp_all add: decodePlatform_def keptSpec_def zeroLPSpec_def globalValues_path(1,2,5) off_def)

text \<open>The decoding of a ModelDeployment, and what of a model's entry in the platform survives.\<close>

fun decodeResources :: "jval option \<Rightarrow> ModelResources" where
  "decodeResources (Some v) = \<lparr>mr_GPU = jint (jget v ''gpu''), mr_Memory = jstr (jget v ''memory''),
     mr_CPU = jstr (jget v ''cpu'')\<rparr>"
| "decodeResources None = zeroResources"

fun decodeInt :: "jval option \<Rightarrow> int option" where
  "decodeInt (Some (JInt n)) = Some n"
| "decodeInt _ = None"

definition decodeModelDeployment :: "jval \<Rightarrow> string \<times> ModelDeploymentSpec" where
  "decodeModelDeployment v =
     (jstr (jpath v [''metadata'', ''name'']),
      zeroMDSpec\<lparr>mds_Source := jstr (jpath v [''spec'', ''source'']),
        mds_Engine := jstr (jpath v [''spec'', ''engine'']),
        mds_Replicas := decodeInt (jpath v [''spec'', ''replicas'']),
        mds_Resources := decodeResources (jpath v [''spec'', ''resources'']),
        mds_EngineArgs := jstrings (jpath v [''spec'', ''engineArgs''])\<rparr>)"

lemma copyKeys_lookup:
  "map_of (fold (copyKey m) keys spec) k =
     (if k \<in> set keys \<and> map_of m k \<noteq> None then map_of m k else map_of spec k)"
  by (induction keys arbitrary: spec) (auto simp: copyKey_def split: option.split)

lemma copyKeys_path:
  "map_of (fold (copyKey m) [''replicas'', ''resources'', ''engineArgs'', ''engine''] [(''source'', v)]) k =
     (if k \<in> {''replicas'', ''resources'', ''engineArgs'', ''engine''} then map_of m k
      else if k = ''source'' then Some v else None)"
  unfolding copyKeys_lookup list.set by (cases "map_of m k") (simp_all add: map_of.simps)

lemma modelValues_resources:
  "decodeResources (map_of (modelValues m) ''resources'') = mdl_Resources m"
  by (simp add: modelValues_def Let_def map_of_jset_if)

lemma modelValues_read:
  "jstr (map_of (modelValues m) ''engine'') = mdl_Engine m"
  "decodeInt (map_of (modelValues m) ''replicas'') = (if mdl_Replicas m > 0 then Some (mdl_Replicas m) else None)"
  "jstrings (map_of (modelValues m) ''engineArgs'') = mdl_EngineArgs m"
  by (simp_all add: modelValues_path jstrings_stringMap)

text \<open>
  A migrated model is the model: The ModelDeployment that is generated from a model's entry in
  the values of a platform has the model's name, source, engine, resources and engine arguments, and
  its replica count when that is positive; nothing else is set.
\<close>

theorem migration_keeps_model:
  "decodeModelDeployment (JObj (migrateModelDeployment (modelValues m))) =
     (mdl_Name m, zeroMDSpec\<lparr>mds_Source := mdl_Source m, mds_Engine := mdl_Engine m,
        mds_Replicas := (if mdl_Replicas m > 0 then Some (mdl_Replicas m) else None),
        mds_Resources := mdl_Resources m, mds_EngineArgs := mdl_EngineArgs m\<rparr>)"
  unfolding migrateModelDeployment_def decodeModelDeployment_def Let_def
  by (simp add: goIndex_def modelValues_path(1,2) copyKeys_path modelValues_resources modelValues_read
      del: fold_simps fold.simps)

end
