(* ===== verification/Operator.thy ===== *)
theory Operator
  imports ModelDeploymentGoals FineTuneRunCtl LLMPlatformCtl
begin

section \<open>The operator process (cmd/main.go)\<close>

text \<open>
  How \<open>main\<close> puts the reconcilers together from the environment: the gateway client by
  \<open>GATEWAY_URL\<close> and \<open>GATEWAY_MASTER_KEY\<close>, the chart by \<open>CHART_PATH\<close>, the release name of the
  workflows. The manager, its flags, certificates and health checks are controller-runtime's.
\<close>

definition gatewayFromEnv ::
  "('w, 'e) transport \<Rightarrow> (string \<Rightarrow> string) \<Rightarrow> ('w, 'e) gatewayClient" where
  "gatewayFromEnv T getenv =
     (let gatewayURL = getenv ''GATEWAY_URL''; gatewayMasterKey = getenv ''GATEWAY_MASTER_KEY'' in
      if gatewayURL \<noteq> '''' then httpGateway (NewHTTPClient T gatewayURL gatewayMasterKey) else NoopClient)"

definition mainModelDeployments ::
  "('w, 'e) kube \<Rightarrow> 'e klib \<Rightarrow> ('w, 'e) transport \<Rightarrow> (string \<Rightarrow> string) \<Rightarrow> ('w, 'e) MDReconciler" where
  "mainModelDeployments K lib T getenv =
     \<lparr>mdr_Client = K, mdr_Lib = lib, mdr_GatewayClient = Some (gatewayFromEnv T getenv)\<rparr>"

definition mainPlatforms ::
  "('w, 'e) kube \<Rightarrow> 'e klib \<Rightarrow> ('w, 'e, 'cfg, 'chart) helmSDK \<Rightarrow> (string \<Rightarrow> string) \<Rightarrow> ('w, 'e) LPReconciler" where
  "mainPlatforms K lib sdk getenv = sdkReconciler K lib sdk (getenv ''CHART_PATH'')"

definition mainFineTuneRuns :: "('w, 'e) kube \<Rightarrow> 'e klib \<Rightarrow> ('w, 'e) FTRReconciler" where
  "mainFineTuneRuns K lib = \<lparr>ftrr_Client = K, ftrr_Lib = lib, ftrr_ReleaseName = ''kube-llmops''\<rparr>"

lemma mainModelDeployments_eq:
  "mainModelDeployments K lib T getenv = reconcilerOf K lib (Some (gatewayFromEnv T getenv))"
  by (simp add: mainModelDeployments_def reconcilerOf_def)

context http_transport
begin

lemma http_apart: "gateway_client (httpGateway (NewHTTPClient T baseURL masterKey)) view"
  by unfold_locales

end

text \<open>Whatever the environment says, the gateway client leaves the cluster alone when its network does.\<close>

lemma env_gateway_apart:
  assumes "\<forall>q w. view (snd (run_state (Do T q) w)) = view w"
  shows "gatewayApart (Some (gatewayFromEnv T getenv)) view"
proof (cases "getenv ''GATEWAY_URL'' = ''''")
  case True
  then show ?thesis by (simp add: gatewayFromEnv_def noop_apart)
next
  case False
  have "http_transport T view" by unfold_locales (use assms in blast)
  then have "gateway_client (httpGateway (NewHTTPClient T (getenv ''GATEWAY_URL'') (getenv ''GATEWAY_MASTER_KEY''))) view"
    by (rule http_transport.http_apart)
  with False show ?thesis by (simp add: gatewayFromEnv_def gatewayApart_def Let_def)
qed

end
