(* ===== verification/Cli.thy ===== *)
theory Cli
  imports Effects ApiTypes "HOL-Library.AList"
begin

section \<open>The command line: errors, environment, printing\<close>

text \<open>
  What the commands of \<open>kubectl llmops\<close> share (\<open>internal/cli/util\<close>, \<open>internal/cli/printer\<close>,
  \<open>cmd/kubectl-llmops/main.go\<close>): errors with exit codes, the connection to a cluster, names derived
  from model sources, the printed tables, loops that poll. A command is a function of the world, like
  a reconcile; what it calls (client-go, standard input and output, the clock) is the record \<open>cliEnv\<close>.
\<close>

subsection \<open>Errors and exit codes\<close>

definition ExitOK :: int where "ExitOK = 0"
definition ExitError :: int where "ExitError = 1"
definition ExitNotFound :: int where "ExitNotFound = 2"
definition ExitTimeout :: int where "ExitTimeout = 3"

text \<open>
  How a command ends otherwise than well: with a \<open>*util.CLIError\<close> (its code and message), with any
  other error, or with a panic (the nil pointer of a request that could not be built).
\<close>

datatype 'e cliError = CLIError int string | OtherError "'e error" | Crash

text \<open>\<open>strconv.Quote\<close>, the verb \<open>%q\<close>, on ASCII; bytes from 128 on are left alone.\<close>

definition quoteByte :: "char \<Rightarrow> string" where
  "quoteByte c =
     (let n = of_char c :: nat; hex = (\<lambda>i. ''0123456789abcdef'' ! i) in
      if c = CHR 0x22 then [CHR 0x5C, CHR 0x22]
      else if c = CHR 0x5C then [CHR 0x5C, CHR 0x5C]
      else case map_of [(7, CHR ''a''), (8, CHR ''b''), (9, CHR ''t''), (10, CHR ''n''), (11, CHR ''v''),
                        (12, CHR ''f''), (13, CHR ''r'')] n of
             Some d \<Rightarrow> [CHR 0x5C, d]
           | None \<Rightarrow> if n < 32 \<or> n = 127 then [CHR 0x5C, CHR ''x'', hex (n div 16), hex (n mod 16)] else [c])"

definition Quote :: "string \<Rightarrow> string" where
  "Quote s = CHR 0x22 # concat (map quoteByte s) @ [CHR 0x22]"

definition NotFoundError :: "string \<Rightarrow> string \<Rightarrow> string \<Rightarrow> 'e cliError" where
  "NotFoundError kind name ns =
     CLIError ExitNotFound (kind @ '' '' @ Quote name @ '' not found in namespace '' @ Quote ns)"

definition TimeoutError :: "string \<Rightarrow> string \<Rightarrow> 'e cliError" where
  "TimeoutError kind name =
     CLIError ExitTimeout (''timed out waiting for '' @ kind @ '' '' @ Quote name @ '' to become ready'')"

text \<open>
  The exit status of \<open>kubectl-llmops\<close> (\<open>errors.As\<close> in \<open>main\<close>); the Go runtime ends a panicking
  process with status 2.
\<close>

fun exitStatus :: "'e cliError option \<Rightarrow> int" where
  "exitStatus None = ExitOK"
| "exitStatus (Some (CLIError code message)) = code"
| "exitStatus (Some (OtherError err)) = ExitError"
| "exitStatus (Some Crash) = 2"

definition cmdStatus :: "'e cliError + unit \<Rightarrow> int" where
  "cmdStatus r = exitStatus (case r of Inl e \<Rightarrow> Some e | Inr u \<Rightarrow> None)"

lemma cmdStatus_simps [simp]:
  "cmdStatus (Inl (CLIError code text)) = code"
  "cmdStatus (Inl (OtherError err)) = ExitError"
  "cmdStatus (Inl Crash) = 2"
  "cmdStatus (Inr u) = ExitOK"
  by (simp_all add: cmdStatus_def)

subsection \<open>Names and services\<close>

definition SlugFromSource :: "string \<Rightarrow> string" where
  "SlugFromSource source =
     (let name = ToLower (AfterLast source (CHR ''/''))
      in if length name > 63 then take 63 name else name)"

record ServiceInfo =
  si_Name :: string
  si_Port :: int
  si_LocalPort :: int

definition ServiceMap :: "string \<rightharpoonup> ServiceInfo" where
  "ServiceMap =
     [''gateway'' \<mapsto> \<lparr>si_Name = ''kube-llmops-litellm'', si_Port = 4000, si_LocalPort = 4000\<rparr>,
      ''grafana'' \<mapsto> \<lparr>si_Name = ''kube-llmops-grafana'', si_Port = 3000, si_LocalPort = 3000\<rparr>,
      ''langfuse'' \<mapsto> \<lparr>si_Name = ''kube-llmops-langfuse'', si_Port = 3000, si_LocalPort = 3001\<rparr>,
      ''dify'' \<mapsto> \<lparr>si_Name = ''kube-llmops-dify-web'', si_Port = 3000, si_LocalPort = 5001\<rparr>,
      ''minio'' \<mapsto> \<lparr>si_Name = ''kube-llmops-minio'', si_Port = 9001, si_LocalPort = 9001\<rparr>]"

subsection \<open>Printing\<close>

text \<open>
  What is written to standard output: text, a table (a list of rows of cells, before the tabwriter
  aligns it) or objects in an encoding, JSON or YAML.
\<close>

datatype printed =
    Text string
  | Table "string list list"
  | EncodedMDs string "ModelDeployment list"
  | EncodedFTRs string "FineTuneRun list"
  | EncodedLP string LLMPlatform

abbreviation Line :: "string \<Rightarrow> printed" where
  "Line s \<equiv> Text (s @ [CHR 0x0A])"

definition apiVersion :: string where
  "apiVersion = ''llmops.kubellmops.io/v1alpha1''"

definition ensureMDTypeMeta :: "ModelDeployment list \<Rightarrow> ModelDeployment list" where
  "ensureMDTypeMeta items =
     map (\<lambda>md. md\<lparr>md_TypeMeta := \<lparr>tm_APIVersion = apiVersion, tm_Kind = ''ModelDeployment''\<rparr>\<rparr>) items"

definition replicasCell :: "ModelDeployment \<Rightarrow> string" where
  "replicasCell md = showInt (mdst_ReadyReplicas (md_Status md)) @ ''/'' @ showInt (mdst_TotalReplicas (md_Status md))"

definition printMDTable :: "ModelDeployment list \<Rightarrow> bool \<Rightarrow> printed" where
  "printMDTable items wide =
     Table ((if wide then [''NAME'', ''ENGINE'', ''REPLICAS'', ''PHASE'', ''ENDPOINT'', ''SOURCE'']
             else [''NAME'', ''ENGINE'', ''REPLICAS'', ''PHASE'']) #
       map (\<lambda>md. if wide then [md_Name md, mdst_Engine (md_Status md), replicasCell md, mdst_Phase (md_Status md),
                              mdst_Endpoint (md_Status md), mds_Source (md_Spec md)]
                 else [md_Name md, mdst_Engine (md_Status md), replicasCell md, mdst_Phase (md_Status md)]) items)"

definition PrintModelDeployments :: "string \<Rightarrow> ModelDeployment list \<Rightarrow> printed" where
  "PrintModelDeployments format items =
     (if format = ''json'' then EncodedMDs ''json'' (ensureMDTypeMeta items)
      else if format = ''yaml'' then EncodedMDs ''yaml'' (ensureMDTypeMeta items)
      else if format = ''wide'' then printMDTable items True
      else printMDTable items False)"

definition printFTRTable :: "FineTuneRun list \<Rightarrow> printed" where
  "printFTRTable items =
     Table ([''NAME'', ''BASE MODEL'', ''METHOD'', ''PHASE'', ''LOSS'', ''DURATION''] #
       map (\<lambda>f. [ftr_Name f, fts_BaseModel (ftr_Spec f), fts_Method (ftr_Spec f), ftst_Phase (ftr_Status f),
                 tmx_TrainLoss (ftst_Metrics (ftr_Status f)), tmx_TrainingDuration (ftst_Metrics (ftr_Status f))]) items)"

definition PrintFineTuneRuns :: "string \<Rightarrow> FineTuneRun list \<Rightarrow> printed" where
  "PrintFineTuneRuns format items =
     (let items = (if format = ''json'' \<or> format = ''yaml'' then
            map (\<lambda>f. f\<lparr>ftr_TypeMeta := \<lparr>tm_APIVersion = apiVersion, tm_Kind = ''FineTuneRun''\<rparr>\<rparr>) items
          else items)
      in if format = ''json'' then EncodedFTRs ''json'' items
         else if format = ''yaml'' then EncodedFTRs ''yaml'' items
         else printFTRTable items)"

definition printComponent :: "string \<Rightarrow> ComponentStatus option \<Rightarrow> string list list" where
  "printComponent name cs =
     (case cs of None \<Rightarrow> [] | Some cs \<Rightarrow> [[''  '' @ name, cst_Phase cs, cst_Endpoint cs]])"

definition printPlatformTable :: "LLMPlatform \<Rightarrow> printed" where
  "printPlatformTable lp =
     (let c = lpst_Components (lp_Status lp) in
      Table ([''COMPONENT'', ''PHASE'', ''ENDPOINT''] # [''Platform'', lpst_Phase (lp_Status lp), ''''] #
        printComponent ''Gateway'' (cps_Gateway c) @ printComponent ''Grafana'' (cps_Grafana c) @
        printComponent ''Prometheus'' (cps_Prometheus c) @ printComponent ''Langfuse'' (cps_Langfuse c) @
        printComponent ''MinIO'' (cps_MinIO c) @ printComponent ''PostgreSQL'' (cps_PostgreSQL c) @
        printComponent ''Dify'' (cps_Dify c)))"

definition PrintLLMPlatform :: "string \<Rightarrow> LLMPlatform \<Rightarrow> printed" where
  "PrintLLMPlatform format lp =
     (let lp = (if format = ''json'' \<or> format = ''yaml'' then
            lp\<lparr>lp_TypeMeta := \<lparr>tm_APIVersion = apiVersion, tm_Kind = ''LLMPlatform''\<rparr>\<rparr> else lp)
      in if format = ''json'' then EncodedLP ''json'' lp
         else if format = ''yaml'' then EncodedLP ''yaml'' lp
         else printPlatformTable lp)"

subsection \<open>The environment of a command\<close>

record flags =
  fl_namespace :: string
  fl_output :: string
  fl_kubeconfig :: string
  fl_kubeCtx :: string

text \<open>
  What the commands call: building a client configuration, the client of the custom resources
  (\<open>Cr\<dots>\<close>), pods and their logs, standard output and input, the clock. The predicates on errors are
  those of \<open>k8s.io/apimachinery/pkg/api/errors\<close>.
\<close>

record ('w, 'e) cliEnv =
  ClientConfig :: "string \<Rightarrow> string \<Rightarrow> ('w, 'e error option) state"
  ConfigNamespace :: "string \<Rightarrow> string \<Rightarrow> ('w, string) state"
  AddToScheme :: "'e error option"
  NewCRClient :: "('w, 'e error option) state"
  NewClientset :: "('w, 'e error option) state"
  CrGetMD :: "NamespacedName \<Rightarrow> ('w, 'e error + ModelDeployment) state"
  CrListMD :: "string option \<Rightarrow> ('w, 'e error + ModelDeployment list) state"
  CrCreateMD :: "ModelDeployment \<Rightarrow> ('w, 'e error + ModelDeployment) state"
  CrUpdateMD :: "ModelDeployment \<Rightarrow> ('w, 'e error + ModelDeployment) state"
  CrDeleteMD :: "ModelDeployment \<Rightarrow> ('w, 'e error option) state"
  CrGetFTR :: "NamespacedName \<Rightarrow> ('w, 'e error + FineTuneRun) state"
  CrListFTR :: "string option \<Rightarrow> ('w, 'e error + FineTuneRun list) state"
  CrCreateFTR :: "FineTuneRun \<Rightarrow> ('w, 'e error + FineTuneRun) state"
  CrDeleteFTR :: "FineTuneRun \<Rightarrow> ('w, 'e error option) state"
  CrGetLP :: "NamespacedName \<Rightarrow> ('w, 'e error + LLMPlatform) state"
  CrCreateLP :: "LLMPlatform \<Rightarrow> ('w, 'e error + LLMPlatform) state"
  CrUpdateLP :: "LLMPlatform \<Rightarrow> ('w, 'e error + LLMPlatform) state"
  ListPods :: "string \<Rightarrow> string \<Rightarrow> ('w, 'e error + string list) state"
  PodLogs :: "string \<Rightarrow> string \<Rightarrow> string \<Rightarrow> bool \<Rightarrow> int \<Rightarrow> ('w, 'e error + string) state"
  Stdout :: "printed \<Rightarrow> ('w, unit) state"
  ReadAnswer :: "('w, string) state"
  Sleep :: "int \<Rightarrow> ('w, unit) state"
  ErrNotFound :: "'e error \<Rightarrow> bool"
  ErrAlreadyExists :: "'e error \<Rightarrow> bool"

type_synonym ('w, 'e, 'a) cmd = "('w, 'e cliError + 'a) state"

definition cmdBind :: "('w, 'e, 'a) cmd \<Rightarrow> ('a \<Rightarrow> ('w, 'e, 'b) cmd) \<Rightarrow> ('w, 'e, 'b) cmd" where
  "cmdBind m k = State_Monad.bind m (\<lambda>r. case r of Inl e \<Rightarrow> ret (Inl e) | Inr x \<Rightarrow> k x)"

definition cmdOk :: "('w, 'e, unit) cmd" where
  "cmdOk = ret (Inr ())"

definition cmdFail :: "'e cliError \<Rightarrow> ('w, 'e, 'a) cmd" where
  "cmdFail e = ret (Inl e)"

text \<open>A call whose error, or whose result, the command maps to its own.\<close>

definition try_err :: "('e error \<Rightarrow> 'e cliError) \<Rightarrow> ('w, 'e error option) state \<Rightarrow> ('w, 'e, unit) cmd" where
  "try_err f m = State_Monad.bind m (\<lambda>r. ret (case r of Some e \<Rightarrow> Inl (f e) | None \<Rightarrow> Inr ()))"

definition try_get :: "('e error \<Rightarrow> 'e cliError) \<Rightarrow> ('w, 'e error + 'a) state \<Rightarrow> ('w, 'e, 'a) cmd" where
  "try_get f m = State_Monad.bind m (\<lambda>r. ret (case r of Inl e \<Rightarrow> Inl (f e) | Inr x \<Rightarrow> Inr x))"

definition call :: "('w, 'a) state \<Rightarrow> ('w, 'e, 'a) cmd" where
  "call m = State_Monad.bind m (\<lambda>x. ret (Inr x))"

abbreviation wrapped :: "string \<Rightarrow> 'e error \<Rightarrow> 'e cliError" where
  "wrapped text e \<equiv> OtherError (Wrapf text e)"

abbreviation failf :: "string \<Rightarrow> ('w, 'e, 'a) cmd" where
  "failf text \<equiv> cmdFail (OtherError (Errorf text))"

definition print :: "('w, 'e) cliEnv \<Rightarrow> printed \<Rightarrow> ('w, 'e, unit) cmd" where
  "print env out = call (Stdout env out)"

text \<open>\<open>util.NewKubeClients\<close>: of the result only the namespace is computed by the code.\<close>

definition NewKubeClients :: "('w, 'e) cliEnv \<Rightarrow> flags \<Rightarrow> ('w, 'e, string) cmd" where
  "NewKubeClients env fl =
     cmdBind (try_err (wrapped ''unable to connect to cluster'') (ClientConfig env (fl_kubeconfig fl) (fl_kubeCtx fl))) (\<lambda>_.
     cmdBind (if fl_namespace fl = '''' then
                cmdBind (call (ConfigNamespace env (fl_kubeconfig fl) (fl_kubeCtx fl))) (\<lambda>ns.
                  ret (Inr (if ns = '''' then ''default'' else ns)))
              else ret (Inr (fl_namespace fl))) (\<lambda>ns.
     cmdBind (try_err (wrapped ''failed to register CRD scheme'') (ret (AddToScheme env))) (\<lambda>_.
     cmdBind (try_err (wrapped ''failed to create CRD client'') (NewCRClient env)) (\<lambda>_.
     cmdBind (try_err (wrapped ''failed to create clientset'') (NewClientset env)) (\<lambda>_.
       ret (Inr ns))))))"

subsection \<open>Polling\<close>

text \<open>
  A loop that repeats \<open>body\<close> until it yields a result; \<open>None\<close> when it never does.
\<close>

partial_function (option) poll :: "('w, 'r option) state \<Rightarrow> 'w \<Rightarrow> ('r \<times> 'w) option" where
  "poll body w = (case run_state body w of (r, w') \<Rightarrow> (case r of None \<Rightarrow> poll body w' | Some x \<Rightarrow> Some (x, w')))"

text \<open>The world after \<open>n\<close> rounds.\<close>

abbreviation rounds :: "('w, 'r option) state \<Rightarrow> nat \<Rightarrow> 'w \<Rightarrow> 'w" where
  "rounds body n w \<equiv> ((\<lambda>w. snd (run_state body w)) ^^ n) w"

lemma poll_step:
  "poll body w = (case fst (run_state body w) of
     None \<Rightarrow> poll body (snd (run_state body w)) | Some x \<Rightarrow> Some (x, snd (run_state body w)))"
  by (subst poll.simps) (simp add: case_prod_beta)

lemma rounds_Suc: "rounds body (Suc n) w = rounds body n (snd (run_state body w))"
  by (simp only: funpow_Suc_right comp_apply)

lemma poll_skip:
  "\<forall>i<n. fst (run_state body (rounds body i w)) = None \<Longrightarrow> poll body w = poll body (rounds body n w)"
proof (induction n arbitrary: w)
  case (Suc n)
  have 0: "fst (run_state body w) = None" using Suc.prems by (elim allE [of _ 0]) simp
  have "\<forall>i<n. fst (run_state body (rounds body i (snd (run_state body w)))) = None"
    using Suc.prems rounds_Suc by (metis Suc_mono)
  from Suc.IH [OF this] show ?case
    unfolding rounds_Suc by (subst poll_step) (simp add: 0)
qed simp

lemma poll_returns:
  assumes "\<forall>i<n. fst (run_state body (rounds body i w)) = None"
    and "fst (run_state body (rounds body n w)) = Some x"
  shows "poll body w = Some (x, rounds body (Suc n) w)"
  using poll_skip [OF assms(1)] by (simp add: poll_step [of body "rounds body n w"] assms(2))

definition stopsAt :: "('w, 'r option) state \<Rightarrow> nat \<Rightarrow> 'w \<Rightarrow> 'r \<times> 'w \<Rightarrow> bool" where
  "stopsAt body n w r \<longleftrightarrow> (\<forall>i<n. fst (run_state body (rounds body i w)) = None) \<and>
     fst (run_state body (rounds body n w)) = Some (fst r) \<and> snd r = rounds body (Suc n) w"

lemma stopsAt_0: "run_state body w = (Some x, w') \<Longrightarrow> stopsAt body 0 w (x, w')"
  by (simp add: stopsAt_def)

lemma stopsAt_Suc:
  assumes "run_state body w = (None, w')" and "stopsAt body n w' r"
  shows "stopsAt body (Suc n) w r"
proof -
  have s: "rounds body (Suc i) w = rounds body i w'" for i
    unfolding rounds_Suc using assms(1) by simp
  have "fst (run_state body (rounds body i w)) = None" if "i < Suc n" for i
  proof (cases i)
    case 0
    then show ?thesis using assms(1) by simp
  next
    case (Suc j)
    then show ?thesis using assms(2) that s by (simp add: stopsAt_def)
  qed
  then show ?thesis using assms(2) s unfolding stopsAt_def by metis
qed

lemma poll_stops: "poll body w = Some r \<Longrightarrow> \<exists>n. stopsAt body n w r"
proof (rule poll.raw_induct [where P = "\<lambda>body w r. \<exists>n. stopsAt body n w r"], goal_cases)
  case (1 p b u r)
  obtain y v where yv: "run_state b u = (y, v)" by fastforce
  show ?case
  proof (cases y)
    case None
    then have "p b v = Some r" using 1(3) yv by simp
    then obtain n where "stopsAt b n v r" using 1(2) by blast
    then show ?thesis using stopsAt_Suc [OF yv [unfolded None]] by (intro exI)
  next
    case (Some x)
    then have "r = (x, v)" using 1(3) yv by simp
    then show ?thesis using stopsAt_0 [OF yv [unfolded Some]] by (intro exI [of _ 0]) simp
  qed
qed

text \<open>Polling returns exactly when some round yields a result, and then the first such result.\<close>

lemma poll_iff: "poll body w = Some r \<longleftrightarrow> (\<exists>n. stopsAt body n w r)"
proof
  assume "\<exists>n. stopsAt body n w r"
  then obtain n where n: "stopsAt body n w r" ..
  then have "poll body w = Some (fst r, rounds body (Suc n) w)"
    unfolding stopsAt_def by (intro poll_returns) auto
  moreover have "snd r = rounds body (Suc n) w" using n by (simp add: stopsAt_def)
  ultimately show "poll body w = Some r" by (metis prod.collapse)
qed (rule poll_stops)

subsection \<open>Weakest preconditions of commands\<close>

lemma wp_cmdBind [wp_rules]:
  "wp (cmdBind m k) Q w = wp m (\<lambda>r w'. case r of Inl e \<Rightarrow> Q (Inl e) w' | Inr x \<Rightarrow> wp (k x) Q w') w"
  by (simp add: cmdBind_def wp_bind) (simp add: wp_def split: prod.splits sum.splits)

lemma wp_cmd [wp_rules]:
  "wp cmdOk Q w = Q (Inr ()) w"
  "wp (cmdFail e) P w = P (Inl e) w"
  by (simp_all add: cmdOk_def cmdFail_def wp_return)

lemma wp_try_err [wp_rules]:
  "wp (try_err f m) Q w = wp m (\<lambda>r w'. case r of Some e \<Rightarrow> Q (Inl (f e)) w' | None \<Rightarrow> Q (Inr ()) w') w"
  by (simp add: try_err_def wp_bind) (simp add: wp_def split: prod.splits option.splits)

lemma wp_try_get [wp_rules]:
  "wp (try_get f m) Q w = wp m (\<lambda>r w'. case r of Inl e \<Rightarrow> Q (Inl (f e)) w' | Inr x \<Rightarrow> Q (Inr x) w') w"
  by (simp add: try_get_def wp_bind) (simp add: wp_def split: prod.splits sum.splits)

lemma wp_call [wp_rules]: "wp (call m) Q w = wp m (\<lambda>x w'. Q (Inr x) w') w"
  by (simp add: call_def wp_bind wp_return)

lemma wp_print [wp_rules]: "wp (print env out) Q w = wp (Stdout env out) (\<lambda>x w'. Q (Inr x) w') w"
  by (simp add: print_def wp_call)

subsection \<open>Recording the calls of a command\<close>

datatype 'e cliEvent =
    GotMD NamespacedName "'e error + ModelDeployment"
  | ListedMD "string option" "'e error + ModelDeployment list"
  | CreatedMD ModelDeployment "'e error + ModelDeployment"
  | UpdatedMD ModelDeployment "'e error + ModelDeployment"
  | DeletedMD ModelDeployment "'e error option"
  | GotFTR NamespacedName "'e error + FineTuneRun"
  | ListedFTR "string option" "'e error + FineTuneRun list"
  | CreatedFTR FineTuneRun "'e error + FineTuneRun"
  | DeletedFTR FineTuneRun "'e error option"
  | GotLP NamespacedName "'e error + LLMPlatform"
  | CreatedLP LLMPlatform "'e error + LLMPlatform"
  | UpdatedLP LLMPlatform "'e error + LLMPlatform"
  | ListedPods string string "'e error + string list"
  | StreamedLogs string string "'e error + string"
  | Printed printed
  | Asked string

definition silent :: "('w, 'a) state \<Rightarrow> ('w \<times> 'ev list, 'a) state" where
  "silent m = State (\<lambda>(w, tr). case run_state m w of (a, w') \<Rightarrow> (a, (w', tr)))"

lemma wp_silent: "(\<And>a w'. Q a (w', tr)) \<Longrightarrow> wp (silent m) Q (w, tr)"
  by (simp add: wp_def silent_def split: prod.splits)

definition tracedCli :: "('w, 'e) cliEnv \<Rightarrow> ('w \<times> 'e cliEvent list, 'e) cliEnv" where
  "tracedCli env = \<lparr>
     ClientConfig = (\<lambda>p c. silent (ClientConfig env p c)),
     ConfigNamespace = (\<lambda>p c. silent (ConfigNamespace env p c)),
     AddToScheme = AddToScheme env,
     NewCRClient = silent (NewCRClient env),
     NewClientset = silent (NewClientset env),
     CrGetMD = (\<lambda>k. logged (GotMD k) (CrGetMD env k)),
     CrListMD = (\<lambda>n. logged (ListedMD n) (CrListMD env n)),
     CrCreateMD = (\<lambda>x. logged (CreatedMD x) (CrCreateMD env x)),
     CrUpdateMD = (\<lambda>x. logged (UpdatedMD x) (CrUpdateMD env x)),
     CrDeleteMD = (\<lambda>x. logged (DeletedMD x) (CrDeleteMD env x)),
     CrGetFTR = (\<lambda>k. logged (GotFTR k) (CrGetFTR env k)),
     CrListFTR = (\<lambda>n. logged (ListedFTR n) (CrListFTR env n)),
     CrCreateFTR = (\<lambda>x. logged (CreatedFTR x) (CrCreateFTR env x)),
     CrDeleteFTR = (\<lambda>x. logged (DeletedFTR x) (CrDeleteFTR env x)),
     CrGetLP = (\<lambda>k. logged (GotLP k) (CrGetLP env k)),
     CrCreateLP = (\<lambda>x. logged (CreatedLP x) (CrCreateLP env x)),
     CrUpdateLP = (\<lambda>x. logged (UpdatedLP x) (CrUpdateLP env x)),
     ListPods = (\<lambda>n s. logged (ListedPods n s) (ListPods env n s)),
     PodLogs = (\<lambda>n p c f t. logged (StreamedLogs n p) (PodLogs env n p c f t)),
     Stdout = (\<lambda>x. logged (\<lambda>_. Printed x) (Stdout env x)),
     ReadAnswer = logged Asked (ReadAnswer env),
     Sleep = (\<lambda>n. silent (Sleep env n)),
     ErrNotFound = ErrNotFound env,
     ErrAlreadyExists = ErrAlreadyExists env\<rparr>"

text \<open>The writes to the cluster among the recorded calls, with their results.\<close>

fun writeOf :: "'e cliEvent \<Rightarrow> 'e error option option" where
  "writeOf (CreatedMD x r) = Some (failure r)"
| "writeOf (UpdatedMD x r) = Some (failure r)"
| "writeOf (DeletedMD x r) = Some r"
| "writeOf (CreatedFTR x r) = Some (failure r)"
| "writeOf (DeletedFTR x r) = Some r"
| "writeOf (CreatedLP x r) = Some (failure r)"
| "writeOf (UpdatedLP x r) = Some (failure r)"
| "writeOf ev = None"

definition writes :: "'e cliEvent list \<Rightarrow> 'e error option list" where
  "writes es = List.map_filter writeOf es"

lemma writes_simps [simp]:
  "writes [] = []"
  "writes (ev # es) = (case writeOf ev of None \<Rightarrow> writes es | Some r \<Rightarrow> r # writes es)"
  "writes (es @ fs) = writes es @ writes fs"
  by (simp_all add: writes_def map_filter_simps map_filter_def split: option.splits)

lemma tracedCli_wp:
  "(\<And>r w'. Q1 r (w', tr)) \<Longrightarrow> wp (ClientConfig (tracedCli env) a b) Q1 (w, tr)"
  "(\<And>r w'. Q2 r (w', tr)) \<Longrightarrow> wp (ConfigNamespace (tracedCli env) a b) Q2 (w, tr)"
  "(\<And>r w'. Q1 r (w', tr)) \<Longrightarrow> wp (NewCRClient (tracedCli env)) Q1 (w, tr)"
  "(\<And>r w'. Q1 r (w', tr)) \<Longrightarrow> wp (NewClientset (tracedCli env)) Q1 (w, tr)"
  "(\<And>r w'. Q3 r (w', tr @ [GotMD k r])) \<Longrightarrow> wp (CrGetMD (tracedCli env) k) Q3 (w, tr)"
  "(\<And>r w'. Q4 r (w', tr @ [ListedMD n r])) \<Longrightarrow> wp (CrListMD (tracedCli env) n) Q4 (w, tr)"
  "(\<And>r w'. Q11 r (w', tr @ [CreatedMD md r])) \<Longrightarrow> wp (CrCreateMD (tracedCli env) md) Q11 (w, tr)"
  "(\<And>r w'. Q11 r (w', tr @ [UpdatedMD md r])) \<Longrightarrow> wp (CrUpdateMD (tracedCli env) md) Q11 (w, tr)"
  "(\<And>r w'. Q1 r (w', tr @ [DeletedMD md r])) \<Longrightarrow> wp (CrDeleteMD (tracedCli env) md) Q1 (w, tr)"
  "(\<And>r w'. Q5 r (w', tr @ [GotFTR k r])) \<Longrightarrow> wp (CrGetFTR (tracedCli env) k) Q5 (w, tr)"
  "(\<And>r w'. Q6 r (w', tr @ [ListedFTR n r])) \<Longrightarrow> wp (CrListFTR (tracedCli env) n) Q6 (w, tr)"
  "(\<And>r w'. Q12 r (w', tr @ [CreatedFTR f r])) \<Longrightarrow> wp (CrCreateFTR (tracedCli env) f) Q12 (w, tr)"
  "(\<And>r w'. Q1 r (w', tr @ [DeletedFTR f r])) \<Longrightarrow> wp (CrDeleteFTR (tracedCli env) f) Q1 (w, tr)"
  "(\<And>r w'. Q7 r (w', tr @ [GotLP k r])) \<Longrightarrow> wp (CrGetLP (tracedCli env) k) Q7 (w, tr)"
  "(\<And>r w'. Q13 r (w', tr @ [CreatedLP lp r])) \<Longrightarrow> wp (CrCreateLP (tracedCli env) lp) Q13 (w, tr)"
  "(\<And>r w'. Q13 r (w', tr @ [UpdatedLP lp r])) \<Longrightarrow> wp (CrUpdateLP (tracedCli env) lp) Q13 (w, tr)"
  "(\<And>r w'. Q8 r (w', tr @ [ListedPods a b r])) \<Longrightarrow> wp (ListPods (tracedCli env) a b) Q8 (w, tr)"
  "(\<And>r w'. Q9 r (w', tr @ [StreamedLogs a p r])) \<Longrightarrow> wp (PodLogs (tracedCli env) a p c fo ta) Q9 (w, tr)"
  "(\<And>r w'. Q10 r (w', tr @ [Printed out])) \<Longrightarrow> wp (Stdout (tracedCli env) out) Q10 (w, tr)"
  "(\<And>r w'. Q2 r (w', tr @ [Asked r])) \<Longrightarrow> wp (ReadAnswer (tracedCli env)) Q2 (w, tr)"
  "(\<And>r w'. Q10 r (w', tr)) \<Longrightarrow> wp (Sleep (tracedCli env) i) Q10 (w, tr)"
  by (simp_all add: tracedCli_def wp_logged wp_silent)

text \<open>Connecting calls nothing that is recorded; it fails with an error of status 1.\<close>

lemma wp_NewKubeClients:
  assumes "\<And>e w'. Q (Inl (OtherError e)) (w', tr)" and "\<And>ns w'. Q (Inr ns) (w', tr)"
  shows "wp (NewKubeClients (tracedCli env) fl) Q (w, tr)"
  unfolding NewKubeClients_def
  by (auto simp: wp_rules assms split: option.splits intro!: tracedCli_wp)

end
