(* ===== verification/CliModels.thy ===== *)
theory CliModels
  imports Cli Engine Validation
begin

section \<open>The command line: model deployments\<close>

text \<open>
  The commands on model deployments in \<open>internal/cli/cmd\<close>: deploy, scale, delete, endpoint, canary,
  promote, rollback, logs, list and status. Each is the \<open>RunE\<close> function of its cobra command, a
  function of the persistent flags, the arguments and its own flags. Parsing the command line is
  cobra's.
\<close>

subsection \<open>Shared steps\<close>

text \<open>Connect and read a deployment; every error of the read is reported as not found.\<close>

definition withMD ::
  "('w, 'e) cliEnv \<Rightarrow> flags \<Rightarrow> string \<Rightarrow> (string \<Rightarrow> ModelDeployment \<Rightarrow> ('w, 'e, 'a) cmd) \<Rightarrow> ('w, 'e, 'a) cmd" where
  "withMD env fl name body =
     cmdBind (NewKubeClients env fl) (\<lambda>ns.
     cmdBind (try_get (\<lambda>_. NotFoundError ''ModelDeployment'' name ns) (CrGetMD env (ns, name))) (\<lambda>md.
       body ns md))"

text \<open>
  Print the changed deployment on a dry run, update it otherwise; the message may speak of the
  deployment as the API server returned it.
\<close>

definition updateMD ::
  "('w, 'e) cliEnv \<Rightarrow> bool \<Rightarrow> ModelDeployment \<Rightarrow> string \<Rightarrow> (ModelDeployment \<Rightarrow> string) \<Rightarrow> ('w, 'e, unit) cmd" where
  "updateMD env dryRun md failText message =
     (if dryRun then print env (PrintModelDeployments ''yaml'' [md])
      else cmdBind (try_get (wrapped failText) (CrUpdateMD env md)) (\<lambda>md. print env (Line (message md))))"

text \<open>\<open>strings.TrimSpace\<close> on ASCII.\<close>

definition isSpace :: "char \<Rightarrow> bool" where
  "isSpace c \<longleftrightarrow> c \<in> {CHR 0x09, CHR 0x0A, CHR 0x0B, CHR 0x0C, CHR 0x0D, CHR '' ''}"

definition TrimSpace :: "string \<Rightarrow> string" where
  "TrimSpace s = rev (dropWhile isSpace (rev (dropWhile isSpace s)))"

text \<open>The question before a deletion; the result says whether to go on.\<close>

definition confirm :: "('w, 'e) cliEnv \<Rightarrow> bool \<Rightarrow> string \<Rightarrow> ('w, 'e, bool) cmd" where
  "confirm env force what =
     (if force then ret (Inr True)
      else cmdBind (print env (Text (''Are you sure you want to delete '' @ what @ ''? [y/N]: ''))) (\<lambda>_.
           cmdBind (call (ReadAnswer env)) (\<lambda>answer.
             if \<not> HasPrefix (ToLower (TrimSpace answer)) ''y''
             then cmdBind (print env (Line ''Cancelled.'')) (\<lambda>_. ret (Inr False))
             else ret (Inr True))))"

subsection \<open>deploy\<close>

record deployFlags =
  df_name :: string
  df_engine :: string
  df_replicas :: int
  df_gpu :: int
  df_memory :: string
  df_cpu :: string
  df_accelerator :: string
  df_engineArgs :: "string list"
  df_prefixCaching :: bool
  df_dryRun :: bool

definition parseEngineArgs :: "string list \<Rightarrow> (string \<times> string) list" where
  "parseEngineArgs args = fold (\<lambda>a m. case Cut a (CHR ''='') of (k, v) \<Rightarrow> AList.update k v m) args []"

definition buildModelDeployment :: "string \<Rightarrow> deployFlags \<Rightarrow> ModelDeployment" where
  "buildModelDeployment source d =
     (let name = (if df_name d = '''' then SlugFromSource source else df_name d) in
      \<lparr>md_TypeMeta = \<lparr>tm_APIVersion = ''llmops.kubellmops.io/v1alpha1'', tm_Kind = ''ModelDeployment''\<rparr>,
       md_ObjectMeta = emptyMeta\<lparr>om_Name := name\<rparr>,
       md_Spec = zeroMDSpec\<lparr>mds_Source := source, mds_Engine := df_engine d,
         mds_Replicas := Some (df_replicas d),
         mds_Resources := \<lparr>mr_GPU = df_gpu d, mr_Memory = df_memory d, mr_CPU = df_cpu d\<rparr>,
         mds_Accelerator := df_accelerator d, mds_PrefixCaching := df_prefixCaching d,
         mds_EngineArgs := (if length (df_engineArgs d) > 0 then parseEngineArgs (df_engineArgs d) else [])\<rparr>,
       md_Status = zeroMDStatus\<rparr>)"

definition inNamespace :: "string \<Rightarrow> ModelDeployment \<Rightarrow> ModelDeployment" where
  "inNamespace ns md = md\<lparr>md_ObjectMeta := (md_ObjectMeta md)\<lparr>om_Namespace := ns\<rparr>\<rparr>"

definition newDeployCmd :: "('w, 'e) cliEnv \<Rightarrow> flags \<Rightarrow> string \<Rightarrow> deployFlags \<Rightarrow> ('w, 'e, unit) cmd" where
  "newDeployCmd env fl source d =
     (let md = inNamespace (fl_namespace fl) (buildModelDeployment source d) in
      if df_dryRun d then print env (PrintModelDeployments ''yaml'' [md])
      else
        cmdBind (NewKubeClients env fl) (\<lambda>ns.
        let md = inNamespace ns md in
        cmdBind (try_get (\<lambda>err.
            if ErrNotFound env err then
              OtherError (Errorf (''ModelDeployment CRD not found. Install the operator first:'' @ [CHR 0x0A] @
                ''  helm install kube-llmops-operator charts/kube-llmops-operator/''))
            else if ErrAlreadyExists env err then
              OtherError (Errorf (''ModelDeployment '' @ Quote (md_Name md) @ '' already exists. Use '' @
                [CHR 0x27] @ ''kubectl llmops scale'' @ [CHR 0x27] @ '' to update replicas or '' @
                [CHR 0x27] @ ''kubectl llmops canary'' @ [CHR 0x27] @ '' for model updates''))
            else wrapped ''failed to create ModelDeployment'' err) (CrCreateMD env md)) (\<lambda>md.
          print env (Line (''ModelDeployment '' @ Quote (md_Name md) @ '' created (engine: '' @
            ResolveEngine source (df_engine d) @ '')'')))))"

subsection \<open>scale, delete, endpoint\<close>

definition newScaleCmd :: "('w, 'e) cliEnv \<Rightarrow> flags \<Rightarrow> string \<Rightarrow> int \<Rightarrow> bool \<Rightarrow> ('w, 'e, unit) cmd" where
  "newScaleCmd env fl name replicas dryRun =
     withMD env fl name (\<lambda>ns md.
       updateMD env dryRun (md\<lparr>md_Spec := (md_Spec md)\<lparr>mds_Replicas := Some replicas\<rparr>\<rparr>) ''failed to scale''
         (\<lambda>_. ''ModelDeployment '' @ Quote name @ '' scaled to '' @ showInt replicas @ '' replicas''))"

definition newDeleteCmd :: "('w, 'e) cliEnv \<Rightarrow> flags \<Rightarrow> string \<Rightarrow> bool \<Rightarrow> ('w, 'e, unit) cmd" where
  "newDeleteCmd env fl name force =
     cmdBind (confirm env force (''ModelDeployment '' @ Quote name)) (\<lambda>goOn.
       if \<not> goOn then cmdOk
       else withMD env fl name (\<lambda>ns md.
         cmdBind (try_err (wrapped ''failed to delete'') (CrDeleteMD env md)) (\<lambda>_.
           print env (Line (''ModelDeployment '' @ Quote name @ '' deleted.'')))))"

definition newEndpointCmd :: "('w, 'e) cliEnv \<Rightarrow> flags \<Rightarrow> string \<Rightarrow> ('w, 'e, unit) cmd" where
  "newEndpointCmd env fl name =
     withMD env fl name (\<lambda>ns md.
       if mdst_Endpoint (md_Status md) = '''' then
         failf (''ModelDeployment '' @ Quote name @ '' has no endpoint yet (phase: '' @
           mdst_Phase (md_Status md) @ '')'')
       else print env (Line (mdst_Endpoint (md_Status md))))"

subsection \<open>canary, promote, rollback\<close>

definition applyCanary :: "ModelDeployment \<Rightarrow> string \<Rightarrow> int \<Rightarrow> ModelDeployment" where
  "applyCanary md target weight =
     md\<lparr>md_Spec := (md_Spec md)\<lparr>mds_Canary :=
       Some \<lparr>cc_Source = target, cc_Weight = weight, cc_Resources = zeroResources\<rparr>\<rparr>\<rparr>"

text \<open>\<open>applyPromote\<close> dereferences the canary: \<open>None\<close> is the panic of a deployment without one.\<close>

definition applyPromote :: "ModelDeployment \<Rightarrow> ModelDeployment option" where
  "applyPromote md =
     (case mds_Canary (md_Spec md) of
        None \<Rightarrow> None
      | Some c \<Rightarrow> Some (md\<lparr>md_Spec := (md_Spec md)\<lparr>mds_Source := cc_Source c, mds_Canary := None\<rparr>\<rparr>))"

definition applyRollback :: "ModelDeployment \<Rightarrow> ModelDeployment" where
  "applyRollback md = md\<lparr>md_Spec := (md_Spec md)\<lparr>mds_Canary := None\<rparr>\<rparr>"

definition newCanaryCmd ::
  "('w, 'e) cliEnv \<Rightarrow> flags \<Rightarrow> string \<Rightarrow> string \<Rightarrow> int \<Rightarrow> bool \<Rightarrow> ('w, 'e, unit) cmd" where
  "newCanaryCmd env fl name target weight dryRun =
     withMD env fl name (\<lambda>ns md.
       updateMD env dryRun (applyCanary md target weight) ''failed to update canary''
         (\<lambda>_. ''Canary configured: target='' @ target @ '' weight='' @ showInt weight @ ''%''))"

definition newPromoteCmd :: "('w, 'e) cliEnv \<Rightarrow> flags \<Rightarrow> string \<Rightarrow> bool \<Rightarrow> ('w, 'e, unit) cmd" where
  "newPromoteCmd env fl name dryRun =
     withMD env fl name (\<lambda>ns md.
       case mds_Canary (md_Spec md) of
         None \<Rightarrow> failf (''ModelDeployment '' @ Quote name @ '' has no canary configured'')
       | Some c \<Rightarrow>
           let newSource = cc_Source c in
           (case applyPromote md of
              None \<Rightarrow> cmdFail Crash
            | Some md' \<Rightarrow> updateMD env dryRun md' ''failed to promote''
                (\<lambda>_. ''Promoted: source updated to '' @ Quote newSource @ '', canary removed'')))"

definition newRollbackCmd :: "('w, 'e) cliEnv \<Rightarrow> flags \<Rightarrow> string \<Rightarrow> bool \<Rightarrow> ('w, 'e, unit) cmd" where
  "newRollbackCmd env fl name dryRun =
     withMD env fl name (\<lambda>ns md.
       if mds_Canary (md_Spec md) = None
       then failf (''ModelDeployment '' @ Quote name @ '' has no canary configured'')
       else updateMD env dryRun (applyRollback md) ''failed to rollback''
         (\<lambda>md. ''Rolled back: canary removed, source unchanged ('' @ Quote (mds_Source (md_Spec md)) @ '')''))"

subsection \<open>logs\<close>

definition newLogsCmd ::
  "('w, 'e) cliEnv \<Rightarrow> flags \<Rightarrow> string \<Rightarrow> bool \<Rightarrow> int \<Rightarrow> string \<Rightarrow> ('w, 'e, unit) cmd" where
  "newLogsCmd env fl name follow tail container =
     cmdBind (NewKubeClients env fl) (\<lambda>ns.
     cmdBind (try_get (wrapped ''failed to list pods'')
       (ListPods env ns (''kube-llmops/model='' @ name))) (\<lambda>pods.
       case pods of
         [] \<Rightarrow> cmdFail (NotFoundError ''pods for model'' name ns)
       | podName # _ \<Rightarrow>
           cmdBind (try_get (wrapped ''failed to stream logs'')
             (PodLogs env ns podName container follow tail)) (\<lambda>stream.
             print env (Text stream))))"

subsection \<open>list and status\<close>

text \<open>
  The two commands that watch. A round of their loop ends the command (\<open>Some\<close> of its result) or
  lets it go on.
\<close>

definition clearScreen :: string where
  "clearScreen = CHR 0x1B # ''[2J'' @ CHR 0x1B # ''[H''"

definition nextRound :: "('w, 'e) cliEnv \<Rightarrow> bool \<Rightarrow> ('w, ('e cliError + unit) option) state" where
  "nextRound env watch =
     (if \<not> watch then ret (Some (Inr ()))
      else do { _ \<leftarrow> Sleep env 2; _ \<leftarrow> Stdout env (Text clearScreen); ret None })"

definition listRound ::
  "('w, 'e) cliEnv \<Rightarrow> flags \<Rightarrow> bool \<Rightarrow> bool \<Rightarrow> string \<Rightarrow> ('w, ('e cliError + unit) option) state" where
  "listRound env fl allNamespaces watch ns = do {
     r \<leftarrow> CrListMD env (if \<not> allNamespaces then Some ns else None);
     (case r of
        Inl err \<Rightarrow> ret (Some (Inl (wrapped ''failed to list ModelDeployments'' err)))
      | Inr items \<Rightarrow> do {
          _ \<leftarrow> Stdout env (if length items = 0 then Line ''No model deployments found.''
                          else PrintModelDeployments (fl_output fl) items);
          nextRound env watch })
   }"

definition conditionLine :: "Condition \<Rightarrow> string" where
  "conditionLine c = ''  '' @ c_Type c @ '': '' @ c_Status c @ '' ('' @ c_Message c @ '')'' @ [CHR 0x0A]"

definition statusDetails :: "ModelDeployment \<Rightarrow> string" where
  "statusDetails md =
     [CHR 0x0A] @ ''Conditions:'' @ [CHR 0x0A] @ concat (map conditionLine (mdst_Conditions (md_Status md))) @
     (case mdst_Canary (md_Status md) of
        None \<Rightarrow> ''''
      | Some c \<Rightarrow> [CHR 0x0A] @ ''Canary: phase='' @ cs_Phase c @ '' endpoint='' @ cs_Endpoint c @
          '' replicas='' @ showInt (cs_ReadyReplicas c) @ [CHR 0x0A])"

definition statusRound ::
  "('w, 'e) cliEnv \<Rightarrow> flags \<Rightarrow> string \<Rightarrow> bool \<Rightarrow> string \<Rightarrow> ('w, ('e cliError + unit) option) state" where
  "statusRound env fl name watch ns = do {
     r \<leftarrow> CrGetMD env (ns, name);
     (case r of
        Inl err \<Rightarrow> ret (Some (Inl (NotFoundError ''ModelDeployment'' name ns)))
      | Inr md \<Rightarrow> do {
          _ \<leftarrow> Stdout env (PrintModelDeployments (fl_output fl) [md]);
          _ \<leftarrow> (if fl_output fl = ''table'' \<or> fl_output fl = ''wide''
                then Stdout env (Text (statusDetails md)) else ret ());
          nextRound env watch })
   }"

definition cmdLoop ::
  "('w, 'e, 'a) cmd \<Rightarrow> ('a \<Rightarrow> ('w, ('e cliError + unit) option) state) \<Rightarrow> 'w \<Rightarrow> (('e cliError + unit) \<times> 'w) option" where
  "cmdLoop m body w =
     (case run_state m w of (r, w') \<Rightarrow>
        (case r of Inl e \<Rightarrow> Some (Inl e, w') | Inr x \<Rightarrow> poll (body x) w'))"

definition newListCmd ::
  "('w, 'e) cliEnv \<Rightarrow> flags \<Rightarrow> bool \<Rightarrow> bool \<Rightarrow> 'w \<Rightarrow> (('e cliError + unit) \<times> 'w) option" where
  "newListCmd env fl allNamespaces watch =
     cmdLoop (NewKubeClients env fl) (listRound env fl allNamespaces watch)"

definition newStatusCmd ::
  "('w, 'e) cliEnv \<Rightarrow> flags \<Rightarrow> string \<Rightarrow> bool \<Rightarrow> 'w \<Rightarrow> (('e cliError + unit) \<times> 'w) option" where
  "newStatusCmd env fl name watch =
     cmdLoop (NewKubeClients env fl) (statusRound env fl name watch)"

end
