(* ===== verification/CliHttp.thy ===== *)
theory CliHttp
  imports Cli Gateway Json Complex_Main
begin

section \<open>The command line: JSON, HTTP bodies and number formats\<close>

text \<open>
  What the commands that speak to the gateway and to Dify use of Go's library: encoding and reading
  JSON, base64, multipart forms, the verbs \<open>%-36s\<close> and \<open>%.4f\<close>, reading a body by lines. Decoding
  bytes is a parameter, \<open>Unmarshal\<close>: its result is the map it leaves, or \<open>None\<close> for an error.
\<close>

subsection \<open>Encoding\<close>

definition joinWith :: "string \<Rightarrow> string list \<Rightarrow> string" where
  "joinWith sep xs = (case xs of [] \<Rightarrow> [] | y # ys \<Rightarrow> y @ concat (map (\<lambda>z. sep @ z) ys))"

text \<open>\<open>json.Marshal\<close>: objects with their keys in order.\<close>

fun Marshal :: "jval \<Rightarrow> string" where
  "Marshal JNull = ''null''"
| "Marshal (JBool b) = (if b then ''true'' else ''false'')"
| "Marshal (JInt i) = showInt i"
| "Marshal (JStr s) = jsonQuote s"
| "Marshal (JArr xs) = ''['' @ joinWith '','' (map Marshal xs) @ '']''"
| "Marshal (JObj m) =
     ''{'' @ joinWith '','' (map snd (sort_key fst (map (\<lambda>(k, v). (k, jsonKey k @ Marshal v)) m))) @ ''}''"

subsection \<open>Decoded values\<close>

text \<open>
  The dynamic types of an \<open>interface{}\<close> that \<open>json.Unmarshal\<close> fills; a number is the exact value of
  its float64.
\<close>

datatype json =
    Null
  | Bool bool
  | Number rat
  | Str string
  | Array "json list"
  | Object "(string \<times> json) list"

type_synonym jsonMap = "(string \<times> json) list"

definition jsonAt :: "jsonMap \<Rightarrow> string \<Rightarrow> json" where
  "jsonAt m k = (case map_of m k of None \<Rightarrow> Null | Some v \<Rightarrow> v)"

text \<open>Type assertions: with a test, and those that take the zero value on failure.\<close>

fun isArray :: "json \<Rightarrow> json list option" where
  "isArray (Array xs) = Some xs"
| "isArray _ = None"

fun isObject :: "json \<Rightarrow> jsonMap option" where
  "isObject (Object m) = Some m"
| "isObject _ = None"

fun isString :: "json \<Rightarrow> string option" where
  "isString (Str s) = Some s"
| "isString _ = None"

definition orZero :: "'a \<Rightarrow> 'a option \<Rightarrow> 'a" where
  "orZero z x = (case x of None \<Rightarrow> z | Some y \<Rightarrow> y)"

fun asNumber :: "json \<Rightarrow> rat" where
  "asNumber (Number r) = r"
| "asNumber _ = 0"

abbreviation "asList j \<equiv> orZero [] (isArray j)"
abbreviation "asMap j \<equiv> orZero [] (isObject j)"
abbreviation "asString j \<equiv> orZero [] (isString j)"

text \<open>
  \<open>jl_Unmarshal\<close> decodes into a \<open>map[string]interface{}\<close>; \<open>jl_verbS\<close> is what \<open>%s\<close> writes for a
  value that is not a string.
\<close>

record jsonLib =
  jl_Unmarshal :: "string \<Rightarrow> jsonMap option"
  jl_verbS :: "json \<Rightarrow> string"

text \<open>\<open>json.Unmarshal\<close> with its error ignored.\<close>

definition decoded :: "jsonLib \<Rightarrow> string \<Rightarrow> jsonMap" where
  "decoded jl body = orZero [] (jl_Unmarshal jl body)"

definition verbS :: "jsonLib \<Rightarrow> json \<Rightarrow> string" where
  "verbS jl j = (case j of Str s \<Rightarrow> s | _ \<Rightarrow> jl_verbS jl j)"

subsection \<open>Formats\<close>

text \<open>\<open>%-ns\<close> on ASCII.\<close>

definition padRight :: "nat \<Rightarrow> string \<Rightarrow> string" where
  "padRight n s = s @ replicate (n - length s) (CHR '' '')"

text \<open>Round to the nearest integer, ties to even; then \<open>%.nf\<close>.\<close>

definition roundEven :: "rat \<Rightarrow> int" where
  "roundEven x =
     (let f = \<lfloor>x\<rfloor>; d = x - of_int f in
      if d < 1 / 2 \<or> d = 1 / 2 \<and> even f then f else f + 1)"

definition padLeftZeros :: "nat \<Rightarrow> string \<Rightarrow> string" where
  "padLeftZeros n s = replicate (n - length s) (CHR ''0'') @ s"

definition fixedPoint :: "nat \<Rightarrow> rat \<Rightarrow> string" where
  "fixedPoint n x =
     (let m = nat (roundEven (\<bar>x\<bar> * 10 ^ n)) in
      (if x < 0 then ''-'' else []) @ showNat (m div 10 ^ n) @
      (if n = 0 then [] else ''.'' @ padLeftZeros n (showNat (m mod 10 ^ n))))"

subsection \<open>Lines of a body: bufio.Scanner\<close>

text \<open>
  The lines of a text without their ends; a last line without an end counts when it is not empty.
  The scanner gives up at a line that its buffer of 64 KiB cannot hold.
\<close>

fun linesFrom :: "string \<Rightarrow> string \<Rightarrow> string list" where
  "linesFrom acc [] = (if acc = [] then [] else [rev acc])"
| "linesFrom acc (c # s) = (if c = CHR 0x0A then rev acc # linesFrom [] s else linesFrom (c # acc) s)"

definition dropCR :: "string \<Rightarrow> string" where
  "dropCR l = (if l \<noteq> [] \<and> last l = CHR 0x0D then butlast l else l)"

definition maxToken :: nat where
  "maxToken = 64 * 1024"

definition scanLines :: "string \<Rightarrow> string list" where
  "scanLines body = map dropCR (takeWhile (\<lambda>l. length l < maxToken) (linesFrom [] body))"

subsection \<open>Base64\<close>

definition base64Alphabet :: string where
  "base64Alphabet = ''ABCDEFGHIJKLMNOPQRSTUVWXYZabcdefghijklmnopqrstuvwxyz0123456789+/''"

definition b64 :: "nat \<Rightarrow> char" where
  "b64 i = base64Alphabet ! (i mod 64)"

fun EncodeBytes :: "nat list \<Rightarrow> string" where
  "EncodeBytes (a # b # c # rest) =
     b64 (a div 4) # b64 (a * 16 + b div 16) # b64 (b * 4 + c div 64) # b64 c # EncodeBytes rest"
| "EncodeBytes [a, b] = [b64 (a div 4), b64 (a * 16 + b div 16), b64 (b * 4), CHR ''='']"
| "EncodeBytes [a] = [b64 (a div 4), b64 (a * 16), CHR ''='', CHR ''='']"
| "EncodeBytes [] = []"

definition EncodeToString :: "string \<Rightarrow> string" where
  "EncodeToString s = EncodeBytes (map of_char s)"

subsection \<open>Multipart forms\<close>

definition crlf :: string where
  "crlf = [CHR 0x0D, CHR 0x0A]"

text \<open>The escaping of a file name, for names without line ends.\<close>

definition escapeQuotes :: "string \<Rightarrow> string" where
  "escapeQuotes s = concat (map (\<lambda>c. if c = backslash \<or> c = quoteChar then [backslash, c] else [c]) s)"

definition inQuotes :: "string \<Rightarrow> string" where
  "inQuotes s = quoteChar # s @ [quoteChar]"

definition multipartBody :: "string \<Rightarrow> string \<Rightarrow> string \<Rightarrow> string" where
  "multipartBody boundary fileName content =
     ''--'' @ boundary @ crlf @
     ''Content-Disposition: form-data; name='' @ inQuotes ''file'' @ ''; filename='' @ inQuotes (escapeQuotes fileName) @ crlf @
     ''Content-Type: application/octet-stream'' @ crlf @ crlf @
     content @ crlf @
     ''--'' @ boundary @ crlf @
     ''Content-Disposition: form-data; name='' @ inQuotes ''source'' @ crlf @ crlf @
     ''datasets'' @ crlf @
     ''--'' @ boundary @ ''--'' @ crlf"

text \<open>\<open>filepath.Base\<close> of a path with slashes.\<close>

definition Base :: "string \<Rightarrow> string" where
  "Base path =
     (if path = [] then ''.''
      else let p = TrimRight path (CHR ''/'') in if p = [] then ''/'' else AfterLast p (CHR ''/''))"

subsection \<open>Facts\<close>

lemma asList_simps [simp]: "asList (Array xs) = xs" "asList Null = []"
  by (simp_all add: orZero_def)

lemma asMap_simps [simp]: "asMap (Object m) = m" "asMap Null = []"
  by (simp_all add: orZero_def)

lemma asString_simps [simp]: "asString (Str s) = s" "asString Null = []"
  by (simp_all add: orZero_def)

lemma orZero_simps [simp]: "orZero z None = z" "orZero z (Some x) = x"
  by (simp_all add: orZero_def)

end
