(* ===== verification/CliPlatform.thy ===== *)
theory CliPlatform
  imports CliModels CliHttp
begin

section \<open>The command line: fine-tuning, the platform, test and port-forward\<close>

text \<open>
  The commands \<open>finetune create|list|status|logs|delete\<close>, \<open>platform init|status|update\<close>,
  \<open>dashboard\<close>, \<open>test\<close> and \<open>port-forward\<close> of \<open>internal/cli/cmd\<close>.
\<close>

subsection \<open>finetune\<close>

record createFlags =
  cf_baseModel :: string
  cf_outputName :: string
  cf_method :: string
  cf_dataSource :: string
  cf_dataFormat :: string
  cf_epochs :: int
  cf_batchSize :: int
  cf_learningRate :: string
  cf_loraRank :: int
  cf_loraAlpha :: int
  cf_gpu :: int
  cf_eval :: bool
  cf_qualityGate :: bool
  cf_autoDeploy :: bool
  cf_canaryWeight :: int
  cf_dryRun :: bool

definition inferDataSourceType :: "string \<Rightarrow> string" where
  "inferDataSourceType path =
     (if HasPrefix path ''s3://'' \<or> HasPrefix path ''minio://'' then ''minio''
      else if HasPrefix path ''/'' then ''pvc''
      else if HasPrefix path ''hf://'' then ''huggingface''
      else ''huggingface'')"

definition buildFineTuneRun :: "createFlags \<Rightarrow> FineTuneRun" where
  "buildFineTuneRun c =
     \<lparr>ftr_TypeMeta = \<lparr>tm_APIVersion = ''llmops.kubellmops.io/v1alpha1'', tm_Kind = ''FineTuneRun''\<rparr>,
      ftr_ObjectMeta = emptyMeta\<lparr>om_Name := cf_outputName c\<rparr>,
      ftr_Spec = zeroFTRSpec\<lparr>
        fts_BaseModel := cf_baseModel c, fts_OutputName := cf_outputName c, fts_Method := cf_method c,
        fts_DataSource := \<lparr>ds_Type = inferDataSourceType (cf_dataSource c), ds_Path = cf_dataSource c,
          ds_Format = cf_dataFormat c\<rparr>,
        fts_Training := zeroTraining\<lparr>tr_Epochs := cf_epochs c, tr_BatchSize := cf_batchSize c,
          tr_LearningRate := cf_learningRate c, tr_LoraRank := cf_loraRank c, tr_LoraAlpha := cf_loraAlpha c\<rparr>,
        fts_Resources := \<lparr>mr_GPU = cf_gpu c, mr_Memory = ''16Gi'', mr_CPU = ''4''\<rparr>,
        fts_Evaluation := \<lparr>ev_Enabled = cf_eval c, ev_Dataset = ''''\<rparr>,
        fts_QualityGate := \<lparr>qg_Enabled = cf_qualityGate c,
          qg_Thresholds = \<lparr>qt_MinEvalLoss = '''', qt_MaxTrainLoss = ''''\<rparr>\<rparr>,
        fts_Deploy := \<lparr>dp_Enabled = cf_autoDeploy c, dp_CanaryWeight = cf_canaryWeight c\<rparr>\<rparr>,
      ftr_Status = zeroFTRStatus\<rparr>"

definition newFinetuneCreateCmd :: "('w, 'e) cliEnv \<Rightarrow> flags \<Rightarrow> createFlags \<Rightarrow> ('w, 'e, unit) cmd" where
  "newFinetuneCreateCmd env fl c =
     (if cf_qualityGate c \<and> \<not> cf_eval c then failf ''--quality-gate requires --eval''
      else let ftr = buildFineTuneRun c in
        if cf_dryRun c then print env (PrintFineTuneRuns ''yaml'' [ftr])
        else cmdBind (NewKubeClients env fl) (\<lambda>ns.
          let ftr = ftr\<lparr>ftr_ObjectMeta := (ftr_ObjectMeta ftr)\<lparr>om_Namespace := ns\<rparr>\<rparr> in
          cmdBind (try_get (wrapped ''failed to create FineTuneRun'') (CrCreateFTR env ftr)) (\<lambda>ftr.
            print env (Line (''FineTuneRun '' @ Quote (ftr_Name ftr) @ '' created'')))))"

definition newFinetuneListCmd :: "('w, 'e) cliEnv \<Rightarrow> flags \<Rightarrow> bool \<Rightarrow> ('w, 'e, unit) cmd" where
  "newFinetuneListCmd env fl allNamespaces =
     cmdBind (NewKubeClients env fl) (\<lambda>ns.
     cmdBind (try_get (wrapped ''failed to list FineTuneRuns'')
       (CrListFTR env (if \<not> allNamespaces then Some ns else None))) (\<lambda>items.
       if length items = 0 then print env (Line ''No fine-tuning runs found.'')
       else print env (PrintFineTuneRuns (fl_output fl) items)))"

definition withFTR ::
  "('w, 'e) cliEnv \<Rightarrow> flags \<Rightarrow> string \<Rightarrow> (string \<Rightarrow> FineTuneRun \<Rightarrow> ('w, 'e, 'a) cmd) \<Rightarrow> ('w, 'e, 'a) cmd" where
  "withFTR env fl name body =
     cmdBind (NewKubeClients env fl) (\<lambda>ns.
     cmdBind (try_get (\<lambda>_. NotFoundError ''FineTuneRun'' name ns) (CrGetFTR env (ns, name))) (\<lambda>ftr.
       body ns ftr))"

text \<open>\<open>%v\<close> of a bool.\<close>

definition showBool :: "bool \<Rightarrow> string" where
  "showBool b = (if b then ''true'' else ''false'')"

definition ftDetails :: "FineTuneRun \<Rightarrow> string" where
  "ftDetails ftr =
     (let ml = ftst_MLflow (ftr_Status ftr); qg = ftst_QualityGate (ftr_Status ftr) in
      (if ml_RunID ml \<noteq> '''' then [CHR 0x0A] @ ''MLflow: run='' @ ml_RunID ml @ '' experiment='' @
         ml_ExperimentName ml @ [CHR 0x0A] else '''') @
      (if qgs_Message qg \<noteq> '''' then ''Quality Gate: passed='' @ showBool (qgs_Passed qg) @ '' '' @
         qgs_Message qg @ [CHR 0x0A] else ''''))"

definition newFinetuneStatusCmd :: "('w, 'e) cliEnv \<Rightarrow> flags \<Rightarrow> string \<Rightarrow> ('w, 'e, unit) cmd" where
  "newFinetuneStatusCmd env fl name =
     withFTR env fl name (\<lambda>ns ftr.
       cmdBind (print env (PrintFineTuneRuns (fl_output fl) [ftr])) (\<lambda>_.
         if fl_output fl = ''table'' then print env (Text (ftDetails ftr)) else cmdOk))"

text \<open>An error of the listing and an empty list are treated alike; the last pod is chosen.\<close>

definition newFinetuneLogsCmd ::
  "('w, 'e) cliEnv \<Rightarrow> flags \<Rightarrow> string \<Rightarrow> bool \<Rightarrow> string \<Rightarrow> ('w, 'e, unit) cmd" where
  "newFinetuneLogsCmd env fl name follow step =
     withFTR env fl name (\<lambda>ns ftr.
       let wf = ftst_ArgoWorkflow (ftr_Status ftr) in
       if wf = '''' then
         failf (''FineTuneRun '' @ Quote name @ '' has no Argo Workflow yet (phase: '' @
           ftst_Phase (ftr_Status ftr) @ '')'')
       else
         let labelSelector = ''workflows.argoproj.io/workflow='' @ wf;
             labelSelector = (if step \<noteq> ''''
               then labelSelector @ '',workflows.argoproj.io/node-name='' @ wf @ ''.'' @ step
               else labelSelector);
             noPods = OtherError (Errorf (''no workflow pods found for '' @ Quote name)) in
         cmdBind (try_get (\<lambda>_. noPods) (ListPods env ns labelSelector)) (\<lambda>pods.
           if length pods = 0 then cmdFail noPods
           else
             cmdBind (try_get (wrapped ''failed to stream logs'')
               (PodLogs env ns (pods ! (length pods - 1)) ''main'' follow 100)) (\<lambda>stream.
               print env (Text stream))))"

definition newFinetuneDeleteCmd :: "('w, 'e) cliEnv \<Rightarrow> flags \<Rightarrow> string \<Rightarrow> bool \<Rightarrow> ('w, 'e, unit) cmd" where
  "newFinetuneDeleteCmd env fl name force =
     cmdBind (confirm env force (''FineTuneRun '' @ Quote name)) (\<lambda>goOn.
       if \<not> goOn then cmdOk
       else withFTR env fl name (\<lambda>ns ftr.
         cmdBind (try_err (wrapped ''failed to delete'') (CrDeleteFTR env ftr)) (\<lambda>_.
           print env (Line (''FineTuneRun '' @ Quote name @ '' deleted.'')))))"

subsection \<open>platform\<close>

record initFlags =
  if_gateway :: bool
  if_observability :: bool
  if_logging :: bool
  if_rag :: bool
  if_finetune :: bool
  if_security :: bool
  if_nodeportHost :: string
  if_dryRun :: bool

definition toggle :: "bool \<Rightarrow> EnabledToggle" where
  "toggle b = \<lparr>et_Enabled = b\<rparr>"

definition buildLLMPlatform :: "initFlags \<Rightarrow> LLMPlatform" where
  "buildLLMPlatform i =
     \<lparr>lp_TypeMeta = \<lparr>tm_APIVersion = ''llmops.kubellmops.io/v1alpha1'', tm_Kind = ''LLMPlatform''\<rparr>,
      lp_ObjectMeta = emptyMeta\<lparr>om_Name := ''kube-llmops''\<rparr>,
      lp_Spec = zeroLPSpec\<lparr>
        lps_Gateway := (lps_Gateway zeroLPSpec)\<lparr>gw_Enabled := if_gateway i\<rparr>,
        lps_Observability := (lps_Observability zeroLPSpec)\<lparr>ob_Enabled := if_observability i\<rparr>,
        lps_Logging := \<lparr>lg_Enabled = if_logging i\<rparr>,
        lps_Modules := \<lparr>mo_RAG = toggle (if_rag i), mo_Finetune = toggle (if_finetune i),
          mo_Security = toggle (if_security i)\<rparr>,
        lps_ModelStore := (lps_ModelStore zeroLPSpec)\<lparr>ms_Enabled := True,
          ms_Endpoint := ''kube-llmops-minio:9000'', ms_Bucket := ''models'',
          ms_AccessKey := ''minioadmin'', ms_SecretKey := ''minioadmin''\<rparr>,
        lps_PostgreSQL := \<lparr>pg_Enabled = True\<rparr>,
        lps_NodePort := (if if_nodeportHost i \<noteq> '''' then \<lparr>np_Enabled = True, np_Host = if_nodeportHost i\<rparr>
          else lps_NodePort zeroLPSpec)\<rparr>,
      lp_Status = zeroLPStatus\<rparr>"

definition newPlatformInitCmd :: "('w, 'e) cliEnv \<Rightarrow> flags \<Rightarrow> initFlags \<Rightarrow> ('w, 'e, unit) cmd" where
  "newPlatformInitCmd env fl i =
     (let lp = buildLLMPlatform i in
      if if_dryRun i then print env (PrintLLMPlatform ''yaml'' lp)
      else cmdBind (NewKubeClients env fl) (\<lambda>ns.
        let lp = lp\<lparr>lp_ObjectMeta := (lp_ObjectMeta lp)\<lparr>om_Namespace := ns\<rparr>\<rparr> in
        cmdBind (try_get (wrapped ''failed to create LLMPlatform'') (CrCreateLP env lp)) (\<lambda>lp.
          print env (Line (''LLMPlatform '' @ Quote (lp_Name lp) @ '' created'')))))"

definition quoted :: "string \<Rightarrow> string" where
  "quoted s = CHR 0x27 # s @ [CHR 0x27]"

definition newPlatformStatusCmd :: "('w, 'e) cliEnv \<Rightarrow> flags \<Rightarrow> ('w, 'e, unit) cmd" where
  "newPlatformStatusCmd env fl =
     cmdBind (NewKubeClients env fl) (\<lambda>ns.
     cmdBind (try_get (\<lambda>_. OtherError (Errorf (''LLMPlatform not found. Run '' @
         quoted ''kubectl llmops platform init'' @ '' first''))) (CrGetLP env (ns, ''kube-llmops''))) (\<lambda>lp.
       print env (PrintLLMPlatform (fl_output fl) lp)))"

definition setModule :: "string \<Rightarrow> bool \<Rightarrow> LLMPlatform \<Rightarrow> LLMPlatform" where
  "setModule modul enabled lp =
     (let spec = lp_Spec lp; mods = lps_Modules spec in
      if modul = ''rag'' then lp\<lparr>lp_Spec := spec\<lparr>lps_Modules := mods\<lparr>mo_RAG := toggle enabled\<rparr>\<rparr>\<rparr>
      else if modul = ''finetune'' then lp\<lparr>lp_Spec := spec\<lparr>lps_Modules := mods\<lparr>mo_Finetune := toggle enabled\<rparr>\<rparr>\<rparr>
      else if modul = ''security'' then lp\<lparr>lp_Spec := spec\<lparr>lps_Modules := mods\<lparr>mo_Security := toggle enabled\<rparr>\<rparr>\<rparr>
      else if modul = ''logging'' then lp\<lparr>lp_Spec := spec\<lparr>lps_Logging := \<lparr>lg_Enabled = enabled\<rparr>\<rparr>\<rparr>
      else lp)"

definition setModules :: "string list \<Rightarrow> string list \<Rightarrow> LLMPlatform \<Rightarrow> LLMPlatform" where
  "setModules enable disable lp =
     fold (\<lambda>m. setModule m False) disable (fold (\<lambda>m. setModule m True) enable lp)"

definition newPlatformUpdateCmd ::
  "('w, 'e) cliEnv \<Rightarrow> flags \<Rightarrow> string list \<Rightarrow> string list \<Rightarrow> bool \<Rightarrow> ('w, 'e, unit) cmd" where
  "newPlatformUpdateCmd env fl enable disable dryRun =
     cmdBind (NewKubeClients env fl) (\<lambda>ns.
     cmdBind (try_get (\<lambda>_. OtherError (Errorf ''LLMPlatform not found'')) (CrGetLP env (ns, ''kube-llmops''))) (\<lambda>lp.
       let lp = setModules enable disable lp in
       if dryRun then print env (PrintLLMPlatform ''yaml'' lp)
       else cmdBind (try_get (wrapped ''failed to update'') (CrUpdateLP env lp)) (\<lambda>_.
         print env (Line ''LLMPlatform updated.''))))"

subsection \<open>dashboard\<close>

text \<open>A read of the platform whose error the command ignores.\<close>

definition tryPlatform :: "('w, 'e) cliEnv \<Rightarrow> string \<Rightarrow> ('w, 'e, LLMPlatform option) cmd" where
  "tryPlatform env ns =
     cmdBind (call (CrGetLP env (ns, ''kube-llmops''))) (\<lambda>r.
       ret (Inr (case r of Inl err \<Rightarrow> None | Inr lp \<Rightarrow> Some lp)))"

definition nodePortHost :: "LLMPlatform \<Rightarrow> string option" where
  "nodePortHost lp =
     (let np = lps_NodePort (lp_Spec lp) in
      if np_Enabled np \<and> np_Host np \<noteq> '''' then Some (np_Host np) else None)"

definition localPort :: "string \<Rightarrow> int" where
  "localPort service = (case ServiceMap service of None \<Rightarrow> 0 | Some info \<Rightarrow> si_LocalPort info)"

text \<open>Opening the browser is the parameter; its result is not used.\<close>

definition newDashboardCmd :: "('w, 'e) cliEnv \<Rightarrow> (string \<Rightarrow> ('w, unit) state) \<Rightarrow> flags \<Rightarrow> ('w, 'e, unit) cmd" where
  "newDashboardCmd env openBrowser fl =
     cmdBind (NewKubeClients env fl) (\<lambda>ns.
     cmdBind (tryPlatform env ns) (\<lambda>lp.
       let fallback = print env (Line (''http://localhost:'' @ showInt (localPort ''grafana'') @ [CHR 0x0A] @
             ''(Run '' @ quoted ''kubectl llmops port-forward --service=grafana'' @ '' first if not accessible)'')) in
       case lp of
         None \<Rightarrow> fallback
       | Some lp \<Rightarrow>
           (case nodePortHost lp of
              Some host \<Rightarrow>
                cmdBind (print env (Line (''http://'' @ host @ '':30300''))) (\<lambda>_.
                  call (openBrowser (''http://'' @ host @ '':30300'')))
            | None \<Rightarrow>
                (case cps_Grafana (lpst_Components (lp_Status lp)) of
                   None \<Rightarrow> fallback
                 | Some g \<Rightarrow>
                     if cst_Endpoint g \<noteq> '''' then print env (Line (cst_Endpoint g)) else fallback))))"

subsection \<open>test\<close>

definition chatBody :: "string \<Rightarrow> string \<Rightarrow> bool \<Rightarrow> jval" where
  "chatBody name prompt stream =
     JObj [(''model'', JStr name),
           (''messages'', JArr [JObj [(''role'', JStr ''user''), (''content'', JStr prompt)]]),
           (''stream'', JBool stream)]"

text \<open>The first choice of an answer, when it is an object.\<close>

definition firstChoice :: "jsonMap \<Rightarrow> jsonMap option" where
  "firstChoice m =
     (case isArray (jsonAt m ''choices'') of
        None \<Rightarrow> None
      | Some [] \<Rightarrow> None
      | Some (choice # _) \<Rightarrow> isObject choice)"

text \<open>The text of one chunk of a stream.\<close>

definition deltaContent :: "jsonMap \<Rightarrow> string option" where
  "deltaContent chunk =
     Option.bind (firstChoice chunk) (\<lambda>choice.
     Option.bind (isObject (jsonAt choice ''delta'')) (\<lambda>delta. isString (jsonAt delta ''content'')))"

text \<open>The loop over the lines of a stream: what is written, in order.\<close>

fun streamOut :: "jsonLib \<Rightarrow> string list \<Rightarrow> printed list" where
  "streamOut jl [] = []"
| "streamOut jl (line # rest) =
     (if \<not> HasPrefix line ''data: '' then streamOut jl rest
      else let data = drop 6 line in
        if data = ''[DONE]'' then [Text [CHR 0x0A]]
        else (case jl_Unmarshal jl data of
            None \<Rightarrow> streamOut jl rest
          | Some chunk \<Rightarrow>
              (case deltaContent chunk of
                 None \<Rightarrow> streamOut jl rest
               | Some content \<Rightarrow> Text content # streamOut jl rest)))"

fun printAll :: "('w, 'e) cliEnv \<Rightarrow> printed list \<Rightarrow> ('w, 'e, unit) cmd" where
  "printAll env [] = cmdOk"
| "printAll env (out # outs) = cmdBind (print env out) (\<lambda>_. printAll env outs)"

text \<open>The answer that is not streamed.\<close>

definition answerOut :: "jsonLib \<Rightarrow> string \<Rightarrow> printed" where
  "answerOut jl respBody =
     (case firstChoice (decoded jl respBody) of
        None \<Rightarrow> Line respBody
      | Some choice \<Rightarrow>
          (case isObject (jsonAt choice ''message'') of
             None \<Rightarrow> Line respBody
           | Some msg \<Rightarrow> Line (verbS jl (jsonAt msg ''content''))))"

definition gatewayURL :: "string \<Rightarrow> LLMPlatform option \<Rightarrow> string" where
  "gatewayURL ns lp =
     (let url = (case ServiceMap ''gateway'' of
            Some info \<Rightarrow> ''http://'' @ si_Name info @ ''.'' @ ns @ ''.svc.cluster.local:'' @ showInt (si_Port info)
          | None \<Rightarrow> ''http://.'' @ ns @ ''.svc.cluster.local:0'')
      in case Option.bind lp nodePortHost of None \<Rightarrow> url | Some host \<Rightarrow> ''http://'' @ host @ '':30400'')"

definition newTestCmd ::
  "('w, 'e) cliEnv \<Rightarrow> ('w, 'e) transport \<Rightarrow> jsonLib \<Rightarrow> flags \<Rightarrow> string \<Rightarrow> string \<Rightarrow> bool \<Rightarrow> ('w, 'e, unit) cmd" where
  "newTestCmd env T jl fl name prompt stream =
     withMD env fl name (\<lambda>ns md.
       let modelType = ResolveModelType (mds_Source (md_Spec md)) in
       if modelType \<noteq> ''llm'' then
         failf (''model '' @ Quote name @ '' is an '' @ modelType @ '' model and does not support chat'')
       else
         cmdBind (tryPlatform env ns) (\<lambda>lp.
         let url = gatewayURL ns lp in
         if NewRequestError T ''POST'' (url @ ''/v1/chat/completions'') \<noteq> None then cmdFail Crash
         else
           cmdBind (try_get (\<lambda>_. OtherError (Errorf (''LiteLLM gateway is not reachable at '' @ url @ ''. Check '' @
               quoted ''kubectl llmops platform status'')))
             (Do T \<lparr>rq_Method = ''POST'', rq_URL = url @ ''/v1/chat/completions'',
                    rq_Header = [''Content-Type'' \<mapsto> ''application/json''],
                    rq_Body = Marshal (chatBody name prompt stream)\<rparr>)) (\<lambda>resp.
             if rs_StatusCode resp \<noteq> 200 then
               failf (''gateway returned '' @ showInt (rs_StatusCode resp) @ '': '' @ rs_Body resp)
             else if stream then printAll env (streamOut jl (scanLines (rs_Body resp)))
             else print env (answerOut jl (rs_Body resp)))))"

subsection \<open>port-forward\<close>

text \<open>
  An address of an endpoint names its target by kind and name, or nothing. The pod is the target of
  the first address of a subset that is one, from the first subset where it has a name.
\<close>

type_synonym endpointSubset = "(string \<times> string) option list"

definition podOf :: "endpointSubset \<Rightarrow> string" where
  "podOf addrs =
     (case List.find (\<lambda>a. case a of None \<Rightarrow> False | Some (kind, name) \<Rightarrow> kind = ''Pod'') addrs of
        Some (Some (kind, name)) \<Rightarrow> name | _ \<Rightarrow> '''')"

fun readyPod :: "endpointSubset list \<Rightarrow> string" where
  "readyPod [] = ''''"
| "readyPod (addrs # rest) = (let podName = podOf addrs in if podName \<noteq> '''' then podName else readyPod rest)"

record ('w, 'e) forwarder =
  GetEndpoints :: "NamespacedName \<Rightarrow> ('w, 'e error + endpointSubset list) state"
  RoundTripper :: "'e error option"
  NewForwarder :: "NamespacedName \<Rightarrow> string \<Rightarrow> 'e error option"
  ForwardPorts :: "NamespacedName \<Rightarrow> string \<Rightarrow> ('w, 'e error option) state"

definition arrow :: string where
  "arrow = [CHR 0xE2, CHR 0x86, CHR 0x92]"

definition newPortForwardCmd ::
  "('w, 'e) cliEnv \<Rightarrow> ('w, 'e) forwarder \<Rightarrow> flags \<Rightarrow> string \<Rightarrow> ('w, 'e, unit) cmd" where
  "newPortForwardCmd env pf fl service =
     (case ServiceMap service of
        None \<Rightarrow> failf (''unknown service '' @ Quote service @ ''. Valid: gateway, grafana, langfuse, dify, minio'')
      | Some info \<Rightarrow>
          cmdBind (NewKubeClients env fl) (\<lambda>ns.
          cmdBind (try_get (\<lambda>_. OtherError (Errorf (''service '' @ Quote (si_Name info) @ '' not found in namespace '' @ Quote ns)))
            (GetEndpoints pf (ns, si_Name info))) (\<lambda>subsets.
          let podName = readyPod subsets;
              portMapping = showInt (si_LocalPort info) @ '':'' @ showInt (si_Port info) in
          if podName = '''' then failf (''no ready pods found for service '' @ Quote (si_Name info))
          else
            cmdBind (try_err (wrapped ''failed to create transport'') (ret (RoundTripper pf))) (\<lambda>_.
            cmdBind (try_err (wrapped ''failed to create port-forward'') (ret (NewForwarder pf (ns, podName) portMapping))) (\<lambda>_.
            cmdBind (print env (Line (''Forwarding '' @ si_Name info @ '':'' @ showInt (si_Port info) @ '' '' @ arrow @
              '' localhost:'' @ showInt (si_LocalPort info)))) (\<lambda>_.
              try_err OtherError (ForwardPorts pf (ns, podName) portMapping)))))))"

end
