(* ===== verification/CliProps.thy ===== *)
theory CliProps
  imports CliPlatform
begin

section \<open>What the commands ask of the cluster\<close>

text \<open>
  The commands that do not loop, as one type, and what their recorded calls satisfy for every
  cluster: which objects they write, how often, and which exit status they end with.
\<close>

datatype command =
    Deploy string deployFlags
  | Scale string int bool
  | Delete string bool
  | Endpoint string
  | Canary string string int bool
  | Promote string bool
  | Rollback string bool
  | Logs string bool int string
  | FinetuneCreate createFlags
  | FinetuneList bool
  | FinetuneStatus string
  | FinetuneLogs string bool string
  | FinetuneDelete string bool
  | PlatformInit initFlags
  | PlatformStatus
  | PlatformUpdate "string list" "string list" bool

text \<open>The dispatch of the root command.\<close>

fun runCommand :: "('w, 'e) cliEnv \<Rightarrow> flags \<Rightarrow> command \<Rightarrow> ('w, 'e, unit) cmd" where
  "runCommand env fl (Deploy source d) = newDeployCmd env fl source d"
| "runCommand env fl (Scale name replicas dryRun) = newScaleCmd env fl name replicas dryRun"
| "runCommand env fl (Delete name force) = newDeleteCmd env fl name force"
| "runCommand env fl (Endpoint name) = newEndpointCmd env fl name"
| "runCommand env fl (Canary name target weight dryRun) = newCanaryCmd env fl name target weight dryRun"
| "runCommand env fl (Promote name dryRun) = newPromoteCmd env fl name dryRun"
| "runCommand env fl (Rollback name dryRun) = newRollbackCmd env fl name dryRun"
| "runCommand env fl (Logs name follow tail container) = newLogsCmd env fl name follow tail container"
| "runCommand env fl (FinetuneCreate c) = newFinetuneCreateCmd env fl c"
| "runCommand env fl (FinetuneList allNamespaces) = newFinetuneListCmd env fl allNamespaces"
| "runCommand env fl (FinetuneStatus name) = newFinetuneStatusCmd env fl name"
| "runCommand env fl (FinetuneLogs name follow step) = newFinetuneLogsCmd env fl name follow step"
| "runCommand env fl (FinetuneDelete name force) = newFinetuneDeleteCmd env fl name force"
| "runCommand env fl (PlatformInit i) = newPlatformInitCmd env fl i"
| "runCommand env fl PlatformStatus = newPlatformStatusCmd env fl"
| "runCommand env fl (PlatformUpdate enable disable dryRun) = newPlatformUpdateCmd env fl enable disable dryRun"

text \<open>The commands that are meant to write.\<close>

fun asksWrite :: "command \<Rightarrow> bool" where
  "asksWrite (Deploy source d) = (\<not> df_dryRun d)"
| "asksWrite (Scale name replicas dryRun) = (\<not> dryRun)"
| "asksWrite (Delete name force) = True"
| "asksWrite (Canary name target weight dryRun) = (\<not> dryRun)"
| "asksWrite (Promote name dryRun) = (\<not> dryRun)"
| "asksWrite (Rollback name dryRun) = (\<not> dryRun)"
| "asksWrite (FinetuneCreate c) = (\<not> cf_dryRun c)"
| "asksWrite (FinetuneDelete name force) = True"
| "asksWrite (PlatformInit i) = (\<not> if_dryRun i)"
| "asksWrite (PlatformUpdate enable disable dryRun) = (\<not> dryRun)"
| "asksWrite c = False"

text \<open>What makes a command end with the status of a missing object: the event that shows it.\<close>

fun notFoundEvent :: "command \<Rightarrow> 'e cliEvent \<Rightarrow> bool" where
  "notFoundEvent c (GotMD k (Inl e)) = True"
| "notFoundEvent c (GotFTR k (Inl e)) = True"
| "notFoundEvent (Logs name follow tail container) (ListedPods ns sel (Inr [])) = True"
| "notFoundEvent c ev = False"

definition declined :: "'e cliEvent list \<Rightarrow> bool" where
  "declined es \<longleftrightarrow> Printed (Line ''Cancelled.'') \<in> set es"

subsection \<open>The shared steps\<close>

lemma wp_withMD:
  assumes "\<And>e w'. Q (Inl (OtherError e)) (w', tr)"
    and "\<And>ns e w'. Q (Inl (NotFoundError ''ModelDeployment'' name ns)) (w', tr @ [GotMD (ns, name) (Inl e)])"
    and "\<And>ns md w'. wp (body ns md) Q (w', tr @ [GotMD (ns, name) (Inr md)])"
  shows "wp (withMD (tracedCli env) fl name body) Q (w, tr)"
  unfolding withMD_def
  by (auto simp: wp_rules assms split: sum.splits intro!: wp_NewKubeClients tracedCli_wp)

lemma wp_withFTR:
  assumes "\<And>e w'. Q (Inl (OtherError e)) (w', tr)"
    and "\<And>ns e w'. Q (Inl (NotFoundError ''FineTuneRun'' name ns)) (w', tr @ [GotFTR (ns, name) (Inl e)])"
    and "\<And>ns ftr w'. wp (body ns ftr) Q (w', tr @ [GotFTR (ns, name) (Inr ftr)])"
  shows "wp (withFTR (tracedCli env) fl name body) Q (w, tr)"
  unfolding withFTR_def
  by (auto simp: wp_rules assms split: sum.splits intro!: wp_NewKubeClients tracedCli_wp)

lemma wp_updateMD:
  assumes "\<And>w'. dryRun \<Longrightarrow> Q (Inr ()) (w', tr @ [Printed (PrintModelDeployments ''yaml'' [md])])"
    and "\<And>e w'. \<not> dryRun \<Longrightarrow> Q (Inl (wrapped t e)) (w', tr @ [UpdatedMD md (Inl e)])"
    and "\<And>md' w'. \<not> dryRun \<Longrightarrow> Q (Inr ()) (w', tr @ [UpdatedMD md (Inr md'), Printed (Line (message md'))])"
  shows "wp (updateMD (tracedCli env) dryRun md t message) Q (w, tr)"
  unfolding updateMD_def
  by (auto simp: wp_rules assms split: sum.splits intro!: tracedCli_wp)

lemma wp_confirm:
  assumes "force \<Longrightarrow> Q (Inr True) (w, tr)"
    and "\<And>q a w'. Q (Inr True) (w', tr @ [Printed (Text q), Asked a])"
    and "\<And>q a w'. Q (Inr False) (w', tr @ [Printed (Text q), Asked a, Printed (Line ''Cancelled.'')])"
  shows "wp (confirm (tracedCli env) force what) Q (w, tr)"
  unfolding confirm_def
  by (auto simp: wp_rules assms assms(3) [simplified] intro!: tracedCli_wp)

lemmas command_wp = wp_withMD wp_withFTR wp_updateMD wp_confirm wp_NewKubeClients tracedCli_wp

text \<open>The exact protocols of the commands that change a deployment in place.\<close>

inductive editRun ::
  "string \<Rightarrow> bool \<Rightarrow> (ModelDeployment \<Rightarrow> ModelDeployment option) \<Rightarrow> 'e cliError + unit \<Rightarrow> 'e cliEvent list \<Rightarrow> bool"
  for name :: string and dryRun :: bool and edit :: "ModelDeployment \<Rightarrow> ModelDeployment option"
where
  edit_offline: "editRun name dryRun edit (Inl (OtherError e)) []"
| edit_missing: "editRun name dryRun edit (Inl (NotFoundError ''ModelDeployment'' name ns)) [GotMD (ns, name) (Inl e)]"
| edit_refused: "edit md = None \<Longrightarrow> editRun name dryRun edit (Inl (OtherError e)) [GotMD (ns, name) (Inr md)]"
| edit_dry: "edit md = Some md' \<Longrightarrow> dryRun \<Longrightarrow>
    editRun name dryRun edit (Inr ())
      [GotMD (ns, name) (Inr md), Printed (PrintModelDeployments ''yaml'' [md'])]"
| edit_failed: "edit md = Some md' \<Longrightarrow> \<not> dryRun \<Longrightarrow>
    editRun name dryRun edit (Inl (OtherError (Wrapf t e))) [GotMD (ns, name) (Inr md), UpdatedMD md' (Inl e)]"
| edit_written: "edit md = Some md' \<Longrightarrow> \<not> dryRun \<Longrightarrow>
    editRun name dryRun edit (Inr ()) [GotMD (ns, name) (Inr md), UpdatedMD md' (Inr md''), Printed out]"

text \<open>A command that reads a deployment and then fails or updates it runs by this protocol.\<close>

lemma edit_produces:
  assumes "\<And>ns md. edit md = None \<Longrightarrow> \<exists>t. body ns md = failf t"
    and "\<And>ns md md'. edit md = Some md' \<Longrightarrow> \<exists>t message. body ns md = updateMD (tracedCli env) dryRun md' t message"
  shows "produces (withMD (tracedCli env) fl name body) (editRun name dryRun edit)"
proof (rule producesI, rule wp_withMD)
  fix w w' :: 'a and tr and ns md
  let ?ev = "GotMD (ns, name) (Inr md)"
  show "wp (body ns md) (\<lambda>r s. \<exists>es. snd s = tr @ es \<and> editRun name dryRun edit r es) (w', tr @ [?ev])"
  proof (cases "edit md")
    case None
    then obtain t where "body ns md = failf t" using assms(1) by blast
    then show ?thesis using None by (auto simp: wp_rules intro: edit_refused)
  next
    case (Some md')
    then obtain t message where b: "body ns md = updateMD (tracedCli env) dryRun md' t message"
      using assms(2) by blast
    show ?thesis unfolding b
      by (rule wp_updateMD) (use Some in \<open>auto intro: edit_dry edit_failed edit_written\<close>)
  qed
qed (auto intro: edit_offline edit_missing)

subsection \<open>Behaviour of every command\<close>

definition wellBehaved :: "command \<Rightarrow> 'e cliError + unit \<Rightarrow> 'e cliEvent list \<Rightarrow> bool" where
  "wellBehaved c r es \<longleftrightarrow>
     (writes es = [] \<or> asksWrite c \<and> (\<exists>x. writes es = [x] \<and> (x \<noteq> None \<longrightarrow> cmdStatus r = ExitError))) \<and>
     (asksWrite c \<and> r = Inr () \<and> \<not> declined es \<longrightarrow> writes es = [None]) \<and>
     cmdStatus r \<in> {ExitOK, ExitError, ExitNotFound} \<and>
     (cmdStatus r = ExitNotFound \<longleftrightarrow> (\<exists>ev \<in> set es. notFoundEvent c ev))"

lemmas exit_codes = ExitOK_def ExitError_def ExitNotFound_def ExitTimeout_def

lemma wellBehaved_editRun:
  assumes "editRun name dryRun edit r es" and "asksWrite c \<longleftrightarrow> \<not> dryRun"
  shows "wellBehaved c r es"
  using assms
  by cases (simp_all add: wellBehaved_def exit_codes NotFoundError_def)

lemma edit_commands:
  "produces (newScaleCmd (tracedCli env) fl name replicas dryRun)
     (editRun name dryRun (\<lambda>md. Some (md\<lparr>md_Spec := (md_Spec md)\<lparr>mds_Replicas := Some replicas\<rparr>\<rparr>)))"
  "produces (newCanaryCmd (tracedCli env) fl name target weight dryRun)
     (editRun name dryRun (\<lambda>md. Some (applyCanary md target weight)))"
  "produces (newPromoteCmd (tracedCli env) fl name dryRun) (editRun name dryRun applyPromote)"
  "produces (newRollbackCmd (tracedCli env) fl name dryRun)
     (editRun name dryRun (\<lambda>md. if mds_Canary (md_Spec md) = None then None else Some (applyRollback md)))"
  unfolding newScaleCmd_def newCanaryCmd_def newPromoteCmd_def newRollbackCmd_def
  by (rule edit_produces; auto simp: applyPromote_def Let_def split: option.splits if_splits)+

lemma deploy_behaved: "produces (newDeployCmd (tracedCli env) fl source d) (wellBehaved (Deploy source d))"
  by (rule producesI)
     (auto simp: newDeployCmd_def Let_def wp_rules wellBehaved_def exit_codes split: sum.splits intro!: command_wp)

lemma delete_behaved: "produces (newDeleteCmd (tracedCli env) fl name force) (wellBehaved (Delete name force))"
  by (rule producesI)
     (auto simp: newDeleteCmd_def Let_def wp_rules wellBehaved_def exit_codes NotFoundError_def declined_def
       split: option.splits intro!: command_wp)

lemma endpoint_behaved: "produces (newEndpointCmd (tracedCli env) fl name) (wellBehaved (Endpoint name))"
  by (rule producesI)
     (auto simp: newEndpointCmd_def wp_rules wellBehaved_def exit_codes NotFoundError_def intro!: command_wp)

lemma logs_behaved:
  "produces (newLogsCmd (tracedCli env) fl name follow tail container) (wellBehaved (Logs name follow tail container))"
  by (rule producesI)
     (auto simp: newLogsCmd_def wp_rules wellBehaved_def exit_codes NotFoundError_def
       split: sum.splits list.splits intro!: command_wp)

lemma finetune_behaved:
  "produces (newFinetuneCreateCmd (tracedCli env) fl c) (wellBehaved (FinetuneCreate c))"
  "produces (newFinetuneListCmd (tracedCli env) fl allNamespaces) (wellBehaved (FinetuneList allNamespaces))"
  "produces (newFinetuneStatusCmd (tracedCli env) fl name) (wellBehaved (FinetuneStatus name))"
  "produces (newFinetuneLogsCmd (tracedCli env) fl name follow step) (wellBehaved (FinetuneLogs name follow step))"
  "produces (newFinetuneDeleteCmd (tracedCli env) fl name force) (wellBehaved (FinetuneDelete name force))"
  by (rule producesI;
      auto simp: newFinetuneCreateCmd_def newFinetuneListCmd_def newFinetuneStatusCmd_def newFinetuneLogsCmd_def
        newFinetuneDeleteCmd_def Let_def wp_rules wellBehaved_def exit_codes NotFoundError_def declined_def
        split: sum.splits option.splits intro!: command_wp)+

lemma platform_behaved:
  "produces (newPlatformInitCmd (tracedCli env) fl i) (wellBehaved (PlatformInit i))"
  "produces (newPlatformStatusCmd (tracedCli env) fl) (wellBehaved PlatformStatus)"
  "produces (newPlatformUpdateCmd (tracedCli env) fl enable disable dryRun)
     (wellBehaved (PlatformUpdate enable disable dryRun))"
  by (rule producesI;
      auto simp: newPlatformInitCmd_def newPlatformStatusCmd_def newPlatformUpdateCmd_def Let_def wp_rules
        wellBehaved_def exit_codes split: sum.splits intro!: command_wp)+

lemma command_behaved: "produces (runCommand (tracedCli env) fl c) (wellBehaved c)"
proof (cases c)
  case (Scale name replicas dryRun)
  show ?thesis unfolding Scale runCommand.simps
    by (rule produces_mono, rule edit_commands(1)) (erule wellBehaved_editRun, simp)
next
  case (Canary name target weight dryRun)
  show ?thesis unfolding Canary runCommand.simps
    by (rule produces_mono, rule edit_commands(2)) (erule wellBehaved_editRun, simp)
next
  case (Promote name dryRun)
  show ?thesis unfolding Promote runCommand.simps
    by (rule produces_mono, rule edit_commands(3)) (erule wellBehaved_editRun, simp)
next
  case (Rollback name dryRun)
  show ?thesis unfolding Rollback runCommand.simps
    by (rule produces_mono, rule edit_commands(4)) (erule wellBehaved_editRun, simp)
qed (simp_all only: runCommand.simps deploy_behaved delete_behaved endpoint_behaved logs_behaved
  finetune_behaved platform_behaved)

end
