(* ===== verification/CliStore.thy ===== *)
theory CliStore
  imports CliProps KubeStore
begin

section \<open>The command line on a quiescent cluster\<close>

text \<open>
  The contract of the client of a command for the time in which no other client acts and no call
  fails, the locale \<open>cli_store\<close>: the counterpart of \<open>kube_store\<close> for a user's client. A created or
  updated object comes back, and is stored, with the status the cluster had (none for a new one) and
  a generation of the cluster's choice; a deleted object that has finalizers is marked and stays.
  The commands are run with their calls recorded, from an empty record.
\<close>

definition withGeneration :: "int \<Rightarrow> ModelDeployment \<Rightarrow> ModelDeployment" where
  "withGeneration g md = md\<lparr>md_ObjectMeta := (md_ObjectMeta md)\<lparr>om_Generation := g\<rparr>\<rparr>"

definition putMD :: "ModelDeployment \<Rightarrow> cluster \<Rightarrow> cluster" where
  "putMD md = cl_MDs_update (\<lambda>m. m(mdKey md \<mapsto> md))"

text \<open>The object that a deletion leaves.\<close>

definition afterDelete :: "int \<Rightarrow> ModelDeployment \<Rightarrow> ModelDeployment option" where
  "afterDelete t md =
     (if om_Finalizers (md_ObjectMeta md) = [] then None
      else Some (md\<lparr>md_ObjectMeta := (md_ObjectMeta md)\<lparr>om_DeletionTimestamp := Some t\<rparr>\<rparr>))"

text \<open>The namespace of a command: the flag, the context's, or the default.\<close>

definition nsOf :: "string \<Rightarrow> flags \<Rightarrow> string" where
  "nsOf ctxNs fl =
     (if fl_namespace fl \<noteq> '''' then fl_namespace fl else if ctxNs \<noteq> '''' then ctxNs else ''default'')"

lemma withGeneration_simps [simp]:
  "md_Spec (withGeneration g md) = md_Spec md" "mdKey (withGeneration g md) = mdKey md"
  "md_Status (withGeneration g md) = md_Status md"
  "md_Name (withGeneration g md) = md_Name md" "md_Namespace (withGeneration g md) = md_Namespace md"
  "om_Finalizers (md_ObjectMeta (withGeneration g md)) = om_Finalizers (md_ObjectMeta md)"
  "om_DeletionTimestamp (md_ObjectMeta (withGeneration g md)) = om_DeletionTimestamp (md_ObjectMeta md)"
  by (simp_all add: withGeneration_def)

lemma putMD_simps [simp]:
  "cl_MDs (putMD md c) = (cl_MDs c)(mdKey md \<mapsto> md)"
  "cl_Deployments (putMD md c) = cl_Deployments c"
  by (simp_all add: putMD_def)

lemma putMD_twice: "mdKey a = mdKey b \<Longrightarrow> putMD b (putMD a c) = putMD b c"
  by (simp add: putMD_def comp_def)

lemma wp_logged_eq: "wp (logged ev m) Q (w, tr) = wp m (\<lambda>a w'. Q a (w', tr @ [ev a])) w"
  by (simp add: wp_def run_logged split: prod.splits)

lemma wp_silent_eq: "wp (silent m) Q (w, tr) = wp m (\<lambda>a w'. Q a (w', tr)) w"
  by (simp add: wp_def silent_def split: prod.splits)

locale cli_store =
  fixes env :: "('w, 'e) cliEnv" and view :: "'w \<Rightarrow> cluster" and ctxNs :: string
  assumes config: "wp (ClientConfig env p c) (\<lambda>r w'. r = None \<and> view w' = view w) w"
    and context_ns: "wp (ConfigNamespace env p c) (\<lambda>r w'. r = ctxNs \<and> view w' = view w) w"
    and scheme: "AddToScheme env = None"
    and crclient: "wp (NewCRClient env) (\<lambda>r w'. r = None \<and> view w' = view w) w"
    and clientset: "wp (NewClientset env) (\<lambda>r w'. r = None \<and> view w' = view w) w"
    and cr_get: "wp (CrGetMD env k) (\<lambda>r w'. view w' = view w \<and>
      (case cl_MDs (view w) k of None \<Rightarrow> (\<exists>e. r = Inl e) | Some md \<Rightarrow> r = Inr md)) w"
    and cr_create: "cl_MDs (view w) (mdKey md) = None \<Longrightarrow>
      wp (CrCreateMD env md) (\<lambda>r w'. \<exists>g. let new = withGeneration g (md\<lparr>md_Status := zeroMDStatus\<rparr>) in
        r = Inr new \<and> view w' = putMD new (view w)) w"
    and cr_update: "cl_MDs (view w) (mdKey md) = Some old \<Longrightarrow>
      wp (CrUpdateMD env md) (\<lambda>r w'. \<exists>g. let new = withGeneration g (md\<lparr>md_Status := md_Status old\<rparr>) in
        r = Inr new \<and> view w' = putMD new (view w)) w"
    and cr_delete: "cl_MDs (view w) (mdKey md) = Some old \<Longrightarrow>
      wp (CrDeleteMD env md) (\<lambda>r w'. r = None \<and>
        (\<exists>t. view w' = cl_MDs_update (\<lambda>m. m(mdKey md := afterDelete t old)) (view w))) w"
    and stdout: "wp (Stdout env out) (\<lambda>r w'. view w' = view w) w"
begin

text \<open>One recorded call.\<close>

lemma quiet_calls:
  "(\<And>w'. view w' = view w \<Longrightarrow> Q1 None (w', tr)) \<Longrightarrow> wp (ClientConfig (tracedCli env) p c) Q1 (w, tr)"
  "(\<And>w'. view w' = view w \<Longrightarrow> Q2 ctxNs (w', tr)) \<Longrightarrow> wp (ConfigNamespace (tracedCli env) p c) Q2 (w, tr)"
  "(\<And>w'. view w' = view w \<Longrightarrow> Q1 None (w', tr)) \<Longrightarrow> wp (NewCRClient (tracedCli env)) Q1 (w, tr)"
  "(\<And>w'. view w' = view w \<Longrightarrow> Q1 None (w', tr)) \<Longrightarrow> wp (NewClientset (tracedCli env)) Q1 (w, tr)"
  "(\<And>u w'. view w' = view w \<Longrightarrow> Q3 u (w', tr @ [Printed out])) \<Longrightarrow> wp (Stdout (tracedCli env) out) Q3 (w, tr)"
  unfolding tracedCli_def cliEnv.simps wp_silent_eq wp_logged_eq
  by (auto intro: wp_mono [OF config] wp_mono [OF context_ns] wp_mono [OF crclient] wp_mono [OF clientset]
    wp_mono [OF stdout])

lemma wp_connect:
  assumes "\<And>w'. view w' = view w \<Longrightarrow> Q (Inr (nsOf ctxNs fl)) (w', tr)"
  shows "wp (NewKubeClients (tracedCli env) fl) Q (w, tr)"
proof -
  have s: "AddToScheme (tracedCli env) = None" by (simp add: tracedCli_def scheme)
  have q: "Q (Inr n) (w', tr)" if "view w' = view w" and "nsOf ctxNs fl = n" for n w'
    using assms that by simp
  show ?thesis
    unfolding NewKubeClients_def
    by (auto simp: wp_rules s nsOf_def intro!: quiet_calls q)
qed

lemma wp_cr_get:
  assumes "cl_MDs (view w) k = Some md" and "\<And>w'. view w' = view w \<Longrightarrow> Q (Inr md) (w', tr @ [GotMD k (Inr md)])"
  shows "wp (CrGetMD (tracedCli env) k) Q (w, tr)"
  unfolding tracedCli_def cliEnv.simps wp_logged_eq
  by (rule wp_mono [OF cr_get]) (use assms in auto)

lemma wp_cr_create:
  assumes "cl_MDs (view w) (mdKey md) = None"
    and "\<And>g w' new. new = withGeneration g (md\<lparr>md_Status := zeroMDStatus\<rparr>) \<Longrightarrow> view w' = putMD new (view w) \<Longrightarrow>
      Q (Inr new) (w', tr @ [CreatedMD md (Inr new)])"
  shows "wp (CrCreateMD (tracedCli env) md) Q (w, tr)"
  unfolding tracedCli_def cliEnv.simps wp_logged_eq
  by (rule wp_mono [OF cr_create [OF assms(1)]]) (auto simp: Let_def intro: assms(2))

lemma wp_cr_update:
  assumes "cl_MDs (view w) (mdKey md) = Some old"
    and "\<And>g w' new. new = withGeneration g (md\<lparr>md_Status := md_Status old\<rparr>) \<Longrightarrow> view w' = putMD new (view w) \<Longrightarrow>
      Q (Inr new) (w', tr @ [UpdatedMD md (Inr new)])"
  shows "wp (CrUpdateMD (tracedCli env) md) Q (w, tr)"
  unfolding tracedCli_def cliEnv.simps wp_logged_eq
  by (rule wp_mono [OF cr_update [OF assms(1)]]) (auto simp: Let_def intro: assms(2))

lemma wp_cr_delete:
  assumes "cl_MDs (view w) (mdKey md) = Some old"
    and "\<And>t w'. view w' = cl_MDs_update (\<lambda>m. m(mdKey md := afterDelete t old)) (view w) \<Longrightarrow>
      Q None (w', tr @ [DeletedMD md None])"
  shows "wp (CrDeleteMD (tracedCli env) md) Q (w, tr)"
  unfolding tracedCli_def cliEnv.simps wp_logged_eq
  by (rule wp_mono [OF cr_delete [OF assms(1)]]) (auto intro: assms(2))

lemma wp_read:
  assumes "cl_MDs (view w) (nsOf ctxNs fl, name) = Some md"
    and "\<And>w'. view w' = view w \<Longrightarrow>
      wp (body (nsOf ctxNs fl) md) Q (w', tr @ [GotMD (nsOf ctxNs fl, name) (Inr md)])"
  shows "wp (withMD (tracedCli env) fl name body) Q (w, tr)"
  unfolding withMD_def
  by (simp add: wp_rules, rule wp_connect) (auto simp: wp_rules assms intro!: wp_cr_get)

text \<open>An edit stores the edited object, with the old status.\<close>

lemma wp_edit:
  assumes "cl_MDs (view w) (nsOf ctxNs fl, name) = Some md" and "mdKey md = (nsOf ctxNs fl, name)"
    and "mdKey (edit md) = mdKey md" and "md_Status (edit md) = md_Status md"
    and "\<And>ns. body ns md = updateMD (tracedCli env) False (edit md) t message"
  shows "wp (withMD (tracedCli env) fl name body)
    (\<lambda>r s. r = Inr () \<and> (\<exists>g. view (fst s) = putMD (withGeneration g (edit md)) (view w))) (w, [])"
proof (rule wp_read [OF assms(1)])
  fix w1
  assume v: "view w1 = view w"
  have e: "(edit md)\<lparr>md_Status := md_Status md\<rparr> = edit md" using assms(4) by (metis ModelDeployment.unfold_congs(4) ModelDeployment.surjective ModelDeployment.update_convs(4))
  show "wp (body (nsOf ctxNs fl) md) (\<lambda>r s. r = Inr () \<and>
      (\<exists>g. view (fst s) = putMD (withGeneration g (edit md)) (view w)))
      (w1, [] @ [GotMD (nsOf ctxNs fl, name) (Inr md)])"
    unfolding assms(5) updateMD_def
    by (simp add: wp_rules, rule wp_cr_update [of _ _ md]) (use assms(1-3) v e in \<open>auto simp: wp_rules intro!: quiet_calls\<close>)
qed

end

subsection \<open>A client in memory\<close>

definition nothing :: "(cluster, memError error option) state" where
  "nothing = ret None"

definition memCreateMD :: "ModelDeployment \<Rightarrow> (cluster, memError error + ModelDeployment) state" where
  "memCreateMD md = State (\<lambda>c.
     case cl_MDs c (mdKey md) of
       None \<Rightarrow> let new = withGeneration 1 (md\<lparr>md_Status := zeroMDStatus\<rparr>) in (Inr new, putMD new c)
     | Some old \<Rightarrow> (Inl (Raw AlreadyExists), c))"

definition memEditMD :: "ModelDeployment \<Rightarrow> (cluster, memError error + ModelDeployment) state" where
  "memEditMD md = State (\<lambda>c.
     case cl_MDs c (mdKey md) of
       None \<Rightarrow> (Inl (Raw NotFound), c)
     | Some old \<Rightarrow>
         let g = om_Generation (md_ObjectMeta old) + (if md_Spec md = md_Spec old then 0 else 1);
             new = withGeneration g (md\<lparr>md_Status := md_Status old\<rparr>)
         in (Inr new, putMD new c))"

definition memDeleteMD :: "ModelDeployment \<Rightarrow> (cluster, memError error option) state" where
  "memDeleteMD md = State (\<lambda>c.
     case cl_MDs c (mdKey md) of
       None \<Rightarrow> (Some (Raw NotFound), c)
     | Some old \<Rightarrow> (None, cl_MDs_update (\<lambda>m. m(mdKey md := afterDelete 1 old)) c))"

text \<open>The listing and the pods of this client are empty; nothing below asks for them.\<close>

definition memCli :: "(cluster, memError) cliEnv" where
  "memCli = \<lparr>
     ClientConfig = (\<lambda>p c. nothing),
     ConfigNamespace = (\<lambda>p c. ret ''default''),
     AddToScheme = None,
     NewCRClient = nothing,
     NewClientset = nothing,
     CrGetMD = memGet cl_MDs,
     CrListMD = (\<lambda>n. ret (Inr [])),
     CrCreateMD = memCreateMD,
     CrUpdateMD = memEditMD,
     CrDeleteMD = memDeleteMD,
     CrGetFTR = memGet cl_FTRs,
     CrListFTR = (\<lambda>n. ret (Inr [])),
     CrCreateFTR = (\<lambda>x. ret (Inr x)),
     CrDeleteFTR = (\<lambda>x. nothing),
     CrGetLP = memGet cl_LPs,
     CrCreateLP = (\<lambda>x. ret (Inr x)),
     CrUpdateLP = (\<lambda>x. ret (Inr x)),
     ListPods = (\<lambda>n s. ret (Inr [])),
     PodLogs = (\<lambda>n p c f t. ret (Inr [])),
     Stdout = (\<lambda>x. ret ()),
     ReadAnswer = ret ''y'',
     Sleep = (\<lambda>n. ret ()),
     ErrNotFound = (\<lambda>e. e = Raw NotFound),
     ErrAlreadyExists = (\<lambda>e. e = Raw AlreadyExists)\<rparr>"

interpretation mem_cli: cli_store memCli "\<lambda>c. c" "''default''"
  by unfold_locales
     (auto simp: memCli_def nothing_def memGet_def memCreateMD_def memEditMD_def memDeleteMD_def wp_def Let_def
       split: option.splits)

end
