(* ===== verification/CliRag.thy ===== *)
theory CliRag
  imports CliPlatform Regexp
begin

section \<open>The command line: knowledge bases and evaluation\<close>

text \<open>
  \<open>internal/cli/cmd/rag.go\<close>: the commands that speak to the console API of Dify, and the one that
  starts an evaluation job. What they call beside the environment of every command is the record
  \<open>ragEnv\<close>: environment variables, services (the node ports of their ports), the addresses of the
  first node, config maps, the HTTP client with its cookie jar, local files, the boundary of a form,
  jobs (created from the template of a cron job; their counts of successes and failures).
\<close>

record evalJob =
  ej_GenerateName :: string
  ej_Namespace :: string
  ej_Spec :: jval

record ('w, 'e) ragEnv =
  Getenv :: "string \<Rightarrow> string"
  GetServicePorts :: "NamespacedName \<Rightarrow> ('w, 'e error + int list) state"
  FirstNode :: "('w, 'e error + (string \<times> string) list list) state"
  GetConfigMap :: "NamespacedName \<Rightarrow> ('w, 'e error + (string \<rightharpoonup> string)) state"
  Dify :: "('w, 'e) transport"
  Cookies :: "string \<Rightarrow> ('w, (string \<times> string) list) state"
  ReadFile :: "string \<Rightarrow> ('w, 'e error + string) state"
  NewBoundary :: "('w, string) state"
  GetCronJob :: "NamespacedName \<Rightarrow> ('w, 'e error + jval) state"
  CreateJob :: "evalJob \<Rightarrow> ('w, 'e error + string) state"
  GetJob :: "NamespacedName \<Rightarrow> ('w, 'e error + int \<times> int) state"

subsection \<open>Finding Dify\<close>

definition internalIP :: "'e error + (string \<times> string) list list \<Rightarrow> string option" where
  "internalIP r =
     (case r of
        Inr (addrs # _) \<Rightarrow> map_option snd (List.find (\<lambda>a. fst a = ''InternalIP'') addrs)
      | _ \<Rightarrow> None)"

fun difyNodePort :: "('w, 'e) ragEnv \<Rightarrow> int list \<Rightarrow> ('w, string option) state" where
  "difyNodePort rag [] = ret None"
| "difyNodePort rag (p # ps) =
     (if p > 0 then do {
        r \<leftarrow> FirstNode rag;
        (case internalIP r of
           Some addr \<Rightarrow> ret (Some (''http://'' @ addr @ '':'' @ showInt p))
         | None \<Rightarrow> difyNodePort rag ps)
      } else difyNodePort rag ps)"

definition findDifyEndpoint :: "('w, 'e) cliEnv \<Rightarrow> ('w, 'e) ragEnv \<Rightarrow> string \<Rightarrow> ('w, 'e, string) cmd" where
  "findDifyEndpoint env rag ns =
     cmdBind (tryPlatform env ns) (\<lambda>lp.
     case Option.bind lp nodePortHost of
       Some host \<Rightarrow> ret (Inr (''http://'' @ host @ '':30501''))
     | None \<Rightarrow>
         cmdBind (call (GetServicePorts rag (ns, ''kube-llmops-dify-api-np''))) (\<lambda>r.
         cmdBind (case r of Inr ports \<Rightarrow> call (difyNodePort rag ports) | Inl err \<Rightarrow> ret (Inr None)) (\<lambda>url.
         case url of
           Some u \<Rightarrow> ret (Inr u)
         | None \<Rightarrow>
             cmdBind (try_get (\<lambda>_. OtherError (Errorf (''Dify is not available. Enable RAG module: '' @
                 ''kubectl llmops platform update --enable rag'')))
               (GetServicePorts rag (ns, ''kube-llmops-dify-api''))) (\<lambda>_.
               ret (Inr (''http://kube-llmops-dify-api.'' @ ns @ ''.svc.cluster.local:5001''))))))"

text \<open>
  \<open>FindStringSubmatch\<close> for the pattern \<open>KEY="([^"]+)"\<close>, \<open>key\<close> with the equality sign: the value of
  the leftmost match.
\<close>

fun quotedValue :: "string \<Rightarrow> string \<Rightarrow> string option" where
  "quotedValue key [] = None"
| "quotedValue key (c # s) =
     (let lit = key @ [quoteChar];
          rest = drop (length lit) (c # s);
          v = takeWhile (\<lambda>x. x \<noteq> quoteChar) rest in
      if prefix lit (c # s) \<and> v \<noteq> [] \<and> length v < length rest then Some v else quotedValue key s)"

definition findDifyCredentials :: "('w, 'e) ragEnv \<Rightarrow> string \<Rightarrow> ('w, 'e, string \<times> string) cmd" where
  "findDifyCredentials rag ns =
     (let e = Getenv rag ''DIFY_EMAIL''; p = Getenv rag ''DIFY_PASSWORD'' in
      if e \<noteq> '''' \<and> p \<noteq> '''' then ret (Inr (e, p))
      else
        cmdBind (try_get (\<lambda>_. OtherError (Errorf (''Dify setup ConfigMap not found. Set DIFY_EMAIL and '' @
            ''DIFY_PASSWORD environment variables''))) (GetConfigMap rag (ns, ''kube-llmops-dify-setup''))) (\<lambda>cm.
          case cm ''setup.sh'' of
            None \<Rightarrow> failf ''setup.sh not found in dify-setup ConfigMap''
          | Some script \<Rightarrow>
              (case (quotedValue ''ADMIN_EMAIL='' script, quotedValue ''ADMIN_PASSWORD='' script) of
                 (Some email, Some pw) \<Rightarrow> ret (Inr (email, pw))
               | _ \<Rightarrow> failf ''cannot parse admin credentials from dify-setup ConfigMap'')))"

subsection \<open>The session\<close>

record difySession =
  dys_endpoint :: string
  dys_csrfToken :: string

definition loginRequest :: "string \<Rightarrow> string \<Rightarrow> string \<Rightarrow> httpRequest" where
  "loginRequest endpoint email password =
     \<lparr>rq_Method = ''POST'', rq_URL = endpoint @ ''/console/api/login'',
      rq_Header = [''Content-Type'' \<mapsto> ''application/json''],
      rq_Body = Marshal (JObj [(''email'', JStr email), (''password'', JStr (EncodeToString password))])\<rparr>"

text \<open>A request that cannot be built is not checked for: the nil pointer panics.\<close>

definition newDifySession :: "('w, 'e) cliEnv \<Rightarrow> ('w, 'e) ragEnv \<Rightarrow> string \<Rightarrow> ('w, 'e, difySession) cmd" where
  "newDifySession env rag ns =
     cmdBind (findDifyEndpoint env rag ns) (\<lambda>endpoint.
     cmdBind (findDifyCredentials rag ns) (\<lambda>(email, password).
     let q = loginRequest endpoint email password in
     if NewRequestError (Dify rag) ''POST'' (rq_URL q) \<noteq> None then cmdFail Crash
     else
       cmdBind (try_get (wrapped (''cannot reach Dify at '' @ endpoint)) (Do (Dify rag) q)) (\<lambda>resp.
       if rs_StatusCode resp \<noteq> 200 then
         failf (''Dify login failed ('' @ showInt (rs_StatusCode resp) @ ''): '' @ rs_Body resp)
       else
         cmdBind (call (Cookies rag (rq_URL q))) (\<lambda>cookies.
         let csrf = (case List.find (\<lambda>c. fst c = ''csrf_token'') cookies of Some c \<Rightarrow> snd c | None \<Rightarrow> '''') in
         if csrf = '''' then failf ''Dify login succeeded but no CSRF token returned''
         else ret (Inr \<lparr>dys_endpoint = endpoint, dys_csrfToken = csrf\<rparr>)))))"

text \<open>\<open>(*difySession).do\<close>; \<open>net/http\<close> stores the header's key as \<open>X-Csrf-Token\<close>.\<close>

definition sessionRequest :: "difySession \<Rightarrow> string \<Rightarrow> string \<Rightarrow> string option \<Rightarrow> string \<Rightarrow> httpRequest" where
  "sessionRequest s meth path body contentType =
     (let h = [''X-Csrf-Token'' \<mapsto> dys_csrfToken s];
          h = (if contentType \<noteq> '''' then h(''Content-Type'' \<mapsto> contentType)
               else if body \<noteq> None \<and> meth \<noteq> ''GET'' then h(''Content-Type'' \<mapsto> ''application/json'')
               else h)
      in \<lparr>rq_Method = meth, rq_URL = dys_endpoint s @ path, rq_Header = h,
          rq_Body = (case body of None \<Rightarrow> '''' | Some b \<Rightarrow> b)\<rparr>)"

definition difyDo ::
  "('w, 'e) ragEnv \<Rightarrow> difySession \<Rightarrow> string \<Rightarrow> string \<Rightarrow> string option \<Rightarrow> string \<Rightarrow> ('w, 'e, httpResponse) cmd" where
  "difyDo rag s meth path body contentType =
     cmdBind (try_err OtherError (ret (NewRequestError (Dify rag) meth (dys_endpoint s @ path)))) (\<lambda>_.
       try_get OtherError (Do (Dify rag) (sessionRequest s meth path body contentType)))"

text \<open>Connect and log in, as every command on knowledge bases begins.\<close>

definition withDify ::
  "('w, 'e) cliEnv \<Rightarrow> ('w, 'e) ragEnv \<Rightarrow> flags \<Rightarrow> (difySession \<Rightarrow> ('w, 'e, 'a) cmd) \<Rightarrow> ('w, 'e, 'a) cmd" where
  "withDify env rag fl body =
     cmdBind (NewKubeClients env fl) (\<lambda>ns. cmdBind (newDifySession env rag ns) body)"

subsection \<open>list-kb and create-kb\<close>

definition datasetsPath :: string where
  "datasetsPath = ''/console/api/datasets?page=1&limit=100''"

definition kbRow :: "json \<Rightarrow> string" where
  "kbRow d =
     (let kb = asMap d in
      padRight 36 (asString (jsonAt kb ''id'')) @ ''  '' @ padRight 30 (asString (jsonAt kb ''name'')) @ ''  '' @
      fixedPoint 0 (asNumber (jsonAt kb ''document_count'')) @ [CHR 0x0A])"

definition newRAGListKBCmd ::
  "('w, 'e) cliEnv \<Rightarrow> ('w, 'e) ragEnv \<Rightarrow> jsonLib \<Rightarrow> flags \<Rightarrow> ('w, 'e, unit) cmd" where
  "newRAGListKBCmd env rag jl fl =
     withDify env rag fl (\<lambda>sess.
     cmdBind (difyDo rag sess ''GET'' datasetsPath None '''') (\<lambda>resp.
       if fl_output fl = ''json'' then print env (Line (rs_Body resp))
       else let data = asList (jsonAt (decoded jl (rs_Body resp)) ''data'') in
         if length data = 0 then print env (Line ''No knowledge bases found.'')
         else print env (Text (padRight 36 ''ID'' @ ''  '' @ padRight 30 ''NAME'' @ ''  '' @ ''DOCS'' @ [CHR 0x0A] @
           concat (map kbRow data)))))"

definition createPayload :: "string \<Rightarrow> string \<Rightarrow> string \<Rightarrow> jobj" where
  "createPayload name description embeddingModel =
     jset_if (embeddingModel \<noteq> '''') ''embedding_model'' (JStr embeddingModel)
       (jset_if (description \<noteq> '''') ''description'' (JStr description) [(''name'', JStr name)])"

definition newRAGCreateKBCmd ::
  "('w, 'e) cliEnv \<Rightarrow> ('w, 'e) ragEnv \<Rightarrow> jsonLib \<Rightarrow> flags \<Rightarrow> string \<Rightarrow> string \<Rightarrow> string \<Rightarrow> ('w, 'e, unit) cmd" where
  "newRAGCreateKBCmd env rag jl fl name description embeddingModel =
     withDify env rag fl (\<lambda>sess.
     cmdBind (difyDo rag sess ''POST'' ''/console/api/datasets''
         (Some (Marshal (JObj (createPayload name description embeddingModel)))) '''') (\<lambda>resp.
       if rs_StatusCode resp \<ge> 400 then failf (''failed to create KB: '' @ rs_Body resp)
       else print env (Line (''Knowledge base '' @ Quote name @ '' created (id: '' @
         verbS jl (jsonAt (decoded jl (rs_Body resp)) ''id'') @ '')''))))"

subsection \<open>upload\<close>

fun kbNamed :: "string \<Rightarrow> json list \<Rightarrow> string option" where
  "kbNamed name [] = None"
| "kbNamed name (d # ds) =
     (let kb = asMap d in
      if jsonAt kb ''name'' = Str name then Some (asString (jsonAt kb ''id'')) else kbNamed name ds)"

definition findKBIDByName ::
  "('w, 'e) ragEnv \<Rightarrow> jsonLib \<Rightarrow> difySession \<Rightarrow> string \<Rightarrow> ('w, 'e, string) cmd" where
  "findKBIDByName rag jl sess name =
     cmdBind (difyDo rag sess ''GET'' datasetsPath None '''') (\<lambda>resp.
       case kbNamed name (asList (jsonAt (decoded jl (rs_Body resp)) ''data'')) of
         Some kbID \<Rightarrow> ret (Inr kbID)
       | None \<Rightarrow> failf (''knowledge base '' @ Quote name @ '' not found''))"

definition docPayload :: "string \<Rightarrow> int \<Rightarrow> int \<Rightarrow> jval" where
  "docPayload fileID chunkSize chunkOverlap =
     JObj [
       (''data_source'', JObj [(''info_list'', JObj [
          (''data_source_type'', JStr ''upload_file''),
          (''file_info_list'', JObj [(''file_ids'', JArr [JStr fileID])])])]),
       (''indexing_technique'', JStr ''high_quality''),
       (''process_rule'', JObj [
          (''mode'', JStr ''custom''),
          (''rules'', JObj [
             (''pre_processing_rules'', JArr [
                JObj [(''id'', JStr ''remove_extra_spaces''), (''enabled'', JBool True)],
                JObj [(''id'', JStr ''remove_urls_emails''), (''enabled'', JBool False)]]),
             (''segmentation'', JObj [
                (''separator'', JStr [CHR 0x0A]),
                (''max_tokens'', JInt chunkSize),
                (''chunk_overlap'', JInt chunkOverlap)])])])]"

definition uploadFile ::
  "('w, 'e) ragEnv \<Rightarrow> jsonLib \<Rightarrow> difySession \<Rightarrow> string \<Rightarrow> string \<Rightarrow> int \<Rightarrow> int \<Rightarrow> ('w, 'e, unit) cmd" where
  "uploadFile rag jl sess kbID filePath chunkSize chunkOverlap =
     cmdBind (try_get OtherError (ReadFile rag filePath)) (\<lambda>content.
     cmdBind (call (NewBoundary rag)) (\<lambda>boundary.
     cmdBind (difyDo rag sess ''POST'' ''/console/api/files/upload''
         (Some (multipartBody boundary (Base filePath) content)) (''multipart/form-data; boundary='' @ boundary)) (\<lambda>uploadResp.
     if rs_StatusCode uploadResp \<ge> 400 then
       failf (''file upload failed ('' @ showInt (rs_StatusCode uploadResp) @ ''): '' @ rs_Body uploadResp)
     else
       let fileID = asString (jsonAt (decoded jl (rs_Body uploadResp)) ''id'') in
       if fileID = '''' then failf (''file upload returned no file ID: '' @ rs_Body uploadResp)
       else
         cmdBind (difyDo rag sess ''POST'' (''/console/api/datasets/'' @ kbID @ ''/documents'')
             (Some (Marshal (docPayload fileID chunkSize chunkOverlap))) ''application/json'') (\<lambda>docResp.
           if rs_StatusCode docResp \<ge> 400 then
             failf (''document creation failed ('' @ showInt (rs_StatusCode docResp) @ ''): '' @ rs_Body docResp)
           else cmdOk))))"

text \<open>
  The error of an upload, wrapped with the name of its file (\<open>%w\<close> keeps the exit code of a
  \<open>*CLIError\<close>, but an upload has none).
\<close>

fun wrapError :: "string \<Rightarrow> 'e cliError \<Rightarrow> 'e cliError" where
  "wrapError text (OtherError e) = wrapped text e"
| "wrapError text (CLIError code message) = CLIError code message"
| "wrapError text Crash = Crash"

definition orWrap :: "string \<Rightarrow> ('w, 'e, 'a) cmd \<Rightarrow> ('w, 'e, 'a) cmd" where
  "orWrap text m = State_Monad.bind m (\<lambda>r. ret (case r of Inl e \<Rightarrow> Inl (wrapError text e) | Inr x \<Rightarrow> Inr x))"

fun uploadFiles ::
  "('w, 'e) cliEnv \<Rightarrow> ('w, 'e) ragEnv \<Rightarrow> jsonLib \<Rightarrow> difySession \<Rightarrow> string \<Rightarrow> int \<Rightarrow> int \<Rightarrow> string list \<Rightarrow> ('w, 'e, unit) cmd"
where
  "uploadFiles env rag jl sess kbID chunkSize chunkOverlap [] = cmdOk"
| "uploadFiles env rag jl sess kbID chunkSize chunkOverlap (filePath # files) =
     cmdBind (orWrap (''failed to upload '' @ filePath) (uploadFile rag jl sess kbID filePath chunkSize chunkOverlap)) (\<lambda>_.
     cmdBind (print env (Line (''Uploaded: '' @ filePath))) (\<lambda>_.
       uploadFiles env rag jl sess kbID chunkSize chunkOverlap files))"

definition newRAGUploadCmd ::
  "('w, 'e) cliEnv \<Rightarrow> ('w, 'e) ragEnv \<Rightarrow> jsonLib \<Rightarrow> flags \<Rightarrow> string \<Rightarrow> string list \<Rightarrow> int \<Rightarrow> int \<Rightarrow> ('w, 'e, unit) cmd" where
  "newRAGUploadCmd env rag jl fl kbName files chunkSize chunkOverlap =
     withDify env rag fl (\<lambda>sess.
     cmdBind (findKBIDByName rag jl sess kbName) (\<lambda>kbID.
       uploadFiles env rag jl sess kbID chunkSize chunkOverlap files))"

subsection \<open>delete-kb and query\<close>

text \<open>The status of the answer is not looked at.\<close>

definition deleteDataset ::
  "('w, 'e) cliEnv \<Rightarrow> ('w, 'e) ragEnv \<Rightarrow> difySession \<Rightarrow> string \<Rightarrow> string \<Rightarrow> ('w, 'e, unit) cmd" where
  "deleteDataset env rag sess kbID name =
     cmdBind (difyDo rag sess ''DELETE'' (''/console/api/datasets/'' @ kbID) None '''') (\<lambda>delResp.
       print env (Line (''Knowledge base '' @ Quote name @ '' deleted.'')))"

definition newRAGDeleteKBCmd ::
  "('w, 'e) cliEnv \<Rightarrow> ('w, 'e) ragEnv \<Rightarrow> jsonLib \<Rightarrow> flags \<Rightarrow> string \<Rightarrow> bool \<Rightarrow> ('w, 'e, unit) cmd" where
  "newRAGDeleteKBCmd env rag jl fl name force =
     cmdBind (confirm env force (''knowledge base '' @ Quote name)) (\<lambda>goOn.
       if \<not> goOn then cmdOk
       else withDify env rag fl (\<lambda>sess.
         cmdBind (findKBIDByName rag jl sess name) (\<lambda>kbID. deleteDataset env rag sess kbID name)))"

definition queryPayload :: "string \<Rightarrow> int \<Rightarrow> jval" where
  "queryPayload prompt topK =
     JObj [(''query'', JStr prompt),
           (''retrieval_model'', JObj [
              (''search_method'', JStr ''semantic_search''),
              (''top_k'', JInt topK),
              (''score_threshold_enabled'', JBool False),
              (''reranking_enable'', JBool False)])]"

definition recordText :: "nat \<times> json \<Rightarrow> string" where
  "recordText ir =
     (case ir of (i, r) \<Rightarrow>
        let rec = asMap r; segment = asMap (jsonAt rec ''segment'') in
        ''['' @ showNat (i + 1) @ ''] (score: '' @ fixedPoint 4 (asNumber (jsonAt rec ''score'')) @ '')'' @ [CHR 0x0A] @
        asString (jsonAt segment ''content'') @ [CHR 0x0A, CHR 0x0A])"

definition newRAGQueryCmd ::
  "('w, 'e) cliEnv \<Rightarrow> ('w, 'e) ragEnv \<Rightarrow> jsonLib \<Rightarrow> flags \<Rightarrow> string \<Rightarrow> string \<Rightarrow> int \<Rightarrow> ('w, 'e, unit) cmd" where
  "newRAGQueryCmd env rag jl fl name prompt topK =
     withDify env rag fl (\<lambda>sess.
     cmdBind (findKBIDByName rag jl sess name) (\<lambda>kbID.
     cmdBind (difyDo rag sess ''POST'' (''/console/api/datasets/'' @ kbID @ ''/hit-testing'')
         (Some (Marshal (queryPayload prompt topK))) '''') (\<lambda>resp.
       if fl_output fl = ''json'' then print env (Line (rs_Body resp))
       else let records = asList (jsonAt (decoded jl (rs_Body resp)) ''records'') in
         if length records = 0 then print env (Line ''No results found.'')
         else print env (Text (concat (map recordText (enumerate 0 records)))))))"

subsection \<open>eval\<close>

definition startEval :: "('w, 'e) cliEnv \<Rightarrow> ('w, 'e) ragEnv \<Rightarrow> flags \<Rightarrow> bool \<Rightarrow> ('w, 'e, NamespacedName) cmd" where
  "startEval env rag fl wait =
     cmdBind (NewKubeClients env fl) (\<lambda>ns.
     cmdBind (try_get (wrapped ''Ragas CronJob not found'') (GetCronJob rag (ns, ''kube-llmops-ragas-eval''))) (\<lambda>spec.
     cmdBind (try_get (wrapped ''failed to create eval job'')
       (CreateJob rag \<lparr>ej_GenerateName = ''ragas-manual-'', ej_Namespace = ns, ej_Spec = spec\<rparr>)) (\<lambda>name.
     cmdBind (print env (Line (''Ragas evaluation job '' @ Quote name @ '' created''))) (\<lambda>_.
     cmdBind (if wait then print env (Line ''Waiting for completion...'') else cmdOk) (\<lambda>_.
       ret (Inr (ns, name)))))))"

definition evalRound ::
  "('w, 'e) cliEnv \<Rightarrow> ('w, 'e) ragEnv \<Rightarrow> bool \<Rightarrow> NamespacedName \<Rightarrow> ('w, ('e cliError + unit) option) state" where
  "evalRound env rag wait job =
     (if \<not> wait then ret (Some (Inr ()))
      else do {
        r \<leftarrow> GetJob rag job;
        (case r of
           Inl err \<Rightarrow> ret (Some (Inl (OtherError err)))
         | Inr (succeeded, failed) \<Rightarrow>
             if succeeded > 0 then do {
               _ \<leftarrow> Stdout env (Line ''Evaluation completed successfully.'');
               ret (Some (Inr ())) }
             else if failed > 0 then ret (Some (Inl (OtherError (Errorf ''evaluation job failed''))))
             else do { _ \<leftarrow> Sleep env 5; ret None })
      })"

definition newRAGEvalCmd ::
  "('w, 'e) cliEnv \<Rightarrow> ('w, 'e) ragEnv \<Rightarrow> flags \<Rightarrow> bool \<Rightarrow> 'w \<Rightarrow> (('e cliError + unit) \<times> 'w) option" where
  "newRAGEvalCmd env rag fl wait = cmdLoop (startEval env rag fl wait) (evalRound env rag wait)"

end
