(* ===== verification/CliGoals.thy ===== *)
theory CliGoals
  imports CliStore CliRag Operator
begin

section \<open>Properties of the command line\<close>

text \<open>
  The claims about the commands, on every cluster and on a quiescent one, and what the commands and
  the controller of model deployments do together.
\<close>

subsection \<open>Writes and exit statuses\<close>

definition exampleFlags :: flags where
  "exampleFlags = \<lparr>fl_namespace = '''', fl_output = ''table'', fl_kubeconfig = '''', fl_kubeCtx = ''''\<rparr>"

lemma exampleFlags_simps [simp]: "nsOf ''default'' exampleFlags = ''default''"
  by (simp add: exampleFlags_def nsOf_def)






text \<open>
  Edits in place. Scale, canary, promote and rollback read the deployment once and either stop
  there, print the changed deployment (dry run) or update exactly the deployment they read with
  exactly their change of its spec.
\<close>

theorem cli_edits_in_place:
  "produces (newScaleCmd (tracedCli env) fl name replicas dryRun)
     (editRun name dryRun (\<lambda>md. Some (md\<lparr>md_Spec := (md_Spec md)\<lparr>mds_Replicas := Some replicas\<rparr>\<rparr>))) \<and>
   produces (newCanaryCmd (tracedCli env) fl name target weight dryRun)
     (editRun name dryRun (\<lambda>md. Some (applyCanary md target weight))) \<and>
   produces (newPromoteCmd (tracedCli env) fl name dryRun) (editRun name dryRun applyPromote) \<and>
   produces (newRollbackCmd (tracedCli env) fl name dryRun)
     (editRun name dryRun (\<lambda>md. if mds_Canary (md_Spec md) = None then None else Some (applyRollback md)))"
  by (intro conjI edit_commands)

subsection \<open>Canaries\<close>

lemma withCanary [simp]:
  "mdKey (applyCanary md target weight) = mdKey md" "md_Status (applyCanary md target weight) = md_Status md"
  "mds_Canary (md_Spec (applyCanary md target weight)) \<noteq> None"
  "mdKey (applyRollback md) = mdKey md" "md_Status (applyRollback md) = md_Status md"
  by (simp_all add: applyCanary_def applyRollback_def)

lemma promoted_canary:
  "applyPromote (withGeneration g (applyCanary md target weight)) =
     Some (withGeneration g (md\<lparr>md_Spec := (md_Spec md)\<lparr>mds_Source := target, mds_Canary := None\<rparr>\<rparr>))"
  by (simp add: applyPromote_def applyCanary_def withGeneration_def)

lemma rolled_back_canary:
  "mds_Canary (md_Spec md) = None \<Longrightarrow> applyRollback (withGeneration g (applyCanary md target weight)) = withGeneration g md"
  by (simp add: applyRollback_def applyCanary_def withGeneration_def)

lemma withGeneration_twice [simp]: "withGeneration g (withGeneration h md) = withGeneration g md"
  by (simp add: withGeneration_def)

context cli_store
begin

lemma wp_canary:
  assumes "cl_MDs (view w) (nsOf ctxNs fl, name) = Some md" and "mdKey md = (nsOf ctxNs fl, name)"
  shows "wp (newCanaryCmd (tracedCli env) fl name target weight False) (\<lambda>r s. r = Inr () \<and>
    (\<exists>g. view (fst s) = putMD (withGeneration g (applyCanary md target weight)) (view w))) (w, [])"
  unfolding newCanaryCmd_def
  by (rule wp_edit [OF assms, where edit = "\<lambda>md. applyCanary md target weight"]) simp_all

lemma wp_promote:
  assumes "cl_MDs (view w) (nsOf ctxNs fl, name) = Some md" and "mdKey md = (nsOf ctxNs fl, name)"
    and "applyPromote md = Some md'"
  shows "wp (newPromoteCmd (tracedCli env) fl name False) (\<lambda>r s. r = Inr () \<and>
    (\<exists>g. view (fst s) = putMD (withGeneration g md') (view w))) (w, [])"
proof -
  obtain c where c: "mds_Canary (md_Spec md) = Some c"
    "md' = md\<lparr>md_Spec := (md_Spec md)\<lparr>mds_Source := cc_Source c, mds_Canary := None\<rparr>\<rparr>"
    using assms(3) by (auto simp: applyPromote_def split: option.splits)
  show ?thesis
    unfolding newPromoteCmd_def
    by (rule wp_edit [OF assms(1,2), where edit = "\<lambda>_. md'"]) (simp_all add: c(1) assms(3), simp_all add: c(2))
qed

lemma wp_rollback:
  assumes "cl_MDs (view w) (nsOf ctxNs fl, name) = Some md" and "mdKey md = (nsOf ctxNs fl, name)"
    and "mds_Canary (md_Spec md) \<noteq> None"
  shows "wp (newRollbackCmd (tracedCli env) fl name False) (\<lambda>r s. r = Inr () \<and>
    (\<exists>g. view (fst s) = putMD (withGeneration g (applyRollback md)) (view w))) (w, [])"
  unfolding newRollbackCmd_def
  by (rule wp_edit [OF assms(1,2), where edit = applyRollback]) (simp_all add: assms(3))

end

text \<open>
  A canary, then promote or rollback. On a quiescent cluster, for a deployment without a canary:
  configuring one and promoting it succeeds and leaves the deployment as it was with the canary's
  source; configuring one and rolling it back leaves the deployment as it was; the generation counts
  the edits, and no other object is touched.
\<close>

theorem canary_roundtrip:
  assumes "cli_store env view ctxNs"
    and "cl_MDs (view w) (nsOf ctxNs fl, name) = Some md" and "mdKey md = (nsOf ctxNs fl, name)"
    and "mds_Canary (md_Spec md) = None"
    and "run_state (newCanaryCmd (tracedCli env) fl name target weight False) (w, []) = (r1, (w1, t1))"
    and "run_state (newPromoteCmd (tracedCli env) fl name False) (w1, []) = (r2, (w2, t2))"
    and "run_state (newRollbackCmd (tracedCli env) fl name False) (w1, []) = (r3, (w3, t3))"
  shows "r1 = Inr () \<and> r2 = Inr () \<and> r3 = Inr () \<and>
    (\<exists>g. view w2 = putMD (withGeneration g
      (md\<lparr>md_Spec := (md_Spec md)\<lparr>mds_Source := target, mds_Canary := None\<rparr>\<rparr>)) (view w)) \<and>
    (\<exists>g. view w3 = putMD (withGeneration g md) (view w))"
proof -
  obtain g where r1: "r1 = Inr ()" and w1: "view w1 = putMD (withGeneration g (applyCanary md target weight)) (view w)"
    using wpD [OF cli_store.wp_canary [OF assms(1-3)] assms(5)] by auto
  let ?md1 = "withGeneration g (applyCanary md target weight)"
  have m1: "cl_MDs (view w1) (nsOf ctxNs fl, name) = Some ?md1" "mdKey ?md1 = (nsOf ctxNs fl, name)"
    "mds_Canary (md_Spec ?md1) \<noteq> None"
    using assms(3) by (simp_all add: w1)
  note p = wpD [OF cli_store.wp_promote [OF assms(1) m1(1,2) promoted_canary] assms(6)]
  note b = wpD [OF cli_store.wp_rollback [OF assms(1) m1] assms(7)]
  show ?thesis
    using r1 p b assms(4) by (auto simp: w1 putMD_twice rolled_back_canary)
qed

definition canaryRun :: "cluster" where
  "canaryRun = fst (snd (run_state (newCanaryCmd (tracedCli memCli) exampleFlags ''qwen-7b'' ''Qwen/Qwen3-8B'' 10 False)
     (oneModel exampleMD, [])))"

theorem canary_roundtrip_witness:
  "\<exists>g. fst (snd (run_state (newRollbackCmd (tracedCli memCli) exampleFlags ''qwen-7b'' False) (canaryRun, []))) =
     putMD (withGeneration g exampleMD) (oneModel exampleMD)"
proof -
  have c: "run_state (newCanaryCmd (tracedCli memCli) exampleFlags ''qwen-7b'' ''Qwen/Qwen3-8B'' 10 False)
      (oneModel exampleMD, []) = (r, (canaryRun, t))"
    if "r = fst (run_state (newCanaryCmd (tracedCli memCli) exampleFlags ''qwen-7b'' ''Qwen/Qwen3-8B'' 10 False)
         (oneModel exampleMD, []))"
      "t = snd (snd (run_state (newCanaryCmd (tracedCli memCli) exampleFlags ''qwen-7b'' ''Qwen/Qwen3-8B'' 10 False)
         (oneModel exampleMD, [])))" for r t
    using that by (simp add: canaryRun_def)
  have m: "cl_MDs (oneModel exampleMD) (nsOf ''default'' exampleFlags, ''qwen-7b'') = Some exampleMD"
    "mdKey exampleMD = (nsOf ''default'' exampleFlags, ''qwen-7b'')" "mds_Canary (md_Spec exampleMD) = None"
    using oneModel_ok(2) [of exampleMD] by (simp_all, simp add: exampleMD_def zeroMDSpec_def)
  show ?thesis
    using canary_roundtrip [OF mem_cli.cli_store_axioms m c [OF refl refl]]
    by (metis prod.collapse)
qed

subsection \<open>Loops that watch\<close>

text \<open>
  The loop \<open>body\<close> ends with the first world, among those its rounds pass through, that has a verdict:
  with this verdict, after this round.
\<close>

definition endsAtFirst :: "('w, 'r option) state \<Rightarrow> ('w \<Rightarrow> 'r option) \<Rightarrow> 'w \<Rightarrow> 'r \<Rightarrow> 'w \<Rightarrow> bool" where
  "endsAtFirst body verdict w r w' \<longleftrightarrow>
     (\<exists>n. (\<forall>i<n. verdict (rounds body i w) = None) \<and> verdict (rounds body n w) = Some r \<and>
          w' = rounds body (Suc n) w)"

lemma poll_verdict:
  "(\<And>w. fst (run_state body w) = verdict w) \<Longrightarrow> poll body w = Some (r, w') \<longleftrightarrow> endsAtFirst body verdict w r w'"
  unfolding poll_iff stopsAt_def endsAtFirst_def by auto

lemma poll_now: "fst (run_state body w) \<noteq> None \<Longrightarrow> poll body w \<noteq> None"
  using poll_step [of body w] by auto

lemma cmdLoop_connected:
  "run_state m w = (Inr x, w1) \<Longrightarrow> cmdLoop m body w = poll (body x) w1"
  by (simp add: cmdLoop_def)

lemma nextRound_result: "fst (run_state (nextRound env watch) w) = (if watch then None else Some (Inr ()))"
  by (auto simp: nextRound_def split: prod.splits)

text \<open>How a reading of the cluster ends a loop: the listing, the deployment, the job.\<close>

fun listVerdict :: "bool \<Rightarrow> 'e error + ModelDeployment list \<Rightarrow> ('e cliError + unit) option" where
  "listVerdict watch (Inl err) = Some (Inl (wrapped ''failed to list ModelDeployments'' err))"
| "listVerdict watch (Inr items) = (if watch then None else Some (Inr ()))"

fun statusVerdict :: "bool \<Rightarrow> string \<Rightarrow> string \<Rightarrow> 'e error + ModelDeployment \<Rightarrow> ('e cliError + unit) option" where
  "statusVerdict watch ns name (Inl err) = Some (Inl (NotFoundError ''ModelDeployment'' name ns))"
| "statusVerdict watch ns name (Inr md) = (if watch then None else Some (Inr ()))"

fun jobVerdict :: "'e error + int \<times> int \<Rightarrow> ('e cliError + unit) option" where
  "jobVerdict (Inl err) = Some (Inl (OtherError err))"
| "jobVerdict (Inr (succeeded, failed)) =
     (if succeeded > 0 then Some (Inr ())
      else if failed > 0 then Some (Inl (OtherError (Errorf ''evaluation job failed''))) else None)"

lemma listRound_verdict:
  "fst (run_state (listRound env fl allNamespaces watch ns) w) =
     listVerdict watch (fst (run_state (CrListMD env (if allNamespaces then None else Some ns)) w))"
  by (auto simp: listRound_def nextRound_result split: prod.splits sum.splits)

lemma statusRound_verdict:
  "fst (run_state (statusRound env fl name watch ns) w) =
     statusVerdict watch ns name (fst (run_state (CrGetMD env (ns, name)) w))"
  by (auto simp: statusRound_def nextRound_result split: prod.splits sum.splits)

lemma evalRound_verdict:
  "fst (run_state (evalRound env rag True job) w) = jobVerdict (fst (run_state (GetJob rag job) w))"
  by (auto simp: evalRound_def split: prod.splits sum.splits)

text \<open>
  C28 (loops that watch). \<open>list\<close> and \<open>status\<close> end after the first round whose reading of the cluster has
  a verdict, with this verdict: with \<open>--watch\<close> only a failing reading has one, so they return only an
  error and otherwise never; without, the first reading has one, so they always return. \<open>eval --wait\<close>
  ends at the first reading of the job that fails or finds it succeeded or failed, and never when
  there is none.
\<close>

theorem loops_return:
  assumes "run_state (NewKubeClients env fl) w = (Inr ns, w1)"
    and "run_state (startEval env rag fl True) v = (Inr job, v1)"
  shows "(newListCmd env fl allNamespaces watch w = Some (r, w') \<longleftrightarrow>
      endsAtFirst (listRound env fl allNamespaces watch ns)
        (\<lambda>u. listVerdict watch (fst (run_state (CrListMD env (if allNamespaces then None else Some ns)) u))) w1 r w') \<and>
    (newStatusCmd env fl name watch w = Some (r, w') \<longleftrightarrow>
      endsAtFirst (statusRound env fl name watch ns)
        (\<lambda>u. statusVerdict watch ns name (fst (run_state (CrGetMD env (ns, name)) u))) w1 r w') \<and>
    (newRAGEvalCmd env rag fl True v = Some (r, w') \<longleftrightarrow>
      endsAtFirst (evalRound env rag True job) (\<lambda>u. jobVerdict (fst (run_state (GetJob rag job) u))) v1 r w') \<and>
    newListCmd env fl allNamespaces False w \<noteq> None \<and> newStatusCmd env fl name False w \<noteq> None"
proof (intro conjI)
  show "newListCmd env fl allNamespaces False w \<noteq> None"
    unfolding newListCmd_def cmdLoop_connected [OF assms(1)]
    by (rule poll_now) (cases "fst (run_state (CrListMD env (if allNamespaces then None else Some ns)) w1)";
      simp add: listRound_verdict)
  show "newStatusCmd env fl name False w \<noteq> None"
    unfolding newStatusCmd_def cmdLoop_connected [OF assms(1)]
    by (rule poll_now) (cases "fst (run_state (CrGetMD env (ns, name)) w1)"; simp add: statusRound_verdict)
qed (unfold newListCmd_def newStatusCmd_def newRAGEvalCmd_def cmdLoop_connected [OF assms(1)]
  cmdLoop_connected [OF assms(2)], rule poll_verdict [OF listRound_verdict],
  rule poll_verdict [OF statusRound_verdict], rule poll_verdict [OF evalRound_verdict])

text \<open>A cluster whose world is a clock: sleeping lets it run, and the job has succeeded after ten seconds.\<close>

definition tickCli :: "(nat, memError) cliEnv" where
  "tickCli = \<lparr>
     ClientConfig = (\<lambda>p c. ret None), ConfigNamespace = (\<lambda>p c. ret ''default''), AddToScheme = None,
     NewCRClient = ret None, NewClientset = ret None,
     CrGetMD = (\<lambda>k. ret (Inl (Raw NotFound))), CrListMD = (\<lambda>n. ret (Inr [exampleMD])),
     CrCreateMD = (\<lambda>x. ret (Inr x)), CrUpdateMD = (\<lambda>x. ret (Inr x)), CrDeleteMD = (\<lambda>x. ret None),
     CrGetFTR = (\<lambda>k. ret (Inl (Raw NotFound))), CrListFTR = (\<lambda>n. ret (Inr [])),
     CrCreateFTR = (\<lambda>x. ret (Inr x)), CrDeleteFTR = (\<lambda>x. ret None),
     CrGetLP = (\<lambda>k. ret (Inl (Raw NotFound))), CrCreateLP = (\<lambda>x. ret (Inr x)), CrUpdateLP = (\<lambda>x. ret (Inr x)),
     ListPods = (\<lambda>n s. ret (Inr [])), PodLogs = (\<lambda>n p c f t. ret (Inr [])),
     Stdout = (\<lambda>x. ret ()), ReadAnswer = ret ''y'', Sleep = (\<lambda>n. State (\<lambda>t. ((), t + nat n))),
     ErrNotFound = (\<lambda>e. e = Raw NotFound), ErrAlreadyExists = (\<lambda>e. e = Raw AlreadyExists)\<rparr>"

definition tickRag :: "(nat, memError) ragEnv" where
  "tickRag = \<lparr>
     Getenv = (\<lambda>k. ''''), GetServicePorts = (\<lambda>k. ret (Inr [])), FirstNode = ret (Inr []),
     GetConfigMap = (\<lambda>k. ret (Inl (Raw NotFound))),
     Dify = \<lparr>NewRequestError = (\<lambda>m u. None), Do = (\<lambda>q. ret (Inr \<lparr>rs_StatusCode = 200, rs_Body = ''{}''\<rparr>))\<rparr>,
     Cookies = (\<lambda>u. ret []), ReadFile = (\<lambda>f. ret (Inr ''text'')), NewBoundary = ret ''b'',
     GetCronJob = (\<lambda>k. ret (Inr JNull)), CreateJob = (\<lambda>j. ret (Inr ''ragas-manual-1'')),
     GetJob = (\<lambda>k. State (\<lambda>t. (Inr (if t \<ge> 10 then 1 else 0, 0), t)))\<rparr>"

lemma tick_connects:
  "run_state (NewKubeClients tickCli exampleFlags) 0 = (Inr ''default'', 0)"
  "run_state (startEval tickCli tickRag exampleFlags True) 0 = (Inr (''default'', ''ragas-manual-1''), 0)"
  by (simp_all add: startEval_def NewKubeClients_def cmdBind_def try_err_def try_get_def call_def print_def cmdOk_def
      tickCli_def tickRag_def exampleFlags_def)

lemma tick_round:
  "snd (run_state (evalRound tickCli tickRag True job) t) = (if t \<ge> 10 then t else t + 5)"
  "fst (run_state (GetJob tickRag job) t) = Inr (if t \<ge> 10 then 1 else 0, 0)"
  by (simp_all add: evalRound_def tickCli_def tickRag_def)

theorem loops_return_witness:
  "newRAGEvalCmd tickCli tickRag exampleFlags True 0 = Some (Inr (), 10)"
proof -
  have "endsAtFirst (evalRound tickCli tickRag True (''default'', ''ragas-manual-1''))
      (\<lambda>u. jobVerdict (fst (run_state (GetJob tickRag (''default'', ''ragas-manual-1'')) u))) 0 (Inr ()) 10"
    unfolding endsAtFirst_def
    by (rule exI [of _ 2]) (auto simp: tick_round less_Suc_eq numeral_2_eq_2)
  then show ?thesis using loops_return [OF tick_connects] by blast
qed

subsection \<open>What the commands create is admitted\<close>

lemma lookup_parseEngineArgs:
  "map_of (parseEngineArgs args) = map_of (rev (map (\<lambda>a. Cut a (CHR ''='')) args))"
proof -
  have "map_of (fold (\<lambda>a m. case Cut a (CHR ''='') of (k, v) \<Rightarrow> AList.update k v m) args m0) =
      map_of m0 ++ map_of (rev (map (\<lambda>a. Cut a (CHR ''='')) args))" for m0
    by (induction args arbitrary: m0) (auto simp: update_conv' fun_eq_iff map_add_def split: option.splits prod.splits)
  from this [of "[]"] show ?thesis by (simp add: parseEngineArgs_def)
qed

lemma inferred_path: "inferDataSourceType p = ''minio'' \<Longrightarrow> p \<noteq> ''''"
  by (auto simp: inferDataSourceType_def HasPrefix_def)

lemma inferred_valid: "inferDataSourceType p \<in> validTypes"
  by (simp add: inferDataSourceType_def validTypes_def)

text \<open>
  C39 (the commands and the admission checks). A deployment built from the flags of \<open>deploy\<close> is
  admitted exactly when the source is given, the counts are not negative and engine and accelerator
  are known; of repeated \<open>--engine-arg\<close> keys the last wins. A run built by \<open>finetune create\<close> always has
  a valid data source and is admitted exactly when base model and output name are given, the method
  is known, the counts are not negative and a quality gate comes with an evaluation. A platform built
  by \<open>platform init\<close> is always admitted.
\<close>

theorem cli_objects_admitted:
  "(ValidateModelDeploymentSpec (md_Spec (buildModelDeployment source d)) = None \<longleftrightarrow>
      source \<noteq> '''' \<and> df_engine d \<in> validEngines \<and> df_replicas d \<ge> 0 \<and> df_gpu d \<ge> 0 \<and>
      df_accelerator d \<in> validAccelerators) \<and>
   map_of (mds_EngineArgs (md_Spec (buildModelDeployment source d))) =
     map_of (rev (map (\<lambda>a. Cut a (CHR ''='')) (df_engineArgs d))) \<and>
   (ValidateFineTuneRunSpec (ftr_Spec (buildFineTuneRun c)) = None \<longleftrightarrow>
      cf_baseModel c \<noteq> '''' \<and> cf_outputName c \<noteq> '''' \<and> cf_method c \<in> validMethods \<and>
      cf_epochs c \<ge> 0 \<and> cf_batchSize c \<ge> 0 \<and> \<not> (cf_qualityGate c \<and> \<not> cf_eval c)) \<and>
   ValidateLLMPlatformSpec (lp_Spec (buildLLMPlatform i)) = None"
proof (intro conjI)
  show "map_of (mds_EngineArgs (md_Spec (buildModelDeployment source d))) =
      map_of (rev (map (\<lambda>a. Cut a (CHR ''='')) (df_engineArgs d)))"
    by (simp add: buildModelDeployment_def Let_def lookup_parseEngineArgs)
  show "ValidateModelDeploymentSpec (md_Spec (buildModelDeployment source d)) = None \<longleftrightarrow>
      source \<noteq> '''' \<and> df_engine d \<in> validEngines \<and> df_replicas d \<ge> 0 \<and> df_gpu d \<ge> 0 \<and>
      df_accelerator d \<in> validAccelerators"
    unfolding ValidateModelDeploymentSpec_None_iff
    by (auto simp: md_spec_ok_def canary_ok_def buildModelDeployment_def zeroMDSpec_def Let_def)
  show "ValidateFineTuneRunSpec (ftr_Spec (buildFineTuneRun c)) = None \<longleftrightarrow>
      cf_baseModel c \<noteq> '''' \<and> cf_outputName c \<noteq> '''' \<and> cf_method c \<in> validMethods \<and>
      cf_epochs c \<ge> 0 \<and> cf_batchSize c \<ge> 0 \<and> \<not> (cf_qualityGate c \<and> \<not> cf_eval c)"
    unfolding ValidateFineTuneRunSpec_None_iff
    by (auto simp: ftr_spec_ok_def buildFineTuneRun_def zeroFTRSpec_def inferred_path inferred_valid)
  show "ValidateLLMPlatformSpec (lp_Spec (buildLLMPlatform i)) = None"
    unfolding ValidateLLMPlatformSpec_None_iff
    by (simp add: lp_spec_ok_def buildLLMPlatform_def zeroLPSpec_def validRouting_def)
qed

subsection \<open>From the command line to the controller and back\<close>

context cli_store
begin

lemma wp_deploy:
  assumes "\<not> df_dryRun d"
    and "cl_MDs (view w) (nsOf ctxNs fl, md_Name (buildModelDeployment source d)) = None"
  shows "wp (newDeployCmd (tracedCli env) fl source d) (\<lambda>r s. r = Inr () \<and>
    (\<exists>g. view (fst s) = putMD (withGeneration g (inNamespace (nsOf ctxNs fl) (buildModelDeployment source d))) (view w)))
    (w, [])"
proof -
  have k: "mdKey (inNamespace ns md) = (ns, md_Name md)" for ns md
    by (simp add: inNamespace_def)
  have i: "inNamespace ns (inNamespace ns' md) = inNamespace ns md" for ns ns' md
    by (simp add: inNamespace_def)
  have z: "(inNamespace ns (buildModelDeployment source d))\<lparr>md_Status := zeroMDStatus\<rparr> =
      inNamespace ns (buildModelDeployment source d)" for ns
    by (simp add: inNamespace_def buildModelDeployment_def Let_def)
  show ?thesis
    unfolding newDeployCmd_def
    by (simp add: assms(1) Let_def wp_rules i, rule wp_connect)
       (auto simp: wp_rules k assms(2) z intro!: wp_cr_create quiet_calls, blast)
qed

lemma wp_endpoint:
  assumes "cl_MDs (view w) (nsOf ctxNs fl, name) = Some md" and "mdst_Endpoint (md_Status md) \<noteq> ''''"
  shows "wp (newEndpointCmd (tracedCli env) fl name) (\<lambda>r s. r = Inr () \<and> view (fst s) = view w \<and>
    Printed (Line (mdst_Endpoint (md_Status md))) \<in> set (snd s)) (w, [])"
  unfolding newEndpointCmd_def
  by (rule wp_read [OF assms(1)]) (auto simp: wp_rules assms(2) intro!: quiet_calls)

lemma wp_delete:
  assumes "cl_MDs (view w) (nsOf ctxNs fl, name) = Some md" and "mdKey md = (nsOf ctxNs fl, name)"
  shows "wp (newDeleteCmd (tracedCli env) fl name True) (\<lambda>r s. r = Inr () \<and>
    (\<exists>t. view (fst s) = cl_MDs_update (\<lambda>m. m(mdKey md := afterDelete t md)) (view w))) (w, [])"
  unfolding newDeleteCmd_def
  by (simp add: wp_rules confirm_def, rule wp_read [OF assms(1)])
     (auto simp: wp_rules assms intro!: wp_cr_delete quiet_calls, blast)

end

lemma cluster_ok_putMD: "cluster_ok c \<Longrightarrow> cluster_ok (putMD md c)"
  by (auto simp: cluster_ok_def putMD_def)

lemma built_simps [simp]:
  "om_Finalizers (md_ObjectMeta (inNamespace ns (buildModelDeployment source d))) = []"
  "om_DeletionTimestamp (md_ObjectMeta (inNamespace ns (buildModelDeployment source d))) = None"
  "md_Namespace (inNamespace ns md) = ns" "md_Name (inNamespace ns md) = md_Name md"
  "mdEngine (inNamespace ns (buildModelDeployment source d)) = ResolveEngine source (df_engine d)"
  by (simp_all add: inNamespace_def buildModelDeployment_def emptyMeta_def mdEngine_def Let_def)

lemma withGeneration_engine [simp]:
  "mdEngine (withGeneration g md) = mdEngine md"
  "quantitiesParse qok (withGeneration g md) = quantitiesParse qok md"
  by (simp_all add: mdEngine_def quantitiesParse_def)

text \<open>What a reconcile of a model leaves, and of a marked one.\<close>

lemma goal_object:
  "cl_MDs (md_goal qok pl n md c) (mdKey md) = Some (withFinalizer md\<lparr>md_Status :=
     mdComputeStatus (withFinalizer md) (mdEngine md) (dep_Status (goalDeployment qok pl (withFinalizer md) c)) n\<rparr>)"
  "cl_Deployments (md_goal qok pl n md c) (mdKey md) \<noteq> None"
  "cl_Services (md_goal qok pl n md c) (mdKey md) \<noteq> None"
  by (simp_all add: md_goal_def Let_def)

lemma computed_endpoint:
  "mdst_Endpoint (mdComputeStatus md e dep n) = ''http://'' @ md_Name md @ ''.'' @ md_Namespace md @
     ''.svc.cluster.local:'' @ showInt (EnginePort e)"
  by (simp add: mdComputeStatus_def mdEndpoint_def Let_def)

text \<open>Deleting a served model and reconciling it once more.\<close>

lemma delete_released:
  assumes "cli_store env view ctxNs" and "kube_store K lib view" and "gatewayApart gw view"
    and "cl_MDs (view w) (nsOf ctxNs fl, name) = Some md" and key: "mdKey md = (nsOf ctxNs fl, name)"
    and "om_Finalizers (md_ObjectMeta md) = [modelDeploymentFinalizer]"
    and "run_state (newDeleteCmd (tracedCli env) fl name True) (w, []) = (r, (w1, tr))"
    and "run_state (mdReconcile (reconcilerOf K lib gw) (nsOf ctxNs fl, name)) w1 = (out, w2)"
  shows "r = Inr ()" and "out = Done 0 None" and "cl_MDs (view w2) (nsOf ctxNs fl, name) = None"
    and "cl_Deployments (view w2) = cl_Deployments (view w)"
proof -
  from wpD [OF cli_store.wp_delete [OF assms(1,4,5)] assms(7)] obtain t where r: "r = Inr ()"
    and w1: "view w1 = cl_MDs_update (\<lambda>m. m(mdKey md := afterDelete t md)) (view w)" by auto
  let ?md = "md\<lparr>md_ObjectMeta := (md_ObjectMeta md)\<lparr>om_DeletionTimestamp := Some t\<rparr>\<rparr>"
  have m: "cl_MDs (view w1) (mdKey ?md) = Some ?md" "om_DeletionTimestamp (md_ObjectMeta ?md) \<noteq> None"
    "om_Finalizers (md_ObjectMeta ?md) = [modelDeploymentFinalizer]" "mdKey ?md = mdKey md"
    using assms(6) by (simp_all add: w1 afterDelete_def)
  from wpD [OF kube_store.wp_Reconcile_deleted [OF assms(2) apartD [OF assms(3)] m(1-3)]
      assms(8) [unfolded reconcilerOf_def key [symmetric] m(4) [symmetric]]]
  have "out = Done 0 None" "view w2 = cl_MDs_update (\<lambda>m. m(mdKey md := None)) (view w1)"
    by (simp_all only: m(4))
  then show "r = Inr ()" "out = Done 0 None" "cl_MDs (view w2) (nsOf ctxNs fl, name) = None"
    "cl_Deployments (view w2) = cl_Deployments (view w)"
    using r by (simp_all add: w1 key)
qed

text \<open>
  C6 (the life of a deployment). On a quiescent cluster, with the operator as \<open>main\<close> configures it, for
  every environment and however the gateway answers: deploying a model under a free name and
  reconciling it succeeds; the cluster then has the built Deployment and Service, and \<open>endpoint\<close> prints
  the address of the resolved engine's port; deleting the model and reconciling it again succeeds and
  removes the object, while the Deployment is left to the garbage collector.
\<close>

theorem deploy_lifecycle:
  fixes source d ns fl ctxNs
  defines "ns \<equiv> nsOf ctxNs fl" and "md \<equiv> inNamespace (nsOf ctxNs fl) (buildModelDeployment source d)"
  assumes "cli_store env view ctxNs" and "kube_store K lib view" and "\<forall>q w. view (snd (run_state (Do T q) w)) = view w"
    and "cluster_ok (view w)" and "\<not> df_dryRun d" and "cl_MDs (view w) (mdKey md) = None"
    and "quantitiesParse (quantityOk lib) md"
    and "run_state (newDeployCmd (tracedCli env) fl source d) (w, []) = (r1, (w1, t1))"
    and "run_state (mdReconcile (mainModelDeployments K lib T getenv) (mdKey md)) w1 = (out1, w2)"
    and "run_state (newEndpointCmd (tracedCli env) fl (md_Name md)) (w2, []) = (r2, (w3, t2))"
    and "run_state (newDeleteCmd (tracedCli env) fl (md_Name md) True) (w3, []) = (r3, (w4, t3))"
    and "run_state (mdReconcile (mainModelDeployments K lib T getenv) (mdKey md)) w4 = (out2, w5)"
  shows "r1 = Inr () \<and> out1 = Done 0 None \<and>
    cl_Deployments (view w2) (mdKey md) \<noteq> None \<and> cl_Services (view w2) (mdKey md) \<noteq> None \<and>
    r2 = Inr () \<and> Printed (Line (''http://'' @ md_Name md @ ''.'' @ ns @ ''.svc.cluster.local:'' @
      showInt (EnginePort (ResolveEngine source (df_engine d))))) \<in> set t2 \<and>
    r3 = Inr () \<and> out2 = Done 0 None \<and> cl_MDs (view w5) (mdKey md) = None \<and>
    cl_Deployments (view w5) (mdKey md) \<noteq> None"
proof -
  note apart = env_gateway_apart [OF assms(5), of getenv]
  let ?k = "(nsOf ctxNs fl, md_Name (buildModelDeployment source d))"
  have k: "mdKey md = ?k" "md_Name md = md_Name (buildModelDeployment source d)" "md_Namespace md = nsOf ctxNs fl"
    by (simp_all add: md_def ns_def)

  obtain g where r1: "r1 = Inr ()" and w1: "view w1 = putMD (withGeneration g md) (view w)"
    using wpD [OF cli_store.wp_deploy [OF assms(3,7) assms(8) [unfolded k]] assms(10)] by (auto simp: md_def)
  let ?md = "withGeneration g md"
  have m1: "cl_MDs (view w1) (mdKey ?md) = Some ?md" "om_DeletionTimestamp (md_ObjectMeta ?md) = None"
    "quantitiesParse (quantityOk lib) ?md"
    using assms(9) by (simp_all add: w1) (simp add: md_def)
  have "cluster_ok (view w1)" unfolding w1 by (rule cluster_ok_putMD [OF assms(6)])
  note goal = reconciler_goal [OF assms(4) apart this m1, unfolded withGeneration_simps,
      OF assms(11) [unfolded mainModelDeployments_eq]]
  then obtain n pl where w2: "view w2 = md_goal (quantityOk lib) pl n ?md (view w1)" by blast
  define md2 where "md2 = withFinalizer ?md\<lparr>md_Status := mdComputeStatus (withFinalizer ?md) (mdEngine ?md)
    (dep_Status (goalDeployment (quantityOk lib) pl (withFinalizer ?md) (view w1))) n\<rparr>"
  have m2: "cl_MDs (view w2) (mdKey md) = Some md2" "cl_Deployments (view w2) (mdKey md) \<noteq> None"
    "cl_Services (view w2) (mdKey md) \<noteq> None"
    using goal_object [of "quantityOk lib" pl n ?md "view w1"] by (simp_all only: w2 md2_def withGeneration_simps not_False_eq_True)
  have e2: "mdst_Endpoint (md_Status md2) = ''http://'' @ md_Name md @ ''.'' @ ns @ ''.svc.cluster.local:'' @
      showInt (EnginePort (ResolveEngine source (df_engine d)))"
    by (simp add: md2_def computed_endpoint k ns_def, simp add: md_def)
  have f2: "mdKey md2 = mdKey md" "om_Finalizers (md_ObjectMeta md2) = [modelDeploymentFinalizer]"
    by (simp_all add: md2_def withFinalizer_def) (simp_all add: md_def)
  have m2': "cl_MDs (view w2) ?k = Some md2" using m2(1) by (simp only: k)
  have "mdst_Endpoint (md_Status md2) \<noteq> ''''" by (simp add: e2)
  from wpD [OF cli_store.wp_endpoint [OF assms(3) m2' this] assms(12) [unfolded k]]
  have r2: "r2 = Inr ()" "view w3 = view w2" "Printed (Line (mdst_Endpoint (md_Status md2))) \<in> set t2" by simp_all
  have m3: "cl_MDs (view w3) ?k = Some md2" "mdKey md2 = ?k" using r2(2) m2' f2(1) k(1) by simp_all
  note gone = delete_released [OF assms(3,4) apart m3 f2(2) assms(13) [unfolded k]
      assms(14) [unfolded mainModelDeployments_eq k]]
  show ?thesis
    using goal r1 r2 gone m2 e2 by (simp add: k)
qed

definition exampleDeploy :: deployFlags where
  "exampleDeploy = \<lparr>df_name = ''chat'', df_engine = ''auto'', df_replicas = 1, df_gpu = 1, df_memory = ''16Gi'',
     df_cpu = ''4'', df_accelerator = ''nvidia'', df_engineArgs = [], df_prefixCaching = False, df_dryRun = False\<rparr>"

text \<open>A gateway that cannot be reached.\<close>

definition downTransport :: "(cluster, memError) transport" where
  "downTransport = \<lparr>NewRequestError = (\<lambda>m u. None), Do = (\<lambda>q. ret (Inl (Raw NotFound)))\<rparr>"

lemma downTransport_apart: "\<forall>q w. snd (run_state (Do downTransport q) w) = w"
  by (simp add: downTransport_def)

text \<open>The five steps on the cluster in memory, and the cluster they leave.\<close>

definition lifeStart :: cluster where
  "lifeStart = fst (snd (run_state (newDeployCmd (tracedCli memCli) exampleFlags ''Qwen/Qwen3-8B'' exampleDeploy)
     (emptyCluster, [])))"

abbreviation lifeReconcile :: "cluster \<Rightarrow> cluster" where
  "lifeReconcile c \<equiv> snd (run_state (mdReconcile (mainModelDeployments mem_kube mem_lib downTransport (\<lambda>k. ''http://litellm:4000''))
     (''default'', ''chat'')) c)"

definition lifeEnd :: cluster where
  "lifeEnd = lifeReconcile (fst (snd (run_state (newDeleteCmd (tracedCli memCli) exampleFlags ''chat'' True)
     (fst (snd (run_state (newEndpointCmd (tracedCli memCli) exampleFlags ''chat'') (lifeReconcile lifeStart, []))), []))))"

lemma triple: "p = (fst p, (fst (snd p), snd (snd p)))"
  by simp

theorem deploy_lifecycle_witness:
  "cl_MDs lifeEnd (''default'', ''chat'') = None \<and> cl_Deployments lifeEnd (''default'', ''chat'') \<noteq> None"
proof -
  let ?md = "inNamespace (nsOf ''default'' exampleFlags) (buildModelDeployment ''Qwen/Qwen3-8B'' exampleDeploy)"
  have k: "md_Name ?md = ''chat''" "md_Namespace ?md = ''default''"
    by (simp_all add: buildModelDeployment_def exampleDeploy_def emptyMeta_def Let_def)
  have e: "cluster_ok emptyCluster" "cl_MDs emptyCluster (mdKey ?md) = None" "\<not> df_dryRun exampleDeploy"
    by (simp_all add: cluster_ok_def emptyCluster_def exampleDeploy_def)
  show ?thesis
    using deploy_lifecycle [OF mem_cli.cli_store_axioms mem.kube_store_axioms downTransport_apart e(1,3,2)
        exampleMD_parses triple surjective_pairing triple triple surjective_pairing]
    unfolding k lifeEnd_def lifeStart_def by blast
qed

end
