(* ===== verification/CliRagProps.thy ===== *)
theory CliRagProps
  imports CliRag
begin

section \<open>Properties of the knowledge-base commands\<close>

text \<open>
  The HTTP requests that the commands send to Dify, recorded with their answers. Every request of a
  session carries its token; an upload is two requests, the second of which names what the first
  returned; a deletion that gets an answer reports success, whatever the answer.
\<close>

type_synonym 'e exchange = "httpRequest \<times> ('e error + httpResponse)"

definition tracedRag :: "('w, 'e) ragEnv \<Rightarrow> ('w \<times> 'e exchange list, 'e) ragEnv" where
  "tracedRag rag = \<lparr>
     Getenv = Getenv rag,
     GetServicePorts = (\<lambda>k. silent (GetServicePorts rag k)),
     FirstNode = silent (FirstNode rag),
     GetConfigMap = (\<lambda>k. silent (GetConfigMap rag k)),
     Dify = tracedTransport (Dify rag),
     Cookies = (\<lambda>u. silent (Cookies rag u)),
     ReadFile = (\<lambda>f. silent (ReadFile rag f)),
     NewBoundary = silent (NewBoundary rag),
     GetCronJob = (\<lambda>k. silent (GetCronJob rag k)),
     CreateJob = (\<lambda>j. silent (CreateJob rag j)),
     GetJob = (\<lambda>k. silent (GetJob rag k))\<rparr>"

lemma rag_wp:
  "(\<And>r w'. Q1 r (w', tr)) \<Longrightarrow> wp (ReadFile (tracedRag rag) f) Q1 (w, tr)"
  "(\<And>b w'. Q2 b (w', tr)) \<Longrightarrow> wp (NewBoundary (tracedRag rag)) Q2 (w, tr)"
  by (simp_all add: tracedRag_def wp_silent)

lemma wp_difyDo:
  assumes "\<And>e w'. Q (Inl (OtherError e)) (w', tr)"
    and "\<And>e w'. Q (Inl (OtherError e)) (w', tr @ [(sessionRequest s meth path body ct, Inl e)])"
    and "\<And>x w'. Q (Inr x) (w', tr @ [(sessionRequest s meth path body ct, Inr x)])"
  shows "wp (difyDo (tracedRag rag) s meth path body ct) Q (w, tr)"
  unfolding difyDo_def tracedRag_def tracedTransport_def
  by (auto simp: wp_rules assms split: option.splits sum.splits intro!: wp_logged)

lemma session_header:
  "rq_Header (sessionRequest s meth path body ct) ''X-Csrf-Token'' = Some (dys_csrfToken s)"
  "rq_URL (sessionRequest s meth path body ct) = dys_endpoint s @ path"
  by (simp_all add: sessionRequest_def Let_def)

subsection \<open>Uploads\<close>

definition uploadRequest :: "difySession \<Rightarrow> string \<Rightarrow> string \<Rightarrow> string \<Rightarrow> httpRequest" where
  "uploadRequest s filePath boundary content =
     sessionRequest s ''POST'' ''/console/api/files/upload'' (Some (multipartBody boundary (Base filePath) content))
       (''multipart/form-data; boundary='' @ boundary)"

definition documentRequest :: "difySession \<Rightarrow> string \<Rightarrow> string \<Rightarrow> int \<Rightarrow> int \<Rightarrow> httpRequest" where
  "documentRequest s kbID fileID chunkSize chunkOverlap =
     sessionRequest s ''POST'' (''/console/api/datasets/'' @ kbID @ ''/documents'')
       (Some (Marshal (docPayload fileID chunkSize chunkOverlap))) ''application/json''"

definition fileIDOf :: "jsonLib \<Rightarrow> httpResponse \<Rightarrow> string" where
  "fileIDOf jl up = asString (jsonAt (decoded jl (rs_Body up)) ''id'')"

text \<open>
  An upload. For every server, an upload sends at most two requests. It reports success exactly
  when both were answered with a status below 400: the first posted the file's content as a form
  under its base name and was answered with an identifier, the second created a document of the
  knowledge base from this identifier.
\<close>

theorem upload_two_requests:
  "produces (uploadFile (tracedRag rag) jl s kbID filePath chunkSize chunkOverlap) (\<lambda>r es.
     length es \<le> 2 \<and>
     (r = Inr () \<longleftrightarrow> (\<exists>boundary content up doc.
        es = [(uploadRequest s filePath boundary content, Inr up),
              (documentRequest s kbID (fileIDOf jl up) chunkSize chunkOverlap, Inr doc)] \<and>
        rs_StatusCode up < 400 \<and> fileIDOf jl up \<noteq> '''' \<and> rs_StatusCode doc < 400)))"
  by (rule producesI)
     (auto simp: uploadFile_def wp_rules Let_def uploadRequest_def documentRequest_def fileIDOf_def
       split: sum.splits intro!: rag_wp wp_difyDo, blast)

subsection \<open>Deletions\<close>

lemma delete_unchecked:
  assumes "NewRequestError (Dify rag) ''DELETE'' (dys_endpoint s @ ''/console/api/datasets/'' @ kbID) = None"
    and "run_state (Do (Dify rag) (sessionRequest s ''DELETE'' (''/console/api/datasets/'' @ kbID) None '''')) w = (Inr resp, w1)"
  shows "fst (run_state (deleteDataset env rag s kbID name) w) = Inr ()"
  using assms
  by (simp add: deleteDataset_def difyDo_def cmdBind_def try_err_def try_get_def print_def call_def split: prod.splits)

end
