(* ===== verification/GoMem.thy ===== *)
theory GoMem
  imports Prelude "HOL-Library.AList"
begin

section \<open>Go's memory: pointers, slices and maps\<close>

text \<open>
  Everywhere else in the library a Go value is a value. This theory is for the code whose purpose
  is aliasing: memory is a list of cells that only grows, an address is a position in it, and
  allocation appends. A struct lies in one piece, with its fields by name; a pointer names a
  location inside a cell, a slice a part of an array that is a cell of its own, a map a cell with
  its entries. A \<open>ty\<close> describes the layout of a type. Dereferencing nil is a panic, \<open>None\<close>.

  \<open>denote\<close> reads the value at a type as what a user of the API sees of it, pointers followed;
  \<open>foot\<close> is the set of cells that this reading follows pointers to.
\<close>

type_synonym addr = nat

datatype selector = Fld string | Idx nat

type_synonym loc = "addr \<times> selector list"

datatype ty = TStr | TInt | TBool | TStruct "(string \<times> ty) list" | TPtr ty | TSlice ty
  | TMap \<comment> \<open>\<open>map[string]string\<close>\<close>

datatype gval = GStr string | GInt int | GBool bool
  | GStruct "(string \<times> gval) list"
  | GPtr "loc option"
  | GSlice "(addr \<times> nat \<times> nat) option" \<comment> \<open>array, offset, length\<close>
  | GMap "addr option"
  | GArray "gval list" \<comment> \<open>a cell that slices refer to\<close>
  | GEntries "(string \<times> string) list" \<comment> \<open>a cell that maps refer to, keys distinct\<close>

type_synonym memory = "gval list"

named_theorems mem_simps \<open>reading and writing memory\<close>

subsection \<open>Locations\<close>

fun look :: "selector list \<Rightarrow> gval \<Rightarrow> gval option" where
  "look [] v = Some v"
| "look (Fld n # p) (GStruct fs) = Option.bind (map_of fs n) (look p)"
| "look (Idx i # p) (GArray vs) = (if i < length vs then look p (vs ! i) else None)"
| "look _ _ = None"

fun setField :: "string \<Rightarrow> ('a \<Rightarrow> 'a) \<Rightarrow> (string \<times> 'a) list \<Rightarrow> (string \<times> 'a) list" where
  "setField n f [] = []"
| "setField n f ((m, v) # fs) = (if m = n then (m, f v) # fs else (m, v) # setField n f fs)"

fun put :: "selector list \<Rightarrow> gval \<Rightarrow> gval \<Rightarrow> gval" where
  "put [] w v = w"
| "put (Fld n # p) w (GStruct fs) = GStruct (setField n (put p w) fs)"
| "put (Idx i # p) w (GArray vs) = (if i < length vs then GArray (vs[i := put p w (vs ! i)]) else GArray vs)"
| "put _ w v = v"

definition peek :: "memory \<Rightarrow> loc \<Rightarrow> gval option" where
  "peek h l = (if fst l < length h then look (snd l) (h ! fst l) else None)"

definition poke :: "loc \<Rightarrow> gval \<Rightarrow> memory \<Rightarrow> memory" where
  "poke l w h = h[fst l := put (snd l) w (h ! fst l)]"

text \<open>\<open>&x.f\<close> for the location of a struct.\<close>

definition sub :: "loc \<Rightarrow> string \<Rightarrow> loc" where
  "sub l n = (fst l, snd l @ [Fld n])"

subsection \<open>Zero values and the reading of values\<close>

lemma size_field: "(n, T) \<in> set fs \<Longrightarrow> size T < Suc (size_list (size_prod (\<lambda>_. 0) size) fs)"
  by (induction fs) auto

function zero :: "ty \<Rightarrow> gval" where
  "zero TStr = GStr ''''"
| "zero TInt = GInt 0"
| "zero TBool = GBool False"
| "zero (TStruct fs) = GStruct (map (\<lambda>(n, T). (n, zero T)) fs)"
| "zero (TPtr T) = GPtr None"
| "zero (TSlice T) = GSlice None"
| "zero TMap = GMap None"
  by pat_completeness auto
termination
  by (relation "measure size") (auto dest: size_field)

datatype den = DStr string | DInt int | DBool bool | DStruct "(string \<times> den) list"
  | DNil | DRef den | DList "den list" | DMap "string \<rightharpoonup> string"

text \<open>The elements of a slice.\<close>

definition elems :: "memory \<Rightarrow> addr \<times> nat \<times> nat \<Rightarrow> gval list option" where
  "elems h s = (case s of (a, off, n) \<Rightarrow>
     (case peek h (a, []) of
        Some (GArray vs) \<Rightarrow> if off + n \<le> length vs then Some (take n (drop off vs)) else None
      | _ \<Rightarrow> None))"

definition entries :: "memory \<Rightarrow> addr \<Rightarrow> (string \<times> string) list option" where
  "entries h a = (case peek h (a, []) of
     Some (GEntries m) \<Rightarrow> if distinct (map fst m) then Some m else None | _ \<Rightarrow> None)"

function denote :: "memory \<Rightarrow> ty \<Rightarrow> gval \<Rightarrow> den option"
  and denoteFields :: "memory \<Rightarrow> (string \<times> ty) list \<Rightarrow> (string \<times> gval) list \<Rightarrow> (string \<times> den) list option" where
  "denote h TStr v = (case v of GStr s \<Rightarrow> Some (DStr s) | _ \<Rightarrow> None)"
| "denote h TInt v = (case v of GInt i \<Rightarrow> Some (DInt i) | _ \<Rightarrow> None)"
| "denote h TBool v = (case v of GBool b \<Rightarrow> Some (DBool b) | _ \<Rightarrow> None)"
| "denote h (TStruct fs) v =
     (case v of GStruct vs \<Rightarrow> map_option DStruct (denoteFields h fs vs) | _ \<Rightarrow> None)"
| "denote h (TPtr T) v =
     (case v of GPtr None \<Rightarrow> Some DNil
      | GPtr (Some l) \<Rightarrow> Option.bind (peek h l) (\<lambda>x. map_option DRef (denote h T x))
      | _ \<Rightarrow> None)"
| "denote h (TSlice T) v =
     (case v of GSlice None \<Rightarrow> Some DNil
      | GSlice (Some s) \<Rightarrow> Option.bind (elems h s) (\<lambda>xs. map_option DList (those (map (denote h T) xs)))
      | _ \<Rightarrow> None)"
| "denote h TMap v =
     (case v of GMap None \<Rightarrow> Some DNil
      | GMap (Some a) \<Rightarrow> map_option (\<lambda>m. DMap (map_of m)) (entries h a)
      | _ \<Rightarrow> None)"
| "denoteFields h [] vs = (if vs = [] then Some [] else None)"
| "denoteFields h ((n, T) # fs) vs =
     (case vs of [] \<Rightarrow> None
      | (m, x) # vs \<Rightarrow> if m = n then Option.bind (denote h T x)
          (\<lambda>d. map_option (\<lambda>ds. (n, d) # ds) (denoteFields h fs vs)) else None)"
  by pat_completeness auto
termination
  by (relation "measure (\<lambda>x. case x of Inl (h, T, v) \<Rightarrow> size T
      | Inr (h, fs, vs) \<Rightarrow> size_list (size_prod (\<lambda>_. 0) size) fs)") auto

function foot :: "memory \<Rightarrow> ty \<Rightarrow> gval \<Rightarrow> addr set"
  and footFields :: "memory \<Rightarrow> (string \<times> ty) list \<Rightarrow> (string \<times> gval) list \<Rightarrow> addr set" where
  "foot h TStr v = {}"
| "foot h TInt v = {}"
| "foot h TBool v = {}"
| "foot h (TStruct fs) v = (case v of GStruct vs \<Rightarrow> footFields h fs vs | _ \<Rightarrow> {})"
| "foot h (TPtr T) v =
     (case v of GPtr (Some l) \<Rightarrow> insert (fst l) (case peek h l of None \<Rightarrow> {} | Some x \<Rightarrow> foot h T x) | _ \<Rightarrow> {})"
| "foot h (TSlice T) v =
     (case v of GSlice (Some s) \<Rightarrow>
        insert (fst s) (case elems h s of None \<Rightarrow> {} | Some xs \<Rightarrow> \<Union> (set (map (foot h T) xs))) | _ \<Rightarrow> {})"
| "foot h TMap v = (case v of GMap (Some a) \<Rightarrow> {a} | _ \<Rightarrow> {})"
| "footFields h [] vs = {}"
| "footFields h ((n, T) # fs) vs =
     (case vs of [] \<Rightarrow> {} | (m, x) # vs \<Rightarrow> foot h T x \<union> footFields h fs vs)"
  by pat_completeness auto
termination
  by (relation "measure (\<lambda>x. case x of Inl (h, T, v) \<Rightarrow> size T
      | Inr (h, fs, vs) \<Rightarrow> size_list (size_prod (\<lambda>_. 0) size) fs)") auto

text \<open>Types without references: their values are copied whole by an assignment.\<close>

function plain :: "ty \<Rightarrow> bool" where
  "plain TStr = True"
| "plain TInt = True"
| "plain TBool = True"
| "plain (TStruct fs) = (\<forall>(n, T)\<in>set fs. plain T)"
| "plain (TPtr T) = False"
| "plain (TSlice T) = False"
| "plain TMap = False"
  by pat_completeness auto
termination
  by (relation "measure size") (auto dest: size_field)

subsection \<open>Statements\<close>

text \<open>A statement maps the memory before to the memory after, or panics.\<close>

type_synonym stmt = "memory \<Rightarrow> memory option"

fun block :: "stmt list \<Rightarrow> stmt" where
  "block [] h = Some h"
| "block (p # ps) h = Option.bind (p h) (block ps)"

lemma block_Nil [simp]: "block [] = Some"
  by (rule ext) simp

lemma block_Cons: "block (p # ps) = (\<lambda>h. Option.bind (p h) (block ps))"
  by (rule ext) simp

text \<open>\<open>*l = v\<close>, and \<open>*out = *in\<close> (or \<open>out.F = in.F\<close>).\<close>

definition assign :: "loc \<Rightarrow> gval \<Rightarrow> stmt" where
  "assign l v h = (if peek h l = None then None else Some (poke l v h))"

definition copyValue :: "loc \<Rightarrow> loc \<Rightarrow> stmt" where
  "copyValue out inn h = Option.bind (peek h inn) (\<lambda>v. assign out v h)"

text \<open>\<open>if in.F != nil { body }\<close>.\<close>

definition ifNotNil :: "loc \<Rightarrow> stmt \<Rightarrow> stmt" where
  "ifNotNil l body h = Option.bind (peek h l)
     (\<lambda>v. if v \<in> {GPtr None, GSlice None, GMap None} then Some h else body h)"

text \<open>\<open>*out = new(T)\<close>, \<open>**out = **in\<close>.\<close>

definition assignNew :: "ty \<Rightarrow> loc \<Rightarrow> stmt" where
  "assignNew T out h = assign out (GPtr (Some (length h, []))) (h @ [zero T])"

definition copyPointee :: "loc \<Rightarrow> loc \<Rightarrow> stmt" where
  "copyPointee out inn h =
     (case (peek h out, peek h inn) of
        (Some (GPtr (Some q)), Some (GPtr (Some p))) \<Rightarrow> copyValue q p h
      | _ \<Rightarrow> None)"

text \<open>\<open>*out = make(map[string]string, len( *in))\<close> and
  \<open>for key, val := range *in { ( *out)[key] = val }\<close>.\<close>

definition assignMakeMap :: "loc \<Rightarrow> stmt" where
  "assignMakeMap out h = assign out (GMap (Some (length h))) (h @ [GEntries []])"

definition setEntry :: "loc \<Rightarrow> string \<times> string \<Rightarrow> stmt" where
  "setEntry out kv h =
     (case peek h out of
        Some (GMap (Some a)) \<Rightarrow> map_option (\<lambda>m. h[a := GEntries (AList.update (fst kv) (snd kv) m)]) (entries h a)
      | _ \<Rightarrow> None)"

definition copyEntries :: "loc \<Rightarrow> loc \<Rightarrow> stmt" where
  "copyEntries out inn h =
     (case peek h inn of
        Some (GMap None) \<Rightarrow> Some h
      | Some (GMap (Some a)) \<Rightarrow> Option.bind (entries h a) (\<lambda>m. block (map (setEntry out) m) h)
      | _ \<Rightarrow> None)"

text \<open>\<open>*out = make([]T, len( *in))\<close> and
  \<open>for i := range *in { ( *in)[i].DeepCopyInto(&( *out)[i]) }\<close>.\<close>

definition sliceLen :: "gval \<Rightarrow> nat option" where
  "sliceLen v = (case v of GSlice None \<Rightarrow> Some 0 | GSlice (Some (a, off, n)) \<Rightarrow> Some n | _ \<Rightarrow> None)"

definition assignMakeSlice :: "ty \<Rightarrow> loc \<Rightarrow> loc \<Rightarrow> stmt" where
  "assignMakeSlice T out inn h = Option.bind (peek h inn) (\<lambda>v. Option.bind (sliceLen v)
     (\<lambda>n. assign out (GSlice (Some (length h, 0, n))) (h @ [GArray (replicate n (zero T))])))"

text \<open>\<open>&( *l)[i]\<close>, with the bounds check of the index expression.\<close>

definition elemLoc :: "memory \<Rightarrow> loc \<Rightarrow> nat \<Rightarrow> loc option" where
  "elemLoc h l i =
     (case peek h l of
        Some (GSlice (Some (a, off, n))) \<Rightarrow> if i < n then Some (a, [Idx (off + i)]) else None
      | _ \<Rightarrow> None)"

definition copyElem :: "(loc \<Rightarrow> loc \<Rightarrow> stmt) \<Rightarrow> loc \<Rightarrow> loc \<Rightarrow> nat \<Rightarrow> stmt" where
  "copyElem into out inn i h =
     Option.bind (elemLoc h inn i) (\<lambda>p. Option.bind (elemLoc h out i) (\<lambda>q. into p q h))"

definition copyElems :: "(loc \<Rightarrow> loc \<Rightarrow> stmt) \<Rightarrow> loc \<Rightarrow> loc \<Rightarrow> stmt" where
  "copyElems into out inn h = Option.bind (Option.bind (peek h inn) sliceLen)
     (\<lambda>n. block (map (copyElem into out inn) [0..<n]) h)"

text \<open>
  \<open>func (in *T) DeepCopy() *T\<close> for a \<open>DeepCopyInto\<close>: nil for nil, otherwise a new variable into
  which the receiver is copied; and \<open>*out = ( *in).DeepCopy()\<close>.
\<close>

type_synonym copyInto = "loc \<Rightarrow> loc \<Rightarrow> stmt"

type_synonym copyNew = "loc option \<Rightarrow> memory \<Rightarrow> (loc option \<times> memory) option"

definition newCopy :: "ty \<Rightarrow> copyInto \<Rightarrow> copyNew" where
  "newCopy T into inn h =
     (case inn of
        None \<Rightarrow> Some (None, h)
      | Some p \<Rightarrow>
          let out = (length h, []) in map_option (Pair (Some out)) (into p out (h @ [zero T])))"

definition assignCopy :: "copyNew \<Rightarrow> loc \<Rightarrow> loc \<Rightarrow> stmt" where
  "assignCopy copy out inn h =
     (case peek h inn of
        Some (GPtr p) \<Rightarrow> Option.bind (copy p h) (\<lambda>(q, h'). assign out (GPtr q) h')
      | _ \<Rightarrow> None)"

subsection \<open>Reading after writing\<close>

lemma map_of_setField [simp]: "map_of (setField n f fs) m = (if m = n then map_option f (map_of fs n) else map_of fs m)"
  by (induction fs) auto

lemma setField_cong: "map_of fs n = Some x \<Longrightarrow> f x = g x \<Longrightarrow> setField n f fs = setField n g fs"
  by (induction fs) (auto split: if_splits)

lemma setField_fixed: "map_of fs n = Some x \<Longrightarrow> f x = x \<Longrightarrow> setField n f fs = fs"
  by (induction fs) (auto split: if_splits)

lemma setField_setField: "setField n f (setField n g fs) = setField n (f \<circ> g) fs"
  by (induction fs) auto

lemma fst_setField [simp]: "map fst (setField n f fs) = map fst fs"
  by (induction fs) auto

lemma look_put_same: "look p v = Some x \<Longrightarrow> look p (put p w v) = Some w"
proof (induction p v arbitrary: x rule: look.induct)
  case (2 n p fs)
  then show ?case by (cases "map_of fs n") auto
qed (auto split: if_splits)

lemma look_append: "look (p @ q) v = Option.bind (look p v) (look q)"
  by (induction p v rule: look.induct) (auto split: Option.bind_split)

lemma put_append: "look p v = Some x \<Longrightarrow> put (p @ q) w v = put p (put q w x) v"
proof (induction p v arbitrary: x rule: look.induct)
  case (2 n p fs)
  then obtain y where y: "map_of fs n = Some y" "look p y = Some x" by (cases "map_of fs n") auto
  with 2 have "put (p @ q) w y = put p (put q w x) y" by simp
  with y(1) show ?case by (auto intro: setField_cong)
qed (auto split: if_splits)

lemma put_put: "put p w (put p w' v) = put p w v"
  by (induction p w' v rule: put.induct) (auto simp: setField_setField comp_def split: if_splits)

lemma peek_poke_same [mem_simps]: "peek h l \<noteq> None \<Longrightarrow> peek (poke l w h) l = Some w"
  by (auto simp: peek_def poke_def look_put_same split: if_splits)

lemma peek_poke_other [mem_simps]: "fst m \<noteq> fst l \<Longrightarrow> peek (poke l w h) m = peek h m"
  by (simp add: peek_def poke_def)

lemma length_poke [mem_simps]: "length (poke l w h) = length h"
  by (simp add: poke_def)

lemma peek_length: "peek h l = Some x \<Longrightarrow> fst l < length h"
  by (simp add: peek_def split: if_splits)

lemma peek_append: "peek h l = Some x \<Longrightarrow> peek (h @ n) l = Some x"
  by (auto simp: peek_def nth_append split: if_splits)

lemma poke_append: "fst l < length h \<Longrightarrow> poke l w (h @ n) = poke l w h @ n"
  by (simp add: poke_def nth_append list_update_append)

lemma poke_poke: "poke l w (poke l w' h) = poke l w h"
  by (cases "fst l < length h") (simp_all add: poke_def put_put list_update_beyond)

lemma peek_new: "peek (h @ v # n) (length h, []) = Some v"
  by (simp add: peek_def)

lemma peek_sub: "peek h l = Some (GStruct fs) \<Longrightarrow> peek h (sub l n) = map_of fs n"
  by (auto simp: peek_def sub_def look_append split: if_splits Option.bind_split)

lemma put_Nil: "put [] w = (\<lambda>_. w)"
  by auto

lemma poke_sub: "peek h l = Some (GStruct fs) \<Longrightarrow> poke (sub l n) w h = poke l (GStruct (setField n (\<lambda>_. w) fs)) h"
  by (auto simp: peek_def poke_def sub_def put_append put_Nil split: if_splits)

lemma fst_sub [simp]: "fst (sub l n) = fst l"
  by (simp add: sub_def)

subsection \<open>Readings depend on their footprint only\<close>

definition sameAt :: "addr set \<Rightarrow> memory \<Rightarrow> memory \<Rightarrow> bool" where
  "sameAt A h h' = (\<forall>a\<in>A. a < length h' \<and> h' ! a = h ! a)"

lemma sameAt_Un [simp]: "sameAt (A \<union> B) h h' = (sameAt A h h' \<and> sameAt B h h')"
  by (auto simp: sameAt_def)

lemma sameAt_insert: "sameAt (insert a B) h h' = (a < length h' \<and> h' ! a = h ! a \<and> sameAt B h h')"
  by (auto simp: sameAt_def)

lemma peek_same: "peek h l = Some x \<Longrightarrow> fst l < length h' \<Longrightarrow> h' ! fst l = h ! fst l \<Longrightarrow> peek h' l = Some x"
  by (simp add: peek_def split: if_splits)

lemma elems_same: "elems h s = Some xs \<Longrightarrow> fst s < length h' \<Longrightarrow> h' ! fst s = h ! fst s \<Longrightarrow> elems h' s = Some xs"
  by (cases s) (auto simp: elems_def peek_def split: if_splits option.splits gval.splits)

lemma entries_same: "entries h a = Some m \<Longrightarrow> a < length h' \<Longrightarrow> h' ! a = h ! a \<Longrightarrow> entries h' a = Some m"
  by (auto simp: entries_def peek_def split: if_splits option.splits gval.splits)

lemma those_map: "those (map f xs) = Some ys \<longleftrightarrow> length ys = length xs \<and> (\<forall>i<length xs. f (xs ! i) = Some (ys ! i))"
proof (induction xs arbitrary: ys)
  case (Cons x xs)
  show ?case
    by (cases ys; cases "f x") (auto simp: Cons.IH less_Suc_eq_0_disj split: option.splits)
qed auto

lemma denote_same:
  "denote h T v = Some d \<Longrightarrow> sameAt (foot h T v) h h' \<Longrightarrow> denote h' T v = Some d \<and> foot h' T v = foot h T v"
  "denoteFields h fs vs = Some ds \<Longrightarrow> sameAt (footFields h fs vs) h h' \<Longrightarrow>
     denoteFields h' fs vs = Some ds \<and> footFields h' fs vs = footFields h fs vs"
proof (induction h T v and h fs vs arbitrary: d and ds rule: denote_denoteFields.induct)
  case (5 h T v)
  show ?case
  proof (cases "v = GPtr None")
    case False
    with 5 obtain l x e where l: "v = GPtr (Some l)" "peek h l = Some x" "denote h T x = Some e" "d = DRef e"
      by (auto split: gval.splits option.splits Option.bind_splits)
    with 5 have "peek h' l = Some x" by (auto simp: sameAt_insert intro: peek_same)
    with l 5 show ?thesis by (auto simp: sameAt_insert)
  qed (use 5 in auto)
next
  case (6 h T v)
  show ?case
  proof (cases "v = GSlice None")
    case False
    with 6 obtain s xs ys where s: "v = GSlice (Some s)" "elems h s = Some xs" "those (map (denote h T) xs) = Some ys" "d = DList ys"
      by (auto split: gval.splits option.splits Option.bind_splits)
    with 6 have e: "elems h' s = Some xs" by (auto simp: sameAt_insert intro: elems_same)
    have "denote h' T x = denote h T x \<and> foot h' T x = foot h T x" if "x \<in> set xs" for x
    proof -
      from that s(3) obtain y where "denote h T x = Some y" by (metis in_set_conv_nth those_map)
      moreover have "sameAt (foot h T x) h h'" using 6(3) that s by (auto simp: sameAt_def)
      ultimately show ?thesis using 6(1) s that by simp
    qed
    then show ?thesis using s e by (simp cong: map_cong)
  qed (use 6 in auto)
next
  case (7 h v)
  then show ?case by (auto simp: sameAt_insert split: gval.splits option.splits dest: entries_same)
next
  case (9 h n T fs vs)
  then obtain x vs' e es where vs: "vs = (n, x) # vs'" "denote h T x = Some e" "denoteFields h fs vs' = Some es" "ds = (n, e) # es"
    by (auto split: list.splits if_splits Option.bind_splits)
  with 9(3,4) show ?case using 9(1) [OF vs(1) refl refl vs(2)] 9(2) [OF vs(1) refl refl vs(2,3)] by simp
qed (auto split: gval.splits if_splits)

end
