(* ===== verification/Copying.thy ===== *)
theory Copying
  imports GoMem
begin

section \<open>What it is to copy deeply\<close>

named_theorems copies \<open>copy functions that meet their contract\<close>
named_theorems completes \<open>repairs that meet their contract\<close>

text \<open>
  The contract of a \<open>DeepCopyInto\<close> for the type \<open>T\<close>: it does not panic; it writes the variable
  \<open>out\<close> and otherwise only cells it allocates; what \<open>out\<close> then holds reads like what \<open>in\<close> held; and
  every pointer in it leads to a new cell. The generated code first assigns the whole struct
  (\<open>*out = *in\<close>) and then repairs the fields with references one by one: \<open>completes\<close> is the contract of
  such a repair, which may start from the shallow copy.
\<close>

definition freshCopy :: "nat \<Rightarrow> memory \<Rightarrow> ty \<Rightarrow> gval \<Rightarrow> den \<Rightarrow> bool" where
  "freshCopy n h T v d \<longleftrightarrow> denote h T v = Some d \<and> (\<forall>a\<in>foot h T v. n \<le> a)"

definition writesCopy :: "copyInto \<Rightarrow> ty \<Rightarrow> memory \<Rightarrow> loc \<Rightarrow> loc \<Rightarrow> den \<Rightarrow> bool" where
  "writesCopy into T h inn out d \<longleftrightarrow>
     (\<exists>v new. into inn out h = Some (poke out v h @ new) \<and> freshCopy (length h) (poke out v h @ new) T v d)"

definition copies :: "ty \<Rightarrow> copyInto \<Rightarrow> bool" where
  "copies T into \<longleftrightarrow>
     (\<forall>h inn out v u d. peek h inn = Some v \<longrightarrow> denote h T v = Some d \<longrightarrow> peek h out = Some u \<longrightarrow>
        fst out \<noteq> fst inn \<longrightarrow> fst out \<notin> foot h T v \<longrightarrow> writesCopy into T h inn out d)"

definition completes :: "ty \<Rightarrow> copyInto \<Rightarrow> bool" where
  "completes T into \<longleftrightarrow>
     (\<forall>h inn out v d. peek h inn = Some v \<longrightarrow> denote h T v = Some d \<longrightarrow> peek h out = Some v \<longrightarrow>
        fst out \<noteq> fst inn \<longrightarrow> fst out \<notin> foot h T v \<longrightarrow> writesCopy into T h inn out d)"

text \<open>The contract of a \<open>DeepCopy\<close>.\<close>

definition returnsCopy :: "ty \<Rightarrow> copyNew \<Rightarrow> bool" where
  "returnsCopy T copy \<longleftrightarrow>
     (\<forall>h. copy None h = Some (None, h)) \<and>
     (\<forall>h p v d. peek h p = Some v \<longrightarrow> denote h T v = Some d \<longrightarrow>
        (\<exists>q new v'. copy (Some p) h = Some (Some q, h @ new) \<and> length h \<le> fst q \<and>
           peek (h @ new) q = Some v' \<and> freshCopy (length h) (h @ new) T v' d))"

lemma copiesD:
  "copies T into \<Longrightarrow> peek h inn = Some v \<Longrightarrow> denote h T v = Some d \<Longrightarrow> peek h out = Some u \<Longrightarrow>
     fst out \<noteq> fst inn \<Longrightarrow> fst out \<notin> foot h T v \<Longrightarrow> writesCopy into T h inn out d"
  unfolding copies_def by blast

lemma completesD:
  "completes T into \<Longrightarrow> peek h inn = Some v \<Longrightarrow> denote h T v = Some d \<Longrightarrow> peek h out = Some v \<Longrightarrow>
     fst out \<noteq> fst inn \<Longrightarrow> fst out \<notin> foot h T v \<Longrightarrow> writesCopy into T h inn out d"
  unfolding completes_def by blast

lemma copies_completes: "copies T into \<Longrightarrow> completes T into"
  unfolding copies_def completes_def by blast

lemma foot_allocated:
  "denote h T v = Some d \<Longrightarrow> a \<in> foot h T v \<Longrightarrow> a < length h"
  "denoteFields h fs vs = Some ds \<Longrightarrow> a \<in> footFields h fs vs \<Longrightarrow> a < length h"
proof (induction h T v and h fs vs arbitrary: d and ds rule: denote_denoteFields.induct)
  case (5 h T v)
  then show ?case
    by (auto split: gval.splits option.splits Option.bind_splits dest: peek_length)
next
  case (6 h T v)
  show ?case
  proof (cases "v = GSlice None")
    case False
    with 6 obtain s xs ys where s: "v = GSlice (Some s)" "elems h s = Some xs" "those (map (denote h T) xs) = Some ys"
      by (auto split: gval.splits option.splits Option.bind_splits)
    then have "fst s < length h"
      by (cases s) (auto simp: elems_def peek_def split: option.splits if_splits)
    moreover have "\<exists>e. denote h T x = Some e" if "x \<in> set xs" for x
      using that s(3) by (metis in_set_conv_nth those_map)
    ultimately show ?thesis using 6(1) [OF s(1) refl] 6(3) s by fastforce
  qed (use 6 in auto)
next
  case (7 h v)
  then show ?case
    by (auto simp: entries_def peek_def split: gval.splits option.splits if_splits)
next
  case (9 h n T fs vs)
  then obtain x vs' e es where vs: "vs = (n, x) # vs'" "denote h T x = Some e" "denoteFields h fs vs' = Some es"
    by (auto split: list.splits if_splits Option.bind_splits)
  with 9(4) show ?case using 9(1) [OF vs(1) refl refl vs(2)] 9(2) [OF vs(1) refl refl vs(2,3)] by auto
qed (auto split: gval.splits if_splits)

text \<open>A copy stays one when memory grows and old cells change.\<close>

lemma freshCopy_later:
  assumes "freshCopy n h T v d" and "\<And>a. n \<le> a \<Longrightarrow> a < length h \<Longrightarrow> a < length h' \<and> h' ! a = h ! a"
  shows "freshCopy n h' T v d"
proof -
  have "sameAt (foot h T v) h h'"
    using assms foot_allocated(1) unfolding freshCopy_def sameAt_def by blast
  with assms(1) show ?thesis unfolding freshCopy_def using denote_same(1) by metis
qed

lemma freshCopy_le: "freshCopy n h T v d \<Longrightarrow> m \<le> n \<Longrightarrow> freshCopy m h T v d"
  by (auto simp: freshCopy_def)

subsection \<open>Plain types\<close>

lemma plain_foot:
  "plain T \<Longrightarrow> foot h T v = {}"
  "(\<forall>(n, T)\<in>set fs. plain T) \<Longrightarrow> footFields h fs vs = {}"
  by (induction h T v and h fs vs rule: foot_footFields.induct) (auto split: gval.splits list.splits)

lemma plain_denote: "plain T \<Longrightarrow> denote h T v = Some d \<Longrightarrow> denote h' T v = Some d"
  using denote_same(1) [of h T v d h'] by (simp add: plain_foot sameAt_def)

lemma copyValue_eq: "peek h inn = Some v \<Longrightarrow> peek h out = Some u \<Longrightarrow> copyValue out inn h = Some (poke out v h)"
  by (simp add: copyValue_def assign_def)

lemma writes_plain:
  "plain T \<Longrightarrow> denote h T v = Some d \<Longrightarrow> into inn out h = Some (poke out v h) \<Longrightarrow> writesCopy into T h inn out d"
  unfolding writesCopy_def freshCopy_def
  by (rule exI [of _ v], rule exI [of _ "[]"]) (auto simp: plain_foot intro: plain_denote)

lemma poke_same: "peek h l = Some v \<Longrightarrow> poke l v h = h"
proof -
  have "look p x = Some v \<Longrightarrow> put p v x = x" for p x
  proof (induction p x rule: look.induct)
    case (2 n p fs)
    then show ?case by (cases "map_of fs n") (auto intro: setField_fixed)
  qed (auto split: if_splits)
  then show "peek h l = Some v \<Longrightarrow> poke l v h = h"
    by (auto simp: peek_def poke_def split: if_splits)
qed

text \<open>A field that the generated code does not mention again, and one that it assigns again.\<close>

definition untouched :: copyInto where
  "untouched inn out = Some"

lemma completes_untouched: "plain T \<Longrightarrow> completes T untouched"
  unfolding completes_def by (auto intro!: writes_plain simp: untouched_def poke_same)

definition reassigned :: copyInto where
  "reassigned inn out = copyValue out inn"

lemma completes_reassigned: "plain T \<Longrightarrow> completes T reassigned"
  unfolding completes_def by (auto intro!: writes_plain simp: reassigned_def copyValue_eq)

lemma copies_plain: "plain T \<Longrightarrow> copies T (\<lambda>inn out. copyValue out inn)"
  unfolding copies_def by (auto intro!: writes_plain simp: copyValue_eq)

subsection \<open>Structs\<close>

text \<open>The repairs of the fields, in their order.\<close>

definition repairs :: "(string \<times> ty \<times> copyInto) list \<Rightarrow> loc \<Rightarrow> loc \<Rightarrow> stmt list" where
  "repairs fs inn out = map (\<lambda>(n, T, c). c (sub inn n) (sub out n)) fs"

abbreviation fieldTypes :: "(string \<times> ty \<times> copyInto) list \<Rightarrow> (string \<times> ty) list" where
  "fieldTypes fs \<equiv> map (\<lambda>(n, T, c). (n, T)) fs"

lemma setField_append:
  "n \<notin> fst ` set xs \<Longrightarrow> setField n f (xs @ (n, v) # ys) = xs @ (n, f v) # ys"
  by (induction xs) auto

lemma map_of_middle: "n \<notin> fst ` set xs \<Longrightarrow> map_of (xs @ (n, v) # ys) n = Some v"
  by (induction xs) auto

lemma denoteFields_names: "denoteFields h fs vs = Some ds \<Longrightarrow> map fst vs = map fst fs"
  by (induction fs arbitrary: vs ds) (auto split: list.splits if_splits Option.bind_splits)

lemma repair_field:
  assumes "completes T c" and out: "peek M out = Some (GStruct (ds @ (n, x) # vs))"
    and inn: "peek M inn = Some (GStruct (ps @ (n, x) # vs))" and "denote M T x = Some e"
    and "fst out \<noteq> fst inn" and "fst out \<notin> foot M T x"
    and fresh: "n \<notin> fst ` set ds" "n \<notin> fst ` set ps"
  shows "\<exists>x' new. c (sub inn n) (sub out n) M = Some (poke out (GStruct (ds @ (n, x') # vs)) M @ new) \<and>
    freshCopy (length M) (poke out (GStruct (ds @ (n, x') # vs)) M @ new) T x' e"
proof -
  have "peek M (sub out n) = Some x" and "peek M (sub inn n) = Some x"
    using fresh by (simp_all add: peek_sub [OF out] peek_sub [OF inn] map_of_middle del: map_of_append)
  then have "writesCopy c T M (sub inn n) (sub out n) e"
    using assms(1,4-6) by (intro completesD) auto
  then show ?thesis
    using fresh(1) by (simp add: writesCopy_def poke_sub [OF out] setField_append)
qed

lemma repair_fields:
  assumes "\<forall>(n, T, c)\<in>set fs. completes T c"
    and "peek M out = Some (GStruct (ds @ vs))" and "peek M inn = Some (GStruct (ps @ vs))"
    and "denoteFields M (fieldTypes fs) vs = Some es"
    and "fst out \<noteq> fst inn" and "fst out \<notin> footFields M (fieldTypes fs) vs"
    and "distinct (map fst fs)" and "\<forall>n\<in>fst ` set fs. n \<notin> fst ` set ds \<and> n \<notin> fst ` set ps"
  shows "\<exists>vs' new. block (repairs fs inn out) M = Some (poke out (GStruct (ds @ vs')) M @ new) \<and>
    denoteFields (poke out (GStruct (ds @ vs')) M @ new) (fieldTypes fs) vs' = Some es \<and>
    (\<forall>a\<in>footFields (poke out (GStruct (ds @ vs')) M @ new) (fieldTypes fs) vs'. length M \<le> a)"
  using assms
proof (induction fs arbitrary: M ds vs ps es)
  case Nil
  then have "vs = []" "es = []" by (auto split: if_splits)
  with Nil show ?case
    by (intro exI [of _ "[]"]) (simp add: repairs_def poke_same)
next
  case (Cons f fs)
  obtain n T c where f: "f = (n, T, c)" by (cases f)
  from Cons.prems(4) f obtain x vs1 e es1 where v: "vs = (n, x) # vs1" "denote M T x = Some e"
      "denoteFields M (fieldTypes fs) vs1 = Some es1" "es = (n, e) # es1"
    by (auto split: list.splits if_splits Option.bind_splits)
  obtain x' new1 where w: "c (sub inn n) (sub out n) M = Some (poke out (GStruct (ds @ (n, x') # vs1)) M @ new1)"
      "freshCopy (length M) (poke out (GStruct (ds @ (n, x') # vs1)) M @ new1) T x' e"
    using repair_field [of T c M out ds n x vs1 inn ps e] Cons.prems f v by auto
  define M1 where "M1 = poke out (GStruct (ds @ (n, x') # vs1)) M @ new1"
  have lo: "fst out < length M" using Cons.prems(2) by (rule peek_length)
  have same1: "a < length M \<Longrightarrow> a \<noteq> fst out \<Longrightarrow> a < length M1 \<and> M1 ! a = M ! a" for a
    by (simp add: M1_def poke_def nth_append)
  have "fst out \<notin> footFields M (fieldTypes fs) vs1" using Cons.prems(6) f v(1) by simp
  then have later: "denoteFields M1 (fieldTypes fs) vs1 = Some es1 \<and>
      footFields M1 (fieldTypes fs) vs1 = footFields M (fieldTypes fs) vs1"
    using v(3) foot_allocated(2) [OF v(3)] same1 by (intro denote_same(2)) (auto simp: sameAt_def)
  have "peek M1 out = Some (GStruct ((ds @ [(n, x')]) @ vs1))"
    unfolding M1_def using Cons.prems(2) by (intro peek_append) (simp add: peek_poke_same)
  moreover have "peek M1 inn = Some (GStruct ((ps @ [(n, x)]) @ vs1))"
    unfolding M1_def using Cons.prems(3,5) v(1) by (intro peek_append) (simp add: peek_poke_other)
  ultimately obtain vs1' new2 where s: "block (repairs fs inn out) M1 = Some (poke out (GStruct ((ds @ [(n, x')]) @ vs1')) M1 @ new2)"
      "denoteFields (poke out (GStruct ((ds @ [(n, x')]) @ vs1')) M1 @ new2) (fieldTypes fs) vs1' = Some es1"
      "\<forall>a\<in>footFields (poke out (GStruct ((ds @ [(n, x')]) @ vs1')) M1 @ new2) (fieldTypes fs) vs1'. length M1 \<le> a"
    using Cons.IH [of M1 "ds @ [(n, x')]" vs1 "ps @ [(n, x)]" es1] Cons.prems f v(1) later \<open>fst out \<notin> footFields M (fieldTypes fs) vs1\<close>
    by auto
  define M2 where "M2 = poke out (GStruct (ds @ (n, x') # vs1')) M @ new1 @ new2"
  have M2: "poke out (GStruct ((ds @ [(n, x')]) @ vs1')) M1 @ new2 = M2"
    using lo by (simp add: M1_def M2_def poke_append poke_poke length_poke)
  have "freshCopy (length M) M2 T x' e"
    using w(2)
    by (rule freshCopy_later) (use lo in \<open>auto simp: M2_def poke_def nth_append\<close>)
  then have "denoteFields M2 (fieldTypes (f # fs)) ((n, x') # vs1') = Some es \<and>
      (\<forall>a\<in>footFields M2 (fieldTypes (f # fs)) ((n, x') # vs1'). length M \<le> a)"
    using s(2,3) f v(4) unfolding M2 by (auto simp: freshCopy_def M1_def length_poke)
  moreover have "block (repairs (f # fs) inn out) M = Some M2"
    using w(1) s(1) f M2 by (simp add: repairs_def M1_def)
  ultimately show ?case unfolding M2_def by blast
qed

text \<open>\<open>*out = *in\<close> followed by the repairs is a deep copy of the struct.\<close>

lemma copies_struct:
  assumes "\<forall>(n, T, c)\<in>set fs. completes T c" and "distinct (map fst fs)"
  shows "copies (TStruct (fieldTypes fs)) (\<lambda>inn out. block (copyValue out inn # repairs fs inn out))"
  unfolding copies_def
proof (intro allI impI)
  fix h inn out v u d
  assume a: "peek h inn = Some v" "denote h (TStruct (fieldTypes fs)) v = Some d" "peek h out = Some u"
    "fst out \<noteq> fst inn" "fst out \<notin> foot h (TStruct (fieldTypes fs)) v"
  from a(2) obtain vs es where v: "v = GStruct vs" "denoteFields h (fieldTypes fs) vs = Some es" "d = DStruct es"
    by (auto split: gval.splits)
  define M where "M = poke out (GStruct vs) h"
  have out: "peek M out = Some (GStruct ([] @ vs))" using a(3) by (simp add: M_def peek_poke_same)
  have inn: "peek M inn = Some (GStruct ([] @ vs))" using a(1,4) v(1) by (simp add: M_def peek_poke_other)
  have nin: "fst out \<notin> footFields h (fieldTypes fs) vs" using a(5) v(1) by simp
  then have "sameAt (footFields h (fieldTypes fs) vs) h M"
    using foot_allocated(2) [OF v(2)] unfolding sameAt_def M_def poke_def
    by (metis length_list_update nth_list_update_neq)
  from denote_same(2) [OF v(2) this]
  obtain vs' new where s: "block (repairs fs inn out) M = Some (poke out (GStruct vs') M @ new)"
      "denoteFields (poke out (GStruct vs') M @ new) (fieldTypes fs) vs' = Some es"
      "\<forall>a\<in>footFields (poke out (GStruct vs') M @ new) (fieldTypes fs) vs'. length M \<le> a"
    using repair_fields [OF assms(1) out inn _ a(4) _ assms(2)] nin by auto
  have eq: "poke out (GStruct vs') M = poke out (GStruct vs') h" by (simp add: M_def poke_poke)
  have "block (copyValue out inn # repairs fs inn out) h = Some (poke out (GStruct vs') h @ new)"
    using s(1) a(1,3) v(1) by (simp add: copyValue_eq M_def poke_poke)
  moreover have "freshCopy (length h) (poke out (GStruct vs') h @ new) (TStruct (fieldTypes fs)) (GStruct vs') d"
    using s(2,3) v(3) unfolding eq freshCopy_def by (simp add: M_def length_poke)
  ultimately show "writesCopy (\<lambda>inn out. block (copyValue out inn # repairs fs inn out)) (TStruct (fieldTypes fs)) h inn out d"
    unfolding writesCopy_def by blast
qed

lemma copies_by:
  assumes "T = TStruct (fieldTypes fs)" and "\<forall>(n, T, c)\<in>set fs. completes T c" and "distinct (map fst fs)"
    and "\<And>inn out h. into inn out h = block (copyValue out inn # repairs fs inn out) h"
  shows "copies T into"
proof -
  have "into = (\<lambda>inn out. block (copyValue out inn # repairs fs inn out))" using assms(4) by (intro ext)
  with copies_struct [OF assms(2,3)] assms(1) show ?thesis by simp
qed

lemma copies_whole: "plain T \<Longrightarrow> (\<And>inn out h. into inn out h = copyValue out inn h) \<Longrightarrow> copies T into"
proof -
  assume "plain T" and "\<And>inn out h. into inn out h = copyValue out inn h"
  then have "into = (\<lambda>inn out. copyValue out inn)" by (intro ext)
  with \<open>plain T\<close> show ?thesis by (simp add: copies_plain)
qed

subsection \<open>Pointers\<close>

text \<open>What an assignment of a reference to a fresh cell establishes.\<close>

lemma assign_eq: "peek h l \<noteq> None \<Longrightarrow> assign l v (h @ new) = Some (poke l v h @ new)"
  by (auto simp: assign_def peek_append poke_append dest: peek_length)

lemma nil_completes:
  assumes "peek h out = Some v" and "v \<in> {GPtr None, GSlice None, GMap None}" and "denote h T v = Some d"
    and "into inn out h = Some h"
  shows "writesCopy into T h inn out d"
proof -
  have "foot h T v = {}" using assms(2) by (cases T) (auto split: gval.splits)
  with assms show ?thesis
    unfolding writesCopy_def freshCopy_def by (intro exI [of _ v] exI [of _ "[]"]) (auto simp: poke_same)
qed

lemma freshCopy_ptr:
  assumes "peek h l = Some v" and "freshCopy n h T v d" and "n \<le> fst l"
  shows "freshCopy n h (TPtr T) (GPtr (Some l)) (DRef d)"
  using assms by (auto simp: freshCopy_def)

text \<open>\<open>if in.F != nil { *out = new(T); **out = **in }\<close>.\<close>

definition copyPtr :: "ty \<Rightarrow> copyInto" where
  "copyPtr T inn out = ifNotNil inn (block [assignNew T out, copyPointee out inn])"

lemma completes_ptr:
  assumes "plain T"
  shows "completes (TPtr T) (copyPtr T)"
  unfolding completes_def
proof (intro allI impI)
  fix h inn out v d
  assume a: "peek h inn = Some v" "denote h (TPtr T) v = Some d" "peek h out = Some v"
    "fst out \<noteq> fst inn" "fst out \<notin> foot h (TPtr T) v"
  show "writesCopy (copyPtr T) (TPtr T) h inn out d"
  proof (cases "v = GPtr None")
    case True
    with a show ?thesis by (intro nil_completes [of _ _ v]) (auto simp: copyPtr_def ifNotNil_def)
  next
    case False
    with a(2) obtain l x e where l: "v = GPtr (Some l)" "peek h l = Some x" "denote h T x = Some e" "d = DRef e"
      by (auto split: gval.splits option.splits Option.bind_splits)
    define M where "M = poke out (GPtr (Some (length h, []))) h"
    have n: "assignNew T out h = Some (M @ [zero T])" "length M = length h"
      using a(3) by (simp_all add: assignNew_def assign_eq M_def length_poke)
    have "peek M inn = Some v" "peek M out = Some (GPtr (Some (length h, [])))" "peek M l = Some x"
      using a l by (simp_all add: M_def peek_poke_other peek_poke_same)
    then have "copyPointee out inn (M @ [zero T]) = copyValue (length M, []) l (M @ [zero T])"
      "peek (M @ [zero T]) l = Some x"
      using l(1) by (simp_all add: copyPointee_def peek_append n(2))
    then have "copyPointee out inn (M @ [zero T]) = Some (M @ [x])"
      by (simp add: copyValue_eq [OF _ peek_new [of M "zero T" "[]"]] poke_def list_update_append)
    then have "copyPtr T inn out h = Some (M @ [x])"
      using a(1) False l(1) n(1) by (simp add: copyPtr_def ifNotNil_def)
    moreover have "freshCopy (length h) (M @ [x]) (TPtr T) (GPtr (Some (length h, []))) d"
      unfolding l(4)
      by (rule freshCopy_ptr [of _ _ x])
        (auto simp: n(2) [symmetric] peek_new freshCopy_def plain_foot assms intro: plain_denote [OF assms l(3)])
    ultimately show ?thesis unfolding writesCopy_def M_def by blast
  qed
qed

text \<open>\<open>if in.F != nil { *out = ( *in).DeepCopy() }\<close>.\<close>

definition copyPtrBy :: "copyNew \<Rightarrow> copyInto" where
  "copyPtrBy copy inn out = ifNotNil inn (assignCopy copy out inn)"

lemma completes_ptr_by:
  assumes "returnsCopy T copy"
  shows "completes (TPtr T) (copyPtrBy copy)"
  unfolding completes_def
proof (intro allI impI)
  fix h inn out v d
  assume a: "peek h inn = Some v" "denote h (TPtr T) v = Some d" "peek h out = Some v"
    "fst out \<noteq> fst inn" "fst out \<notin> foot h (TPtr T) v"
  show "writesCopy (copyPtrBy copy) (TPtr T) h inn out d"
  proof (cases "v = GPtr None")
    case True
    with a show ?thesis by (intro nil_completes [of _ _ v]) (auto simp: copyPtrBy_def ifNotNil_def)
  next
    case False
    with a(2) obtain l x e where l: "v = GPtr (Some l)" "peek h l = Some x" "denote h T x = Some e" "d = DRef e"
      by (auto split: gval.splits option.splits Option.bind_splits)
    from assms l(2,3) obtain q new x' where c: "copy (Some l) h = Some (Some q, h @ new)" "length h \<le> fst q"
        "peek (h @ new) q = Some x'" "freshCopy (length h) (h @ new) T x' e"
      unfolding returnsCopy_def by blast
    define M where "M = poke out (GPtr (Some q)) h @ new"
    have lo: "fst out < length h" using a(3) by (rule peek_length)
    have "copyPtrBy copy inn out h = Some M"
      using a(1,3) False l(1) c(1) by (simp add: copyPtrBy_def ifNotNil_def assignCopy_def assign_eq M_def)
    moreover have "peek M q = Some x'"
      using c(2,3) lo by (simp add: M_def poke_append [symmetric] peek_poke_other)
    moreover have "freshCopy (length h) M T x' e"
      using c(4) by (rule freshCopy_later) (use lo in \<open>auto simp: M_def poke_def nth_append\<close>)
    ultimately show ?thesis
      using c(2) l(4) freshCopy_ptr unfolding writesCopy_def M_def by blast
  qed
qed

subsection \<open>Maps\<close>

text \<open>\<open>if in.F != nil { *out = make(map[string]string); for ... }\<close>.\<close>

definition copyMap :: copyInto where
  "copyMap inn out = ifNotNil inn (block [assignMakeMap out, copyEntries out inn])"

lemma update_new: "k \<notin> fst ` set m \<Longrightarrow> AList.update k v m = m @ [(k, v)]"
  by (induction m) auto

lemma insert_entries:
  assumes "peek h out = Some (GMap (Some (length h - 1)))" and "h = g @ [GEntries m]" and "fst out < length g"
    and "distinct (map fst (m @ n))"
  shows "block (map (setEntry out) n) h = Some (g @ [GEntries (m @ n)])"
  using assms
proof (induction n arbitrary: m h)
  case (Cons kv n)
  have "entries h (length g) = Some m" using Cons.prems by (simp add: entries_def peek_def)
  then have "setEntry out kv h = Some (g @ [GEntries (m @ [kv])])"
    using Cons.prems by (simp add: setEntry_def update_new)
  moreover have "peek (g @ [GEntries (m @ [kv])]) out = Some (GMap (Some (length g)))"
    using Cons.prems(1-3) by (simp add: peek_def nth_append)
  ultimately show ?case using Cons.IH [of "g @ [GEntries (m @ [kv])]" "m @ [kv]"] Cons.prems by simp
qed simp

lemma completes_map: "completes TMap copyMap"
  unfolding completes_def
proof (intro allI impI)
  fix h inn out v d
  assume a: "peek h inn = Some v" "denote h TMap v = Some d" "peek h out = Some v"
    "fst out \<noteq> fst inn" "fst out \<notin> foot h TMap v"
  show "writesCopy copyMap TMap h inn out d"
  proof (cases "v = GMap None")
    case True
    with a show ?thesis by (intro nil_completes [of _ _ v]) (auto simp: copyMap_def ifNotNil_def)
  next
    case False
    with a(2) obtain b m where m: "v = GMap (Some b)" "entries h b = Some m" "d = DMap (map_of m)"
      by (auto split: gval.splits option.splits)
    define M where "M = poke out (GMap (Some (length h))) h"
    have n: "assignMakeMap out h = Some (M @ [GEntries []])" "length M = length h"
      using a(3) by (simp_all add: assignMakeMap_def assign_eq M_def length_poke)
    have out: "peek M out = Some (GMap (Some (length h)))" and inn: "peek M inn = Some v"
      using a by (simp_all add: M_def peek_poke_other peek_poke_same)
    have "b < length h" and dm: "distinct (map fst m)"
      using m(2) by (auto simp: entries_def peek_def split: if_splits option.splits gval.splits)
    then have "entries (M @ [GEntries []]) b = Some m"
      using a(5) m(1,2) n(2) by (intro entries_same [OF m(2)]) (auto simp: M_def poke_def nth_append)
    then have "copyEntries out inn (M @ [GEntries []]) = block (map (setEntry out) m) (M @ [GEntries []])"
      using inn m(1) by (simp add: copyEntries_def peek_append)
    also have "\<dots> = Some (M @ [GEntries ([] @ m)])"
      using out dm by (intro insert_entries) (auto simp: peek_append n(2) [symmetric] dest: peek_length)
    finally have "copyMap inn out h = Some (M @ [GEntries m])"
      using a(1) False m(1) n(1) by (simp add: copyMap_def ifNotNil_def)
    moreover have "freshCopy (length h) (M @ [GEntries m]) TMap (GMap (Some (length h))) d"
      using dm m(3) n(2) by (simp add: freshCopy_def entries_def peek_def nth_append)
    ultimately show ?thesis unfolding writesCopy_def M_def by blast
  qed
qed

subsection \<open>Slices\<close>

text \<open>\<open>if in.F != nil { *out = make([]T, len( *in)); for i ... }\<close>.\<close>

definition copySlice :: "ty \<Rightarrow> copyInto \<Rightarrow> copyInto" where
  "copySlice T into inn out = ifNotNil inn (block [assignMakeSlice T out inn, copyElems into out inn])"

lemma copyElems_eq:
  "peek h inn = Some (GSlice (Some (a, off, n))) \<Longrightarrow> copyElems into out inn h = block (map (copyElem into out inn) [0..<n]) h"
  by (simp add: copyElems_def sliceLen_def)

lemma peek_elem: "elems h (a, off, n) = Some xs \<Longrightarrow> i < n \<Longrightarrow> peek h (a, [Idx (off + i)]) = Some (xs ! i)"
  by (auto simp: elems_def peek_def split: option.splits gval.splits if_splits)

lemma length_elems: "elems h (a, off, n) = Some xs \<Longrightarrow> length xs = n"
  by (auto simp: elems_def split: option.splits gval.splits if_splits)

lemma copy_elem:
  assumes "copies T into" and "i < n"
    and inn: "peek h inn = Some (GSlice (Some (a, off, n)))" and out: "peek h out = Some (GSlice (Some (b, 0, n)))"
    and xs: "elems h (a, off, n) = Some xs" and "denote h T (xs ! i) = Some d"
    and cell: "h ! b = GArray cs" "length cs = n" "b < length h" and apart: "a \<noteq> b" "b \<notin> foot h T (xs ! i)"
  shows "\<exists>y new. copyElem into out inn i h = Some (h[b := GArray (cs[i := y])] @ new) \<and>
    freshCopy (length h) (h[b := GArray (cs[i := y])] @ new) T y d"
proof -
  have "peek h (a, [Idx (off + i)]) = Some (xs ! i)" using xs assms(2) by (rule peek_elem)
  moreover have "peek h (b, [Idx i]) = Some (cs ! i)" using assms(2) cell by (simp add: peek_def)
  ultimately have "writesCopy into T h (a, [Idx (off + i)]) (b, [Idx i]) d"
    using assms(1,6) apart by (intro copiesD) auto
  moreover have "poke (b, [Idx i]) y h = h[b := GArray (cs[i := y])]" for y
    using assms(2) cell by (simp add: poke_def put_Nil)
  ultimately show ?thesis
    using assms(2) inn out by (simp add: writesCopy_def copyElem_def elemLoc_def)
qed

lemma elems_kept:
  assumes xs: "elems h (a, off, n) = Some xs" and ds: "those (map (denote h T) xs) = Some ds"
    and "a \<noteq> b" and b: "\<forall>x\<in>set xs. b \<notin> foot h T x"
    and old: "\<And>c. c < length h \<Longrightarrow> c \<noteq> b \<Longrightarrow> c < length M \<and> M ! c = h ! c"
  shows "elems M (a, off, n) = Some xs \<and> those (map (denote M T) xs) = Some ds \<and> (\<forall>x\<in>set xs. b \<notin> foot M T x)"
proof -
  have "a < length h" using xs by (auto simp: elems_def peek_def split: option.splits if_splits)
  then have "elems M (a, off, n) = Some xs" using xs assms(3) old by (metis elems_same fst_conv)
  moreover have same: "denote M T x = denote h T x \<and> foot M T x = foot h T x" if x: "x \<in> set xs" for x
  proof -
    obtain d where d: "denote h T x = Some d" using x ds by (metis in_set_conv_nth those_map)
    have "sameAt (foot h T x) h M"
      unfolding sameAt_def using foot_allocated(1) [OF d] b x old by metis
    from denote_same(1) [OF d this] d show ?thesis by simp
  qed
  moreover have eq: "map (denote M T) xs = map (denote h T) xs" using same by simp
  ultimately show ?thesis using b by (simp only: eq ds) simp
qed

lemma copy_elems:
  assumes "copies T into"
    and "peek h inn = Some (GSlice (Some (a, off, n)))" and "peek h out = Some (GSlice (Some (b, 0, n)))"
    and "elems h (a, off, n) = Some xs" and "those (map (denote h T) xs) = Some ds"
    and "h ! b = GArray cs" and "length cs = n" and "b < length h"
    and "a \<noteq> b" and "fst inn \<noteq> b" and "fst out \<noteq> b" and "\<forall>x\<in>set xs. b \<notin> foot h T x"
    and "k \<le> n" and "N \<le> length h" and "\<forall>i<k. freshCopy N h T (cs ! i) (ds ! i)" and "b < N"
  shows "\<exists>ys new. block (map (copyElem into out inn) [k..<n]) h = Some (h[b := GArray ys] @ new) \<and> length ys = n \<and>
    (\<forall>i<n. freshCopy N (h[b := GArray ys] @ new) T (ys ! i) (ds ! i))"
  using assms
proof (induction "n - k" arbitrary: k h cs)
  case 0
  then have "k = n" by simp
  moreover have "h[b := GArray cs] = h" using "0.prems"(6) by (metis list_update_id)
  ultimately show ?case using "0.prems"
    by (rule_tac exI [of _ cs], rule_tac exI [of _ "[]"]) simp
next
  case (Suc j)
  then have kn: "k < n" and j: "j = n - Suc k" and len: "length xs = n" by (auto dest: length_elems)
  note all = Suc.prems(5) [unfolded those_map, THEN conjunct2, rule_format, unfolded len]
  obtain y new where w: "copyElem into out inn k h = Some (h[b := GArray (cs[k := y])] @ new)"
      "freshCopy (length h) (h[b := GArray (cs[k := y])] @ new) T y (ds ! k)"
    using copy_elem [OF Suc.prems(1) kn Suc.prems(2-4) all [OF kn] Suc.prems(6-9)] Suc.prems(12) kn len by auto
  define M where "M = h[b := GArray (cs[k := y])] @ new"
  have old: "c < length h \<Longrightarrow> c \<noteq> b \<Longrightarrow> c < length M \<and> M ! c = h ! c" for c
    by (simp add: M_def nth_append)
  have peeks: "peek M inn = Some (GSlice (Some (a, off, n)))" "peek M out = Some (GSlice (Some (b, 0, n)))"
    using Suc.prems(2,3,10,11) old by (metis peek_length peek_same)+
  have kept: "elems M (a, off, n) = Some xs \<and> those (map (denote M T) xs) = Some ds \<and> (\<forall>x\<in>set xs. b \<notin> foot M T x)"
    using Suc.prems(4,5,9,12) old by (rule elems_kept)
  have "\<forall>i<Suc k. freshCopy N M T (cs[k := y] ! i) (ds ! i)"
  proof (intro allI impI)
    fix i
    assume "i < Suc k"
    then consider "i = k" | "i < k" by linarith
    then show "freshCopy N M T (cs[k := y] ! i) (ds ! i)"
    proof cases
      case 1
      then show ?thesis
        using w(2) kn Suc.prems(7,14) by (auto simp: M_def intro: freshCopy_le)
    next
      case 2
      then have "freshCopy N h T (cs ! i) (ds ! i)" using Suc.prems(15) by blast
      then have "freshCopy N M T (cs ! i) (ds ! i)"
        by (rule freshCopy_later) (use Suc.prems(16) old in auto)
      with 2 show ?thesis by simp
    qed
  qed
  moreover have "M ! b = GArray (cs[k := y])" "b < length M" "N \<le> length M"
    using Suc.prems(8,14) by (simp_all add: M_def nth_append)
  ultimately obtain ys new' where s: "block (map (copyElem into out inn) [Suc k..<n]) M = Some (M[b := GArray ys] @ new')"
      "length ys = n" "\<forall>i<n. freshCopy N (M[b := GArray ys] @ new') T (ys ! i) (ds ! i)"
    using Suc.hyps(1) [of "Suc k" M "cs[k := y]"] j Suc.prems peeks kept kn by auto
  have "M[b := GArray ys] @ new' = h[b := GArray ys] @ new @ new'"
    using Suc.prems(8) by (simp add: M_def list_update_append)
  with s w(1) kn show ?case
    by (intro exI [of _ ys] exI [of _ "new @ new'"]) (simp add: upt_conv_Cons M_def)
qed

lemma freshCopy_slice:
  assumes "elems h (b, off, n) = Some ys" and "length ys = n" and "length ds = n"
    and "\<forall>i<n. freshCopy (Suc N) h T (ys ! i) (ds ! i)" and "N \<le> b"
  shows "freshCopy N h (TSlice T) (GSlice (Some (b, off, n))) (DList ds)"
proof -
  have "those (map (denote h T) ys) = Some ds"
    using assms(2-4) by (simp add: those_map freshCopy_def)
  moreover have "\<forall>y\<in>set ys. \<forall>a\<in>foot h T y. N \<le> a"
  proof (intro ballI)
    fix y a
    assume y: "y \<in> set ys" and a: "a \<in> foot h T y"
    obtain i where i: "i < n" "y = ys ! i" using y [unfolded in_set_conv_nth] assms(2) by blast
    from assms(4) i(1) have "freshCopy (Suc N) h T (ys ! i) (ds ! i)" by blast
    with a i(2) show "N \<le> a" unfolding freshCopy_def by (meson Suc_leD)
  qed
  ultimately show ?thesis using assms(1,5) by (simp add: freshCopy_def)
qed

lemma completes_slice:
  assumes "copies T into"
  shows "completes (TSlice T) (copySlice T into)"
  unfolding completes_def
proof (intro allI impI)
  fix h inn out v d
  assume a: "peek h inn = Some v" "denote h (TSlice T) v = Some d" "peek h out = Some v"
    "fst out \<noteq> fst inn" "fst out \<notin> foot h (TSlice T) v"
  show "writesCopy (copySlice T into) (TSlice T) h inn out d"
  proof (cases "v = GSlice None")
    case True
    with a show ?thesis by (intro nil_completes [of _ _ v]) (auto simp: copySlice_def ifNotNil_def)
  next
    case False
    with a(2) obtain r off n xs ds where s: "v = GSlice (Some (r, off, n))" "elems h (r, off, n) = Some xs"
        "those (map (denote h T) xs) = Some ds" "d = DList ds"
      by (auto split: gval.splits option.splits Option.bind_splits)
    define b where "b = length h"
    define M where "M = poke out (GSlice (Some (b, 0, n))) h @ [GArray (replicate n (zero T))]"
    have lo: "fst out < b" "fst inn < b" and lr: "r < b"
      using a(1,3) s(2) by (auto simp: b_def elems_def dest!: peek_length split: option.splits)
    have made: "assignMakeSlice T out inn h = Some M"
      using a(1,3) s(1) by (simp add: assignMakeSlice_def sliceLen_def assign_eq M_def b_def)
    have inn: "peek M inn = Some (GSlice (Some (r, off, n)))" and out: "peek M out = Some (GSlice (Some (b, 0, n)))"
      using a s(1) by (auto simp: M_def b_def peek_poke_other peek_poke_same intro!: peek_append)
    have old: "c < length h \<Longrightarrow> c \<noteq> fst out \<Longrightarrow> c < length M \<and> M ! c = h ! c" for c
      by (simp add: M_def poke_def nth_append)
    have kept: "elems M (r, off, n) = Some xs \<and> those (map (denote M T) xs) = Some ds"
      using elems_kept [OF s(2,3), of "fst out" M] a(5) s(1,2) old by auto
    have "\<forall>x\<in>set xs. b \<notin> foot M T x"
    proof
      fix x
      assume x: "x \<in> set xs"
      obtain e where e: "denote h T x = Some e" using x s(3) by (metis in_set_conv_nth those_map)
      have "sameAt (foot h T x) h M"
        unfolding sameAt_def using foot_allocated(1) [OF e] a(5) s(1,2) x old by auto
      then have "foot M T x = foot h T x" using denote_same(1) [OF e] by simp
      then show "b \<notin> foot M T x" using foot_allocated(1) [OF e] b_def by blast
    qed
    moreover have "M ! b = GArray (replicate n (zero T))" "b < length M"
      by (simp_all add: M_def b_def nth_append length_poke)
    ultimately obtain ys new where l: "block (map (copyElem into out inn) [0..<n]) M = Some (M[b := GArray ys] @ new)"
        "length ys = n" "\<forall>i<n. freshCopy (Suc b) (M[b := GArray ys] @ new) T (ys ! i) (ds ! i)"
      using copy_elems [OF assms inn out, of xs ds "replicate n (zero T)" 0 "Suc b"] kept lo lr by auto
    define M' where "M' = M[b := GArray ys] @ new"
    have M': "M' = poke out (GSlice (Some (b, 0, n))) h @ GArray ys # new"
      by (simp add: M'_def M_def b_def list_update_append length_poke)
    have "copySlice T into inn out h = Some M'"
      using a(1) s(1) made l(1) by (simp add: copySlice_def ifNotNil_def copyElems_eq [OF inn] M'_def)
    moreover have "elems M' (b, 0, n) = Some ys"
      using l(2) by (simp add: M' elems_def peek_def b_def nth_append length_poke)
    moreover have "length ds = n" using s(2,3) by (metis length_elems those_map)
    ultimately have "freshCopy b M' (TSlice T) (GSlice (Some (b, 0, n))) d"
      unfolding s(4) using l(2,3) by (intro freshCopy_slice) (auto simp: M'_def)
    with \<open>copySlice T into inn out h = Some M'\<close> show ?thesis
      unfolding writesCopy_def M' b_def by blast
  qed
qed

subsection \<open>DeepCopy from DeepCopyInto\<close>

lemma returns_newCopy:
  assumes "copies T into"
  shows "returnsCopy T (newCopy T into)"
  unfolding returnsCopy_def
proof (intro conjI allI impI)
  fix h p v d
  assume a: "peek h p = Some v" "denote h T v = Some d"
  let ?out = "(length h, [])" and ?h = "h @ [zero T]"
  have "sameAt (foot h T v) h ?h"
    using foot_allocated(1) [OF a(2)] by (auto simp: sameAt_def nth_append less_SucI)
  from denote_same(1) [OF a(2) this] foot_allocated(1) [OF a(2)]
  have "writesCopy into T ?h p ?out d"
    by (intro copiesD [OF assms peek_append [OF a(1)] _ peek_new]) (use peek_length [OF a(1)] in auto)
  then obtain v' new where w: "into p ?out ?h = Some (poke ?out v' ?h @ new)"
      "freshCopy (Suc (length h)) (poke ?out v' ?h @ new) T v' d"
    unfolding writesCopy_def by auto
  have "poke ?out v' ?h @ new = h @ v' # new" by (simp add: poke_def list_update_append put_Nil)
  with w show "\<exists>q new v'. newCopy T into (Some p) h = Some (Some q, h @ new) \<and> length h \<le> fst q \<and>
      peek (h @ new) q = Some v' \<and> freshCopy (length h) (h @ new) T v' d"
    by (intro exI [of _ ?out] exI [of _ "v' # new"] exI [of _ v'])
      (auto simp: newCopy_def peek_new intro: freshCopy_le)
qed (simp add: newCopy_def)

lemmas [completes] = completes_untouched completes_reassigned completes_ptr completes_ptr_by completes_map completes_slice

end
