(* ===== verification/CopyTypes.thy ===== *)
theory CopyTypes
  imports Copying
begin

section \<open>The layout of the API types\<close>

text \<open>
  One descriptor per struct of \<open>api/v1alpha1\<close>, with the fields in their order and the Go type of
  each: where \<open>ApiTypes\<close> has an option, a list or a map, the memory has a pointer, a slice or a map cell.
  The types of Kubernetes and their copy functions are parameters (\<open>copyLib\<close>); \<open>TypeMeta\<close> is two strings.
\<close>

record copyLib =
  ObjectMeta_t :: ty
  ObjectMeta_into :: copyInto
  ListMeta_t :: ty
  ListMeta_into :: copyInto
  Condition_t :: ty
  Condition_into :: copyInto
  Time_t :: ty
  Time_copy :: copyNew

definition TypeMeta_t :: ty where
  "TypeMeta_t = TStruct [(''Kind'', TStr), (''APIVersion'', TStr)]"

definition ModelResources_t :: ty where
  "ModelResources_t = TStruct [
     (''GPU'', TInt), (''Memory'', TStr), (''CPU'', TStr)]"

definition SpotConfig_t :: ty where
  "SpotConfig_t = TStruct [
     (''Enabled'', TBool), (''Provider'', TStr)]"

definition CanaryConfig_t :: ty where
  "CanaryConfig_t = TStruct [
     (''Source'', TStr), (''Weight'', TInt), (''Resources'', ModelResources_t)]"

definition ModelStoreOverride_t :: ty where
  "ModelStoreOverride_t = TStruct [
     (''Endpoint'', TStr), (''Bucket'', TStr)]"

definition ModelDeploymentSpec_t :: ty where
  "ModelDeploymentSpec_t = TStruct [
     (''Source'', TStr), (''Engine'', TStr), (''Replicas'', TPtr TInt), (''Resources'', ModelResources_t),
     (''Accelerator'', TStr), (''MIGDevice'', TStr), (''EngineArgs'', TMap), (''PrefixCaching'', TBool),
     (''Spot'', TPtr SpotConfig_t), (''Canary'', TPtr CanaryConfig_t),
     (''ModelStore'', TPtr ModelStoreOverride_t)]"

definition CanaryStatus_t :: ty where
  "CanaryStatus_t = TStruct [
     (''Phase'', TStr), (''Endpoint'', TStr), (''ReadyReplicas'', TInt)]"

definition ModelDeploymentStatus_t :: "copyLib \<Rightarrow> ty" where
  "ModelDeploymentStatus_t L = TStruct [
     (''Phase'', TStr), (''Engine'', TStr), (''Endpoint'', TStr), (''ReadyReplicas'', TInt),
     (''TotalReplicas'', TInt), (''ModelSize'', TStr), (''Conditions'', TSlice (Condition_t L)),
     (''Canary'', TPtr CanaryStatus_t)]"

definition ModelDeployment_t :: "copyLib \<Rightarrow> ty" where
  "ModelDeployment_t L = TStruct [
     (''TypeMeta'', TypeMeta_t), (''ObjectMeta'', ObjectMeta_t L), (''Spec'', ModelDeploymentSpec_t),
     (''Status'', ModelDeploymentStatus_t L)]"

definition ModelDeploymentList_t :: "copyLib \<Rightarrow> ty" where
  "ModelDeploymentList_t L = TStruct [
     (''TypeMeta'', TypeMeta_t), (''ListMeta'', ListMeta_t L), (''Items'', TSlice (ModelDeployment_t L))]"

definition DataSourceSpec_t :: ty where
  "DataSourceSpec_t = TStruct [
     (''Type'', TStr), (''Path'', TStr), (''Format'', TStr)]"

definition TrainingSpec_t :: ty where
  "TrainingSpec_t = TStruct [
     (''Epochs'', TInt), (''BatchSize'', TInt), (''LearningRate'', TStr),
     (''GradientAccumulationSteps'', TInt), (''WarmupRatio'', TStr), (''LoraRank'', TInt),
     (''LoraAlpha'', TInt), (''LoraTarget'', TStr)]"

definition EvaluationSpec_t :: ty where
  "EvaluationSpec_t = TStruct [
     (''Enabled'', TBool), (''Dataset'', TStr)]"

definition QualityThresholds_t :: ty where
  "QualityThresholds_t = TStruct [
     (''MinEvalLoss'', TStr), (''MaxTrainLoss'', TStr)]"

definition QualityGateSpec_t :: ty where
  "QualityGateSpec_t = TStruct [
     (''Enabled'', TBool), (''Thresholds'', QualityThresholds_t)]"

definition DeploySpec_t :: ty where
  "DeploySpec_t = TStruct [
     (''Enabled'', TBool), (''CanaryWeight'', TInt)]"

definition FineTuneRunSpec_t :: ty where
  "FineTuneRunSpec_t = TStruct [
     (''BaseModel'', TStr), (''OutputName'', TStr), (''Method'', TStr), (''DataSource'', DataSourceSpec_t),
     (''Training'', TrainingSpec_t), (''Resources'', ModelResources_t), (''Evaluation'', EvaluationSpec_t),
     (''QualityGate'', QualityGateSpec_t), (''Deploy'', DeploySpec_t)]"

definition TrainingMetrics_t :: ty where
  "TrainingMetrics_t = TStruct [
     (''TrainLoss'', TStr), (''EvalLoss'', TStr), (''TrainingDuration'', TStr)]"

definition MLflowStatus_t :: ty where
  "MLflowStatus_t = TStruct [
     (''RunID'', TStr), (''ExperimentName'', TStr), (''ArtifactURI'', TStr)]"

definition QualityGateStatus_t :: ty where
  "QualityGateStatus_t = TStruct [
     (''Passed'', TBool), (''Message'', TStr)]"

definition OutputModelStatus_t :: ty where
  "OutputModelStatus_t = TStruct [
     (''Source'', TStr), (''ModelDeployment'', TStr)]"

definition FineTuneRunStatus_t :: "copyLib \<Rightarrow> ty" where
  "FineTuneRunStatus_t L = TStruct [
     (''Phase'', TStr), (''ArgoWorkflow'', TStr), (''StartTime'', TPtr (Time_t L)),
     (''CompletionTime'', TPtr (Time_t L)), (''Metrics'', TrainingMetrics_t), (''MLflow'', MLflowStatus_t),
     (''QualityGate'', QualityGateStatus_t), (''OutputModel'', OutputModelStatus_t),
     (''Conditions'', TSlice (Condition_t L))]"

definition FineTuneRun_t :: "copyLib \<Rightarrow> ty" where
  "FineTuneRun_t L = TStruct [
     (''TypeMeta'', TypeMeta_t), (''ObjectMeta'', ObjectMeta_t L), (''Spec'', FineTuneRunSpec_t),
     (''Status'', FineTuneRunStatus_t L)]"

definition FineTuneRunList_t :: "copyLib \<Rightarrow> ty" where
  "FineTuneRunList_t L = TStruct [
     (''TypeMeta'', TypeMeta_t), (''ListMeta'', ListMeta_t L), (''Items'', TSlice (FineTuneRun_t L))]"

definition ImageSpec_t :: ty where
  "ImageSpec_t = TStruct [
     (''Repository'', TStr), (''Tag'', TStr)]"

definition EnabledToggle_t :: ty where
  "EnabledToggle_t = TStruct [
     (''Enabled'', TBool)]"

definition GatewaySpec_t :: ty where
  "GatewaySpec_t = TStruct [
     (''Enabled'', TBool), (''MasterKey'', TStr), (''Routing'', TStr), (''Image'', ImageSpec_t),
     (''RateLimiting'', EnabledToggle_t), (''BudgetControl'', EnabledToggle_t), (''LangfuseEnabled'', TBool),
     (''LangfusePublicKey'', TStr), (''LangfuseSecretKey'', TStr)]"

definition GrafanaSpec_t :: ty where
  "GrafanaSpec_t = TStruct [
     (''AdminPassword'', TStr), (''OIDC'', EnabledToggle_t)]"

definition ObservabilitySpec_t :: ty where
  "ObservabilitySpec_t = TStruct [
     (''Enabled'', TBool), (''Grafana'', GrafanaSpec_t), (''Langfuse'', EnabledToggle_t)]"

definition LoggingSpec_t :: ty where
  "LoggingSpec_t = TStruct [
     (''Enabled'', TBool)]"

definition ModulesSpec_t :: ty where
  "ModulesSpec_t = TStruct [
     (''RAG'', EnabledToggle_t), (''Finetune'', EnabledToggle_t), (''Security'', EnabledToggle_t)]"

definition ModelStoreSpec_t :: ty where
  "ModelStoreSpec_t = TStruct [
     (''Enabled'', TBool), (''Endpoint'', TStr), (''Bucket'', TStr), (''AccessKey'', TStr),
     (''SecretKey'', TStr), (''HFTransferConcurrency'', TInt), (''Image'', TStr)]"

definition ModelSpec_t :: ty where
  "ModelSpec_t = TStruct [
     (''Name'', TStr), (''Source'', TStr), (''Engine'', TStr), (''Replicas'', TInt),
     (''Resources'', ModelResources_t), (''EngineArgs'', TMap)]"

definition KeycloakSpec_t :: ty where
  "KeycloakSpec_t = TStruct [
     (''Enabled'', TBool)]"

definition PostgreSQLSpec_t :: ty where
  "PostgreSQLSpec_t = TStruct [
     (''Enabled'', TBool)]"

definition KEDASpec_t :: ty where
  "KEDASpec_t = TStruct [
     (''Enabled'', TBool)]"

definition NodePortSpec_t :: ty where
  "NodePortSpec_t = TStruct [
     (''Enabled'', TBool), (''Host'', TStr)]"

definition IngressSpec_t :: ty where
  "IngressSpec_t = TStruct [
     (''Enabled'', TBool), (''ClassName'', TStr), (''Host'', TStr)]"

definition LLMPlatformSpec_t :: ty where
  "LLMPlatformSpec_t = TStruct [
     (''Gateway'', GatewaySpec_t), (''Observability'', ObservabilitySpec_t), (''Logging'', LoggingSpec_t),
     (''Modules'', ModulesSpec_t), (''ModelStore'', ModelStoreSpec_t), (''HFToken'', TStr),
     (''Models'', TSlice ModelSpec_t), (''Keycloak'', KeycloakSpec_t), (''PostgreSQL'', PostgreSQLSpec_t),
     (''KEDA'', KEDASpec_t), (''NodePort'', NodePortSpec_t), (''Ingress'', IngressSpec_t),
     (''Headlamp'', EnabledToggle_t)]"

definition ComponentStatus_t :: ty where
  "ComponentStatus_t = TStruct [
     (''Phase'', TStr), (''Endpoint'', TStr), (''NodePort'', TInt)]"

definition ComponentStatuses_t :: ty where
  "ComponentStatuses_t = TStruct [
     (''Gateway'', TPtr ComponentStatus_t), (''Grafana'', TPtr ComponentStatus_t),
     (''Prometheus'', TPtr ComponentStatus_t), (''Langfuse'', TPtr ComponentStatus_t),
     (''MinIO'', TPtr ComponentStatus_t), (''PostgreSQL'', TPtr ComponentStatus_t),
     (''Dify'', TPtr ComponentStatus_t), (''Milvus'', TPtr ComponentStatus_t)]"

definition LLMPlatformStatus_t :: "copyLib \<Rightarrow> ty" where
  "LLMPlatformStatus_t L = TStruct [
     (''Phase'', TStr), (''ObservedGeneration'', TInt), (''HelmRelease'', TStr), (''HelmRevision'', TInt),
     (''Components'', ComponentStatuses_t), (''Conditions'', TSlice (Condition_t L))]"

definition LLMPlatform_t :: "copyLib \<Rightarrow> ty" where
  "LLMPlatform_t L = TStruct [
     (''TypeMeta'', TypeMeta_t), (''ObjectMeta'', ObjectMeta_t L), (''Spec'', LLMPlatformSpec_t),
     (''Status'', LLMPlatformStatus_t L)]"

definition LLMPlatformList_t :: "copyLib \<Rightarrow> ty" where
  "LLMPlatformList_t L = TStruct [
     (''TypeMeta'', TypeMeta_t), (''ListMeta'', ListMeta_t L), (''Items'', TSlice (LLMPlatform_t L))]"

text \<open>The types without references.\<close>

lemma plain_types [simp]:
  "plain TypeMeta_t"
  "plain ModelResources_t"
  "plain SpotConfig_t"
  "plain CanaryConfig_t"
  "plain ModelStoreOverride_t"
  "plain CanaryStatus_t"
  "plain DataSourceSpec_t"
  "plain TrainingSpec_t"
  "plain EvaluationSpec_t"
  "plain QualityThresholds_t"
  "plain QualityGateSpec_t"
  "plain DeploySpec_t"
  "plain FineTuneRunSpec_t"
  "plain TrainingMetrics_t"
  "plain MLflowStatus_t"
  "plain QualityGateStatus_t"
  "plain OutputModelStatus_t"
  "plain ImageSpec_t"
  "plain EnabledToggle_t"
  "plain GatewaySpec_t"
  "plain GrafanaSpec_t"
  "plain ObservabilitySpec_t"
  "plain LoggingSpec_t"
  "plain ModulesSpec_t"
  "plain ModelStoreSpec_t"
  "plain KeycloakSpec_t"
  "plain PostgreSQLSpec_t"
  "plain KEDASpec_t"
  "plain NodePortSpec_t"
  "plain IngressSpec_t"
  "plain ComponentStatus_t"
  by (simp_all add: TypeMeta_t_def ModelResources_t_def SpotConfig_t_def CanaryConfig_t_def ModelStoreOverride_t_def CanaryStatus_t_def DataSourceSpec_t_def TrainingSpec_t_def EvaluationSpec_t_def QualityThresholds_t_def QualityGateSpec_t_def DeploySpec_t_def FineTuneRunSpec_t_def TrainingMetrics_t_def MLflowStatus_t_def QualityGateStatus_t_def OutputModelStatus_t_def ImageSpec_t_def EnabledToggle_t_def GatewaySpec_t_def GrafanaSpec_t_def ObservabilitySpec_t_def LoggingSpec_t_def ModulesSpec_t_def ModelStoreSpec_t_def KeycloakSpec_t_def PostgreSQLSpec_t_def KEDASpec_t_def NodePortSpec_t_def IngressSpec_t_def ComponentStatus_t_def)

end
