(* ===== verification/DeepCopy.thy ===== *)
theory DeepCopy
  imports CopyTypes
begin

section \<open>The generated copies (api/v1alpha1/zz_generated.deepcopy.go)\<close>

text \<open>
  \<open>DeepCopyInto\<close>, \<open>DeepCopy\<close> and \<open>DeepCopyObject\<close> of every type, statement by statement. The first
  argument is the receiver \<open>in\<close>. \<open>copyPtr\<close>, \<open>copyPtrBy\<close>, \<open>copyMap\<close> and \<open>copySlice\<close> are the blocks
  \<open>if in.F != nil { ... }\<close> for the kinds of reference there are. A \<open>runtime.Object\<close> is an
  interface value: nil, or a dynamic type with a pointer.
\<close>

type_synonym copyObject = "loc option \<Rightarrow> memory \<Rightarrow> ((string \<times> loc) option \<times> memory) option"

text \<open>\<open>if c := in.DeepCopy(); c != nil { return c }; return nil\<close>.\<close>

definition objectOf :: "string \<Rightarrow> copyNew \<Rightarrow> copyObject" where
  "objectOf name copy inn h = map_option (\<lambda>(c, h').
     (case c of None \<Rightarrow> None | Some q \<Rightarrow> Some (name, q), h')) (copy inn h)"

definition ModelResources_DeepCopyInto :: copyInto where
  "ModelResources_DeepCopyInto inn out = block
    [copyValue out inn]"

definition ModelResources_DeepCopy :: copyNew where
  "ModelResources_DeepCopy = newCopy ModelResources_t ModelResources_DeepCopyInto"

definition SpotConfig_DeepCopyInto :: copyInto where
  "SpotConfig_DeepCopyInto inn out = block
    [copyValue out inn]"

definition SpotConfig_DeepCopy :: copyNew where
  "SpotConfig_DeepCopy = newCopy SpotConfig_t SpotConfig_DeepCopyInto"

definition CanaryConfig_DeepCopyInto :: copyInto where
  "CanaryConfig_DeepCopyInto inn out = block
    [copyValue out inn,
     copyValue (sub out ''Resources'') (sub inn ''Resources'')]"

definition CanaryConfig_DeepCopy :: copyNew where
  "CanaryConfig_DeepCopy = newCopy CanaryConfig_t CanaryConfig_DeepCopyInto"

definition ModelStoreOverride_DeepCopyInto :: copyInto where
  "ModelStoreOverride_DeepCopyInto inn out = block
    [copyValue out inn]"

definition ModelStoreOverride_DeepCopy :: copyNew where
  "ModelStoreOverride_DeepCopy = newCopy ModelStoreOverride_t ModelStoreOverride_DeepCopyInto"

definition ModelDeploymentSpec_DeepCopyInto :: copyInto where
  "ModelDeploymentSpec_DeepCopyInto inn out = block
    [copyValue out inn,
     copyPtr TInt (sub inn ''Replicas'') (sub out ''Replicas''),
     copyValue (sub out ''Resources'') (sub inn ''Resources''),
     copyMap (sub inn ''EngineArgs'') (sub out ''EngineArgs''),
     copyPtr SpotConfig_t (sub inn ''Spot'') (sub out ''Spot''),
     copyPtr CanaryConfig_t (sub inn ''Canary'') (sub out ''Canary''),
     copyPtr ModelStoreOverride_t (sub inn ''ModelStore'') (sub out ''ModelStore'')]"

definition ModelDeploymentSpec_DeepCopy :: copyNew where
  "ModelDeploymentSpec_DeepCopy = newCopy ModelDeploymentSpec_t ModelDeploymentSpec_DeepCopyInto"

definition CanaryStatus_DeepCopyInto :: copyInto where
  "CanaryStatus_DeepCopyInto inn out = block
    [copyValue out inn]"

definition CanaryStatus_DeepCopy :: copyNew where
  "CanaryStatus_DeepCopy = newCopy CanaryStatus_t CanaryStatus_DeepCopyInto"

definition ModelDeploymentStatus_DeepCopyInto :: "copyLib \<Rightarrow> copyInto" where
  "ModelDeploymentStatus_DeepCopyInto L inn out = block
    [copyValue out inn,
     copySlice (Condition_t L) (Condition_into L) (sub inn ''Conditions'') (sub out ''Conditions''),
     copyPtr CanaryStatus_t (sub inn ''Canary'') (sub out ''Canary'')]"

definition ModelDeploymentStatus_DeepCopy :: "copyLib \<Rightarrow> copyNew" where
  "ModelDeploymentStatus_DeepCopy L = newCopy (ModelDeploymentStatus_t L) (ModelDeploymentStatus_DeepCopyInto L)"

definition ModelDeployment_DeepCopyInto :: "copyLib \<Rightarrow> copyInto" where
  "ModelDeployment_DeepCopyInto L inn out = block
    [copyValue out inn,
     copyValue (sub out ''TypeMeta'') (sub inn ''TypeMeta''),
     ObjectMeta_into L (sub inn ''ObjectMeta'') (sub out ''ObjectMeta''),
     ModelDeploymentSpec_DeepCopyInto (sub inn ''Spec'') (sub out ''Spec''),
     ModelDeploymentStatus_DeepCopyInto L (sub inn ''Status'') (sub out ''Status'')]"

definition ModelDeployment_DeepCopy :: "copyLib \<Rightarrow> copyNew" where
  "ModelDeployment_DeepCopy L = newCopy (ModelDeployment_t L) (ModelDeployment_DeepCopyInto L)"

definition ModelDeployment_DeepCopyObject :: "copyLib \<Rightarrow> copyObject" where
  "ModelDeployment_DeepCopyObject L = objectOf ''ModelDeployment'' (ModelDeployment_DeepCopy L)"

definition ModelDeploymentList_DeepCopyInto :: "copyLib \<Rightarrow> copyInto" where
  "ModelDeploymentList_DeepCopyInto L inn out = block
    [copyValue out inn,
     copyValue (sub out ''TypeMeta'') (sub inn ''TypeMeta''),
     ListMeta_into L (sub inn ''ListMeta'') (sub out ''ListMeta''),
     copySlice (ModelDeployment_t L) (ModelDeployment_DeepCopyInto L) (sub inn ''Items'') (sub out ''Items'')]"

definition ModelDeploymentList_DeepCopy :: "copyLib \<Rightarrow> copyNew" where
  "ModelDeploymentList_DeepCopy L = newCopy (ModelDeploymentList_t L) (ModelDeploymentList_DeepCopyInto L)"

definition ModelDeploymentList_DeepCopyObject :: "copyLib \<Rightarrow> copyObject" where
  "ModelDeploymentList_DeepCopyObject L = objectOf ''ModelDeploymentList'' (ModelDeploymentList_DeepCopy L)"

definition DataSourceSpec_DeepCopyInto :: copyInto where
  "DataSourceSpec_DeepCopyInto inn out = block
    [copyValue out inn]"

definition DataSourceSpec_DeepCopy :: copyNew where
  "DataSourceSpec_DeepCopy = newCopy DataSourceSpec_t DataSourceSpec_DeepCopyInto"

definition TrainingSpec_DeepCopyInto :: copyInto where
  "TrainingSpec_DeepCopyInto inn out = block
    [copyValue out inn]"

definition TrainingSpec_DeepCopy :: copyNew where
  "TrainingSpec_DeepCopy = newCopy TrainingSpec_t TrainingSpec_DeepCopyInto"

definition EvaluationSpec_DeepCopyInto :: copyInto where
  "EvaluationSpec_DeepCopyInto inn out = block
    [copyValue out inn]"

definition EvaluationSpec_DeepCopy :: copyNew where
  "EvaluationSpec_DeepCopy = newCopy EvaluationSpec_t EvaluationSpec_DeepCopyInto"

definition QualityThresholds_DeepCopyInto :: copyInto where
  "QualityThresholds_DeepCopyInto inn out = block
    [copyValue out inn]"

definition QualityThresholds_DeepCopy :: copyNew where
  "QualityThresholds_DeepCopy = newCopy QualityThresholds_t QualityThresholds_DeepCopyInto"

definition QualityGateSpec_DeepCopyInto :: copyInto where
  "QualityGateSpec_DeepCopyInto inn out = block
    [copyValue out inn,
     copyValue (sub out ''Thresholds'') (sub inn ''Thresholds'')]"

definition QualityGateSpec_DeepCopy :: copyNew where
  "QualityGateSpec_DeepCopy = newCopy QualityGateSpec_t QualityGateSpec_DeepCopyInto"

definition DeploySpec_DeepCopyInto :: copyInto where
  "DeploySpec_DeepCopyInto inn out = block
    [copyValue out inn]"

definition DeploySpec_DeepCopy :: copyNew where
  "DeploySpec_DeepCopy = newCopy DeploySpec_t DeploySpec_DeepCopyInto"

definition FineTuneRunSpec_DeepCopyInto :: copyInto where
  "FineTuneRunSpec_DeepCopyInto inn out = block
    [copyValue out inn,
     copyValue (sub out ''DataSource'') (sub inn ''DataSource''),
     copyValue (sub out ''Training'') (sub inn ''Training''),
     copyValue (sub out ''Resources'') (sub inn ''Resources''),
     copyValue (sub out ''Evaluation'') (sub inn ''Evaluation''),
     copyValue (sub out ''QualityGate'') (sub inn ''QualityGate''),
     copyValue (sub out ''Deploy'') (sub inn ''Deploy'')]"

definition FineTuneRunSpec_DeepCopy :: copyNew where
  "FineTuneRunSpec_DeepCopy = newCopy FineTuneRunSpec_t FineTuneRunSpec_DeepCopyInto"

definition TrainingMetrics_DeepCopyInto :: copyInto where
  "TrainingMetrics_DeepCopyInto inn out = block
    [copyValue out inn]"

definition TrainingMetrics_DeepCopy :: copyNew where
  "TrainingMetrics_DeepCopy = newCopy TrainingMetrics_t TrainingMetrics_DeepCopyInto"

definition MLflowStatus_DeepCopyInto :: copyInto where
  "MLflowStatus_DeepCopyInto inn out = block
    [copyValue out inn]"

definition MLflowStatus_DeepCopy :: copyNew where
  "MLflowStatus_DeepCopy = newCopy MLflowStatus_t MLflowStatus_DeepCopyInto"

definition QualityGateStatus_DeepCopyInto :: copyInto where
  "QualityGateStatus_DeepCopyInto inn out = block
    [copyValue out inn]"

definition QualityGateStatus_DeepCopy :: copyNew where
  "QualityGateStatus_DeepCopy = newCopy QualityGateStatus_t QualityGateStatus_DeepCopyInto"

definition OutputModelStatus_DeepCopyInto :: copyInto where
  "OutputModelStatus_DeepCopyInto inn out = block
    [copyValue out inn]"

definition OutputModelStatus_DeepCopy :: copyNew where
  "OutputModelStatus_DeepCopy = newCopy OutputModelStatus_t OutputModelStatus_DeepCopyInto"

definition FineTuneRunStatus_DeepCopyInto :: "copyLib \<Rightarrow> copyInto" where
  "FineTuneRunStatus_DeepCopyInto L inn out = block
    [copyValue out inn,
     copyPtrBy (Time_copy L) (sub inn ''StartTime'') (sub out ''StartTime''),
     copyPtrBy (Time_copy L) (sub inn ''CompletionTime'') (sub out ''CompletionTime''),
     copyValue (sub out ''Metrics'') (sub inn ''Metrics''),
     copyValue (sub out ''MLflow'') (sub inn ''MLflow''),
     copyValue (sub out ''QualityGate'') (sub inn ''QualityGate''),
     copyValue (sub out ''OutputModel'') (sub inn ''OutputModel''),
     copySlice (Condition_t L) (Condition_into L) (sub inn ''Conditions'') (sub out ''Conditions'')]"

definition FineTuneRunStatus_DeepCopy :: "copyLib \<Rightarrow> copyNew" where
  "FineTuneRunStatus_DeepCopy L = newCopy (FineTuneRunStatus_t L) (FineTuneRunStatus_DeepCopyInto L)"

definition FineTuneRun_DeepCopyInto :: "copyLib \<Rightarrow> copyInto" where
  "FineTuneRun_DeepCopyInto L inn out = block
    [copyValue out inn,
     copyValue (sub out ''TypeMeta'') (sub inn ''TypeMeta''),
     ObjectMeta_into L (sub inn ''ObjectMeta'') (sub out ''ObjectMeta''),
     copyValue (sub out ''Spec'') (sub inn ''Spec''),
     FineTuneRunStatus_DeepCopyInto L (sub inn ''Status'') (sub out ''Status'')]"

definition FineTuneRun_DeepCopy :: "copyLib \<Rightarrow> copyNew" where
  "FineTuneRun_DeepCopy L = newCopy (FineTuneRun_t L) (FineTuneRun_DeepCopyInto L)"

definition FineTuneRun_DeepCopyObject :: "copyLib \<Rightarrow> copyObject" where
  "FineTuneRun_DeepCopyObject L = objectOf ''FineTuneRun'' (FineTuneRun_DeepCopy L)"

definition FineTuneRunList_DeepCopyInto :: "copyLib \<Rightarrow> copyInto" where
  "FineTuneRunList_DeepCopyInto L inn out = block
    [copyValue out inn,
     copyValue (sub out ''TypeMeta'') (sub inn ''TypeMeta''),
     ListMeta_into L (sub inn ''ListMeta'') (sub out ''ListMeta''),
     copySlice (FineTuneRun_t L) (FineTuneRun_DeepCopyInto L) (sub inn ''Items'') (sub out ''Items'')]"

definition FineTuneRunList_DeepCopy :: "copyLib \<Rightarrow> copyNew" where
  "FineTuneRunList_DeepCopy L = newCopy (FineTuneRunList_t L) (FineTuneRunList_DeepCopyInto L)"

definition FineTuneRunList_DeepCopyObject :: "copyLib \<Rightarrow> copyObject" where
  "FineTuneRunList_DeepCopyObject L = objectOf ''FineTuneRunList'' (FineTuneRunList_DeepCopy L)"

definition ImageSpec_DeepCopyInto :: copyInto where
  "ImageSpec_DeepCopyInto inn out = block
    [copyValue out inn]"

definition ImageSpec_DeepCopy :: copyNew where
  "ImageSpec_DeepCopy = newCopy ImageSpec_t ImageSpec_DeepCopyInto"

definition EnabledToggle_DeepCopyInto :: copyInto where
  "EnabledToggle_DeepCopyInto inn out = block
    [copyValue out inn]"

definition EnabledToggle_DeepCopy :: copyNew where
  "EnabledToggle_DeepCopy = newCopy EnabledToggle_t EnabledToggle_DeepCopyInto"

definition GatewaySpec_DeepCopyInto :: copyInto where
  "GatewaySpec_DeepCopyInto inn out = block
    [copyValue out inn,
     copyValue (sub out ''Image'') (sub inn ''Image''),
     copyValue (sub out ''RateLimiting'') (sub inn ''RateLimiting''),
     copyValue (sub out ''BudgetControl'') (sub inn ''BudgetControl'')]"

definition GatewaySpec_DeepCopy :: copyNew where
  "GatewaySpec_DeepCopy = newCopy GatewaySpec_t GatewaySpec_DeepCopyInto"

definition GrafanaSpec_DeepCopyInto :: copyInto where
  "GrafanaSpec_DeepCopyInto inn out = block
    [copyValue out inn,
     copyValue (sub out ''OIDC'') (sub inn ''OIDC'')]"

definition GrafanaSpec_DeepCopy :: copyNew where
  "GrafanaSpec_DeepCopy = newCopy GrafanaSpec_t GrafanaSpec_DeepCopyInto"

definition ObservabilitySpec_DeepCopyInto :: copyInto where
  "ObservabilitySpec_DeepCopyInto inn out = block
    [copyValue out inn,
     copyValue (sub out ''Grafana'') (sub inn ''Grafana''),
     copyValue (sub out ''Langfuse'') (sub inn ''Langfuse'')]"

definition ObservabilitySpec_DeepCopy :: copyNew where
  "ObservabilitySpec_DeepCopy = newCopy ObservabilitySpec_t ObservabilitySpec_DeepCopyInto"

definition LoggingSpec_DeepCopyInto :: copyInto where
  "LoggingSpec_DeepCopyInto inn out = block
    [copyValue out inn]"

definition LoggingSpec_DeepCopy :: copyNew where
  "LoggingSpec_DeepCopy = newCopy LoggingSpec_t LoggingSpec_DeepCopyInto"

definition ModulesSpec_DeepCopyInto :: copyInto where
  "ModulesSpec_DeepCopyInto inn out = block
    [copyValue out inn,
     copyValue (sub out ''RAG'') (sub inn ''RAG''),
     copyValue (sub out ''Finetune'') (sub inn ''Finetune''),
     copyValue (sub out ''Security'') (sub inn ''Security'')]"

definition ModulesSpec_DeepCopy :: copyNew where
  "ModulesSpec_DeepCopy = newCopy ModulesSpec_t ModulesSpec_DeepCopyInto"

definition ModelStoreSpec_DeepCopyInto :: copyInto where
  "ModelStoreSpec_DeepCopyInto inn out = block
    [copyValue out inn]"

definition ModelStoreSpec_DeepCopy :: copyNew where
  "ModelStoreSpec_DeepCopy = newCopy ModelStoreSpec_t ModelStoreSpec_DeepCopyInto"

definition ModelSpec_DeepCopyInto :: copyInto where
  "ModelSpec_DeepCopyInto inn out = block
    [copyValue out inn,
     copyValue (sub out ''Resources'') (sub inn ''Resources''),
     copyMap (sub inn ''EngineArgs'') (sub out ''EngineArgs'')]"

definition ModelSpec_DeepCopy :: copyNew where
  "ModelSpec_DeepCopy = newCopy ModelSpec_t ModelSpec_DeepCopyInto"

definition KeycloakSpec_DeepCopyInto :: copyInto where
  "KeycloakSpec_DeepCopyInto inn out = block
    [copyValue out inn]"

definition KeycloakSpec_DeepCopy :: copyNew where
  "KeycloakSpec_DeepCopy = newCopy KeycloakSpec_t KeycloakSpec_DeepCopyInto"

definition PostgreSQLSpec_DeepCopyInto :: copyInto where
  "PostgreSQLSpec_DeepCopyInto inn out = block
    [copyValue out inn]"

definition PostgreSQLSpec_DeepCopy :: copyNew where
  "PostgreSQLSpec_DeepCopy = newCopy PostgreSQLSpec_t PostgreSQLSpec_DeepCopyInto"

definition KEDASpec_DeepCopyInto :: copyInto where
  "KEDASpec_DeepCopyInto inn out = block
    [copyValue out inn]"

definition KEDASpec_DeepCopy :: copyNew where
  "KEDASpec_DeepCopy = newCopy KEDASpec_t KEDASpec_DeepCopyInto"

definition NodePortSpec_DeepCopyInto :: copyInto where
  "NodePortSpec_DeepCopyInto inn out = block
    [copyValue out inn]"

definition NodePortSpec_DeepCopy :: copyNew where
  "NodePortSpec_DeepCopy = newCopy NodePortSpec_t NodePortSpec_DeepCopyInto"

definition IngressSpec_DeepCopyInto :: copyInto where
  "IngressSpec_DeepCopyInto inn out = block
    [copyValue out inn]"

definition IngressSpec_DeepCopy :: copyNew where
  "IngressSpec_DeepCopy = newCopy IngressSpec_t IngressSpec_DeepCopyInto"

definition LLMPlatformSpec_DeepCopyInto :: copyInto where
  "LLMPlatformSpec_DeepCopyInto inn out = block
    [copyValue out inn,
     copyValue (sub out ''Gateway'') (sub inn ''Gateway''),
     copyValue (sub out ''Observability'') (sub inn ''Observability''),
     copyValue (sub out ''Logging'') (sub inn ''Logging''),
     copyValue (sub out ''Modules'') (sub inn ''Modules''),
     copyValue (sub out ''ModelStore'') (sub inn ''ModelStore''),
     copySlice ModelSpec_t ModelSpec_DeepCopyInto (sub inn ''Models'') (sub out ''Models''),
     copyValue (sub out ''Keycloak'') (sub inn ''Keycloak''),
     copyValue (sub out ''PostgreSQL'') (sub inn ''PostgreSQL''),
     copyValue (sub out ''KEDA'') (sub inn ''KEDA''),
     copyValue (sub out ''NodePort'') (sub inn ''NodePort''),
     copyValue (sub out ''Ingress'') (sub inn ''Ingress''),
     copyValue (sub out ''Headlamp'') (sub inn ''Headlamp'')]"

definition LLMPlatformSpec_DeepCopy :: copyNew where
  "LLMPlatformSpec_DeepCopy = newCopy LLMPlatformSpec_t LLMPlatformSpec_DeepCopyInto"

definition ComponentStatus_DeepCopyInto :: copyInto where
  "ComponentStatus_DeepCopyInto inn out = block
    [copyValue out inn]"

definition ComponentStatus_DeepCopy :: copyNew where
  "ComponentStatus_DeepCopy = newCopy ComponentStatus_t ComponentStatus_DeepCopyInto"

definition ComponentStatuses_DeepCopyInto :: copyInto where
  "ComponentStatuses_DeepCopyInto inn out = block
    [copyValue out inn,
     copyPtr ComponentStatus_t (sub inn ''Gateway'') (sub out ''Gateway''),
     copyPtr ComponentStatus_t (sub inn ''Grafana'') (sub out ''Grafana''),
     copyPtr ComponentStatus_t (sub inn ''Prometheus'') (sub out ''Prometheus''),
     copyPtr ComponentStatus_t (sub inn ''Langfuse'') (sub out ''Langfuse''),
     copyPtr ComponentStatus_t (sub inn ''MinIO'') (sub out ''MinIO''),
     copyPtr ComponentStatus_t (sub inn ''PostgreSQL'') (sub out ''PostgreSQL''),
     copyPtr ComponentStatus_t (sub inn ''Dify'') (sub out ''Dify''),
     copyPtr ComponentStatus_t (sub inn ''Milvus'') (sub out ''Milvus'')]"

definition ComponentStatuses_DeepCopy :: copyNew where
  "ComponentStatuses_DeepCopy = newCopy ComponentStatuses_t ComponentStatuses_DeepCopyInto"

definition LLMPlatformStatus_DeepCopyInto :: "copyLib \<Rightarrow> copyInto" where
  "LLMPlatformStatus_DeepCopyInto L inn out = block
    [copyValue out inn,
     ComponentStatuses_DeepCopyInto (sub inn ''Components'') (sub out ''Components''),
     copySlice (Condition_t L) (Condition_into L) (sub inn ''Conditions'') (sub out ''Conditions'')]"

definition LLMPlatformStatus_DeepCopy :: "copyLib \<Rightarrow> copyNew" where
  "LLMPlatformStatus_DeepCopy L = newCopy (LLMPlatformStatus_t L) (LLMPlatformStatus_DeepCopyInto L)"

definition LLMPlatform_DeepCopyInto :: "copyLib \<Rightarrow> copyInto" where
  "LLMPlatform_DeepCopyInto L inn out = block
    [copyValue out inn,
     copyValue (sub out ''TypeMeta'') (sub inn ''TypeMeta''),
     ObjectMeta_into L (sub inn ''ObjectMeta'') (sub out ''ObjectMeta''),
     LLMPlatformSpec_DeepCopyInto (sub inn ''Spec'') (sub out ''Spec''),
     LLMPlatformStatus_DeepCopyInto L (sub inn ''Status'') (sub out ''Status'')]"

definition LLMPlatform_DeepCopy :: "copyLib \<Rightarrow> copyNew" where
  "LLMPlatform_DeepCopy L = newCopy (LLMPlatform_t L) (LLMPlatform_DeepCopyInto L)"

definition LLMPlatform_DeepCopyObject :: "copyLib \<Rightarrow> copyObject" where
  "LLMPlatform_DeepCopyObject L = objectOf ''LLMPlatform'' (LLMPlatform_DeepCopy L)"

definition LLMPlatformList_DeepCopyInto :: "copyLib \<Rightarrow> copyInto" where
  "LLMPlatformList_DeepCopyInto L inn out = block
    [copyValue out inn,
     copyValue (sub out ''TypeMeta'') (sub inn ''TypeMeta''),
     ListMeta_into L (sub inn ''ListMeta'') (sub out ''ListMeta''),
     copySlice (LLMPlatform_t L) (LLMPlatform_DeepCopyInto L) (sub inn ''Items'') (sub out ''Items'')]"

definition LLMPlatformList_DeepCopy :: "copyLib \<Rightarrow> copyNew" where
  "LLMPlatformList_DeepCopy L = newCopy (LLMPlatformList_t L) (LLMPlatformList_DeepCopyInto L)"

definition LLMPlatformList_DeepCopyObject :: "copyLib \<Rightarrow> copyObject" where
  "LLMPlatformList_DeepCopyObject L = objectOf ''LLMPlatformList'' (LLMPlatformList_DeepCopy L)"

end
