(* ===== verification/DeepCopyProps.thy ===== *)
theory DeepCopyProps
  imports DeepCopy
begin

section \<open>The generated copies are deep copies\<close>

text \<open>
  Every generated \<open>DeepCopyInto\<close> meets the contract \<open>copies\<close> at the descriptor of its struct, so no
  field with a reference was forgotten. The copies of Kubernetes' own types are assumed to meet it.
\<close>

lemma ModelResources_copies [copies]: "copies ModelResources_t ModelResources_DeepCopyInto"
  by (rule copies_whole) (simp_all add: ModelResources_DeepCopyInto_def)

lemma SpotConfig_copies [copies]: "copies SpotConfig_t SpotConfig_DeepCopyInto"
  by (rule copies_whole) (simp_all add: SpotConfig_DeepCopyInto_def)

lemma CanaryConfig_copies [copies]: "copies CanaryConfig_t CanaryConfig_DeepCopyInto"
  by (rule copies_by [where fs = "[
      (''Source'', TStr, untouched), (''Weight'', TInt, untouched),
      (''Resources'', ModelResources_t, reassigned)]"])
    (auto simp: block_Cons repairs_def untouched_def reassigned_def CanaryConfig_DeepCopyInto_def CanaryConfig_t_def intro!: completes intro: copies copies_completes)

lemma ModelStoreOverride_copies [copies]: "copies ModelStoreOverride_t ModelStoreOverride_DeepCopyInto"
  by (rule copies_whole) (simp_all add: ModelStoreOverride_DeepCopyInto_def)

lemma ModelDeploymentSpec_copies [copies]: "copies ModelDeploymentSpec_t ModelDeploymentSpec_DeepCopyInto"
  by (rule copies_by [where fs = "[
      (''Source'', TStr, untouched), (''Engine'', TStr, untouched), (''Replicas'', TPtr TInt, copyPtr TInt),
      (''Resources'', ModelResources_t, reassigned), (''Accelerator'', TStr, untouched),
      (''MIGDevice'', TStr, untouched), (''EngineArgs'', TMap, copyMap), (''PrefixCaching'', TBool, untouched),
      (''Spot'', TPtr SpotConfig_t, copyPtr SpotConfig_t),
      (''Canary'', TPtr CanaryConfig_t, copyPtr CanaryConfig_t),
      (''ModelStore'', TPtr ModelStoreOverride_t, copyPtr ModelStoreOverride_t)]"])
    (auto simp: block_Cons repairs_def untouched_def reassigned_def ModelDeploymentSpec_DeepCopyInto_def ModelDeploymentSpec_t_def intro!: completes intro: copies copies_completes)

lemma CanaryStatus_copies [copies]: "copies CanaryStatus_t CanaryStatus_DeepCopyInto"
  by (rule copies_whole) (simp_all add: CanaryStatus_DeepCopyInto_def)

lemma DataSourceSpec_copies [copies]: "copies DataSourceSpec_t DataSourceSpec_DeepCopyInto"
  by (rule copies_whole) (simp_all add: DataSourceSpec_DeepCopyInto_def)

lemma TrainingSpec_copies [copies]: "copies TrainingSpec_t TrainingSpec_DeepCopyInto"
  by (rule copies_whole) (simp_all add: TrainingSpec_DeepCopyInto_def)

lemma EvaluationSpec_copies [copies]: "copies EvaluationSpec_t EvaluationSpec_DeepCopyInto"
  by (rule copies_whole) (simp_all add: EvaluationSpec_DeepCopyInto_def)

lemma QualityThresholds_copies [copies]: "copies QualityThresholds_t QualityThresholds_DeepCopyInto"
  by (rule copies_whole) (simp_all add: QualityThresholds_DeepCopyInto_def)

lemma QualityGateSpec_copies [copies]: "copies QualityGateSpec_t QualityGateSpec_DeepCopyInto"
  by (rule copies_by [where fs = "[
      (''Enabled'', TBool, untouched), (''Thresholds'', QualityThresholds_t, reassigned)]"])
    (auto simp: block_Cons repairs_def untouched_def reassigned_def QualityGateSpec_DeepCopyInto_def QualityGateSpec_t_def intro!: completes intro: copies copies_completes)

lemma DeploySpec_copies [copies]: "copies DeploySpec_t DeploySpec_DeepCopyInto"
  by (rule copies_whole) (simp_all add: DeploySpec_DeepCopyInto_def)

lemma FineTuneRunSpec_copies [copies]: "copies FineTuneRunSpec_t FineTuneRunSpec_DeepCopyInto"
  by (rule copies_by [where fs = "[
      (''BaseModel'', TStr, untouched), (''OutputName'', TStr, untouched), (''Method'', TStr, untouched),
      (''DataSource'', DataSourceSpec_t, reassigned), (''Training'', TrainingSpec_t, reassigned),
      (''Resources'', ModelResources_t, reassigned), (''Evaluation'', EvaluationSpec_t, reassigned),
      (''QualityGate'', QualityGateSpec_t, reassigned), (''Deploy'', DeploySpec_t, reassigned)]"])
    (auto simp: block_Cons repairs_def untouched_def reassigned_def FineTuneRunSpec_DeepCopyInto_def FineTuneRunSpec_t_def intro!: completes intro: copies copies_completes)

lemma TrainingMetrics_copies [copies]: "copies TrainingMetrics_t TrainingMetrics_DeepCopyInto"
  by (rule copies_whole) (simp_all add: TrainingMetrics_DeepCopyInto_def)

lemma MLflowStatus_copies [copies]: "copies MLflowStatus_t MLflowStatus_DeepCopyInto"
  by (rule copies_whole) (simp_all add: MLflowStatus_DeepCopyInto_def)

lemma QualityGateStatus_copies [copies]: "copies QualityGateStatus_t QualityGateStatus_DeepCopyInto"
  by (rule copies_whole) (simp_all add: QualityGateStatus_DeepCopyInto_def)

lemma OutputModelStatus_copies [copies]: "copies OutputModelStatus_t OutputModelStatus_DeepCopyInto"
  by (rule copies_whole) (simp_all add: OutputModelStatus_DeepCopyInto_def)

lemma ImageSpec_copies [copies]: "copies ImageSpec_t ImageSpec_DeepCopyInto"
  by (rule copies_whole) (simp_all add: ImageSpec_DeepCopyInto_def)

lemma EnabledToggle_copies [copies]: "copies EnabledToggle_t EnabledToggle_DeepCopyInto"
  by (rule copies_whole) (simp_all add: EnabledToggle_DeepCopyInto_def)

lemma GatewaySpec_copies [copies]: "copies GatewaySpec_t GatewaySpec_DeepCopyInto"
  by (rule copies_by [where fs = "[
      (''Enabled'', TBool, untouched), (''MasterKey'', TStr, untouched), (''Routing'', TStr, untouched),
      (''Image'', ImageSpec_t, reassigned), (''RateLimiting'', EnabledToggle_t, reassigned),
      (''BudgetControl'', EnabledToggle_t, reassigned), (''LangfuseEnabled'', TBool, untouched),
      (''LangfusePublicKey'', TStr, untouched), (''LangfuseSecretKey'', TStr, untouched)]"])
    (auto simp: block_Cons repairs_def untouched_def reassigned_def GatewaySpec_DeepCopyInto_def GatewaySpec_t_def intro!: completes intro: copies copies_completes)

lemma GrafanaSpec_copies [copies]: "copies GrafanaSpec_t GrafanaSpec_DeepCopyInto"
  by (rule copies_by [where fs = "[
      (''AdminPassword'', TStr, untouched), (''OIDC'', EnabledToggle_t, reassigned)]"])
    (auto simp: block_Cons repairs_def untouched_def reassigned_def GrafanaSpec_DeepCopyInto_def GrafanaSpec_t_def intro!: completes intro: copies copies_completes)

lemma ObservabilitySpec_copies [copies]: "copies ObservabilitySpec_t ObservabilitySpec_DeepCopyInto"
  by (rule copies_by [where fs = "[
      (''Enabled'', TBool, untouched), (''Grafana'', GrafanaSpec_t, reassigned),
      (''Langfuse'', EnabledToggle_t, reassigned)]"])
    (auto simp: block_Cons repairs_def untouched_def reassigned_def ObservabilitySpec_DeepCopyInto_def ObservabilitySpec_t_def intro!: completes intro: copies copies_completes)

lemma LoggingSpec_copies [copies]: "copies LoggingSpec_t LoggingSpec_DeepCopyInto"
  by (rule copies_whole) (simp_all add: LoggingSpec_DeepCopyInto_def)

lemma ModulesSpec_copies [copies]: "copies ModulesSpec_t ModulesSpec_DeepCopyInto"
  by (rule copies_by [where fs = "[
      (''RAG'', EnabledToggle_t, reassigned), (''Finetune'', EnabledToggle_t, reassigned),
      (''Security'', EnabledToggle_t, reassigned)]"])
    (auto simp: block_Cons repairs_def untouched_def reassigned_def ModulesSpec_DeepCopyInto_def ModulesSpec_t_def intro!: completes intro: copies copies_completes)

lemma ModelStoreSpec_copies [copies]: "copies ModelStoreSpec_t ModelStoreSpec_DeepCopyInto"
  by (rule copies_whole) (simp_all add: ModelStoreSpec_DeepCopyInto_def)

lemma ModelSpec_copies [copies]: "copies ModelSpec_t ModelSpec_DeepCopyInto"
  by (rule copies_by [where fs = "[
      (''Name'', TStr, untouched), (''Source'', TStr, untouched), (''Engine'', TStr, untouched),
      (''Replicas'', TInt, untouched), (''Resources'', ModelResources_t, reassigned),
      (''EngineArgs'', TMap, copyMap)]"])
    (auto simp: block_Cons repairs_def untouched_def reassigned_def ModelSpec_DeepCopyInto_def ModelSpec_t_def intro!: completes intro: copies copies_completes)

lemma KeycloakSpec_copies [copies]: "copies KeycloakSpec_t KeycloakSpec_DeepCopyInto"
  by (rule copies_whole) (simp_all add: KeycloakSpec_DeepCopyInto_def)

lemma PostgreSQLSpec_copies [copies]: "copies PostgreSQLSpec_t PostgreSQLSpec_DeepCopyInto"
  by (rule copies_whole) (simp_all add: PostgreSQLSpec_DeepCopyInto_def)

lemma KEDASpec_copies [copies]: "copies KEDASpec_t KEDASpec_DeepCopyInto"
  by (rule copies_whole) (simp_all add: KEDASpec_DeepCopyInto_def)

lemma NodePortSpec_copies [copies]: "copies NodePortSpec_t NodePortSpec_DeepCopyInto"
  by (rule copies_whole) (simp_all add: NodePortSpec_DeepCopyInto_def)

lemma IngressSpec_copies [copies]: "copies IngressSpec_t IngressSpec_DeepCopyInto"
  by (rule copies_whole) (simp_all add: IngressSpec_DeepCopyInto_def)

lemma LLMPlatformSpec_copies [copies]: "copies LLMPlatformSpec_t LLMPlatformSpec_DeepCopyInto"
  by (rule copies_by [where fs = "[
      (''Gateway'', GatewaySpec_t, reassigned), (''Observability'', ObservabilitySpec_t, reassigned),
      (''Logging'', LoggingSpec_t, reassigned), (''Modules'', ModulesSpec_t, reassigned),
      (''ModelStore'', ModelStoreSpec_t, reassigned), (''HFToken'', TStr, untouched),
      (''Models'', TSlice ModelSpec_t, copySlice ModelSpec_t ModelSpec_DeepCopyInto),
      (''Keycloak'', KeycloakSpec_t, reassigned), (''PostgreSQL'', PostgreSQLSpec_t, reassigned),
      (''KEDA'', KEDASpec_t, reassigned), (''NodePort'', NodePortSpec_t, reassigned),
      (''Ingress'', IngressSpec_t, reassigned), (''Headlamp'', EnabledToggle_t, reassigned)]"])
    (auto simp: block_Cons repairs_def untouched_def reassigned_def LLMPlatformSpec_DeepCopyInto_def LLMPlatformSpec_t_def intro!: completes intro: copies copies_completes)

lemma ComponentStatus_copies [copies]: "copies ComponentStatus_t ComponentStatus_DeepCopyInto"
  by (rule copies_whole) (simp_all add: ComponentStatus_DeepCopyInto_def)

lemma ComponentStatuses_copies [copies]: "copies ComponentStatuses_t ComponentStatuses_DeepCopyInto"
  by (rule copies_by [where fs = "[
      (''Gateway'', TPtr ComponentStatus_t, copyPtr ComponentStatus_t),
      (''Grafana'', TPtr ComponentStatus_t, copyPtr ComponentStatus_t),
      (''Prometheus'', TPtr ComponentStatus_t, copyPtr ComponentStatus_t),
      (''Langfuse'', TPtr ComponentStatus_t, copyPtr ComponentStatus_t),
      (''MinIO'', TPtr ComponentStatus_t, copyPtr ComponentStatus_t),
      (''PostgreSQL'', TPtr ComponentStatus_t, copyPtr ComponentStatus_t),
      (''Dify'', TPtr ComponentStatus_t, copyPtr ComponentStatus_t),
      (''Milvus'', TPtr ComponentStatus_t, copyPtr ComponentStatus_t)]"])
    (auto simp: block_Cons repairs_def untouched_def reassigned_def ComponentStatuses_DeepCopyInto_def ComponentStatuses_t_def intro!: completes intro: copies copies_completes)

subsection \<open>Types with metadata, conditions or times\<close>

locale copy_library =
  fixes L :: copyLib
  assumes meta_copies: "copies (ObjectMeta_t L) (ObjectMeta_into L)"
    and list_copies: "copies (ListMeta_t L) (ListMeta_into L)"
    and condition_copies: "copies (Condition_t L) (Condition_into L)"
    and time_returns: "returnsCopy (Time_t L) (Time_copy L)"
begin

lemmas [copies] = meta_copies list_copies condition_copies time_returns

lemma ModelDeploymentStatus_copies [copies]: "copies (ModelDeploymentStatus_t L) (ModelDeploymentStatus_DeepCopyInto L)"
  by (rule copies_by [where fs = "[
      (''Phase'', TStr, untouched), (''Engine'', TStr, untouched), (''Endpoint'', TStr, untouched),
      (''ReadyReplicas'', TInt, untouched), (''TotalReplicas'', TInt, untouched),
      (''ModelSize'', TStr, untouched),
      (''Conditions'', TSlice (Condition_t L), copySlice (Condition_t L) (Condition_into L)),
      (''Canary'', TPtr CanaryStatus_t, copyPtr CanaryStatus_t)]"])
    (auto simp: block_Cons repairs_def untouched_def reassigned_def ModelDeploymentStatus_DeepCopyInto_def ModelDeploymentStatus_t_def intro!: completes intro: copies copies_completes)

lemma ModelDeployment_copies [copies]: "copies (ModelDeployment_t L) (ModelDeployment_DeepCopyInto L)"
  by (rule copies_by [where fs = "[
      (''TypeMeta'', TypeMeta_t, reassigned), (''ObjectMeta'', ObjectMeta_t L, ObjectMeta_into L),
      (''Spec'', ModelDeploymentSpec_t, ModelDeploymentSpec_DeepCopyInto),
      (''Status'', ModelDeploymentStatus_t L, ModelDeploymentStatus_DeepCopyInto L)]"])
    (auto simp: block_Cons repairs_def untouched_def reassigned_def ModelDeployment_DeepCopyInto_def ModelDeployment_t_def intro!: completes intro: copies copies_completes)

lemma ModelDeploymentList_copies [copies]: "copies (ModelDeploymentList_t L) (ModelDeploymentList_DeepCopyInto L)"
  by (rule copies_by [where fs = "[
      (''TypeMeta'', TypeMeta_t, reassigned), (''ListMeta'', ListMeta_t L, ListMeta_into L),
      (''Items'', TSlice (ModelDeployment_t L), copySlice (ModelDeployment_t L) (ModelDeployment_DeepCopyInto L))]"])
    (auto simp: block_Cons repairs_def untouched_def reassigned_def ModelDeploymentList_DeepCopyInto_def ModelDeploymentList_t_def intro!: completes intro: copies copies_completes)

lemma FineTuneRunStatus_copies [copies]: "copies (FineTuneRunStatus_t L) (FineTuneRunStatus_DeepCopyInto L)"
  by (rule copies_by [where fs = "[
      (''Phase'', TStr, untouched), (''ArgoWorkflow'', TStr, untouched),
      (''StartTime'', TPtr (Time_t L), copyPtrBy (Time_copy L)),
      (''CompletionTime'', TPtr (Time_t L), copyPtrBy (Time_copy L)),
      (''Metrics'', TrainingMetrics_t, reassigned), (''MLflow'', MLflowStatus_t, reassigned),
      (''QualityGate'', QualityGateStatus_t, reassigned), (''OutputModel'', OutputModelStatus_t, reassigned),
      (''Conditions'', TSlice (Condition_t L), copySlice (Condition_t L) (Condition_into L))]"])
    (auto simp: block_Cons repairs_def untouched_def reassigned_def FineTuneRunStatus_DeepCopyInto_def FineTuneRunStatus_t_def intro!: completes intro: copies copies_completes)

lemma FineTuneRun_copies [copies]: "copies (FineTuneRun_t L) (FineTuneRun_DeepCopyInto L)"
  by (rule copies_by [where fs = "[
      (''TypeMeta'', TypeMeta_t, reassigned), (''ObjectMeta'', ObjectMeta_t L, ObjectMeta_into L),
      (''Spec'', FineTuneRunSpec_t, reassigned),
      (''Status'', FineTuneRunStatus_t L, FineTuneRunStatus_DeepCopyInto L)]"])
    (auto simp: block_Cons repairs_def untouched_def reassigned_def FineTuneRun_DeepCopyInto_def FineTuneRun_t_def intro!: completes intro: copies copies_completes)

lemma FineTuneRunList_copies [copies]: "copies (FineTuneRunList_t L) (FineTuneRunList_DeepCopyInto L)"
  by (rule copies_by [where fs = "[
      (''TypeMeta'', TypeMeta_t, reassigned), (''ListMeta'', ListMeta_t L, ListMeta_into L),
      (''Items'', TSlice (FineTuneRun_t L), copySlice (FineTuneRun_t L) (FineTuneRun_DeepCopyInto L))]"])
    (auto simp: block_Cons repairs_def untouched_def reassigned_def FineTuneRunList_DeepCopyInto_def FineTuneRunList_t_def intro!: completes intro: copies copies_completes)

lemma LLMPlatformStatus_copies [copies]: "copies (LLMPlatformStatus_t L) (LLMPlatformStatus_DeepCopyInto L)"
  by (rule copies_by [where fs = "[
      (''Phase'', TStr, untouched), (''ObservedGeneration'', TInt, untouched),
      (''HelmRelease'', TStr, untouched), (''HelmRevision'', TInt, untouched),
      (''Components'', ComponentStatuses_t, ComponentStatuses_DeepCopyInto),
      (''Conditions'', TSlice (Condition_t L), copySlice (Condition_t L) (Condition_into L))]"])
    (auto simp: block_Cons repairs_def untouched_def reassigned_def LLMPlatformStatus_DeepCopyInto_def LLMPlatformStatus_t_def intro!: completes intro: copies copies_completes)

lemma LLMPlatform_copies [copies]: "copies (LLMPlatform_t L) (LLMPlatform_DeepCopyInto L)"
  by (rule copies_by [where fs = "[
      (''TypeMeta'', TypeMeta_t, reassigned), (''ObjectMeta'', ObjectMeta_t L, ObjectMeta_into L),
      (''Spec'', LLMPlatformSpec_t, LLMPlatformSpec_DeepCopyInto),
      (''Status'', LLMPlatformStatus_t L, LLMPlatformStatus_DeepCopyInto L)]"])
    (auto simp: block_Cons repairs_def untouched_def reassigned_def LLMPlatform_DeepCopyInto_def LLMPlatform_t_def intro!: completes intro: copies copies_completes)

lemma LLMPlatformList_copies [copies]: "copies (LLMPlatformList_t L) (LLMPlatformList_DeepCopyInto L)"
  by (rule copies_by [where fs = "[
      (''TypeMeta'', TypeMeta_t, reassigned), (''ListMeta'', ListMeta_t L, ListMeta_into L),
      (''Items'', TSlice (LLMPlatform_t L), copySlice (LLMPlatform_t L) (LLMPlatform_DeepCopyInto L))]"])
    (auto simp: block_Cons repairs_def untouched_def reassigned_def LLMPlatformList_DeepCopyInto_def LLMPlatformList_t_def intro!: completes intro: copies copies_completes)

end

text \<open>All generated \<open>DeepCopy\<close> functions with the types they are for.\<close>

definition deepCopies :: "copyLib \<Rightarrow> (string \<times> ty \<times> copyNew) list" where
  "deepCopies L = [
     (''ModelResources'', ModelResources_t, ModelResources_DeepCopy),
     (''SpotConfig'', SpotConfig_t, SpotConfig_DeepCopy),
     (''CanaryConfig'', CanaryConfig_t, CanaryConfig_DeepCopy),
     (''ModelStoreOverride'', ModelStoreOverride_t, ModelStoreOverride_DeepCopy),
     (''ModelDeploymentSpec'', ModelDeploymentSpec_t, ModelDeploymentSpec_DeepCopy),
     (''CanaryStatus'', CanaryStatus_t, CanaryStatus_DeepCopy),
     (''ModelDeploymentStatus'', ModelDeploymentStatus_t L, ModelDeploymentStatus_DeepCopy L),
     (''ModelDeployment'', ModelDeployment_t L, ModelDeployment_DeepCopy L),
     (''ModelDeploymentList'', ModelDeploymentList_t L, ModelDeploymentList_DeepCopy L),
     (''DataSourceSpec'', DataSourceSpec_t, DataSourceSpec_DeepCopy),
     (''TrainingSpec'', TrainingSpec_t, TrainingSpec_DeepCopy),
     (''EvaluationSpec'', EvaluationSpec_t, EvaluationSpec_DeepCopy),
     (''QualityThresholds'', QualityThresholds_t, QualityThresholds_DeepCopy),
     (''QualityGateSpec'', QualityGateSpec_t, QualityGateSpec_DeepCopy),
     (''DeploySpec'', DeploySpec_t, DeploySpec_DeepCopy),
     (''FineTuneRunSpec'', FineTuneRunSpec_t, FineTuneRunSpec_DeepCopy),
     (''TrainingMetrics'', TrainingMetrics_t, TrainingMetrics_DeepCopy),
     (''MLflowStatus'', MLflowStatus_t, MLflowStatus_DeepCopy),
     (''QualityGateStatus'', QualityGateStatus_t, QualityGateStatus_DeepCopy),
     (''OutputModelStatus'', OutputModelStatus_t, OutputModelStatus_DeepCopy),
     (''FineTuneRunStatus'', FineTuneRunStatus_t L, FineTuneRunStatus_DeepCopy L),
     (''FineTuneRun'', FineTuneRun_t L, FineTuneRun_DeepCopy L),
     (''FineTuneRunList'', FineTuneRunList_t L, FineTuneRunList_DeepCopy L),
     (''ImageSpec'', ImageSpec_t, ImageSpec_DeepCopy),
     (''EnabledToggle'', EnabledToggle_t, EnabledToggle_DeepCopy),
     (''GatewaySpec'', GatewaySpec_t, GatewaySpec_DeepCopy),
     (''GrafanaSpec'', GrafanaSpec_t, GrafanaSpec_DeepCopy),
     (''ObservabilitySpec'', ObservabilitySpec_t, ObservabilitySpec_DeepCopy),
     (''LoggingSpec'', LoggingSpec_t, LoggingSpec_DeepCopy),
     (''ModulesSpec'', ModulesSpec_t, ModulesSpec_DeepCopy),
     (''ModelStoreSpec'', ModelStoreSpec_t, ModelStoreSpec_DeepCopy),
     (''ModelSpec'', ModelSpec_t, ModelSpec_DeepCopy),
     (''KeycloakSpec'', KeycloakSpec_t, KeycloakSpec_DeepCopy),
     (''PostgreSQLSpec'', PostgreSQLSpec_t, PostgreSQLSpec_DeepCopy),
     (''KEDASpec'', KEDASpec_t, KEDASpec_DeepCopy),
     (''NodePortSpec'', NodePortSpec_t, NodePortSpec_DeepCopy),
     (''IngressSpec'', IngressSpec_t, IngressSpec_DeepCopy),
     (''LLMPlatformSpec'', LLMPlatformSpec_t, LLMPlatformSpec_DeepCopy),
     (''ComponentStatus'', ComponentStatus_t, ComponentStatus_DeepCopy),
     (''ComponentStatuses'', ComponentStatuses_t, ComponentStatuses_DeepCopy),
     (''LLMPlatformStatus'', LLMPlatformStatus_t L, LLMPlatformStatus_DeepCopy L),
     (''LLMPlatform'', LLMPlatform_t L, LLMPlatform_DeepCopy L),
     (''LLMPlatformList'', LLMPlatformList_t L, LLMPlatformList_DeepCopy L)]"

context copy_library
begin

lemma deepCopies_return: "(name, T, copy) \<in> set (deepCopies L) \<Longrightarrow> returnsCopy T copy"
  unfolding deepCopies_def list.set by (auto intro!: returns_newCopy intro: copies simp: ModelResources_DeepCopy_def SpotConfig_DeepCopy_def CanaryConfig_DeepCopy_def ModelStoreOverride_DeepCopy_def ModelDeploymentSpec_DeepCopy_def CanaryStatus_DeepCopy_def ModelDeploymentStatus_DeepCopy_def ModelDeployment_DeepCopy_def ModelDeploymentList_DeepCopy_def DataSourceSpec_DeepCopy_def TrainingSpec_DeepCopy_def EvaluationSpec_DeepCopy_def QualityThresholds_DeepCopy_def QualityGateSpec_DeepCopy_def DeploySpec_DeepCopy_def FineTuneRunSpec_DeepCopy_def TrainingMetrics_DeepCopy_def MLflowStatus_DeepCopy_def QualityGateStatus_DeepCopy_def OutputModelStatus_DeepCopy_def FineTuneRunStatus_DeepCopy_def FineTuneRun_DeepCopy_def FineTuneRunList_DeepCopy_def ImageSpec_DeepCopy_def EnabledToggle_DeepCopy_def GatewaySpec_DeepCopy_def GrafanaSpec_DeepCopy_def ObservabilitySpec_DeepCopy_def LoggingSpec_DeepCopy_def ModulesSpec_DeepCopy_def ModelStoreSpec_DeepCopy_def ModelSpec_DeepCopy_def KeycloakSpec_DeepCopy_def PostgreSQLSpec_DeepCopy_def KEDASpec_DeepCopy_def NodePortSpec_DeepCopy_def IngressSpec_DeepCopy_def LLMPlatformSpec_DeepCopy_def ComponentStatus_DeepCopy_def ComponentStatuses_DeepCopy_def LLMPlatformStatus_DeepCopy_def LLMPlatform_DeepCopy_def LLMPlatformList_DeepCopy_def)

end

subsection \<open>An instance of the library's types\<close>

text \<open>
  Metadata with a map, a list of strings, a pointer to a time and a list of structs, and the copies
  that controller-gen generates for such structs.
\<close>

definition memTime_copy :: copyNew where
  "memTime_copy = newCopy TInt (\<lambda>inn out. copyValue out inn)"

definition memOwner_t :: ty where
  "memOwner_t = TStruct [(''Kind'', TStr), (''Name'', TStr)]"

definition memMeta_t :: ty where
  "memMeta_t = TStruct [(''Name'', TStr), (''Namespace'', TStr), (''Generation'', TInt),
     (''DeletionTimestamp'', TPtr TInt), (''Labels'', TMap), (''OwnerReferences'', TSlice memOwner_t),
     (''Finalizers'', TSlice TStr)]"

definition memMeta_into :: copyInto where
  "memMeta_into inn out = block
     [copyValue out inn,
      copyPtrBy memTime_copy (sub inn ''DeletionTimestamp'') (sub out ''DeletionTimestamp''),
      copyMap (sub inn ''Labels'') (sub out ''Labels''),
      copySlice memOwner_t (\<lambda>inn out. copyValue out inn) (sub inn ''OwnerReferences'') (sub out ''OwnerReferences''),
      copySlice TStr (\<lambda>inn out. copyValue out inn) (sub inn ''Finalizers'') (sub out ''Finalizers'')]"

definition memCondition_t :: ty where
  "memCondition_t = TStruct [(''Type'', TStr), (''Status'', TStr), (''Reason'', TStr), (''Message'', TStr),
     (''LastTransitionTime'', TInt), (''ObservedGeneration'', TInt)]"

definition memCopies :: copyLib where
  "memCopies = \<lparr>ObjectMeta_t = memMeta_t, ObjectMeta_into = memMeta_into,
     ListMeta_t = TStruct [(''ResourceVersion'', TStr)], ListMeta_into = (\<lambda>inn out. copyValue out inn),
     Condition_t = memCondition_t, Condition_into = (\<lambda>inn out. copyValue out inn),
     Time_t = TInt, Time_copy = memTime_copy\<rparr>"

lemma memTime_returns [copies]: "returnsCopy TInt memTime_copy"
  unfolding memTime_copy_def by (intro returns_newCopy copies_plain) simp

lemma memMeta_copies: "copies memMeta_t memMeta_into"
  by (rule copies_by [where fs = "[(''Name'', TStr, untouched), (''Namespace'', TStr, untouched),
      (''Generation'', TInt, untouched), (''DeletionTimestamp'', TPtr TInt, copyPtrBy memTime_copy),
      (''Labels'', TMap, copyMap), (''OwnerReferences'', TSlice memOwner_t, copySlice memOwner_t (\<lambda>inn out. copyValue out inn)),
      (''Finalizers'', TSlice TStr, copySlice TStr (\<lambda>inn out. copyValue out inn))]"])
    (auto simp: block_Cons repairs_def untouched_def memMeta_into_def memMeta_t_def memOwner_t_def
      intro!: completes copies copies_plain)

interpretation memCopies: copy_library memCopies
  by unfold_locales (simp_all add: memCopies_def memMeta_copies memTime_returns copies_plain memCondition_t_def)

subsection \<open>Independence\<close>

text \<open>Any number of later writes.\<close>

definition pokes :: "(loc \<times> gval) list \<Rightarrow> memory \<Rightarrow> memory" where
  "pokes ws h = fold (\<lambda>(l, w). poke l w) ws h"

definition touched :: "(loc \<times> gval) list \<Rightarrow> addr set" where
  "touched ws = (\<lambda>(l, w). fst l) ` set ws"

lemma length_pokes [simp]: "length (pokes ws h) = length h"
  unfolding pokes_def by (induction ws arbitrary: h) (auto simp: length_poke)

lemma pokes_same: "a \<notin> touched ws \<Longrightarrow> pokes ws h ! a = h ! a"
  unfolding pokes_def touched_def by (induction ws arbitrary: h) (auto simp: poke_def)

lemma denote_pokes:
  assumes "denote h T v = Some d" and "foot h T v \<inter> touched ws = {}"
  shows "denote (pokes ws h) T v = Some d"
proof -
  have "sameAt (foot h T v) h (pokes ws h)"
    unfolding sameAt_def
  proof (intro ballI conjI)
    fix a
    assume a: "a \<in> foot h T v"
    show "a < length (pokes ws h)" using foot_allocated(1) [OF assms(1) a] by simp
    show "pokes ws h ! a = h ! a" using a assms(2) by (intro pokes_same) auto
  qed
  from denote_same(1) [OF assms(1) this] show ?thesis by simp
qed

lemma peek_pokes:
  assumes "peek h l = Some v" and "fst l \<notin> touched ws"
  shows "peek (pokes ws h) l = Some v"
  using pokes_same [OF assms(2)] peek_length [OF assms(1)] by (intro peek_same [OF assms(1)]) simp_all

text \<open>What a type's \<open>DeepCopy\<close> promises to those who call it.\<close>

definition independentCopy :: "copyNew \<Rightarrow> ty \<Rightarrow> memory \<Rightarrow> loc \<Rightarrow> gval \<Rightarrow> den \<Rightarrow> bool" where
  "independentCopy copy T h p v d \<longleftrightarrow>
     (\<exists>q new v'. copy (Some p) h = Some (Some q, h @ new) \<and> length h \<le> fst q \<and>
        peek (h @ new) q = Some v' \<and> denote (h @ new) T v' = Some d \<and>
        (\<forall>ws. touched ws \<subseteq> {length h..} \<longrightarrow>
           peek (pokes ws (h @ new)) p = Some v \<and> denote (pokes ws (h @ new)) T v = Some d) \<and>
        (\<forall>ws. touched ws \<subseteq> {..<length h} \<longrightarrow>
           peek (pokes ws (h @ new)) q = Some v' \<and> denote (pokes ws (h @ new)) T v' = Some d))"

lemma returnsCopy_independent:
  assumes "returnsCopy T copy" and v: "peek h p = Some v" "denote h T v = Some d"
  shows "independentCopy copy T h p v d"
proof -
  from assms obtain q new v' where c: "copy (Some p) h = Some (Some q, h @ new)" "length h \<le> fst q"
      "peek (h @ new) q = Some v'" "freshCopy (length h) (h @ new) T v' d"
    unfolding returnsCopy_def by blast
  have old: "peek (h @ new) p = Some v" using v(1) by (rule peek_append)
  have "sameAt (foot h T v) h (h @ new)"
    using foot_allocated(1) [OF v(2)] by (simp add: sameAt_def nth_append trans_less_add1)
  note same = denote_same(1) [OF v(2) this]
  have a: "peek (pokes ws (h @ new)) p = Some v \<and> denote (pokes ws (h @ new)) T v = Some d"
    if ws: "touched ws \<subseteq> {length h..}" for ws
  proof -
    have "foot (h @ new) T v \<inter> touched ws = {}"
      using same ws foot_allocated(1) [OF v(2)] by fastforce
    moreover have "fst p \<notin> touched ws" using ws peek_length [OF v(1)] by auto
    ultimately show ?thesis using old same by (simp add: peek_pokes denote_pokes)
  qed
  have b: "peek (pokes ws (h @ new)) q = Some v' \<and> denote (pokes ws (h @ new)) T v' = Some d"
    if ws: "touched ws \<subseteq> {..<length h}" for ws
  proof -
    have "foot (h @ new) T v' \<inter> touched ws = {}" using c(4) ws unfolding freshCopy_def by fastforce
    moreover have "fst q \<notin> touched ws" using ws c(2) by auto
    ultimately show ?thesis using c(3,4) by (simp add: peek_pokes denote_pokes freshCopy_def)
  qed
  show ?thesis
    unfolding independentCopy_def
    by (rule exI [of _ q], rule exI [of _ new], rule exI [of _ v']) (use c v a b in \<open>simp add: freshCopy_def\<close>)
qed

text \<open>All generated \<open>DeepCopyObject\<close> functions.\<close>

definition objectCopies :: "copyLib \<Rightarrow> (string \<times> ty \<times> copyObject) list" where
  "objectCopies L = [
     (''ModelDeployment'', ModelDeployment_t L, ModelDeployment_DeepCopyObject L),
     (''ModelDeploymentList'', ModelDeploymentList_t L, ModelDeploymentList_DeepCopyObject L),
     (''FineTuneRun'', FineTuneRun_t L, FineTuneRun_DeepCopyObject L),
     (''FineTuneRunList'', FineTuneRunList_t L, FineTuneRunList_DeepCopyObject L),
     (''LLMPlatform'', LLMPlatform_t L, LLMPlatform_DeepCopyObject L),
     (''LLMPlatformList'', LLMPlatformList_t L, LLMPlatformList_DeepCopyObject L)]"

lemma objects_copied:
  "(''ModelDeployment'', ModelDeployment_t L, ModelDeployment_DeepCopy L) \<in> set (deepCopies L)"
  "(''ModelDeploymentList'', ModelDeploymentList_t L, ModelDeploymentList_DeepCopy L) \<in> set (deepCopies L)"
  "(''FineTuneRun'', FineTuneRun_t L, FineTuneRun_DeepCopy L) \<in> set (deepCopies L)"
  "(''FineTuneRunList'', FineTuneRunList_t L, FineTuneRunList_DeepCopy L) \<in> set (deepCopies L)"
  "(''LLMPlatform'', LLMPlatform_t L, LLMPlatform_DeepCopy L) \<in> set (deepCopies L)"
  "(''LLMPlatformList'', LLMPlatformList_t L, LLMPlatformList_DeepCopy L) \<in> set (deepCopies L)"
  unfolding deepCopies_def list.set by (rule insertI1 | rule insertI2)+

lemma objectCopies_as:
  "\<forall>(name, T, ob)\<in>set (objectCopies L). \<exists>copy. ob = objectOf name copy \<and> (name, T, copy) \<in> set (deepCopies L)"
  unfolding objectCopies_def list.set Set.ball_simps(7) prod.case
  by (intro conjI exI ballI)
    (rule objects_copied ModelDeployment_DeepCopyObject_def ModelDeploymentList_DeepCopyObject_def FineTuneRun_DeepCopyObject_def FineTuneRunList_DeepCopyObject_def LLMPlatform_DeepCopyObject_def LLMPlatformList_DeepCopyObject_def | simp)+

subsection \<open>An example\<close>

definition exampleSpec :: gval where
  "exampleSpec = GStruct [(''Source'', GStr ''org/m''), (''Engine'', GStr ''vllm''), (''Replicas'', GPtr (Some (1, []))),
     (''Resources'', GStruct [(''GPU'', GInt 1), (''Memory'', GStr ''''), (''CPU'', GStr '''')]),
     (''Accelerator'', GStr ''''), (''MIGDevice'', GStr ''''), (''EngineArgs'', GMap (Some 2)),
     (''PrefixCaching'', GBool False), (''Spot'', GPtr None), (''Canary'', GPtr None), (''ModelStore'', GPtr None)]"

definition exampleMemory :: memory where
  "exampleMemory = [exampleSpec, GInt 2, GEntries [(''max-model-len'', ''4096'')]]"

definition exampleDen :: den where
  "exampleDen = DStruct [(''Source'', DStr ''org/m''), (''Engine'', DStr ''vllm''), (''Replicas'', DRef (DInt 2)),
     (''Resources'', DStruct [(''GPU'', DInt 1), (''Memory'', DStr ''''), (''CPU'', DStr '''')]),
     (''Accelerator'', DStr ''''), (''MIGDevice'', DStr ''''), (''EngineArgs'', DMap [''max-model-len'' \<mapsto> ''4096'']),
     (''PrefixCaching'', DBool False), (''Spot'', DNil), (''Canary'', DNil), (''ModelStore'', DNil)]"

lemma example_reads:
  "peek exampleMemory (0, []) = Some exampleSpec" "denote exampleMemory ModelDeploymentSpec_t exampleSpec = Some exampleDen"
  by (simp_all add: exampleMemory_def exampleSpec_def exampleDen_def peek_def entries_def ModelDeploymentSpec_t_def
    ModelResources_t_def)

text \<open>
  C16 (deep copies). For each of the 43 API types, whatever it holds: \<open>DeepCopy\<close> does not panic, leaves
  all memory as it was and returns a new variable that reads the same. From then on no sequence of
  writes through the copy can change what the original holds, and no sequence of writes to memory that
  existed before can change the copy. A nil receiver gives nil.
\<close>

theorem deep_copies_independent:
  assumes "copy_library L" and "(name, T, copy) \<in> set (deepCopies L)"
    and "peek h p = Some v" and "denote h T v = Some d"
  shows "independentCopy copy T h p v d \<and> copy None h = Some (None, h)"
proof -
  have "returnsCopy T copy" using copy_library.deepCopies_return [OF assms(1,2)] .
  with assms(3,4) show ?thesis using returnsCopy_independent unfolding returnsCopy_def by blast
qed

theorem deep_copies_independent_witness:
  "independentCopy ModelDeploymentSpec_DeepCopy ModelDeploymentSpec_t exampleMemory (0, []) exampleSpec exampleDen \<and>
   ModelDeploymentSpec_DeepCopy None exampleMemory = Some (None, exampleMemory)"
  by (rule deep_copies_independent [OF memCopies.copy_library_axioms _ example_reads, of "''ModelDeploymentSpec''"])
    (simp add: deepCopies_def)

text \<open>
  A \<open>DeepCopyObject\<close> returns the copy with its own type; for a nil receiver it returns an interface that is
  nil, not one that holds a nil pointer.
\<close>

theorem deep_copy_objects:
  assumes "copy_library L" and "(name, T, ob) \<in> set (objectCopies L)"
    and "peek h p = Some v" and "denote h T v = Some d"
  shows "ob None h = Some (None, h) \<and>
    (\<exists>q new v'. ob (Some p) h = Some (Some (name, q), h @ new) \<and> length h \<le> fst q \<and>
       peek (h @ new) q = Some v' \<and> freshCopy (length h) (h @ new) T v' d)"
proof -
  obtain copy where ob: "ob = objectOf name copy" and "(name, T, copy) \<in> set (deepCopies L)"
    using objectCopies_as [of L] assms(2) by blast
  then have "returnsCopy T copy" using copy_library.deepCopies_return [OF assms(1)] by blast
  with assms(3,4) have "copy None h = Some (None, h)"
    "\<exists>q new v'. copy (Some p) h = Some (Some q, h @ new) \<and> length h \<le> fst q \<and>
       peek (h @ new) q = Some v' \<and> freshCopy (length h) (h @ new) T v' d"
    unfolding returnsCopy_def by blast+
  then show ?thesis unfolding ob by (auto simp: objectOf_def)
qed

end
