(* ===== verification/GoFlag.thy ===== *)
theory GoFlag
  imports Prelude
begin

section \<open>Package flag, paths and append\<close>

text \<open>
  What \<open>cmd/main.go\<close> uses of Go's standard library and of the language: the parser of command lines
  (\<open>flag.CommandLine\<close>, which ends the process on an error), \<open>filepath.Join\<close>, and \<open>append\<close>, which
  writes into the array of its argument when the capacity allows.
\<close>

subsection \<open>Flags\<close>

text \<open>A flag is a \<open>flag.Value\<close>: whether it is boolean, and how it sets what it stands for.\<close>

record 's flagVar =
  fv_IsBool :: bool
  fv_Set :: "string \<Rightarrow> 's \<Rightarrow> 's option"

type_synonym 's flagSet = "string \<Rightarrow> 's flagVar option"

datatype 's flagResult = Parsed 's "string list" | FlagHelp | FlagError

text \<open>The name and the value of \<open>name=value\<close>.\<close>

definition flagParts :: "string \<Rightarrow> string \<times> string option" where
  "flagParts s =
     (takeWhile (\<lambda>c. c \<noteq> CHR ''='') s,
      if CHR ''='' \<in> set s then Some (tl (dropWhile (\<lambda>c. c \<noteq> CHR ''='') s)) else None)"

fun parseFlags :: "'s flagSet \<Rightarrow> string list \<Rightarrow> 's \<Rightarrow> 's flagResult" where
  "parseFlags F [] s = Parsed s []"
| "parseFlags F (a # args) s =
     (if length a < 2 \<or> hd a \<noteq> CHR ''-'' then Parsed s (a # args)
      else if a = ''--'' then Parsed s args
      else
        let name = (if a ! 1 = CHR ''-'' then drop 2 a else drop 1 a) in
        if name = '''' \<or> hd name = CHR ''-'' \<or> hd name = CHR ''='' then FlagError
        else
          case F (fst (flagParts name)) of
            None \<Rightarrow> if fst (flagParts name) \<in> {''help'', ''h''} then FlagHelp else FlagError
          | Some f \<Rightarrow>
              (case (snd (flagParts name), fv_IsBool f, args) of
                 (Some x, b, rest) \<Rightarrow>
                   (case fv_Set f x s of None \<Rightarrow> FlagError | Some s' \<Rightarrow> parseFlags F args s')
               | (None, True, rest) \<Rightarrow>
                   (case fv_Set f ''true'' s of None \<Rightarrow> FlagError | Some s' \<Rightarrow> parseFlags F args s')
               | (None, False, []) \<Rightarrow> FlagError
               | (None, False, x # rest) \<Rightarrow>
                   (case fv_Set f x s of None \<Rightarrow> FlagError | Some s' \<Rightarrow> parseFlags F rest s')))"

text \<open>\<open>strconv.ParseBool\<close>.\<close>

definition ParseBool :: "string \<Rightarrow> bool option" where
  "ParseBool s =
     (if s \<in> {''1'', ''t'', ''T'', ''true'', ''TRUE'', ''True''} then Some True
      else if s \<in> {''0'', ''f'', ''F'', ''false'', ''FALSE'', ''False''} then Some False
      else None)"

definition StringVar :: "((string \<Rightarrow> string) \<Rightarrow> 's \<Rightarrow> 's) \<Rightarrow> 's flagVar" where
  "StringVar upd = \<lparr>fv_IsBool = False, fv_Set = (\<lambda>x s. Some (upd (\<lambda>_. x) s))\<rparr>"

definition BoolVar :: "((bool \<Rightarrow> bool) \<Rightarrow> 's \<Rightarrow> 's) \<Rightarrow> 's flagVar" where
  "BoolVar upd = \<lparr>fv_IsBool = True, fv_Set = (\<lambda>x s. map_option (\<lambda>b. upd (\<lambda>_. b) s) (ParseBool x))\<rparr>"

subsection \<open>Paths\<close>

fun splitPath :: "string \<Rightarrow> string list" where
  "splitPath [] = [[]]"
| "splitPath (c # s) =
     (if c = CHR ''/'' then [] # splitPath s
      else case splitPath s of [] \<Rightarrow> [[c]] | p # ps \<Rightarrow> (c # p) # ps)"

text \<open>The elements of a cleaned path, last first.\<close>

fun cleanStep :: "bool \<Rightarrow> string list \<Rightarrow> string \<Rightarrow> string list" where
  "cleanStep rooted done p =
     (if p = '''' \<or> p = ''.'' then done
      else if p = ''..'' then
        (case done of
           [] \<Rightarrow> if rooted then [] else [p]
         | q # qs \<Rightarrow> if q = ''..'' then p # done else qs)
      else p # done)"

fun joinPath :: "string list \<Rightarrow> string" where
  "joinPath [] = ''''"
| "joinPath [p] = p"
| "joinPath (p # ps) = p @ ''/'' @ joinPath ps"

definition Clean :: "string \<Rightarrow> string" where
  "Clean s =
     (let rooted = prefix ''/'' s;
          p = joinPath (rev (foldl (cleanStep rooted) [] (splitPath s))) in
      if rooted then ''/'' @ p else if p = '''' then ''.'' else p)"

definition JoinPath :: "string \<Rightarrow> string \<Rightarrow> string" where
  "JoinPath dir name =
     (if dir = '''' then if name = '''' then '''' else Clean name
      else Clean (if name = '''' then dir else dir @ ''/'' @ name))"

subsection \<open>Slices with capacity\<close>

text \<open>
  The arrays in memory, and slices that start at the first element of one: the array (none for nil)
  and the length; the capacity is the length of the array. The language leaves open how large an array
  \<open>append\<close> makes: \<open>grow n\<close> is its size when \<open>n\<close> elements are needed, at least \<open>n\<close>.
\<close>

type_synonym 'a arrays = "'a option list list"

record slice =
  sl_Array :: "nat option"
  sl_Len :: nat

definition nilSlice :: slice where
  "nilSlice = \<lparr>sl_Array = None, sl_Len = 0\<rparr>"

definition cap :: "'a arrays \<Rightarrow> slice \<Rightarrow> nat" where
  "cap h s = (case sl_Array s of None \<Rightarrow> 0 | Some a \<Rightarrow> length (h ! a))"

definition contents :: "'a arrays \<Rightarrow> slice \<Rightarrow> 'a option list" where
  "contents h s = (case sl_Array s of None \<Rightarrow> [] | Some a \<Rightarrow> take (sl_Len s) (h ! a))"

definition append1 :: "(nat \<Rightarrow> nat) \<Rightarrow> slice \<Rightarrow> 'a \<Rightarrow> 'a arrays \<Rightarrow> slice \<times> 'a arrays" where
  "append1 grow s x h =
     (let n = Suc (sl_Len s) in
      if sl_Len s < cap h s then
        (s\<lparr>sl_Len := n\<rparr>, h[the (sl_Array s) := (h ! the (sl_Array s))[sl_Len s := Some x]])
      else
        (\<lparr>sl_Array = Some (length h), sl_Len = n\<rparr>,
         h @ [contents h s @ Some x # replicate (grow n - n) None]))"

definition slice_ok :: "'a arrays \<Rightarrow> slice \<Rightarrow> bool" where
  "slice_ok h s = (case sl_Array s of None \<Rightarrow> sl_Len s = 0
     | Some a \<Rightarrow> a < length h \<and> sl_Len s \<le> length (h ! a))"

lemma contents_append1:
  assumes "slice_ok h s" and "append1 grow s x h = (s', h')"
  shows "contents h' s' = contents h s @ [Some x] \<and> slice_ok h' s'"
  using assms
  by (cases "sl_Array s")
    (auto simp: append1_def contents_def cap_def slice_ok_def Let_def nth_append take_Suc_conv_app_nth split: if_splits)

text \<open>A slice whose array was full leaves all arrays as they were.\<close>

lemma append1_full:
  assumes "slice_ok h s" and "append1 grow s x h = (s', h')" and "sl_Len s = cap h s" and "slice_ok h t"
  shows "contents h' t = contents h t"
  using assms
  by (cases "sl_Array t") (auto simp: append1_def contents_def slice_ok_def Let_def nth_append)

end
