(* ===== verification/OperatorMain.thy ===== *)
theory OperatorMain
  imports Operator GoFlag Cli
begin

section \<open>The start of the operator (cmd/main.go)\<close>

text \<open>
  \<open>main\<close> from the command line to the manager: the flags, the TLS options of the two servers, the
  certificate watchers, the controllers with what they watch, the checks, and the exit status. The
  manager of controller-runtime and zap's flags are parameters. \<open>Operator\<close> has the reconcilers that are
  set up here.
\<close>

subsection \<open>Flags\<close>

record opFlags =
  metricsAddr :: string
  metricsCertPath :: string
  metricsCertName :: string
  metricsCertKey :: string
  webhookCertPath :: string
  webhookCertName :: string
  webhookCertKey :: string
  enableLeaderElection :: bool
  probeAddr :: string
  secureMetrics :: bool
  enableHTTP2 :: bool

definition defaultFlags :: opFlags where
  "defaultFlags = \<lparr>metricsAddr = ''0'',
     metricsCertPath = '''', metricsCertName = ''tls.crt'', metricsCertKey = ''tls.key'',
     webhookCertPath = '''', webhookCertName = ''tls.crt'', webhookCertKey = ''tls.key'',
     enableLeaderElection = False, probeAddr = '':8081'', secureMetrics = True, enableHTTP2 = False\<rparr>"

definition operatorFlags :: "opFlags flagSet" where
  "operatorFlags = map_of
     [(''metrics-bind-address'', StringVar metricsAddr_update),
      (''health-probe-bind-address'', StringVar probeAddr_update),
      (''leader-elect'', BoolVar enableLeaderElection_update),
      (''metrics-secure'', BoolVar secureMetrics_update),
      (''webhook-cert-path'', StringVar webhookCertPath_update),
      (''webhook-cert-name'', StringVar webhookCertName_update),
      (''webhook-cert-key'', StringVar webhookCertKey_update),
      (''metrics-cert-path'', StringVar metricsCertPath_update),
      (''metrics-cert-name'', StringVar metricsCertName_update),
      (''metrics-cert-key'', StringVar metricsCertKey_update),
      (''enable-http2'', BoolVar enableHTTP2_update)]"

text \<open>\<open>opts.BindFlags(flag.CommandLine)\<close> adds the flags of zap, with a state of their own.\<close>

definition commandLine :: "'z flagSet \<Rightarrow> (opFlags \<times> 'z) flagSet" where
  "commandLine zap n =
     (case operatorFlags n of
        Some f \<Rightarrow> Some \<lparr>fv_IsBool = fv_IsBool f, fv_Set = (\<lambda>x (s, z). map_option (\<lambda>s'. (s', z)) (fv_Set f x s))\<rparr>
      | None \<Rightarrow> map_option (\<lambda>f. \<lparr>fv_IsBool = fv_IsBool f, fv_Set = (\<lambda>x (s, z). map_option (Pair s) (fv_Set f x z))\<rparr>) (zap n))"

subsection \<open>TLS options\<close>

text \<open>The two function literals of \<open>main\<close>, and what they do to a \<open>tls.Config\<close>.\<close>

datatype 'cw tlsOpt = DisableHTTP2 | CertificateFrom 'cw

record 'cw tlsConfig =
  NextProtos :: "string list"
  GetCertificate :: "'cw option"

fun applyOpt :: "'cw tlsOpt \<Rightarrow> 'cw tlsConfig \<Rightarrow> 'cw tlsConfig" where
  "applyOpt DisableHTTP2 c = c\<lparr>NextProtos := [''http/1.1'']\<rparr>"
| "applyOpt (CertificateFrom w) c = c\<lparr>GetCertificate := Some w\<rparr>"

subsection \<open>The manager\<close>

record 'cw managerOptions =
  mo_MetricsBindAddress :: string
  mo_MetricsSecure :: bool
  mo_MetricsTLS :: "'cw tlsOpt option list"
  mo_MetricsAuth :: bool \<comment> \<open>\<open>FilterProvider\<close> is \<open>WithAuthenticationAndAuthorization\<close>\<close>
  mo_WebhookTLS :: "'cw tlsOpt option list"
  mo_ProbeAddress :: string
  mo_LeaderElection :: bool
  mo_LeaderElectionID :: string

record controllerSpec =
  cs_For :: string
  cs_Owns :: "string list"
  cs_Named :: string

record ('w, 'e, 'cw, 'cfg, 'm) managerLib =
  NewCertWatcher :: "string \<Rightarrow> string \<Rightarrow> ('w, 'e error + 'cw) state"
  GetConfigOrDie :: "('w, 'cfg option) state" \<comment> \<open>\<open>None\<close>: the process ends with status 1\<close>
  NewManager :: "'cfg \<Rightarrow> 'cw managerOptions \<Rightarrow> ('w, 'e error + 'm) state"
  CompleteController :: "'m \<Rightarrow> controllerSpec \<Rightarrow> ('w, 'e error option) state"
  AddRunnable :: "'m \<Rightarrow> 'cw \<Rightarrow> ('w, 'e error option) state"
  AddHealthzCheck :: "'m \<Rightarrow> string \<Rightarrow> ('w, 'e error option) state"
  AddReadyzCheck :: "'m \<Rightarrow> string \<Rightarrow> ('w, 'e error option) state"
  StartManager :: "'m \<Rightarrow> ('w, 'e error option) state"

text \<open>\<open>SetupWithManager\<close> of the three reconcilers (\<open>internal/controller\<close>).\<close>

definition setupModelDeployment :: "('w, 'e, 'cw, 'cfg, 'm) managerLib \<Rightarrow> 'm \<Rightarrow> ('w, 'e error option) state" where
  "setupModelDeployment L mgr = CompleteController L mgr
     \<lparr>cs_For = ''ModelDeployment'', cs_Owns = [''Deployment'', ''Service'', ''PersistentVolumeClaim''],
      cs_Named = ''modeldeployment''\<rparr>"

definition setupLLMPlatform :: "('w, 'e, 'cw, 'cfg, 'm) managerLib \<Rightarrow> 'm \<Rightarrow> ('w, 'e error option) state" where
  "setupLLMPlatform L mgr = CompleteController L mgr
     \<lparr>cs_For = ''LLMPlatform'', cs_Owns = [], cs_Named = ''llmplatform''\<rparr>"

definition setupFineTuneRun :: "('w, 'e, 'cw, 'cfg, 'm) managerLib \<Rightarrow> 'm \<Rightarrow> ('w, 'e error option) state" where
  "setupFineTuneRun L mgr = CompleteController L mgr
     \<lparr>cs_For = ''FineTuneRun'', cs_Owns = [], cs_Named = ''finetunerun''\<rparr>"

subsection \<open>main\<close>

text \<open>
  \<open>if err != nil { setupLog.Error(...); os.Exit(1) }\<close>: the left side of the sum is the exit status.
\<close>

definition orExit :: "('w, 'e error + 'a) state \<Rightarrow> ('w, int + 'a) state" where
  "orExit m = State_Monad.bind m (\<lambda>r. ret (case r of Inl e \<Rightarrow> Inl 1 | Inr x \<Rightarrow> Inr x))"

definition noErr :: "('w, 'e error option) state \<Rightarrow> ('w, int + unit) state" where
  "noErr m = State_Monad.bind m (\<lambda>r. ret (case r of Some e \<Rightarrow> Inl 1 | None \<Rightarrow> Inr ()))"

definition orDie :: "('w, 'a option) state \<Rightarrow> ('w, int + 'a) state" where
  "orDie m = State_Monad.bind m (\<lambda>r. ret (case r of None \<Rightarrow> Inl 1 | Some x \<Rightarrow> Inr x))"

text \<open>A certificate watcher, when a directory is given, and its option at the end of a slice.\<close>

definition certWatcher ::
  "('w, 'e, 'cw, 'cfg, 'm) managerLib \<Rightarrow> string \<Rightarrow> string \<Rightarrow> string \<Rightarrow> ('w, int + 'cw option) state" where
  "certWatcher L path name key =
     (if path \<noteq> '''' then
        andThen (orExit (NewCertWatcher L (JoinPath path name) (JoinPath path key))) (\<lambda>w. ret (Inr (Some w)))
      else ret (Inr None))"

definition withCertificate ::
  "(nat \<Rightarrow> nat) \<Rightarrow> 'cw option \<Rightarrow> slice \<times> 'cw tlsOpt arrays \<Rightarrow> slice \<times> 'cw tlsOpt arrays" where
  "withCertificate grow watcher sh =
     (case watcher of None \<Rightarrow> sh | Some w \<Rightarrow> append1 grow (fst sh) (CertificateFrom w) (snd sh))"

text \<open>\<open>tlsOpts\<close>: nil, or one element appended to nil.\<close>

definition baseTLS :: "(nat \<Rightarrow> nat) \<Rightarrow> opFlags \<Rightarrow> slice \<times> 'cw tlsOpt arrays" where
  "baseTLS grow f = (if \<not> enableHTTP2 f then append1 grow nilSlice DisableHTTP2 [] else (nilSlice, []))"

text \<open>
  The options of the webhook server and of the metrics server when the manager reads them: both
  slices start as \<open>tlsOpts\<close>, the webhook's is extended first.
\<close>

definition serverTLS ::
  "(nat \<Rightarrow> nat) \<Rightarrow> opFlags \<Rightarrow> 'cw option \<Rightarrow> 'cw option \<Rightarrow> 'cw tlsOpt option list \<times> 'cw tlsOpt option list" where
  "serverTLS grow f webhookCertWatcher metricsCertWatcher =
     (let (tlsOpts, h) = baseTLS grow f;
          (webhookTLSOpts, h) = withCertificate grow webhookCertWatcher (tlsOpts, h);
          (metricsTLSOpts, h) = withCertificate grow metricsCertWatcher (tlsOpts, h)
      in (contents h webhookTLSOpts, contents h metricsTLSOpts))"

definition mainOptions ::
  "(nat \<Rightarrow> nat) \<Rightarrow> opFlags \<Rightarrow> 'cw option \<Rightarrow> 'cw option \<Rightarrow> 'cw managerOptions" where
  "mainOptions grow f webhookCertWatcher metricsCertWatcher =
     (let (webhookTLS, metricsTLS) = serverTLS grow f webhookCertWatcher metricsCertWatcher in
      \<lparr>mo_MetricsBindAddress = metricsAddr f, mo_MetricsSecure = secureMetrics f,
       mo_MetricsTLS = metricsTLS, mo_MetricsAuth = secureMetrics f, mo_WebhookTLS = webhookTLS,
       mo_ProbeAddress = probeAddr f, mo_LeaderElection = enableLeaderElection f,
       mo_LeaderElectionID = ''61f31610.kubellmops.io''\<rparr>)"

definition addWatcher ::
  "('w, 'e, 'cw, 'cfg, 'm) managerLib \<Rightarrow> 'm \<Rightarrow> 'cw option \<Rightarrow> ('w, int + unit) state" where
  "addWatcher L mgr watcher =
     (case watcher of None \<Rightarrow> ret (Inr ()) | Some w \<Rightarrow> noErr (AddRunnable L mgr w))"

text \<open>Setting up the controllers, and everything from there to the end of \<open>main\<close>.\<close>

definition setupControllers ::
  "('w, 'e, 'cw, 'cfg, 'm) managerLib \<Rightarrow> 'm \<Rightarrow> ('w, int + unit) state" where
  "setupControllers L mgr =
     andThen (noErr (setupModelDeployment L mgr)) (\<lambda>_.
     andThen (noErr (setupLLMPlatform L mgr)) (\<lambda>_.
     noErr (setupFineTuneRun L mgr)))"

definition startOperator ::
  "('w, 'e, 'cw, 'cfg, 'm) managerLib \<Rightarrow> 'm \<Rightarrow> 'cw option \<Rightarrow> 'cw option \<Rightarrow> ('w, int + unit) state" where
  "startOperator L mgr webhookCertWatcher metricsCertWatcher =
     andThen (addWatcher L mgr metricsCertWatcher) (\<lambda>_.
     andThen (addWatcher L mgr webhookCertWatcher) (\<lambda>_.
     andThen (noErr (AddHealthzCheck L mgr ''healthz'')) (\<lambda>_.
     andThen (noErr (AddReadyzCheck L mgr ''readyz'')) (\<lambda>_.
     noErr (StartManager L mgr)))))"

definition runOperator ::
  "(nat \<Rightarrow> nat) \<Rightarrow> ('w, 'e, 'cw, 'cfg, 'm) managerLib \<Rightarrow> opFlags \<Rightarrow> ('w, int + unit) state" where
  "runOperator grow L f =
     andThen (certWatcher L (webhookCertPath f) (webhookCertName f) (webhookCertKey f)) (\<lambda>webhookCertWatcher.
     andThen (certWatcher L (metricsCertPath f) (metricsCertName f) (metricsCertKey f)) (\<lambda>metricsCertWatcher.
     andThen (orDie (GetConfigOrDie L)) (\<lambda>cfg.
     andThen (orExit (NewManager L cfg (mainOptions grow f webhookCertWatcher metricsCertWatcher))) (\<lambda>mgr.
     andThen (setupControllers L mgr) (\<lambda>_.
     startOperator L mgr webhookCertWatcher metricsCertWatcher)))))"

text \<open>The process: the flag package ends it with status 2 on an error and 0 after \<open>--help\<close>.\<close>

definition operatorMain ::
  "(nat \<Rightarrow> nat) \<Rightarrow> ('w, 'e, 'cw, 'cfg, 'm) managerLib \<Rightarrow> 'z flagSet \<Rightarrow> 'z \<Rightarrow> string list \<Rightarrow> ('w, int) state" where
  "operatorMain grow L zap z args =
     (case parseFlags (commandLine zap) args (defaultFlags, z) of
        FlagError \<Rightarrow> ret 2
      | FlagHelp \<Rightarrow> ret 0
      | Parsed (f, z) rest \<Rightarrow>
          State_Monad.bind (runOperator grow L f) (\<lambda>r. ret (case r of Inl code \<Rightarrow> code | Inr u \<Rightarrow> 0)))"

subsection \<open>Registration of the types (api/v1alpha1)\<close>

text \<open>
  A scheme is the set of kinds it knows, by group, version and kind; a scheme builder registers the
  types handed to \<open>Register\<close> under its group and version. The files of the package register theirs when
  the package is initialised. A failing registration is a panic (\<open>utilruntime.Must\<close>).
\<close>

type_synonym gvk = "string \<times> string \<times> string"

definition GroupVersion :: "string \<times> string" where
  "GroupVersion = (''llmops.kubellmops.io'', ''v1alpha1'')"

definition registerFineTuneRun :: "string list \<Rightarrow> string list" where
  "registerFineTuneRun kinds = kinds @ [''FineTuneRun'', ''FineTuneRunList'']"

definition registerLLMPlatform :: "string list \<Rightarrow> string list" where
  "registerLLMPlatform kinds = kinds @ [''LLMPlatform'', ''LLMPlatformList'']"

definition registerModelDeployment :: "string list \<Rightarrow> string list" where
  "registerModelDeployment kinds = kinds @ [''ModelDeployment'', ''ModelDeploymentList'']"

definition SchemeBuilder :: "string list" where
  "SchemeBuilder = registerModelDeployment (registerLLMPlatform (registerFineTuneRun []))"

definition addTypes :: "gvk set \<Rightarrow> gvk set" where
  "addTypes scheme = scheme \<union> {(fst GroupVersion, snd GroupVersion, k) | k. k \<in> set SchemeBuilder}"

definition initScheme :: "(gvk set \<Rightarrow> 'e error + gvk set) \<Rightarrow> gvk set option" where
  "initScheme addClientGo =
     (case addClientGo {} of Inl e \<Rightarrow> None | Inr scheme \<Rightarrow> Some (addTypes scheme))"

end
