(* ===== verification/OperatorProps.thy ===== *)
theory OperatorProps
  imports OperatorMain
begin

section \<open>How the operator starts\<close>

subsection \<open>Recorded calls\<close>

datatype ('cw, 'cfg, 'm) mainCall =
    CallWatcher string string
  | CallConfig
  | CallManager 'cfg "'cw managerOptions"
  | CallController 'm controllerSpec
  | CallAdd 'm 'cw
  | CallHealthz 'm string
  | CallReadyz 'm string
  | CallStart 'm

text \<open>A call with what shows whether it succeeded.\<close>

type_synonym ('cw, 'cfg, 'm) mainEvent = "('cw, 'cfg, 'm) mainCall \<times> bool"

fun isOk :: "'x + 'a \<Rightarrow> bool" where
  "isOk (Inl x) = False"
| "isOk (Inr a) = True"

definition tracedManager ::
  "('w, 'e, 'cw, 'cfg, 'm) managerLib \<Rightarrow> ('w \<times> ('cw, 'cfg, 'm) mainEvent list, 'e, 'cw, 'cfg, 'm) managerLib" where
  "tracedManager L = \<lparr>
     NewCertWatcher = (\<lambda>c k. logged (\<lambda>r. (CallWatcher c k, isOk r)) (NewCertWatcher L c k)),
     GetConfigOrDie = logged (\<lambda>r. (CallConfig, r \<noteq> None)) (GetConfigOrDie L),
     NewManager = (\<lambda>cfg opts. logged (\<lambda>r. (CallManager cfg opts, isOk r)) (NewManager L cfg opts)),
     CompleteController = (\<lambda>m s. logged (\<lambda>r. (CallController m s, r = None)) (CompleteController L m s)),
     AddRunnable = (\<lambda>m w. logged (\<lambda>r. (CallAdd m w, r = None)) (AddRunnable L m w)),
     AddHealthzCheck = (\<lambda>m n. logged (\<lambda>r. (CallHealthz m n, r = None)) (AddHealthzCheck L m n)),
     AddReadyzCheck = (\<lambda>m n. logged (\<lambda>r. (CallReadyz m n, r = None)) (AddReadyzCheck L m n)),
     StartManager = (\<lambda>m. logged (\<lambda>r. (CallStart m, r = None)) (StartManager L m))\<rparr>"

subsection \<open>Plans\<close>

text \<open>
  \<open>follows plan r es\<close>: the events \<open>es\<close> are the calls of \<open>plan\<close> up to the first that fails. When none
  does, the computation goes on; otherwise it ends the process with status 1.
\<close>

definition follows :: "'c list \<Rightarrow> int + 'a \<Rightarrow> ('c \<times> bool) list \<Rightarrow> bool" where
  "follows plan r es \<longleftrightarrow>
     (case r of
        Inr x \<Rightarrow> map fst es = plan \<and> (\<forall>e\<in>set es. snd e)
      | Inl code \<Rightarrow> code = 1 \<and> (\<exists>fs c. es = fs @ [(c, False)] \<and> prefix (map fst es) plan \<and> (\<forall>e\<in>set fs. snd e)))"

lemma follows_stop: "follows plan (Inl code) es \<Longrightarrow> follows (plan @ rest) (Inl code) es"
  unfolding follows_def sum.case using prefix_prefix by blast

lemma follows_more: "follows plan (Inr x) es \<Longrightarrow> follows rest r fs \<Longrightarrow> follows (plan @ rest) r (es @ fs)"
  by (cases r) (auto simp: follows_def prefix_def)

text \<open>
  \<open>planned m S\<close>: whatever the world answers, \<open>m\<close> follows one of the plans \<open>S\<close>; they are sets because
  later calls mention the results of earlier ones.
\<close>

definition planned :: "('w \<times> ('c \<times> bool) list, int + 'a) state \<Rightarrow> 'c list set \<Rightarrow> bool" where
  "planned m S \<longleftrightarrow> produces m (\<lambda>r es. \<exists>plan\<in>S. follows plan r es)"

definition yields :: "('w \<times> ('c \<times> bool) list, int + 'a) state \<Rightarrow> 'c list \<Rightarrow> ('a \<Rightarrow> bool) \<Rightarrow> bool" where
  "yields m plan V \<longleftrightarrow> produces m (\<lambda>r es. follows plan r es \<and> (\<forall>x. r = Inr x \<longrightarrow> V x))"

lemma yields_planned: "yields m plan V \<Longrightarrow> plan \<in> S \<Longrightarrow> planned m S"
  unfolding yields_def planned_def by (erule produces_mono) blast

lemma produces_after:
  fixes m :: "('w \<times> ('c \<times> bool) list, int + 'a) state"
  assumes m: "yields m P V" and k: "\<And>x. V x \<Longrightarrow> produces (k x) (R x)"
    and stop: "\<And>code es. follows P (Inl code :: int + 'a) es \<Longrightarrow> Q (Inl code) es"
    and go: "\<And>x es r fs. V x \<Longrightarrow> follows P (Inr x) es \<Longrightarrow> R x r fs \<Longrightarrow> Q r (es @ fs)"
  shows "produces (andThen m k) Q"
proof (rule producesI)
  fix w tr
  show "wp (andThen m k) (\<lambda>r s. \<exists>es. snd s = tr @ es \<and> Q r es) (w, tr)"
    unfolding wp_andThen
  proof (rule produces_wp [OF m [unfolded yields_def]])
    fix r w' es
    assume a: "follows P r es \<and> (\<forall>x. r = Inr x \<longrightarrow> V x)"
    show "case r of Inl out \<Rightarrow> \<exists>es'. snd (w', tr @ es) = tr @ es' \<and> Q (Inl out) es'
       | Inr x \<Rightarrow> wp (k x) (\<lambda>r s. \<exists>es. snd s = tr @ es \<and> Q r es) (w', tr @ es)"
    proof (cases r)
      case (Inl code)
      then show ?thesis using a stop by auto
    next
      case (Inr x)
      with a have "V x" by blast
      have "wp (k x) (\<lambda>r s. \<exists>es. snd s = tr @ es \<and> Q r es) (w', tr @ es)"
        by (rule produces_wp [OF k [OF \<open>V x\<close>]]) (use a Inr go [OF \<open>V x\<close>] in auto)
      with Inr show ?thesis by simp
    qed
  qed
qed

lemma planned_andThen:
  assumes "yields m P V" and k: "\<And>x. V x \<Longrightarrow> planned (k x) {p. P @ p \<in> T}" and "P @ q \<in> T"
  shows "planned (andThen m k) T"
  unfolding planned_def
  by (rule produces_after [OF assms(1) k [unfolded planned_def]])
    (assumption, use assms(3) follows_stop in blast, use follows_more in fastforce)

lemma yields_andThen:
  assumes "yields m P V" and k: "\<And>x. V x \<Longrightarrow> yields (k x) Q W"
  shows "yields (andThen m k) (P @ Q) W"
  unfolding yields_def
  by (rule produces_after [OF assms(1) k [unfolded yields_def]])
    (use follows_stop follows_more in auto)

lemma yields_weaken: "yields m P V \<Longrightarrow> P = Q \<Longrightarrow> (\<And>x. V x \<Longrightarrow> W x) \<Longrightarrow> yields m Q W"
  unfolding yields_def by (erule produces_mono) blast

lemma yields_ret: "V x \<Longrightarrow> yields (ret (Inr x)) [] V"
  unfolding yields_def by (rule producesI) (simp add: wp_return follows_def)

subsection \<open>The statements of main\<close>

lemma yields_orExit:
  "yields (orExit (logged (\<lambda>r. (c, isOk r)) m)) [c] (\<lambda>_. True)"
  "yields (orDie (logged (\<lambda>r. (c, r \<noteq> None)) n)) [c] (\<lambda>_. True)"
  "yields (noErr (logged (\<lambda>r. (c, r = None)) p)) [c] (\<lambda>_. True)"
  unfolding yields_def orExit_def orDie_def noErr_def
  by (rule producesI, simp add: wp_bind wp_return, rule wp_logged,
      force simp: follows_def split: sum.splits option.splits)+

lemma traced_yields:
  "yields (orExit (NewCertWatcher (tracedManager L) c k)) [CallWatcher c k] (\<lambda>_. True)"
  "yields (orDie (GetConfigOrDie (tracedManager L))) [CallConfig] (\<lambda>_. True)"
  "yields (orExit (NewManager (tracedManager L) cfg opts)) [CallManager cfg opts] (\<lambda>_. True)"
  "yields (noErr (CompleteController (tracedManager L) m spec)) [CallController m spec] (\<lambda>_. True)"
  "yields (noErr (AddRunnable (tracedManager L) m x)) [CallAdd m x] (\<lambda>_. True)"
  "yields (noErr (AddHealthzCheck (tracedManager L) m n)) [CallHealthz m n] (\<lambda>_. True)"
  "yields (noErr (AddReadyzCheck (tracedManager L) m n)) [CallReadyz m n] (\<lambda>_. True)"
  "yields (noErr (StartManager (tracedManager L) m)) [CallStart m] (\<lambda>_. True)"
  by (simp_all add: tracedManager_def yields_orExit del: not_None_eq)

text \<open>The calls of \<open>main\<close> when all of them succeed.\<close>

definition watcherPlan :: "string \<Rightarrow> string \<Rightarrow> string \<Rightarrow> ('cw, 'cfg, 'm) mainCall list" where
  "watcherPlan path name key = (if path = '''' then [] else [CallWatcher (JoinPath path name) (JoinPath path key)])"

definition controllersPlan :: "'m \<Rightarrow> ('cw, 'cfg, 'm) mainCall list" where
  "controllersPlan mgr =
     [CallController mgr \<lparr>cs_For = ''ModelDeployment'', cs_Owns = [''Deployment'', ''Service'', ''PersistentVolumeClaim''],
        cs_Named = ''modeldeployment''\<rparr>,
      CallController mgr \<lparr>cs_For = ''LLMPlatform'', cs_Owns = [], cs_Named = ''llmplatform''\<rparr>,
      CallController mgr \<lparr>cs_For = ''FineTuneRun'', cs_Owns = [], cs_Named = ''finetunerun''\<rparr>]"

definition startPlan :: "'m \<Rightarrow> 'cw option \<Rightarrow> 'cw option \<Rightarrow> ('cw, 'cfg, 'm) mainCall list" where
  "startPlan mgr ww mw =
     (case mw of None \<Rightarrow> [] | Some w \<Rightarrow> [CallAdd mgr w]) @ (case ww of None \<Rightarrow> [] | Some w \<Rightarrow> [CallAdd mgr w]) @
     [CallHealthz mgr ''healthz'', CallReadyz mgr ''readyz'', CallStart mgr]"

definition given :: "string \<Rightarrow> 'cw \<Rightarrow> 'cw option" where
  "given path w = (if path = '''' then None else Some w)"

definition operatorPlan ::
  "(nat \<Rightarrow> nat) \<Rightarrow> opFlags \<Rightarrow> 'cw option \<Rightarrow> 'cw option \<Rightarrow> 'cfg \<Rightarrow> 'm \<Rightarrow> ('cw, 'cfg, 'm) mainCall list" where
  "operatorPlan grow f ww mw cfg mgr =
     watcherPlan (webhookCertPath f) (webhookCertName f) (webhookCertKey f) @
     watcherPlan (metricsCertPath f) (metricsCertName f) (metricsCertKey f) @
     [CallConfig] @ [CallManager cfg (mainOptions grow f ww mw)] @ controllersPlan mgr @ startPlan mgr ww mw"

lemma yields_certWatcher:
  "yields (certWatcher (tracedManager L) path name key) (watcherPlan path name key) (\<lambda>x. \<exists>w. x = given path w)"
proof (cases "path = ''''")
  case False
  then have "yields (certWatcher (tracedManager L) path name key)
      ([CallWatcher (JoinPath path name) (JoinPath path key)] @ []) (\<lambda>x. \<exists>w. x = given path w)"
    unfolding certWatcher_def
    by simp (intro yields_andThen [OF traced_yields(1), where Q = "[]", simplified] yields_ret, simp add: given_def)
  with False show ?thesis by (simp add: watcherPlan_def)
qed (simp add: certWatcher_def watcherPlan_def given_def yields_ret)

lemma yields_setupControllers: "yields (setupControllers (tracedManager L) mgr) (controllersPlan mgr) (\<lambda>_. True)"
  unfolding setupControllers_def setupModelDeployment_def setupLLMPlatform_def setupFineTuneRun_def
  by (rule yields_weaken [OF yields_andThen [OF traced_yields(4) yields_andThen [OF traced_yields(4) traced_yields(4)]]])
    (auto simp: controllersPlan_def)

lemma yields_addWatcher:
  "yields (addWatcher (tracedManager L) mgr x) (case x of None \<Rightarrow> [] | Some w \<Rightarrow> [CallAdd mgr w]) (\<lambda>_. True)"
  by (cases x) (simp_all add: addWatcher_def yields_ret traced_yields)

lemma yields_startOperator: "yields (startOperator (tracedManager L) mgr ww mw) (startPlan mgr ww mw) (\<lambda>_. True)"
  unfolding startOperator_def
  by (rule yields_weaken [OF yields_andThen [OF yields_addWatcher yields_andThen [OF yields_addWatcher
      yields_andThen [OF traced_yields(6) yields_andThen [OF traced_yields(7) traced_yields(8)]]]]])
    (auto simp: startPlan_def)

lemma planned_runOperator:
  "planned (runOperator grow (tracedManager L) f)
     {operatorPlan grow f (given (webhookCertPath f) w1) (given (metricsCertPath f) w2) cfg mgr | w1 w2 cfg mgr. True}"
  unfolding runOperator_def operatorPlan_def
  by (rule planned_andThen [OF yields_certWatcher], elim exE, hypsubst,
      rule planned_andThen [OF yields_certWatcher], elim exE, hypsubst,
      rule planned_andThen [OF traced_yields(2)], rule planned_andThen [OF traced_yields(3)],
      rule yields_planned [OF yields_andThen [OF yields_setupControllers yields_startOperator]])
    auto

subsection \<open>The start as a whole\<close>

lemma follows_ends:
  "follows plan (Inr x) es \<Longrightarrow> map fst es = plan \<and> (\<forall>e\<in>set es. snd e)"
  "follows plan (Inl code :: int + 'a) es \<Longrightarrow>
     code = 1 \<and> es \<noteq> [] \<and> \<not> snd (last es) \<and> prefix (map fst es) plan \<and> (\<forall>e\<in>set (butlast es). snd e)"
  by (auto simp: follows_def)

text \<open>
  C15 (start of the operator). Whatever its libraries answer, the process makes a prefix of one sequence of
  calls: certificate watchers exactly for the given directories, webhook before metrics; the manager, with
  the options of the flags; the three controllers with what they watch; the watchers, the two checks and,
  as the last call, the start. It stops at the first call that fails, with status 1; status 0 means that all
  of them were made and succeeded. A command line that does not parse ends with status 2, \<open>--help\<close> with 0,
  before any call.
\<close>

theorem operator_startup:
  assumes "run_state (operatorMain grow (tracedManager L) zap z args) (w, []) = (status, (w', es))"
  shows "case parseFlags (commandLine zap) args (defaultFlags, z) of
      FlagError \<Rightarrow> status = 2 \<and> es = []
    | FlagHelp \<Rightarrow> status = 0 \<and> es = []
    | Parsed s rest \<Rightarrow> \<exists>w1 w2 cfg mgr.
        let f = fst s;
            plan = operatorPlan grow f (given (webhookCertPath f) w1) (given (metricsCertPath f) w2) cfg mgr
        in status = 0 \<and> map fst es = plan \<and> (\<forall>e\<in>set es. snd e) \<or>
           status = 1 \<and> es \<noteq> [] \<and> \<not> snd (last es) \<and> prefix (map fst es) plan \<and> (\<forall>e\<in>set (butlast es). snd e)"
proof (cases "parseFlags (commandLine zap) args (defaultFlags, z)")
  case (Parsed s rest)
  obtain f z' where s: "s = (f, z')" by (cases s)
  obtain r where r: "run_state (runOperator grow (tracedManager L) f) (w, []) = (r, (w', es))"
      and status: "status = (case r of Inl code \<Rightarrow> code | Inr u \<Rightarrow> 0)"
    using assms unfolding operatorMain_def Parsed s by (auto split: prod.splits)
  obtain w1 w2 cfg mgr where
      "follows (operatorPlan grow f (given (webhookCertPath f) w1) (given (metricsCertPath f) w2) cfg mgr) r es"
    using producesD [OF planned_runOperator [unfolded planned_def] r] by fastforce
  then show ?thesis
    unfolding Parsed s status by (cases r) (auto simp: Let_def dest!: follows_ends)
qed (use assms in \<open>simp_all add: operatorMain_def\<close>)

text \<open>Libraries that accept everything.\<close>

definition calmManager :: "(unit, unit, string, unit, unit) managerLib" where
  "calmManager = \<lparr>NewCertWatcher = (\<lambda>c k. ret (Inr c)), GetConfigOrDie = ret (Some ()),
     NewManager = (\<lambda>cfg opts. ret (Inr ())), CompleteController = (\<lambda>m s. ret None), AddRunnable = (\<lambda>m w. ret None),
     AddHealthzCheck = (\<lambda>m n. ret None), AddReadyzCheck = (\<lambda>m n. ret None), StartManager = (\<lambda>m. ret None)\<rparr>"

theorem operator_startup_witness:
  "\<exists>status w' es. run_state (operatorMain Suc (tracedManager calmManager) (\<lambda>_. None) () [''--metrics-secure=false'']) ((), []) =
     (status, (w', es)) \<and> status = 0 \<and> map fst es = operatorPlan Suc (defaultFlags\<lparr>secureMetrics := False\<rparr>) None None () ()"
proof -
  obtain status w' es where r: "run_state (operatorMain Suc (tracedManager calmManager) (\<lambda>_. None) () [''--metrics-secure=false'']) ((), []) =
      (status, (w', es))"
    by (cases "run_state (operatorMain Suc (tracedManager calmManager) (\<lambda>_. None) () [''--metrics-secure=false'']) ((), [])") auto
  have p: "parseFlags (commandLine (\<lambda>_. None)) [''--metrics-secure=false''] (defaultFlags, ()) =
      Parsed (defaultFlags\<lparr>secureMetrics := False\<rparr>, ()) []"
    by (simp add: commandLine_def operatorFlags_def flagParts_def BoolVar_def ParseBool_def Let_def)
  have "status = 0"
    using r unfolding operatorMain_def p
    by (simp add: runOperator_def certWatcher_def defaultFlags_def
      tracedManager_def calmManager_def orDie_def orExit_def noErr_def andThen_def run_logged setupControllers_def
      setupModelDeployment_def setupLLMPlatform_def setupFineTuneRun_def startOperator_def addWatcher_def)
  with operator_startup [OF r] r show ?thesis
    unfolding p by (auto simp: Let_def given_def defaultFlags_def)
qed

subsection \<open>The certificates of the two servers\<close>

definition wantedTLS :: "opFlags \<Rightarrow> 'cw option \<Rightarrow> 'cw tlsOpt option list" where
  "wantedTLS f watcher =
     (if enableHTTP2 f then [] else [Some DisableHTTP2]) @
     (case watcher of None \<Rightarrow> [] | Some w \<Rightarrow> [Some (CertificateFrom w)])"

definition configured :: "'cw tlsOpt option list \<Rightarrow> 'cw tlsConfig \<Rightarrow> 'cw tlsConfig" where
  "configured opts c = fold (\<lambda>opt c. case opt of None \<Rightarrow> c | Some x \<Rightarrow> applyOpt x c) opts c"

text \<open>
  C29 (certificates). The webhook server and the metrics server each get their own certificate and the
  HTTP/2 setting exactly if \<open>append\<close> to nil leaves no spare capacity (as Go's compiler does it), or the two
  cannot collide: HTTP/2 is enabled, or one of them has no certificate, or they share it. With spare
  capacity, which the language permits, both slices share an array, and the webhook server presents the
  certificate of the metrics server. In every case HTTP/2 is off on both unless it was enabled.
\<close>

theorem servers_have_own_certificates:
  assumes "\<forall>n. n \<le> grow n"
  shows "(serverTLS grow f ww mw = (wantedTLS f ww, wantedTLS f mw) \<longleftrightarrow>
      enableHTTP2 f \<or> grow 1 = 1 \<or> ww = None \<or> mw = None \<or> ww = mw) \<and>
    snd (serverTLS grow f ww mw) = wantedTLS f mw \<and>
    (\<not> enableHTTP2 f \<and> grow 1 \<noteq> 1 \<and> ww \<noteq> None \<and> mw \<noteq> None \<longrightarrow> fst (serverTLS grow f ww mw) = wantedTLS f mw) \<and>
    (\<not> enableHTTP2 f \<longrightarrow>
      NextProtos (configured (fst (serverTLS grow f ww mw)) c) = [''http/1.1''] \<and>
      NextProtos (configured (snd (serverTLS grow f ww mw)) c) = [''http/1.1''])"
proof -
  have "1 \<le> grow 1" and two: "2 \<le> grow 2" using assms by blast+
  then consider "grow 1 = 1" | k where "grow 1 = Suc (Suc k)"
    by (metis One_nat_def Suc_le_D le_less less_Suc_eq_le not_less_eq_eq numeral_nat(7))
  then show ?thesis
    by cases
      (cases ww; cases mw;
       auto simp: serverTLS_def baseTLS_def withCertificate_def append1_def nilSlice_def cap_def contents_def
         wantedTLS_def configured_def Let_def)+
qed

theorem servers_have_own_certificates_witness:
  "serverTLS (\<lambda>n. n) defaultFlags (Some ''w'') (Some ''m'') =
     ([Some DisableHTTP2, Some (CertificateFrom ''w'')], [Some DisableHTTP2, Some (CertificateFrom ''m'')]) \<and>
   fst (serverTLS (\<lambda>n. 4 * n) defaultFlags (Some ''w'') (Some ''m'')) = [Some DisableHTTP2, Some (CertificateFrom ''m'')]"
  using servers_have_own_certificates [of "\<lambda>n. n" defaultFlags "Some ''w''" "Some ''m''"]
    servers_have_own_certificates [of "\<lambda>n. 4 * n" defaultFlags "Some ''w''" "Some ''m''"]
  by (simp add: wantedTLS_def defaultFlags_def)

subsection \<open>What the controllers watch\<close>

text \<open>The kind of a child that an event writes.\<close>

fun writtenKind :: "'e event \<Rightarrow> string option" where
  "writtenKind (EvCreatePVC x r) = Some ''PersistentVolumeClaim''"
| "writtenKind (EvCreateDeployment x r) = Some ''Deployment''"
| "writtenKind (EvUpdateDeployment x r) = Some ''Deployment''"
| "writtenKind (EvCreateService x r) = Some ''Service''"
| "writtenKind (EvCreateWorkflow x r) = Some ''Workflow''"
| "writtenKind _ = None"

definition ownedWrite :: "'e event \<Rightarrow> bool" where
  "ownedWrite ev \<longleftrightarrow> writtenKind ev \<in> {None, Some ''Deployment'', Some ''Service'', Some ''PersistentVolumeClaim''}"

lemma childEvent_owned: "childEvent lib md ev \<Longrightarrow> ownedWrite ev"
  by (cases ev) (simp_all add: ownedWrite_def)

lemma events_owned:
  "finalizerEvents lib md0 md es \<Longrightarrow> ev \<in> set es \<Longrightarrow> ownedWrite ev"
  "deregisterEvents g md es \<Longrightarrow> ev \<in> set es \<Longrightarrow> ownedWrite ev"
  "registerEvents g md es \<Longrightarrow> ev \<in> set es \<Longrightarrow> ownedWrite ev"
  by (auto simp: ownedWrite_def finalizerEvents_def deregisterEvents_def registerEvents_def split: if_splits)

lemma reads_owned [simp]:
  "ownedWrite (EvGetMD k r1)" "ownedWrite (EvUpdateMD x r1)" "ownedWrite (EvStatusMD x r1)"
  by (simp_all add: ownedWrite_def)

lemma md_run_owned: "md_run lib g req tr out \<Longrightarrow> \<forall>ev\<in>set tr. ownedWrite ev"
  by (erule md_run.cases) (auto simp: list_all_iff intro: events_owned childEvent_owned)

text \<open>
  Every child that a Reconcile of a ModelDeployment writes is of a kind whose changes bring its
  controller back, and the scheme of \<open>main\<close> knows the resource of every controller and its list
  under the \<open>apiVersion\<close> that the command line prints.
\<close>

theorem controllers_watch_children:
  assumes "run_state (mdReconcile (tracedMD K lib gw) req) (w, []) = (out, (w', tr))"
    and "ev \<in> set tr" and "writtenKind ev = Some k"
  shows "\<exists>spec. CallController mgr spec = hd (controllersPlan mgr) \<and> cs_For spec = ''ModelDeployment'' \<and> k \<in> set (cs_Owns spec)"
proof -
  have "ownedWrite ev" using md_run_owned [OF mdReconcile_run [OF assms(1)]] assms(2) by blast
  with assms(3) show ?thesis by (simp add: ownedWrite_def controllersPlan_def)
qed

theorem scheme_knows_resources:
  assumes "initScheme addClientGo = Some scheme" and "CallController mgr spec \<in> set (controllersPlan mgr)"
  shows "(fst GroupVersion, snd GroupVersion, cs_For spec) \<in> scheme \<and>
    (fst GroupVersion, snd GroupVersion, cs_For spec @ ''List'') \<in> scheme \<and>
    apiVersion = fst GroupVersion @ ''/'' @ snd GroupVersion"
proof -
  have kinds: "set SchemeBuilder = {''FineTuneRun'', ''FineTuneRunList'', ''LLMPlatform'', ''LLMPlatformList'',
      ''ModelDeployment'', ''ModelDeploymentList''}"
    by (simp add: SchemeBuilder_def registerModelDeployment_def registerLLMPlatform_def registerFineTuneRun_def insert_commute)
  have "cs_For spec \<in> {''ModelDeployment'', ''LLMPlatform'', ''FineTuneRun''}"
    using assms(2) by (auto simp: controllersPlan_def)
  then have "cs_For spec \<in> set SchemeBuilder \<and> cs_For spec @ ''List'' \<in> set SchemeBuilder"
    unfolding kinds by fastforce
  with assms(1) show ?thesis
    by (auto simp: initScheme_def addTypes_def GroupVersion_def apiVersion_def split: sum.splits)
qed

end
