(* ===== verification/Names.thy ===== *)
theory Names
  imports Cli WorkflowProps BuilderProps
begin

section \<open>Bounds on derived names\<close>











end
