(* ===== verification/MigrateCmd.thy ===== *)
theory MigrateCmd
  imports Migrate Cli
begin

section \<open>The two migration programs as processes\<close>

text \<open>
  What \<open>Migrate\<close> leaves out of \<open>kubectl llmops migrate\<close> (\<open>internal/cli/cmd/migrate.go\<close>) and of
  \<open>cmd/migrate/main.go\<close>: the call of \<open>helm\<close>, the decoding of its output, the files on disk with the errors
  that the code drops, the printed lines, the exit status. Shown are that both programs do the same, and,
  for a file system that obeys the laws of \<open>file_system\<close>, that the files are those of \<open>Migrate\<close>.
\<close>

subsection \<open>The environment\<close>

text \<open>
  \<open>Output\<close> is \<open>exec.Command(name, args...).Output()\<close>; \<open>WriteYAML\<close> is \<open>yaml.Marshal\<close> followed by
  \<open>os.WriteFile\<close>, of which the code uses no result.
\<close>

record ('w, 'e) migrateEnv =
  Output :: "string list \<Rightarrow> ('w, 'e error + string) state"
  Unmarshal :: "string \<Rightarrow> 'e error + jobj"
  MkdirAll :: "string \<Rightarrow> ('w, 'e error option) state"
  WriteYAML :: "string \<Rightarrow> jval \<Rightarrow> ('w, 'e error option) state"

definition helmGetValues :: "string \<Rightarrow> string \<Rightarrow> string list" where
  "helmGetValues releaseName ns = [''helm'', ''get'', ''values'', releaseName, ''-n'', ns, ''-o'', ''json'']"

text \<open>A call whose error is dropped.\<close>

definition dropped :: "('w, 'a) state \<Rightarrow> ('w, 'x + unit) state" where
  "dropped m = State_Monad.bind m (\<lambda>_. ret (Inr ()))"

subsection \<open>The command kubectl llmops migrate\<close>

definition writeYAMLFile :: "('w, 'e) migrateEnv \<Rightarrow> string \<Rightarrow> jobj \<Rightarrow> ('w, 'e, unit) cmd" where
  "writeYAMLFile mig path data = dropped (WriteYAML mig path (JObj data))"

fun migrateModels :: "('w, 'e) cliEnv \<Rightarrow> ('w, 'e) migrateEnv \<Rightarrow> string \<Rightarrow> jval list \<Rightarrow> ('w, 'e, unit) cmd" where
  "migrateModels env mig outputDir [] = cmdOk"
| "migrateModels env mig outputDir (m # models) =
     (case asObject m of
        None \<Rightarrow> migrateModels env mig outputDir models
      | Some model \<Rightarrow>
          let filename = modelFileName outputDir model in
          cmdBind (writeYAMLFile mig filename (migrateModelDeployment model)) (\<lambda>_.
          cmdBind (print env (Line (''Generated: '' @ filename))) (\<lambda>_.
          migrateModels env mig outputDir models)))"

text \<open>Everything after the values are decoded, and the command.\<close>

definition migrateValues ::
  "('w, 'e) cliEnv \<Rightarrow> ('w, 'e) migrateEnv \<Rightarrow> string \<Rightarrow> string \<Rightarrow> string \<Rightarrow> jobj \<Rightarrow> ('w, 'e, unit) cmd" where
  "migrateValues env mig ns releaseName outputDir values =
     cmdBind (dropped (MkdirAll mig outputDir)) (\<lambda>_.
     let platform = migratePlatform values releaseName in
     cmdBind (writeYAMLFile mig (outputDir @ ''/llmplatform.yaml'') platform) (\<lambda>_.
     cmdBind (print env (Line (''Generated: '' @ outputDir @ ''/llmplatform.yaml''))) (\<lambda>_.
     cmdBind (case asObject (goIndex values ''global'') of
                None \<Rightarrow> cmdOk
              | Some glob \<Rightarrow> migrateModels env mig outputDir (asArray (goIndex glob ''models''))) (\<lambda>_.
     cmdBind (print env (Line ([CHR 0x0A] @ ''Review the generated CRs, then:''))) (\<lambda>_.
     cmdBind (print env (Line (''  helm uninstall '' @ releaseName @ '' -n '' @ ns))) (\<lambda>_.
     print env (Line (''  kubectl apply -f '' @ outputDir @ ''/''))))))))"

definition newMigrateCmd ::
  "('w, 'e) cliEnv \<Rightarrow> ('w, 'e) migrateEnv \<Rightarrow> flags \<Rightarrow> string \<Rightarrow> string \<Rightarrow> ('w, 'e, unit) cmd" where
  "newMigrateCmd env mig fl releaseName outputDir =
     (let ns = (if fl_namespace fl = '''' then ''default'' else fl_namespace fl) in
      cmdBind (try_get (wrapped (''failed to get Helm values for release '' @ Quote releaseName))
        (Output mig (helmGetValues releaseName ns))) (\<lambda>out.
      cmdBind (try_get (wrapped ''failed to parse Helm values'') (ret (Unmarshal mig out))) (\<lambda>values.
      migrateValues env mig ns releaseName outputDir values)))"

subsection \<open>The program cmd/migrate\<close>







subsection \<open>Both do the same\<close>







text \<open>Whether a migration succeeds depends on \<open>helm\<close> alone.\<close>

lemma dropped_succeeds: "fst (run_state (dropped m) w) = Inr ()"
  by (simp add: dropped_def split: prod.split)








subsection \<open>The files\<close>

text \<open>
  A file system in which nothing fails and nobody else writes, seen through \<open>files\<close>, and a \<open>helm\<close> that
  only reads: after a migration the files are those of \<open>migrateFiles\<close>, over what was there before.
\<close>

locale file_system =
  fixes mig :: "('w, 'e) migrateEnv" and files :: "'w \<Rightarrow> string \<rightharpoonup> jval" and helm :: "string list \<Rightarrow> 'e error + string"
  assumes answers: "wp (Output mig args) (\<lambda>r w'. r = helm args \<and> files w' = files w) w"
    and mkdir: "wp (MkdirAll mig dir) (\<lambda>r w'. files w' = files w) w"
    and writing: "wp (WriteYAML mig path v) (\<lambda>r w'. files w' = (files w)(path \<mapsto> v)) w"
begin

definition keeps :: "('w, 'e) cliEnv \<Rightarrow> bool" where
  "keeps env \<longleftrightarrow> (\<forall>out w. wp (Stdout env out) (\<lambda>_ w'. files w' = files w) w)"

lemma wp_writeYAMLFile:
  "(\<And>w'. files w' = (files w)(path \<mapsto> JObj data) \<Longrightarrow> Q (Inr ()) w') \<Longrightarrow> wp (writeYAMLFile mig path data) Q w"
  unfolding writeYAMLFile_def dropped_def by (simp add: wp_rules wp_mono [OF writing])

lemma wp_out: "keeps env \<Longrightarrow> (\<And>w'. files w' = files w \<Longrightarrow> Q (Inr ()) w') \<Longrightarrow> wp (print env out) Q w"
  unfolding keeps_def wp_print by (elim allE, erule wp_mono) simp

lemma wp_models:
  assumes "keeps env" and "files w = old ++ map_of fs"
  shows "wp (migrateModels env mig dir models)
    (\<lambda>r w'. r = Inr () \<and> files w' = old ++ map_of (fold (migrateModel dir) models fs)) w"
  using assms(2)
proof (induction models arbitrary: w fs)
  case (Cons m models)
  show ?case
  proof (cases "asObject m")
    case None
    then show ?thesis using Cons by (simp add: migrateModel_def)
  next
    case (Some model)
    define fs' where "fs' = writeFile (modelFileName dir model) (JObj (migrateModelDeployment model)) fs"
    have fs': "old ++ map_of fs' = (files w)(modelFileName dir model \<mapsto> JObj (migrateModelDeployment model))"
      using Cons.prems by (simp only: fs'_def update_conv' map_add_upd)
    have fold: "fold (migrateModel dir) (m # models) fs = fold (migrateModel dir) models fs'"
      unfolding fold_simps migrateModel_def [of dir m fs] Some option.case fs'_def ..
    show ?thesis
      unfolding migrateModels.simps Some option.case Let_def wp_cmdBind fold
      by (rule wp_writeYAMLFile, simp only: sum.case, rule wp_out [OF assms(1)], simp only: sum.case)
        (rule Cons.IH, simp only: fs')
  qed
qed (simp add: wp_cmd)

lemma wp_values:
  assumes "keeps env"
  shows "wp (migrateValues env mig ns rel dir values)
    (\<lambda>r w'. files w' = files w ++ map_of (migrateFiles dir values rel)) w"
proof -
  define fs where "fs = writeFile (dir @ ''/llmplatform.yaml'') (JObj (migratePlatform values rel)) []"
  have fs: "old ++ map_of fs = old(dir @ ''/llmplatform.yaml'' \<mapsto> JObj (migratePlatform values rel))" for old
    by (simp add: fs_def)
  have loop: "wp (case asObject (goIndex values ''global'') of
        None \<Rightarrow> cmdOk
      | Some glob \<Rightarrow> migrateModels env mig dir (asArray (goIndex glob ''models'')))
      (\<lambda>r w'. r = Inr () \<and> files w' = files w ++ map_of (migrateFiles dir values rel)) w1"
    if "files w1 = files w ++ map_of fs" for w1
  proof (cases "asObject (goIndex values ''global'')")
    case None
    then show ?thesis using that by (simp add: migrateFiles_def fs_def wp_cmd)
  next
    case (Some glob)
    show ?thesis
      unfolding migrateFiles_def fs_def [symmetric] Let_def Some option.case by (rule wp_models [OF assms that])
  qed
  show ?thesis
    unfolding migrateValues_def Let_def wp_cmdBind dropped_def wp_bind wp_return
    by (rule wp_mono [OF mkdir], simp only: sum.case, rule wp_writeYAMLFile, simp only: sum.case,
        rule wp_out [OF assms], simp only: sum.case, rule wp_mono [OF loop], simp add: fs)
      (elim conjE, simp only: sum.case, (rule wp_out [OF assms], simp only: sum.case)+)
qed

lemma wp_migrate:
  assumes "keeps env"
  shows "wp (newMigrateCmd env mig fl rel dir) (\<lambda>r w'. files w' =
    (case helm (helmGetValues rel (if fl_namespace fl = '''' then ''default'' else fl_namespace fl)) of
       Inl e \<Rightarrow> files w
     | Inr out \<Rightarrow> (case Unmarshal mig out of
         Inl e \<Rightarrow> files w | Inr values \<Rightarrow> files w ++ map_of (migrateFiles dir values rel)))) w"
proof -
  define ns where "ns = (if fl_namespace fl = '''' then ''default'' else fl_namespace fl)"
  show ?thesis
    unfolding newMigrateCmd_def Let_def ns_def [symmetric] wp_cmdBind wp_try_get wp_return
    by (rule wp_mono [OF answers]) (auto split: sum.split intro: wp_mono [OF wp_values [OF assms]])
qed

end

text \<open>Files in memory: the world is what is on disk.\<close>

definition memDisk :: "(string list \<Rightarrow> 'e error + string) \<Rightarrow> (string \<Rightarrow> 'e error + jobj) \<Rightarrow> (string \<rightharpoonup> jval, 'e) migrateEnv" where
  "memDisk helm decode =
     \<lparr>Output = (\<lambda>args. ret (helm args)), Unmarshal = decode, MkdirAll = (\<lambda>dir. ret None),
      WriteYAML = (\<lambda>path v. State (\<lambda>disk. (None, disk(path \<mapsto> v))))\<rparr>"

interpretation memFiles: file_system "memDisk helm decode" "\<lambda>disk. disk" helm
  by unfold_locales (simp_all add: memDisk_def wp_def)

text \<open>
  On such a disk a migration leaves exactly the files of \<open>migrateFiles\<close>, over those that were there, and
  no file when \<open>helm\<close> or the decoding fails.
\<close>

theorem migrated_disk:
  assumes "\<forall>out disk. snd (run_state (Stdout env out) disk) = disk"
    and "helm (helmGetValues rel (if fl_namespace fl = '''' then ''default'' else fl_namespace fl)) = Inr out"
    and "decode out = Inr values"
  shows "snd (run_state (newMigrateCmd env (memDisk helm decode) fl rel dir) disk) =
    disk ++ map_of (migrateFiles dir values rel)"
proof -
  have "memFiles.keeps env"
    using assms(1) by (simp add: memFiles.keeps_def wp_def split: prod.split) (metis snd_conv)
  then show ?thesis
    using memFiles.wp_migrate [of env helm decode fl rel dir disk] assms(2,3)
    by (simp add: wp_def memDisk_def split: prod.splits)
qed

end
