(* ===== verification/Cobra.thy ===== *)
theory Cobra
  imports Cli
begin

section \<open>Commands and flags as the code declares them (cobra, pflag)\<close>

text \<open>
  The command line is a tree of \<open>cobra.Command\<close>s, each with the flags it declares, the rule for its
  arguments and its \<open>RunE\<close> function. Declaring a flag ties it to a variable: parsing sets the variable
  when the flag is given. Splitting the words of a command line is cobra's and pflag's: a parameter
  that yields an \<open>invocation\<close>. What the code relies on is \<open>parses\<close>.
\<close>

subsection \<open>Flags\<close>

datatype flagKind = StringFlag | BoolFlag | Int32Flag | Int64Flag | IntFlag | StringArrayFlag

datatype flagValue = StringValue string | BoolValue bool | IntValue int

text \<open>The values a flag can be given; an \<open>int\<close> has 64 bits.\<close>

fun admits :: "flagKind \<Rightarrow> flagValue \<Rightarrow> bool" where
  "admits StringFlag (StringValue s) = True"
| "admits StringArrayFlag (StringValue s) = True"
| "admits BoolFlag (BoolValue b) = True"
| "admits Int32Flag (IntValue n) = (- (2 ^ 31) \<le> n \<and> n < 2 ^ 31)"
| "admits Int64Flag (IntValue n) = (- (2 ^ 63) \<le> n \<and> n < 2 ^ 63)"
| "admits IntFlag (IntValue n) = (- (2 ^ 63) \<le> n \<and> n < 2 ^ 63)"
| "admits k v = False"

record flagDef =
  fg_Name :: string
  fg_Shorthand :: string
  fg_Kind :: flagKind

text \<open>A declared flag with the variable it sets, a component of the variables \<open>'v\<close> of its command.\<close>

record 'v flag = flagDef + fg_Set :: "flagValue \<Rightarrow> 'v \<Rightarrow> 'v"

definition StringVarP :: "((string \<Rightarrow> string) \<Rightarrow> 'v \<Rightarrow> 'v) \<Rightarrow> string \<Rightarrow> string \<Rightarrow> 'v flag" where
  "StringVarP upd name short = \<lparr>fg_Name = name, fg_Shorthand = short, fg_Kind = StringFlag,
     fg_Set = (\<lambda>x. case x of StringValue s \<Rightarrow> upd (\<lambda>_. s) | _ \<Rightarrow> id)\<rparr>"

definition BoolVarP :: "((bool \<Rightarrow> bool) \<Rightarrow> 'v \<Rightarrow> 'v) \<Rightarrow> string \<Rightarrow> string \<Rightarrow> 'v flag" where
  "BoolVarP upd name short = \<lparr>fg_Name = name, fg_Shorthand = short, fg_Kind = BoolFlag,
     fg_Set = (\<lambda>x. case x of BoolValue b \<Rightarrow> upd (\<lambda>_. b) | _ \<Rightarrow> id)\<rparr>"

definition numberVar :: "flagKind \<Rightarrow> ((int \<Rightarrow> int) \<Rightarrow> 'v \<Rightarrow> 'v) \<Rightarrow> string \<Rightarrow> 'v flag" where
  "numberVar kind upd name = \<lparr>fg_Name = name, fg_Shorthand = '''', fg_Kind = kind,
     fg_Set = (\<lambda>x. case x of IntValue n \<Rightarrow> upd (\<lambda>_. n) | _ \<Rightarrow> id)\<rparr>"

text \<open>Every use of a string array flag appends to the variable, which starts as nil.\<close>

definition StringArrayVar :: "((string list \<Rightarrow> string list) \<Rightarrow> 'v \<Rightarrow> 'v) \<Rightarrow> string \<Rightarrow> 'v flag" where
  "StringArrayVar upd name = \<lparr>fg_Name = name, fg_Shorthand = '''', fg_Kind = StringArrayFlag,
     fg_Set = (\<lambda>x. case x of StringValue s \<Rightarrow> upd (\<lambda>xs. xs @ [s]) | _ \<Rightarrow> id)\<rparr>"

abbreviation StringVar where "StringVar upd name \<equiv> StringVarP upd name ''''"
abbreviation BoolVar where "BoolVar upd name \<equiv> BoolVarP upd name ''''"
abbreviation Int32Var where "Int32Var \<equiv> numberVar Int32Flag"
abbreviation Int64Var where "Int64Var \<equiv> numberVar Int64Flag"
abbreviation IntVar where "IntVar \<equiv> numberVar IntFlag"

text \<open>What the flags that were given, in their order, make of the variables; a later one wins.\<close>

type_synonym given = "(string \<times> flagValue) list"

definition setFlag :: "'v flag list \<Rightarrow> string \<times> flagValue \<Rightarrow> 'v \<Rightarrow> 'v" where
  "setFlag fs nx v = (case List.find (\<lambda>f. fg_Name f = fst nx) fs of None \<Rightarrow> v | Some f \<Rightarrow> fg_Set f (snd nx) v)"

definition setFlags :: "'v flag list \<Rightarrow> given \<Rightarrow> 'v \<Rightarrow> 'v" where
  "setFlags fs given v = fold (setFlag fs) given v"

subsection \<open>Commands\<close>

text \<open>Without a rule a command below the root takes any arguments.\<close>

datatype argsRule = AnyArgs | ExactArgs nat | MinimumNArgs nat

fun accepts :: "argsRule \<Rightarrow> string list \<Rightarrow> bool" where
  "accepts AnyArgs args = True"
| "accepts (ExactArgs n) args = (length args = n)"
| "accepts (MinimumNArgs n) args = (n \<le> length args)"

text \<open>
  A command with the names of its required flags. \<open>cc_RunE\<close> is the closure over the variables of its
  flags: it takes the persistent flags, the given flags and the arguments; \<open>None\<close> as a result is a
  command that does not return. Help texts are left out.
\<close>

type_synonym ('w, 'e) run = "'w \<Rightarrow> (('e cliError + unit) \<times> 'w) option"

datatype ('w, 'e) cobraCommand = Command
  (cc_Use: string) (cc_Args: argsRule) (cc_Flags: "flagDef list") (cc_Required: "string list")
  (cc_RunE: "(flags \<Rightarrow> given \<Rightarrow> string list \<Rightarrow> ('w, 'e) run) option")
  (cc_Commands: "('w, 'e) cobraCommand list")

definition newCommand ::
  "string \<Rightarrow> argsRule \<Rightarrow> 'v \<Rightarrow> 'v flag list \<Rightarrow> string list \<Rightarrow> ('v \<Rightarrow> flags \<Rightarrow> string list \<Rightarrow> ('w, 'e) run) \<Rightarrow>
    ('w, 'e) cobraCommand" where
  "newCommand use rule defaults fs required RunE =
     Command use rule (map flagDef.truncate fs) required
       (Some (\<lambda>fl given args. RunE (setFlags fs given defaults) fl args)) []"

definition newGroup :: "string \<Rightarrow> ('w, 'e) cobraCommand list \<Rightarrow> ('w, 'e) cobraCommand" where
  "newGroup use = Command use AnyArgs [] [] None"

text \<open>A \<open>RunE\<close> function that always returns.\<close>

definition returning :: "('w, 'e, unit) cmd \<Rightarrow> ('w, 'e) run" where
  "returning c w = Some (run_state c w)"

definition commandName :: "('w, 'e) cobraCommand \<Rightarrow> string" where
  "commandName c = takeWhile (\<lambda>x. x \<noteq> CHR '' '') (cc_Use c)"

fun commandAt :: "('w, 'e) cobraCommand \<Rightarrow> string list \<Rightarrow> ('w, 'e) cobraCommand option" where
  "commandAt c [] = Some c"
| "commandAt c (n # path) =
     (case List.find (\<lambda>s. commandName s = n) (cc_Commands c) of None \<Rightarrow> None | Some s \<Rightarrow> commandAt s path)"

subsection \<open>Execute\<close>

text \<open>
  What cobra makes of the words of a command line: something of its own (help, a completion script,
  an error for a line it does not accept), or a command, by its path, with flags and arguments.
\<close>

datatype ('w, 'e) invocation =
    Own "('w, 'e error option) state"
  | Invoke "string list" given "string list"

text \<open>
  An invocation that cobra lets through: the command exists and can run, its rule accepts the arguments,
  every given flag is declared (by the command or persistently) with a value of its type, and the
  required ones are given.
\<close>

definition callable :: "('w, 'e) cobraCommand \<Rightarrow> flagDef list \<Rightarrow> string list \<Rightarrow> given \<Rightarrow> string list \<Rightarrow> bool" where
  "callable root persistent path given args =
     (case commandAt root path of
        None \<Rightarrow> False
      | Some c \<Rightarrow>
          cc_RunE c \<noteq> None \<and> accepts (cc_Args c) args \<and>
          list_all (\<lambda>(n, x). list_ex (\<lambda>f. fg_Name f = n \<and> admits (fg_Kind f) x) (cc_Flags c @ persistent)) given \<and>
          list_all (\<lambda>n. n \<in> set (map fst given)) (cc_Required c))"

definition parses ::
  "(string list \<Rightarrow> ('w, 'e) invocation) \<Rightarrow> ('w, 'e) cobraCommand \<Rightarrow> flagDef list \<Rightarrow> bool" where
  "parses cobra root persistent \<longleftrightarrow>
     (\<forall>argv path given args. cobra argv = Invoke path given args \<longrightarrow> callable root persistent path given args)"

text \<open>
  \<open>root.Execute()\<close>; \<open>fs\<close> are the persistent flags with their variables. The last case does not occur
  for a cobra that \<open>parses\<close>.
\<close>

definition Execute ::
  "('w, 'e) cobraCommand \<Rightarrow> flags \<Rightarrow> flags flag list \<Rightarrow> (string list \<Rightarrow> ('w, 'e) invocation) \<Rightarrow> string list \<Rightarrow> ('w, 'e) run" where
  "Execute root defaults fs cobra argv w =
     (case cobra argv of
        Own m \<Rightarrow> (case run_state m w of (r, w') \<Rightarrow>
          Some (case r of None \<Rightarrow> Inr () | Some e \<Rightarrow> Inl (OtherError e), w'))
      | Invoke path given args \<Rightarrow>
          (case Option.bind (commandAt root path) cc_RunE of
             Some RunE \<Rightarrow> RunE (setFlags fs given defaults) given args w
           | None \<Rightarrow> Some (Inl Crash, w)))"

subsection \<open>The commands of a tree\<close>

lemma size_below [termination_simp]: "s \<in> set (cc_Commands c) \<Longrightarrow> size s < size c"
proof (cases c)
  case (Command use rule fs required run subs)
  assume "s \<in> set (cc_Commands c)"
  then have "size s \<le> size_list size subs" by (simp add: Command size_list_estimation')
  then show ?thesis by (simp add: Command)
qed

text \<open>Every command with its path, the root first.\<close>

fun walk :: "('w, 'e) cobraCommand \<Rightarrow> (string list \<times> ('w, 'e) cobraCommand) list" where
  "walk c = ([], c) # concat (map (\<lambda>s. map (apfst ((#) (commandName s))) (walk s)) (cc_Commands c))"

declare walk.simps [simp del]

lemma commandAt_walk: "commandAt c path = Some d \<Longrightarrow> (path, d) \<in> set (walk c)"
proof (induction c path rule: commandAt.induct)
  case (2 c n path)
  then obtain s where s: "List.find (\<lambda>s. commandName s = n) (cc_Commands c) = Some s" "commandAt s path = Some d"
    by (auto split: option.splits)
  have "(path, d) \<in> set (walk s)" using "2.IH" [OF s] .
  then have "(n # path, d) \<in> set (map (apfst ((#) n)) (walk s))" by force
  moreover have "s \<in> set (cc_Commands c)" "commandName s = n" using s(1) by (auto simp: find_Some_iff)
  ultimately show ?case unfolding walk.simps [of c] by auto
qed (subst walk.simps, simp)

text \<open>
  What pflag and cobra check when they are handed a tree, with a panic or silently: along every path
  the names and the shorthands of flags are distinct, those of \<open>--help\<close> included, required flags are
  declared, a command runs or has commands below it, and these have distinct names.
\<close>

fun wellFormed :: "flagDef list \<Rightarrow> ('w, 'e) cobraCommand \<Rightarrow> bool" where
  "wellFormed inherited c \<longleftrightarrow>
     (let fs = cc_Flags c @ inherited in
      distinct (map fg_Name fs) \<and> distinct (filter (\<lambda>s. s \<noteq> '''') (map fg_Shorthand fs)) \<and>
      set (cc_Required c) \<subseteq> set (map fg_Name (cc_Flags c)) \<and>
      (cc_RunE c = None \<longleftrightarrow> cc_Commands c \<noteq> []) \<and> commandName c \<noteq> '''' \<and>
      distinct (map commandName (cc_Commands c)) \<and> (\<forall>s\<in>set (cc_Commands c). wellFormed inherited s))"

declare wellFormed.simps [simp del]

definition helpFlag :: flagDef where
  "helpFlag = \<lparr>fg_Name = ''help'', fg_Shorthand = ''h'', fg_Kind = BoolFlag\<rparr>"

subsection \<open>The order of flags\<close>

text \<open>Flags that set different variables commute.\<close>

definition apart :: "(('a \<Rightarrow> 'a) \<Rightarrow> 'v \<Rightarrow> 'v) \<Rightarrow> (('b \<Rightarrow> 'b) \<Rightarrow> 'v \<Rightarrow> 'v) \<Rightarrow> bool" where
  "apart u u' \<longleftrightarrow> (\<forall>f g v. u f (u' g v) = u' g (u f v))"

definition commute :: "'v flag \<Rightarrow> 'v flag \<Rightarrow> bool" where
  "commute f g \<longleftrightarrow> (\<forall>x y v. fg_Set f x (fg_Set g y v) = fg_Set g y (fg_Set f x v))"

definition sets :: "'v flag \<Rightarrow> (('a \<Rightarrow> 'a) \<Rightarrow> 'v \<Rightarrow> 'v) \<Rightarrow> bool" where
  "sets f u \<longleftrightarrow> (\<forall>x. fg_Set f x = id \<or> (\<exists>k. fg_Set f x = u k))"

lemma sets_var:
  "sets (StringVarP u n s) u" "sets (BoolVarP v n s) v" "sets (numberVar k i n) i" "sets (StringArrayVar l n) l"
  by (auto simp: sets_def StringVarP_def BoolVarP_def numberVar_def StringArrayVar_def split: flagValue.split)

lemma commuteI:
  assumes "sets f u" and "sets g u'" and "apart u u'"
  shows "commute f g"
  unfolding commute_def
proof (intro allI)
  fix x y v
  consider "fg_Set f x = id" | "fg_Set g y = id" | k k' where "fg_Set f x = u k" "fg_Set g y = u' k'"
    using assms(1,2) unfolding sets_def by blast
  then show "fg_Set f x (fg_Set g y v) = fg_Set g y (fg_Set f x v)"
    using assms(3) by cases (simp_all add: apart_def)
qed

lemma commute_sym: "commute f g \<Longrightarrow> commute g f"
  by (simp add: commute_def)

fun commuting :: "'v flag list \<Rightarrow> bool" where
  "commuting [] = True"
| "commuting (f # fs) = (list_all (commute f) fs \<and> commuting fs)"

lemma commuting_commute: "commuting fs \<Longrightarrow> f \<in> set fs \<Longrightarrow> g \<in> set fs \<Longrightarrow> f \<noteq> g \<Longrightarrow> commute f g"
  by (induction fs) (auto simp: list_all_iff intro: commute_sym)

lemma setFlag_commute:
  assumes "commuting fs" and "fst a \<noteq> fst b"
  shows "setFlag fs a (setFlag fs b v) = setFlag fs b (setFlag fs a v)"
proof (cases "List.find (\<lambda>h. fg_Name h = fst a) fs = None \<or> List.find (\<lambda>h. fg_Name h = fst b) fs = None")
  case True
  then have "setFlag fs a = (\<lambda>v. v) \<or> setFlag fs b = (\<lambda>v. v)"
    unfolding setFlag_def by (elim disjE) (simp_all only: option.case simp_thms)
  then show ?thesis by (elim disjE) simp_all
next
  case False
  then obtain f g where fg: "List.find (\<lambda>h. fg_Name h = fst a) fs = Some f" "List.find (\<lambda>h. fg_Name h = fst b) fs = Some g"
    by auto
  then have "commute f g" using assms(2) by (intro commuting_commute [OF assms(1)]) (auto simp: find_Some_iff)
  then show ?thesis unfolding setFlag_def fg option.case commute_def by blast
qed

lemma setFlags_front:
  assumes "commuting fs" and "\<forall>b\<in>set as. fst b \<noteq> fst a"
  shows "setFlags fs (as @ a # bs) v = setFlags fs (a # as @ bs) v"
  using assms(2)
proof (induction as arbitrary: v)
  case (Cons b as)
  then have IH: "setFlags fs (as @ a # bs) (setFlag fs b v) = setFlags fs (a # as @ bs) (setFlag fs b v)" by simp
  have "setFlag fs a (setFlag fs b v) = setFlag fs b (setFlag fs a v)"
    using Cons.prems by (intro setFlag_commute [OF assms(1)]) auto
  then show ?case using IH by (simp add: setFlags_def)
qed simp

text \<open>Two command lines whose uses of each single flag come in the same order.\<close>

definition sameUses :: "given \<Rightarrow> given \<Rightarrow> bool" where
  "sameUses xs ys \<longleftrightarrow> (\<forall>n. filter (\<lambda>g. fst g = n) xs = filter (\<lambda>g. fst g = n) ys)"

lemma setFlags_order:
  assumes "commuting fs"
  shows "sameUses xs ys \<Longrightarrow> setFlags fs xs v = setFlags fs ys v"
proof (induction xs arbitrary: ys v)
  case Nil
  have "filter (\<lambda>g. fst g = fst (hd ys)) ys = []" using Nil unfolding sameUses_def by simp
  then have "ys = []" by (cases ys) auto
  then show ?case by simp
next
  case (Cons a xs)
  have "filter (\<lambda>g. fst g = fst a) ys = a # filter (\<lambda>g. fst g = fst a) xs"
    using Cons.prems [unfolded sameUses_def, THEN spec, of "fst a"] by simp
  then obtain as bs where ys: "ys = as @ a # bs" "\<forall>b\<in>set as. fst b \<noteq> fst a"
    unfolding filter_eq_Cons_iff by blast
  have "sameUses xs (as @ bs)"
    unfolding sameUses_def
  proof
    fix n
    have "filter (\<lambda>g. fst g = n) (a # xs) = filter (\<lambda>g. fst g = n) (as @ a # bs)"
      using Cons.prems unfolding sameUses_def ys(1) by blast
    moreover have "filter (\<lambda>g. fst g = n) as = []" if "n = fst a"
      using ys(2) that by (auto simp: filter_empty_conv)
    ultimately show "filter (\<lambda>g. fst g = n) xs = filter (\<lambda>g. fst g = n) (as @ bs)"
      by (cases "n = fst a") auto
  qed
  then have "setFlags fs xs (setFlag fs a v) = setFlags fs (as @ bs) (setFlag fs a v)" by (rule Cons.IH)
  then show ?case unfolding ys(1) setFlags_front [OF assms ys(2)] by (simp add: setFlags_def)
qed

end
