(* ===== verification/CliTree.thy ===== *)
theory CliTree
  imports Cobra CliProps CliRag MigrateCmd
begin

section \<open>The commands of kubectl llmops, their flags and main\<close>

text \<open>
  \<open>NewRootCommand\<close> (\<open>internal/cli/cmd/root.go\<close>) with every command below it, as declared in
  \<open>internal/cli/cmd\<close>, and \<open>main\<close> (\<open>cmd/kubectl-llmops/main.go\<close>). The \<open>RunE\<close> functions are those of
  \<open>CliModels\<close>, \<open>CliPlatform\<close>, \<open>CliRag\<close> and \<open>MigrateCmd\<close>; a command is named after the Go function that
  makes it, without \<open>new\<close>. The variables of a command are a record or a tuple, in the order of its flags;
  the values they start with are the defaults of the flags.
\<close>

record ('w, 'e) libs =
  lib_cli :: "('w, 'e) cliEnv"
  lib_rag :: "('w, 'e) ragEnv"
  lib_json :: jsonLib
  lib_http :: "('w, 'e) transport"
  lib_forward :: "('w, 'e) forwarder"
  lib_migrate :: "('w, 'e) migrateEnv"
  lib_GOOS :: string
  lib_Start :: "string list \<Rightarrow> ('w, unit) state" \<comment> \<open>\<open>exec.Command(...).Start()\<close>, its error dropped\<close>
  lib_Stderr :: "'e cliError \<Rightarrow> ('w, unit) state"

subsection \<open>Model lifecycle\<close>

definition deployDefaults :: deployFlags where
  "deployDefaults = \<lparr>df_name = '''', df_engine = ''auto'', df_replicas = 1, df_gpu = 1, df_memory = ''16Gi'',
     df_cpu = ''4'', df_accelerator = ''nvidia'', df_engineArgs = [], df_prefixCaching = False, df_dryRun = False\<rparr>"

definition deployOptions :: "deployFlags flag list" where
  "deployOptions =
     [StringVar df_name_update ''name'', StringVar df_engine_update ''engine'',
      Int32Var df_replicas_update ''replicas'', Int32Var df_gpu_update ''gpu'',
      StringVar df_memory_update ''memory'', StringVar df_cpu_update ''cpu'',
      StringVar df_accelerator_update ''accelerator'', StringArrayVar df_engineArgs_update ''engine-arg'',
      BoolVar df_prefixCaching_update ''prefix-caching'', BoolVar df_dryRun_update ''dry-run'']"

definition deployCmd :: "('w, 'e) libs \<Rightarrow> ('w, 'e) cobraCommand" where
  "deployCmd L = newCommand ''deploy <source>'' (ExactArgs 1) deployDefaults deployOptions []
     (\<lambda>d fl args. returning (newDeployCmd (lib_cli L) fl (args ! 0) d))"

definition listCmd :: "('w, 'e) libs \<Rightarrow> ('w, 'e) cobraCommand" where
  "listCmd L = newCommand ''list'' AnyArgs (False, False)
     [BoolVarP apfst ''all-namespaces'' ''A'', BoolVarP apsnd ''watch'' ''w''] []
     (\<lambda>(allNamespaces, watch) fl args. newListCmd (lib_cli L) fl allNamespaces watch)"

definition statusCmd :: "('w, 'e) libs \<Rightarrow> ('w, 'e) cobraCommand" where
  "statusCmd L = newCommand ''status <name>'' (ExactArgs 1) False [BoolVarP id ''watch'' ''w''] []
     (\<lambda>watch fl args. newStatusCmd (lib_cli L) fl (args ! 0) watch)"

definition scaleCmd :: "('w, 'e) libs \<Rightarrow> ('w, 'e) cobraCommand" where
  "scaleCmd L = newCommand ''scale <name>'' (ExactArgs 1) (1, False)
     [Int32Var apfst ''replicas'', BoolVar apsnd ''dry-run''] [''replicas'']
     (\<lambda>(replicas, dryRun) fl args. returning (newScaleCmd (lib_cli L) fl (args ! 0) replicas dryRun))"

definition deleteCmd :: "('w, 'e) libs \<Rightarrow> ('w, 'e) cobraCommand" where
  "deleteCmd L = newCommand ''delete <name>'' (ExactArgs 1) False [BoolVar id ''force''] []
     (\<lambda>force fl args. returning (newDeleteCmd (lib_cli L) fl (args ! 0) force))"

definition canaryCmd :: "('w, 'e) libs \<Rightarrow> ('w, 'e) cobraCommand" where
  "canaryCmd L = newCommand ''canary <name>'' (ExactArgs 1) ('''', 0, False)
     [StringVar apfst ''target'', Int32Var (apsnd \<circ> apfst) ''weight'', BoolVar (apsnd \<circ> apsnd) ''dry-run'']
     [''target'', ''weight'']
     (\<lambda>(target, weight, dryRun) fl args. returning (newCanaryCmd (lib_cli L) fl (args ! 0) target weight dryRun))"

definition promoteCmd :: "('w, 'e) libs \<Rightarrow> ('w, 'e) cobraCommand" where
  "promoteCmd L = newCommand ''promote <name>'' (ExactArgs 1) False [BoolVar id ''dry-run''] []
     (\<lambda>dryRun fl args. returning (newPromoteCmd (lib_cli L) fl (args ! 0) dryRun))"

definition rollbackCmd :: "('w, 'e) libs \<Rightarrow> ('w, 'e) cobraCommand" where
  "rollbackCmd L = newCommand ''rollback <name>'' (ExactArgs 1) False [BoolVar id ''dry-run''] []
     (\<lambda>dryRun fl args. returning (newRollbackCmd (lib_cli L) fl (args ! 0) dryRun))"

definition logsCmd :: "('w, 'e) libs \<Rightarrow> ('w, 'e) cobraCommand" where
  "logsCmd L = newCommand ''logs <name>'' (ExactArgs 1) (False, 100, ''model-server'')
     [BoolVarP apfst ''follow'' ''f'', Int64Var (apsnd \<circ> apfst) ''tail'', StringVar (apsnd \<circ> apsnd) ''container''] []
     (\<lambda>(follow, tail, container) fl args. returning (newLogsCmd (lib_cli L) fl (args ! 0) follow tail container))"

definition testCmd :: "('w, 'e) libs \<Rightarrow> ('w, 'e) cobraCommand" where
  "testCmd L = newCommand ''test <name>'' (ExactArgs 1) (''Hello'', False)
     [StringVar apfst ''prompt'', BoolVar apsnd ''stream''] []
     (\<lambda>(prompt, stream) fl args.
        returning (newTestCmd (lib_cli L) (lib_http L) (lib_json L) fl (args ! 0) prompt stream))"

definition endpointCmd :: "('w, 'e) libs \<Rightarrow> ('w, 'e) cobraCommand" where
  "endpointCmd L = newCommand ''endpoint <name>'' (ExactArgs 1) () [] []
     (\<lambda>_ fl args. returning (newEndpointCmd (lib_cli L) fl (args ! 0)))"

definition portForwardCmd :: "('w, 'e) libs \<Rightarrow> ('w, 'e) cobraCommand" where
  "portForwardCmd L = newCommand ''port-forward'' AnyArgs ''gateway'' [StringVar id ''service''] []
     (\<lambda>service fl args. returning (newPortForwardCmd (lib_cli L) (lib_forward L) fl service))"

definition openBrowser :: "('w, 'e) libs \<Rightarrow> string \<Rightarrow> ('w, unit) state" where
  "openBrowser L url =
     (if lib_GOOS L = ''linux'' then lib_Start L [''xdg-open'', url]
      else if lib_GOOS L = ''darwin'' then lib_Start L [''open'', url]
      else ret ())"

definition dashboardCmd :: "('w, 'e) libs \<Rightarrow> ('w, 'e) cobraCommand" where
  "dashboardCmd L = newCommand ''dashboard'' AnyArgs () [] []
     (\<lambda>_ fl args. returning (newDashboardCmd (lib_cli L) (openBrowser L) fl))"

subsection \<open>finetune\<close>

definition createDefaults :: createFlags where
  "createDefaults = \<lparr>cf_baseModel = '''', cf_outputName = '''', cf_method = ''lora'', cf_dataSource = '''',
     cf_dataFormat = ''alpaca'', cf_epochs = 3, cf_batchSize = 4, cf_learningRate = ''2e-4'', cf_loraRank = 16,
     cf_loraAlpha = 32, cf_gpu = 1, cf_eval = False, cf_qualityGate = False, cf_autoDeploy = False,
     cf_canaryWeight = 0, cf_dryRun = False\<rparr>"

definition createOptions :: "createFlags flag list" where
  "createOptions =
     [StringVar cf_baseModel_update ''base-model'', StringVar cf_outputName_update ''output-name'',
      StringVar cf_method_update ''method'', StringVar cf_dataSource_update ''data-source'',
      StringVar cf_dataFormat_update ''data-format'', Int32Var cf_epochs_update ''epochs'',
      Int32Var cf_batchSize_update ''batch-size'', StringVar cf_learningRate_update ''learning-rate'',
      Int32Var cf_loraRank_update ''lora-rank'', Int32Var cf_loraAlpha_update ''lora-alpha'',
      Int32Var cf_gpu_update ''gpu'', BoolVar cf_eval_update ''eval'',
      BoolVar cf_qualityGate_update ''quality-gate'', BoolVar cf_autoDeploy_update ''auto-deploy'',
      Int32Var cf_canaryWeight_update ''canary-weight'', BoolVar cf_dryRun_update ''dry-run'']"

definition finetuneCreateCmd :: "('w, 'e) libs \<Rightarrow> ('w, 'e) cobraCommand" where
  "finetuneCreateCmd L = newCommand ''create'' AnyArgs createDefaults createOptions
     [''base-model'', ''output-name'', ''data-source'']
     (\<lambda>c fl args. returning (newFinetuneCreateCmd (lib_cli L) fl c))"

definition finetuneListCmd :: "('w, 'e) libs \<Rightarrow> ('w, 'e) cobraCommand" where
  "finetuneListCmd L = newCommand ''list'' AnyArgs False [BoolVarP id ''all-namespaces'' ''A''] []
     (\<lambda>allNamespaces fl args. returning (newFinetuneListCmd (lib_cli L) fl allNamespaces))"

definition finetuneStatusCmd :: "('w, 'e) libs \<Rightarrow> ('w, 'e) cobraCommand" where
  "finetuneStatusCmd L = newCommand ''status <name>'' (ExactArgs 1) () [] []
     (\<lambda>_ fl args. returning (newFinetuneStatusCmd (lib_cli L) fl (args ! 0)))"

definition finetuneLogsCmd :: "('w, 'e) libs \<Rightarrow> ('w, 'e) cobraCommand" where
  "finetuneLogsCmd L = newCommand ''logs <name>'' (ExactArgs 1) (False, '''')
     [BoolVarP apfst ''follow'' ''f'', StringVar apsnd ''step''] []
     (\<lambda>(follow, step) fl args. returning (newFinetuneLogsCmd (lib_cli L) fl (args ! 0) follow step))"

definition finetuneDeleteCmd :: "('w, 'e) libs \<Rightarrow> ('w, 'e) cobraCommand" where
  "finetuneDeleteCmd L = newCommand ''delete <name>'' (ExactArgs 1) False [BoolVar id ''force''] []
     (\<lambda>force fl args. returning (newFinetuneDeleteCmd (lib_cli L) fl (args ! 0) force))"

definition finetuneCmd :: "('w, 'e) libs \<Rightarrow> ('w, 'e) cobraCommand" where
  "finetuneCmd L = newGroup ''finetune''
     [finetuneCreateCmd L, finetuneListCmd L, finetuneStatusCmd L, finetuneLogsCmd L, finetuneDeleteCmd L]"

subsection \<open>platform\<close>

definition initDefaults :: initFlags where
  "initDefaults = \<lparr>if_gateway = True, if_observability = True, if_logging = False, if_rag = False,
     if_finetune = False, if_security = False, if_nodeportHost = '''', if_dryRun = False\<rparr>"

definition initOptions :: "initFlags flag list" where
  "initOptions =
     [BoolVar if_gateway_update ''gateway'', BoolVar if_observability_update ''observability'',
      BoolVar if_logging_update ''logging'', BoolVar if_rag_update ''rag'',
      BoolVar if_finetune_update ''finetune'', BoolVar if_security_update ''security'',
      StringVar if_nodeportHost_update ''nodeport-host'', BoolVar if_dryRun_update ''dry-run'']"

definition platformInitCmd :: "('w, 'e) libs \<Rightarrow> ('w, 'e) cobraCommand" where
  "platformInitCmd L = newCommand ''init'' AnyArgs initDefaults initOptions []
     (\<lambda>i fl args. returning (newPlatformInitCmd (lib_cli L) fl i))"

definition platformStatusCmd :: "('w, 'e) libs \<Rightarrow> ('w, 'e) cobraCommand" where
  "platformStatusCmd L = newCommand ''status'' AnyArgs () [] []
     (\<lambda>_ fl args. returning (newPlatformStatusCmd (lib_cli L) fl))"

definition platformUpdateCmd :: "('w, 'e) libs \<Rightarrow> ('w, 'e) cobraCommand" where
  "platformUpdateCmd L = newCommand ''update'' AnyArgs ([], [], False)
     [StringArrayVar apfst ''enable'', StringArrayVar (apsnd \<circ> apfst) ''disable'',
      BoolVar (apsnd \<circ> apsnd) ''dry-run''] []
     (\<lambda>(enable, disable, dryRun) fl args. returning (newPlatformUpdateCmd (lib_cli L) fl enable disable dryRun))"

definition platformCmd :: "('w, 'e) libs \<Rightarrow> ('w, 'e) cobraCommand" where
  "platformCmd L = newGroup ''platform'' [platformInitCmd L, platformStatusCmd L, platformUpdateCmd L]"

subsection \<open>rag\<close>

definition ragListKBCmd :: "('w, 'e) libs \<Rightarrow> ('w, 'e) cobraCommand" where
  "ragListKBCmd L = newCommand ''list-kb'' AnyArgs () [] []
     (\<lambda>_ fl args. returning (newRAGListKBCmd (lib_cli L) (lib_rag L) (lib_json L) fl))"

definition ragCreateKBCmd :: "('w, 'e) libs \<Rightarrow> ('w, 'e) cobraCommand" where
  "ragCreateKBCmd L = newCommand ''create-kb <name>'' (ExactArgs 1) ('''', '''')
     [StringVar apfst ''description'', StringVar apsnd ''embedding-model''] []
     (\<lambda>(description, embeddingModel) fl args.
        returning (newRAGCreateKBCmd (lib_cli L) (lib_rag L) (lib_json L) fl (args ! 0) description embeddingModel))"

definition ragUploadCmd :: "('w, 'e) libs \<Rightarrow> ('w, 'e) cobraCommand" where
  "ragUploadCmd L = newCommand ''upload <kb-name> <file...>'' (MinimumNArgs 2) (1000, 200)
     [IntVar apfst ''chunk-size'', IntVar apsnd ''chunk-overlap''] []
     (\<lambda>(chunkSize, chunkOverlap) fl args.
        returning (newRAGUploadCmd (lib_cli L) (lib_rag L) (lib_json L) fl (args ! 0) (drop 1 args) chunkSize chunkOverlap))"

definition ragDeleteKBCmd :: "('w, 'e) libs \<Rightarrow> ('w, 'e) cobraCommand" where
  "ragDeleteKBCmd L = newCommand ''delete-kb <name>'' (ExactArgs 1) False [BoolVar id ''force''] []
     (\<lambda>force fl args. returning (newRAGDeleteKBCmd (lib_cli L) (lib_rag L) (lib_json L) fl (args ! 0) force))"

definition ragQueryCmd :: "('w, 'e) libs \<Rightarrow> ('w, 'e) cobraCommand" where
  "ragQueryCmd L = newCommand ''query <kb-name>'' (ExactArgs 1) ('''', 3)
     [StringVar apfst ''prompt'', IntVar apsnd ''top-k''] [''prompt'']
     (\<lambda>(prompt, topK) fl args.
        returning (newRAGQueryCmd (lib_cli L) (lib_rag L) (lib_json L) fl (args ! 0) prompt topK))"

definition ragEvalCmd :: "('w, 'e) libs \<Rightarrow> ('w, 'e) cobraCommand" where
  "ragEvalCmd L = newCommand ''eval'' AnyArgs False [BoolVar id ''wait''] []
     (\<lambda>wait fl args. newRAGEvalCmd (lib_cli L) (lib_rag L) fl wait)"

definition ragCmd :: "('w, 'e) libs \<Rightarrow> ('w, 'e) cobraCommand" where
  "ragCmd L = newGroup ''rag''
     [ragListKBCmd L, ragCreateKBCmd L, ragUploadCmd L, ragDeleteKBCmd L, ragQueryCmd L, ragEvalCmd L]"

subsection \<open>migrate, the root and main\<close>

definition migrateCmd :: "('w, 'e) libs \<Rightarrow> ('w, 'e) cobraCommand" where
  "migrateCmd L = newCommand ''migrate <helm-release>'' (ExactArgs 1) ''./generated'' [StringVar id ''output-dir''] []
     (\<lambda>outputDir fl args. returning (newMigrateCmd (lib_cli L) (lib_migrate L) fl (args ! 0) outputDir))"

definition rootDefaults :: flags where
  "rootDefaults = \<lparr>fl_namespace = '''', fl_output = ''table'', fl_kubeconfig = '''', fl_kubeCtx = ''''\<rparr>"

definition rootFlags :: "flags flag list" where
  "rootFlags =
     [StringVarP fl_namespace_update ''namespace'' ''n'', StringVarP fl_output_update ''output'' ''o'',
      StringVar fl_kubeconfig_update ''kubeconfig'', StringVar fl_kubeCtx_update ''context'']"

definition NewRootCommand :: "('w, 'e) libs \<Rightarrow> ('w, 'e) cobraCommand" where
  "NewRootCommand L = newGroup ''kubectl-llmops''
     [deployCmd L, listCmd L, statusCmd L, scaleCmd L, deleteCmd L,
      canaryCmd L, promoteCmd L, rollbackCmd L,
      logsCmd L, testCmd L, endpointCmd L, portForwardCmd L, dashboardCmd L,
      finetuneCmd L, platformCmd L, ragCmd L,
      migrateCmd L]"

text \<open>
  \<open>main\<close>: the exit status. An error is printed to standard error; a panic is reported by the runtime.
\<close>

definition kubectlMain ::
  "('w, 'e) libs \<Rightarrow> (string list \<Rightarrow> ('w, 'e) invocation) \<Rightarrow> string list \<Rightarrow> 'w \<Rightarrow> (int \<times> 'w) option" where
  "kubectlMain L cobra argv w =
     (case Execute (NewRootCommand L) rootDefaults rootFlags cobra argv w of
        None \<Rightarrow> None
      | Some (r, w') \<Rightarrow>
          Some (cmdStatus r,
            case r of Inl err \<Rightarrow> if err = Crash then w' else snd (run_state (lib_Stderr L err) w') | Inr u \<Rightarrow> w'))"

end
