(* ===== verification/CliTreeProps.thy ===== *)
theory CliTreeProps
  imports CliTree
begin

section \<open>The command line as a whole\<close>

text \<open>
  What holds of every command line of \<open>kubectl llmops\<close>, whatever the cluster and the other libraries answer:
  the declared commands and flags fit together, the order of flags does not matter, and how the process
  ends.
\<close>

subsection \<open>The commands\<close>

lemma newCommand_sel [simp]:
  "commandName (newCommand use rule defaults fs required run) = takeWhile (\<lambda>x. x \<noteq> CHR '' '') use"
  "cc_Commands (newCommand use rule defaults fs required run) = []"
  "cc_Flags (newCommand use rule defaults fs required run) = map flagDef.truncate fs"
  "cc_Required (newCommand use rule defaults fs required run) = required"
  "cc_Args (newCommand use rule defaults fs required run) = rule"
  "cc_RunE (newCommand use rule defaults fs required run) =
     Some (\<lambda>fl given args. run (setFlags fs given defaults) fl args)"
  by (simp_all add: commandName_def newCommand_def)

lemma newGroup_sel [simp]:
  "commandName (newGroup use subs) = takeWhile (\<lambda>x. x \<noteq> CHR '' '') use"
  "cc_Commands (newGroup use subs) = subs" "cc_RunE (newGroup use subs) = None"
  "cc_Flags (newGroup use subs) = []" "cc_Required (newGroup use subs) = []"
  by (simp_all add: commandName_def newGroup_def)

lemmas leaf_defs =
  deployCmd_def listCmd_def statusCmd_def scaleCmd_def deleteCmd_def canaryCmd_def
  promoteCmd_def rollbackCmd_def logsCmd_def testCmd_def endpointCmd_def portForwardCmd_def
  dashboardCmd_def finetuneCreateCmd_def finetuneListCmd_def finetuneStatusCmd_def finetuneLogsCmd_def finetuneDeleteCmd_def
  platformInitCmd_def platformStatusCmd_def platformUpdateCmd_def ragListKBCmd_def ragCreateKBCmd_def ragUploadCmd_def
  ragDeleteKBCmd_def ragQueryCmd_def ragEvalCmd_def migrateCmd_def
lemmas group_defs = finetuneCmd_def platformCmd_def ragCmd_def NewRootCommand_def

lemma names:
  "commandName (deployCmd L) = ''deploy''"
  "commandName (listCmd L) = ''list''"
  "commandName (statusCmd L) = ''status''"
  "commandName (scaleCmd L) = ''scale''"
  "commandName (deleteCmd L) = ''delete''"
  "commandName (canaryCmd L) = ''canary''"
  "commandName (promoteCmd L) = ''promote''"
  "commandName (rollbackCmd L) = ''rollback''"
  "commandName (logsCmd L) = ''logs''"
  "commandName (testCmd L) = ''test''"
  "commandName (endpointCmd L) = ''endpoint''"
  "commandName (portForwardCmd L) = ''port-forward''"
  "commandName (dashboardCmd L) = ''dashboard''"
  "commandName (finetuneCreateCmd L) = ''create''"
  "commandName (finetuneListCmd L) = ''list''"
  "commandName (finetuneStatusCmd L) = ''status''"
  "commandName (finetuneLogsCmd L) = ''logs''"
  "commandName (finetuneDeleteCmd L) = ''delete''"
  "commandName (platformInitCmd L) = ''init''"
  "commandName (platformStatusCmd L) = ''status''"
  "commandName (platformUpdateCmd L) = ''update''"
  "commandName (ragListKBCmd L) = ''list-kb''"
  "commandName (ragCreateKBCmd L) = ''create-kb''"
  "commandName (ragUploadCmd L) = ''upload''"
  "commandName (ragDeleteKBCmd L) = ''delete-kb''"
  "commandName (ragQueryCmd L) = ''query''"
  "commandName (ragEvalCmd L) = ''eval''"
  "commandName (migrateCmd L) = ''migrate''"
  by (simp_all add: leaf_defs)

lemma leaves:
  "cc_Commands (deployCmd L) = []"
  "cc_Commands (listCmd L) = []"
  "cc_Commands (statusCmd L) = []"
  "cc_Commands (scaleCmd L) = []"
  "cc_Commands (deleteCmd L) = []"
  "cc_Commands (canaryCmd L) = []"
  "cc_Commands (promoteCmd L) = []"
  "cc_Commands (rollbackCmd L) = []"
  "cc_Commands (logsCmd L) = []"
  "cc_Commands (testCmd L) = []"
  "cc_Commands (endpointCmd L) = []"
  "cc_Commands (portForwardCmd L) = []"
  "cc_Commands (dashboardCmd L) = []"
  "cc_Commands (finetuneCreateCmd L) = []"
  "cc_Commands (finetuneListCmd L) = []"
  "cc_Commands (finetuneStatusCmd L) = []"
  "cc_Commands (finetuneLogsCmd L) = []"
  "cc_Commands (finetuneDeleteCmd L) = []"
  "cc_Commands (platformInitCmd L) = []"
  "cc_Commands (platformStatusCmd L) = []"
  "cc_Commands (platformUpdateCmd L) = []"
  "cc_Commands (ragListKBCmd L) = []"
  "cc_Commands (ragCreateKBCmd L) = []"
  "cc_Commands (ragUploadCmd L) = []"
  "cc_Commands (ragDeleteKBCmd L) = []"
  "cc_Commands (ragQueryCmd L) = []"
  "cc_Commands (ragEvalCmd L) = []"
  "cc_Commands (migrateCmd L) = []"
  by (simp_all add: leaf_defs)

text \<open>Every command that can run, with its path.\<close>

definition runnable :: "('w, 'e) libs \<Rightarrow> (string list \<times> ('w, 'e) cobraCommand) list" where
  "runnable L =
     [([''deploy''], deployCmd L),
      ([''list''], listCmd L),
      ([''status''], statusCmd L),
      ([''scale''], scaleCmd L),
      ([''delete''], deleteCmd L),
      ([''canary''], canaryCmd L),
      ([''promote''], promoteCmd L),
      ([''rollback''], rollbackCmd L),
      ([''logs''], logsCmd L),
      ([''test''], testCmd L),
      ([''endpoint''], endpointCmd L),
      ([''port-forward''], portForwardCmd L),
      ([''dashboard''], dashboardCmd L),
      ([''finetune'', ''create''], finetuneCreateCmd L),
      ([''finetune'', ''list''], finetuneListCmd L),
      ([''finetune'', ''status''], finetuneStatusCmd L),
      ([''finetune'', ''logs''], finetuneLogsCmd L),
      ([''finetune'', ''delete''], finetuneDeleteCmd L),
      ([''platform'', ''init''], platformInitCmd L),
      ([''platform'', ''status''], platformStatusCmd L),
      ([''platform'', ''update''], platformUpdateCmd L),
      ([''rag'', ''list-kb''], ragListKBCmd L),
      ([''rag'', ''create-kb''], ragCreateKBCmd L),
      ([''rag'', ''upload''], ragUploadCmd L),
      ([''rag'', ''delete-kb''], ragDeleteKBCmd L),
      ([''rag'', ''query''], ragQueryCmd L),
      ([''rag'', ''eval''], ragEvalCmd L),
      ([''migrate''], migrateCmd L)]"

lemma walk_leaf: "cc_Commands c = [] \<Longrightarrow> walk c = [([], c)]"
  by (subst walk.simps) simp

lemma walk_groups:
  "walk (newGroup use subs) = ([], newGroup use subs) #
     concat (map (\<lambda>s. map (apfst ((#) (commandName s))) (walk s)) subs)"
  by (subst walk.simps) simp

lemma walk_root: "set (walk (NewRootCommand L)) \<subseteq> set (runnable L) \<union>
  {([], NewRootCommand L), ([''finetune''], finetuneCmd L), ([''platform''], platformCmd L), ([''rag''], ragCmd L)}"
proof -
  have g: "walk (finetuneCmd L) = ([], finetuneCmd L) # [([''create''], finetuneCreateCmd L), ([''list''], finetuneListCmd L), ([''status''], finetuneStatusCmd L), ([''logs''], finetuneLogsCmd L), ([''delete''], finetuneDeleteCmd L)]"
    "walk (platformCmd L) = ([], platformCmd L) # [([''init''], platformInitCmd L), ([''status''], platformStatusCmd L), ([''update''], platformUpdateCmd L)]"
    "walk (ragCmd L) = ([], ragCmd L) # [([''list-kb''], ragListKBCmd L), ([''create-kb''], ragCreateKBCmd L), ([''upload''], ragUploadCmd L), ([''delete-kb''], ragDeleteKBCmd L), ([''query''], ragQueryCmd L), ([''eval''], ragEvalCmd L)]"
    unfolding finetuneCmd_def platformCmd_def ragCmd_def walk_groups by (simp_all add: walk_leaf leaves names)
  have n: "commandName (finetuneCmd L) = ''finetune''" "commandName (platformCmd L) = ''platform''"
    "commandName (ragCmd L) = ''rag''" by (simp_all add: group_defs)
  show ?thesis
    unfolding NewRootCommand_def walk_groups unfolding NewRootCommand_def [symmetric]
    by (simp add: walk_leaf leaves names g n runnable_def)
qed

lemma invoked_runnable:
  assumes "Option.bind (commandAt (NewRootCommand L) path) cc_RunE = Some run"
  shows "\<exists>c. (path, c) \<in> set (runnable L) \<and> cc_RunE c = Some run"
proof -
  obtain c where c: "commandAt (NewRootCommand L) path = Some c" "cc_RunE c = Some run"
    using assms by (cases "commandAt (NewRootCommand L) path") auto
  have "(path, c) \<notin> {([], NewRootCommand L), ([''finetune''], finetuneCmd L), ([''platform''], platformCmd L), ([''rag''], ragCmd L)}"
    using c(2) by (auto simp: group_defs)
  then show ?thesis using commandAt_walk [OF c(1)] walk_root [of L] c(2) by blast
qed

subsection \<open>Declared flags\<close>

lemma truncate_sel [simp]:
  "fg_Name (flagDef.truncate f) = fg_Name f" "fg_Shorthand (flagDef.truncate f) = fg_Shorthand f"
  "fg_Kind (flagDef.truncate f) = fg_Kind f"
  by (simp_all add: flagDef.truncate_def)

lemma flag_sel [simp]:
  "fg_Name (StringVarP u n s) = n" "fg_Name (BoolVarP u' n s) = n" "fg_Name (numberVar k u'' n) = n"
  "fg_Name (StringArrayVar u''' n) = n"
  "fg_Shorthand (StringVarP u n s) = s" "fg_Shorthand (BoolVarP u' n s) = s" "fg_Shorthand (numberVar k u'' n) = ''''"
  "fg_Shorthand (StringArrayVar u''' n) = ''''"
  "fg_Kind (StringVarP u n s) = StringFlag" "fg_Kind (BoolVarP u' n s) = BoolFlag" "fg_Kind (numberVar k u'' n) = k"
  "fg_Kind (StringArrayVar u''' n) = StringArrayFlag"
  by (simp_all add: StringVarP_def BoolVarP_def numberVar_def StringArrayVar_def)

definition persistentFlags :: "flagDef list" where
  "persistentFlags = map flagDef.truncate rootFlags"

lemma wellFormed_leaf:
  "cc_Commands c = [] \<Longrightarrow> wellFormed inherited c \<longleftrightarrow>
     distinct (map fg_Name (cc_Flags c @ inherited)) \<and>
     distinct (filter (\<lambda>s. s \<noteq> '''') (map fg_Shorthand (cc_Flags c @ inherited))) \<and>
     set (cc_Required c) \<subseteq> set (map fg_Name (cc_Flags c)) \<and> cc_RunE c \<noteq> None \<and> commandName c \<noteq> ''''"
  by (subst wellFormed.simps) (auto simp: Let_def)

lemma leaves_wellFormed: "(path, c) \<in> set (runnable L) \<Longrightarrow> wellFormed (helpFlag # persistentFlags) c"
  unfolding runnable_def list.set
  by (elim insertE emptyE; simp only: prod.inject; elim conjE; hypsubst_thin; subst wellFormed_leaf)
    (simp_all add: leaves names leaf_defs deployOptions_def createOptions_def initOptions_def
      persistentFlags_def rootFlags_def helpFlag_def)

lemma wellFormed_group:
  "wellFormed inherited (newGroup use subs) \<longleftrightarrow>
     distinct (map fg_Name inherited) \<and> distinct (filter (\<lambda>s. s \<noteq> '''') (map fg_Shorthand inherited)) \<and>
     subs \<noteq> [] \<and> commandName (newGroup use subs) \<noteq> '''' \<and> distinct (map commandName subs) \<and>
     list_all (wellFormed inherited) subs"
  by (subst wellFormed.simps) (simp add: Let_def list_all_iff)

text \<open>
  C31 (declared flags). The tree of commands is put together so that cobra and pflag accept it: on every
  path the names of flags are distinct, and so are the shorthands, persistent flags and \<open>--help\<close>
  included (pflag panics otherwise); every flag marked as required is declared (a misspelt mark would be
  dropped silently); commands either run or group others, whose names differ.
\<close>

theorem flags_declared: "wellFormed (helpFlag # persistentFlags) (NewRootCommand L)"
proof -
  have "\<forall>x\<in>set (runnable L). wellFormed (helpFlag # persistentFlags) (snd x)"
    using leaves_wellFormed by fastforce
  note leaf = this [unfolded runnable_def list.set Set.ball_simps(5,7) snd_conv]
  have root: "distinct (map fg_Name (helpFlag # persistentFlags))"
    "distinct (filter (\<lambda>s. s \<noteq> '''') (map fg_Shorthand (helpFlag # persistentFlags)))"
    by (simp_all add: persistentFlags_def rootFlags_def helpFlag_def)
  have groups: "wellFormed (helpFlag # persistentFlags) (finetuneCmd L)"
    "wellFormed (helpFlag # persistentFlags) (platformCmd L)" "wellFormed (helpFlag # persistentFlags) (ragCmd L)"
    unfolding finetuneCmd_def platformCmd_def ragCmd_def wellFormed_group list.pred_inject
    by (simp_all only: root leaf) (simp_all add: names)
  show ?thesis
    unfolding NewRootCommand_def wellFormed_group list.pred_inject
    by (simp only: root groups leaf) (simp add: names group_defs)
qed

subsection \<open>The order of flags\<close>

lemma commutes:
  "apart u u' \<Longrightarrow> commute (StringVarP u n s) (StringVarP u' n' s')"
  "apart u v \<Longrightarrow> commute (StringVarP u n s) (BoolVarP v n' s')"
  "apart u i \<Longrightarrow> commute (StringVarP u n s) (numberVar k i n')"
  "apart u l \<Longrightarrow> commute (StringVarP u n s) (StringArrayVar l n')"
  "apart v u \<Longrightarrow> commute (BoolVarP v n s) (StringVarP u n' s')"
  "apart v v' \<Longrightarrow> commute (BoolVarP v n s) (BoolVarP v' n' s')"
  "apart v i \<Longrightarrow> commute (BoolVarP v n s) (numberVar k i n')"
  "apart i u \<Longrightarrow> commute (numberVar k i n) (StringVarP u n' s')"
  "apart i v \<Longrightarrow> commute (numberVar k i n) (BoolVarP v n' s')"
  "apart i i' \<Longrightarrow> commute (numberVar k i n) (numberVar k' i' n')"
  "apart i l \<Longrightarrow> commute (numberVar k i n) (StringArrayVar l n')"
  "apart l v \<Longrightarrow> commute (StringArrayVar l n) (BoolVarP v n' s')"
  "apart l l' \<Longrightarrow> commute (StringArrayVar l n) (StringArrayVar l' n')"
  by (auto intro: commuteI sets_var)

lemma options_commute:
  "commuting deployOptions" "commuting createOptions" "commuting initOptions" "commuting rootFlags"
  unfolding deployOptions_def createOptions_def initOptions_def rootFlags_def commuting.simps list.pred_inject
  by (intro conjI TrueI commutes; simp add: apart_def)+

definition orderly :: "('w, 'e) cobraCommand \<Rightarrow> bool" where
  "orderly c \<longleftrightarrow> (\<forall>run fl given given' args. cc_RunE c = Some run \<longrightarrow> sameUses given given' \<longrightarrow>
     run fl given args = run fl given' args)"

lemma orderly_new: "commuting fs \<Longrightarrow> orderly (newCommand use rule defaults fs required run)"
  unfolding orderly_def by (auto simp: setFlags_order)

lemma runnable_orderly: "(path, c) \<in> set (runnable L) \<Longrightarrow> orderly c"
  unfolding runnable_def list.set
  by (elim insertE emptyE; simp only: prod.inject; elim conjE; hypsubst_thin; unfold leaf_defs; rule orderly_new)
    (simp_all only: options_commute, simp_all add: commutes apart_def)

text \<open>
  C22 (the order of flags). Two command lines with the same command and arguments do the same and end alike
  if they give the same flags with the same values, in whatever order, as long as the uses of one and
  the same flag keep theirs (the last one wins, and a list grows in order). This holds of all 28 commands
  and of the persistent flags.
\<close>

theorem flag_order_irrelevant:
  assumes "cobra argv = Invoke path given args" and "cobra argv' = Invoke path given' args"
    and "sameUses given given'"
  shows "kubectlMain L cobra argv w = kubectlMain L cobra argv' w"
proof -
  have root: "setFlags rootFlags given rootDefaults = setFlags rootFlags given' rootDefaults"
    by (rule setFlags_order [OF options_commute(4) assms(3)])
  have "run fl given args = run fl given' args" if "Option.bind (commandAt (NewRootCommand L) path) cc_RunE = Some run" for run fl
    using invoked_runnable [OF that] runnable_orderly assms(3) unfolding orderly_def by blast
  then have "Execute (NewRootCommand L) rootDefaults rootFlags cobra argv w =
      Execute (NewRootCommand L) rootDefaults rootFlags cobra argv' w"
    unfolding Execute_def assms(1,2) invocation.case root by (auto split: option.split)
  then show ?thesis unfolding kubectlMain_def by (rule arg_cong)
qed

text \<open>Two ways to scale a deployment to two replicas, printed only.\<close>

definition twoLines :: "string list \<Rightarrow> ('w, 'e) invocation" where
  "twoLines argv =
     (if argv = [''scale'', ''m'', ''--replicas'', ''2'', ''--dry-run'']
      then Invoke [''scale''] [(''replicas'', IntValue 2), (''dry-run'', BoolValue True)] [''m'']
      else if argv = [''scale'', ''--dry-run'', ''m'', ''--replicas=2'']
      then Invoke [''scale''] [(''dry-run'', BoolValue True), (''replicas'', IntValue 2)] [''m'']
      else Own (ret None))"

theorem flag_order_irrelevant_witness:
  "\<forall>L w. kubectlMain L twoLines [''scale'', ''m'', ''--replicas'', ''2'', ''--dry-run''] w =
     kubectlMain L twoLines [''scale'', ''--dry-run'', ''m'', ''--replicas=2''] w"
  by (intro allI, rule flag_order_irrelevant [where path = "[''scale'']" and args = "[''m'']"
      and given = "[(''replicas'', IntValue 2), (''dry-run'', BoolValue True)]"
      and given' = "[(''dry-run'', BoolValue True), (''replicas'', IntValue 2)]"])
    (simp_all add: twoLines_def sameUses_def)

subsection \<open>How the process ends\<close>




































lemma setFlags_invariant:
  "(\<And>x v. x \<in> set given \<Longrightarrow> P v \<Longrightarrow> P (setFlag fs x v)) \<Longrightarrow> P v \<Longrightarrow> P (setFlags fs given v)"
  unfolding setFlags_def by (rule fold_invariant)





subsection \<open>Numbers\<close>

definition int32 :: "int \<Rightarrow> bool" where
  "int32 n \<longleftrightarrow> - (2 ^ 31) \<le> n \<and> n < 2 ^ 31"

text \<open>What every accepted value of every flag of a command keeps, the flags of an accepted line keep.\<close>

definition keeps :: "('v \<Rightarrow> bool) \<Rightarrow> 'v flag \<Rightarrow> bool" where
  "keeps P f \<longleftrightarrow> (\<forall>x v. admits (fg_Kind f) x \<longrightarrow> P v \<longrightarrow> P (fg_Set f x v))"

lemma accepted_flags:
  assumes "distinct (map fg_Name (map flagDef.truncate fs @ persistent))"
    and "list_all (\<lambda>(n, x). list_ex (\<lambda>f. fg_Name f = n \<and> admits (fg_Kind f) x) (map flagDef.truncate fs @ persistent)) given"
    and step: "list_all (keeps P) fs" and "P v"
  shows "P (setFlags fs given v)"
proof (rule setFlags_invariant [where P = P, OF _ assms(4)])
  fix nx v
  assume nx: "nx \<in> set given" and "P v"
  show "P (setFlag fs nx v)"
  proof (cases "List.find (\<lambda>f. fg_Name f = fst nx) fs")
    case None
    then show ?thesis using \<open>P v\<close> by (simp add: setFlag_def)
  next
    case (Some f)
    then have f: "f \<in> set fs" "fg_Name f = fst nx" by (auto simp: find_Some_iff)
    obtain g where g: "g \<in> set (map flagDef.truncate fs @ persistent)" "fg_Name g = fst nx" "admits (fg_Kind g) (snd nx)"
      using assms(2) nx by (cases nx) (fastforce simp only: list_all_iff list_ex_iff prod.case fst_conv snd_conv)
    have "flagDef.truncate f \<in> set (map flagDef.truncate fs @ persistent)" using f(1) by simp
    then have "g = flagDef.truncate f"
      using assms(1) g(1,2) f(2) unfolding distinct_map by (metis inj_onD truncate_sel(1))
    then show ?thesis using step f(1) \<open>P v\<close> g(3) by (simp add: setFlag_def Some list_all_iff keeps_def)
  qed
qed

text \<open>An accepted line, for a command given by its flags and its \<open>RunE\<close> function.\<close>

lemma accepted_line:
  assumes cobra: "parses cobra (NewRootCommand L) persistentFlags" "cobra argv = Invoke path given args"
    and c: "(path, newCommand use rule defaults fs required run) \<in> set (runnable L)"
    and at: "commandAt (NewRootCommand L) path = Some (newCommand use rule defaults fs required run)"
    and step: "list_all (keeps P) fs" and "P defaults"
  shows "accepts rule args" "set required \<subseteq> fst ` set given" "P (setFlags fs given defaults)"
    "Execute (NewRootCommand L) rootDefaults rootFlags cobra argv =
       run (setFlags fs given defaults) (setFlags rootFlags given rootDefaults) args"
proof -
  have "callable (NewRootCommand L) persistentFlags path given args"
    using cobra unfolding parses_def by blast
  then have ok: "accepts rule args" "list_all (\<lambda>n. n \<in> set (map fst given)) required"
    "list_all (\<lambda>(n, x). list_ex (\<lambda>f. fg_Name f = n \<and> admits (fg_Kind f) x) (map flagDef.truncate fs @ persistentFlags)) given"
    unfolding callable_def at option.case newCommand_sel by blast+
  have "distinct (map fg_Name (map flagDef.truncate fs @ helpFlag # persistentFlags))"
    using leaves_wellFormed [OF c] unfolding wellFormed_leaf [OF newCommand_sel(2)] newCommand_sel by blast
  then have d: "distinct (map fg_Name (map flagDef.truncate fs @ persistentFlags))" by simp
  show "accepts rule args" by (rule ok)
  show "set required \<subseteq> fst ` set given" using ok(2) by (auto simp: list_all_iff)
  show "P (setFlags fs given defaults)" by (rule accepted_flags [OF d ok(3) step \<open>P defaults\<close>])
  show "Execute (NewRootCommand L) rootDefaults rootFlags cobra argv =
      run (setFlags fs given defaults) (setFlags rootFlags given rootDefaults) args"
    unfolding fun_eq_iff Execute_def cobra(2) invocation.case at by simp
qed

lemma found:
  "commandAt (NewRootCommand L) [''deploy''] = Some (deployCmd L)"
  "commandAt (NewRootCommand L) [''scale''] = Some (scaleCmd L)"
  "commandAt (NewRootCommand L) [''canary''] = Some (canaryCmd L)"
  "commandAt (NewRootCommand L) [''finetune'', ''create''] = Some (finetuneCreateCmd L)"
  by (simp_all add: NewRootCommand_def names finetuneCmd_def platformCmd_def ragCmd_def)

lemma found_runnable:
  "([''deploy''], deployCmd L) \<in> set (runnable L)" "([''scale''], scaleCmd L) \<in> set (runnable L)"
  "([''canary''], canaryCmd L) \<in> set (runnable L)"
  "([''finetune'', ''create''], finetuneCreateCmd L) \<in> set (runnable L)"
  unfolding runnable_def list.set by (rule insertI1 | rule insertI2)+

lemma one_argument: "accepts (ExactArgs 1) args \<Longrightarrow> args = [args ! 0]"
  by (cases args) simp_all

text \<open>What every flag of these commands keeps: the numbers fit.\<close>

definition fitsD :: "deployFlags \<Rightarrow> bool" where
  "fitsD d \<longleftrightarrow> int32 (df_replicas d) \<and> int32 (df_gpu d)"

definition fitsC :: "createFlags \<Rightarrow> bool" where
  "fitsC c \<longleftrightarrow> list_all int32 [cf_epochs c, cf_batchSize c, cf_loraRank c, cf_loraAlpha c, cf_gpu c, cf_canaryWeight c]"

lemma keeps_var:
  "(\<And>s v. P v \<Longrightarrow> P (u (\<lambda>_. s) v)) \<Longrightarrow> keeps P (StringVarP u n t)"
  "(\<And>s v. P v \<Longrightarrow> P (b (\<lambda>_. s) v)) \<Longrightarrow> keeps P (BoolVarP b n t)"
  "(\<And>s v. int32 s \<Longrightarrow> P v \<Longrightarrow> P (i (\<lambda>_. s) v)) \<Longrightarrow> keeps P (numberVar Int32Flag i n)"
  "(\<And>s v. P v \<Longrightarrow> P (l (\<lambda>xs. xs @ [s]) v)) \<Longrightarrow> keeps P (StringArrayVar l n)"
  by (auto simp: keeps_def StringVarP_def BoolVarP_def numberVar_def StringArrayVar_def
      int32_def split: flagValue.split)

lemma all_fit:
  "list_all (keeps fitsD) deployOptions" "list_all (keeps fitsC) createOptions"
  "list_all (keeps (\<lambda>v. int32 (fst v))) [Int32Var apfst ''replicas'', BoolVar apsnd ''dry-run'']"
  "list_all (keeps (\<lambda>v. int32 (fst (snd v))))
     [StringVar apfst ''target'', Int32Var (apsnd \<circ> apfst) ''weight'', BoolVar (apsnd \<circ> apsnd) ''dry-run'']"
  unfolding deployOptions_def createOptions_def list.pred_inject
  by (intro conjI TrueI keeps_var; simp add: fitsD_def fitsC_def)+

lemma defaults_fit: "fitsD deployDefaults" "fitsC createDefaults" "int32 (fst (1, False))" "int32 (fst (snd ('''', 0, False)))"
  by (simp_all add: fitsD_def fitsC_def deployDefaults_def createDefaults_def int32_def)

text \<open>
  C23 (numbers of the command line). If cobra lets through only lines that fit the declared flags, the four
  commands that write numbers into objects get exactly the arguments they index and numbers that fit
  the 32 bits of the API's fields, from flags or defaults: no command sees an absent argument, and no
  number wraps around on its way into an object.
\<close>

theorem command_numbers:
  assumes "parses cobra (NewRootCommand L) persistentFlags" and "cobra argv = Invoke path given args"
  shows "(path = [''deploy''] \<longrightarrow> (\<exists>fl source d. args = [source] \<and> int32 (df_replicas d) \<and> int32 (df_gpu d) \<and>
      Execute (NewRootCommand L) rootDefaults rootFlags cobra argv = returning (newDeployCmd (lib_cli L) fl source d))) \<and>
    (path = [''scale''] \<longrightarrow> (\<exists>fl name replicas dryRun. args = [name] \<and> int32 replicas \<and>
      Execute (NewRootCommand L) rootDefaults rootFlags cobra argv = returning (newScaleCmd (lib_cli L) fl name replicas dryRun))) \<and>
    (path = [''canary''] \<longrightarrow> (\<exists>fl name target weight dryRun. args = [name] \<and> int32 weight \<and>
      Execute (NewRootCommand L) rootDefaults rootFlags cobra argv =
        returning (newCanaryCmd (lib_cli L) fl name target weight dryRun))) \<and>
    (path = [''finetune'', ''create''] \<longrightarrow> (\<exists>fl c. list_all int32 [cf_epochs c, cf_batchSize c, cf_loraRank c,
        cf_loraAlpha c, cf_gpu c, cf_canaryWeight c] \<and>
      Execute (NewRootCommand L) rootDefaults rootFlags cobra argv = returning (newFinetuneCreateCmd (lib_cli L) fl c)))"
proof (intro conjI impI)
  let ?fl = "setFlags rootFlags given rootDefaults"
  note line = accepted_line [OF assms]
  show "\<exists>fl source d. args = [source] \<and> int32 (df_replicas d) \<and> int32 (df_gpu d) \<and>
      Execute (NewRootCommand L) rootDefaults rootFlags cobra argv = returning (newDeployCmd (lib_cli L) fl source d)"
    if p: "path = [''deploy'']"
    using line [unfolded p, OF found_runnable(1) [unfolded deployCmd_def] found(1) [unfolded deployCmd_def]
        all_fit(1) defaults_fit(1)] one_argument unfolding fitsD_def by blast
  show "\<exists>fl name replicas dryRun. args = [name] \<and> int32 replicas \<and>
      Execute (NewRootCommand L) rootDefaults rootFlags cobra argv = returning (newScaleCmd (lib_cli L) fl name replicas dryRun)"
    if p: "path = [''scale'']"
    using line [unfolded p, OF found_runnable(2) [unfolded scaleCmd_def] found(2) [unfolded scaleCmd_def]
        all_fit(3) defaults_fit(3), unfolded case_prod_beta] one_argument by blast
  show "\<exists>fl name target weight dryRun. args = [name] \<and> int32 weight \<and>
      Execute (NewRootCommand L) rootDefaults rootFlags cobra argv =
        returning (newCanaryCmd (lib_cli L) fl name target weight dryRun)"
    if p: "path = [''canary'']"
    using line [unfolded p, OF found_runnable(3) [unfolded canaryCmd_def] found(3) [unfolded canaryCmd_def]
        all_fit(4) defaults_fit(4), unfolded case_prod_beta] one_argument by blast
  show "\<exists>fl c. list_all int32 [cf_epochs c, cf_batchSize c, cf_loraRank c, cf_loraAlpha c, cf_gpu c, cf_canaryWeight c] \<and>
      Execute (NewRootCommand L) rootDefaults rootFlags cobra argv = returning (newFinetuneCreateCmd (lib_cli L) fl c)"
    if p: "path = [''finetune'', ''create'']"
    using line [unfolded p, OF found_runnable(4) [unfolded finetuneCreateCmd_def] found(4) [unfolded finetuneCreateCmd_def]
        all_fit(2) defaults_fit(2)] unfolding fitsC_def by blast
qed

lemma callable_scale:
  "callable (NewRootCommand L) persistentFlags [''scale''] [(''replicas'', IntValue 2), (''dry-run'', BoolValue True)] [''m'']"
  "callable (NewRootCommand L) persistentFlags [''scale''] [(''dry-run'', BoolValue True), (''replicas'', IntValue 2)] [''m'']"
  unfolding callable_def found option.case by (simp_all add: scaleCmd_def)

lemma parses_twoLines: "parses twoLines (NewRootCommand L) persistentFlags"
  unfolding parses_def twoLines_def by (simp add: callable_scale)

theorem command_numbers_witness:
  "\<forall>L. \<exists>fl name replicas dryRun. [''m''] = [name] \<and> int32 replicas \<and>
     Execute (NewRootCommand L) rootDefaults rootFlags twoLines [''scale'', ''--dry-run'', ''m'', ''--replicas=2''] =
       returning (newScaleCmd (lib_cli L) fl name replicas dryRun)"
proof
  fix L :: "('a, 'b) libs"
  have "twoLines [''scale'', ''--dry-run'', ''m'', ''--replicas=2''] =
      (Invoke [''scale''] [(''dry-run'', BoolValue True), (''replicas'', IntValue 2)] [''m''] :: ('a, 'b) invocation)"
    by (simp add: twoLines_def)
  from command_numbers [OF parses_twoLines this, of L]
  show "\<exists>fl name replicas dryRun. [''m''] = [name] \<and> int32 replicas \<and>
     Execute (NewRootCommand L) rootDefaults rootFlags twoLines [''scale'', ''--dry-run'', ''m'', ''--replicas=2''] =
       returning (newScaleCmd (lib_cli L) fl name replicas dryRun)" by blast
qed

end
