(* ===== verification/Controllers.thy ===== *)
theory Controllers
  imports Operator FineTuneRunLife LLMPlatformGoals
begin

section \<open>The three controllers on one cluster\<close>


text \<open>The reconcilers that \<open>main\<close> sets up, with any gateway client, release name and Helm client.\<close>

record ('w, 'e) reconcilers =
  rc_Models :: "('w, 'e) MDReconciler"
  rc_Runs :: "('w, 'e) FTRReconciler"
  rc_Platforms :: "('w, 'e) LPReconciler"

definition reconcilersOn ::
  "('w, 'e) kube \<Rightarrow> 'e klib \<Rightarrow> ('w, 'e) gatewayClient option \<Rightarrow> string \<Rightarrow> ('w, 'e) helmClient \<Rightarrow> bool \<Rightarrow> string \<Rightarrow>
     ('w, 'e) reconcilers" where
  "reconcilersOn K lib gw rel H sdk path = \<lparr>rc_Models = reconcilerOf K lib gw,
     rc_Runs = ftReconcilerOf K lib rel, rc_Platforms = lpReconcilerOf K lib H sdk path\<rparr>"

lemma main_reconcilers:
  "\<lparr>rc_Models = mainModelDeployments K lib T getenv, rc_Runs = mainFineTuneRuns K lib,
    rc_Platforms = mainPlatforms K lib sdk getenv\<rparr> =
   reconcilersOn K lib (Some (gatewayFromEnv T getenv)) ''kube-llmops'' (SDKClient sdk) True (getenv ''CHART_PATH'')"
  by (simp add: reconcilersOn_def mainModelDeployments_def mainFineTuneRuns_def mainPlatforms_def
      reconcilerOf_def ftReconcilerOf_def lpReconcilerOf_def sdkReconciler_def)





subsection \<open>The specification\<close>








subsection \<open>The reconcilers implement it\<close>



subsection \<open>Clusters stay in regular use\<close>








subsection \<open>What each object comes to\<close>

text \<open>
  For an object of the first cluster \<open>c0\<close>, what the cluster \<open>c\<close> holds of it, depending on whether it
  has been \<open>served\<close> since. A served model is as one reconcile of \<open>c0\<close> makes it, but for the replicas
  that Kubernetes counts.
\<close>

definition depAs :: "Deployment option \<Rightarrow> Deployment option \<Rightarrow> bool" where
  "depAs a b \<longleftrightarrow> (\<exists>s. a = map_option (\<lambda>d. d\<lparr>dep_Status := s\<rparr>) b)"





text \<open>Steps that leave the object alone.\<close>

lemma depAs_refl [simp]: "depAs a a"
  unfolding depAs_def by (cases a) (auto intro: exI [of _ "dep_Status (the a)"])

lemma depAs_map [simp]: "depAs (map_option (dep_Status_update (\<lambda>_. s)) a) a"
  unfolding depAs_def by blast

lemma depAs_None [simp]: "depAs None b \<longleftrightarrow> b = None" "depAs a None \<longleftrightarrow> a = None"
  by (auto simp: depAs_def)

lemma depAs_Some [simp]:
  "depAs (Some a) (Some b) \<longleftrightarrow> dep_Spec a = dep_Spec b \<and> dep_ObjectMeta a = dep_ObjectMeta b"
  by (cases a; cases b) (auto simp: depAs_def)












subsection \<open>A request for the object itself\<close>





subsection \<open>All runs of the system\<close>























end
