(* ===== verification/Spec2Isabelle.thy ===== *)
theory Spec2Isabelle
  imports ModelDeploymentGoals WorkflowProps BuilderProps Engine Gateway FineTuneRunLife LLMPlatformGoals Migrate
    Operator CliGoals CliRagProps JsonText DeepCopyProps OperatorProps Names
    MigrateCmd CliTreeProps Controllers
begin

text \<open>
  A verification library of the kube-llmops operator and of its command line \<open>kubectl llmops\<close>, the Go
  code under \<open>src/operator\<close>. All paths below are relative to that directory.

  \<^bold>\<open>The program.\<close> Three custom resources (\<open>api/v1alpha1\<close>) describe a served model
  (\<open>ModelDeployment\<close>), a training run (\<open>FineTuneRun\<close>) and the platform around them (\<open>LLMPlatform\<close>). One
  controller per resource (\<open>internal/controller\<close>) brings the cluster to the described state: the first
  builds a PVC, a Deployment and a Service (\<open>internal/builder\<close>) for the engine that the resolver
  chooses (\<open>internal/engine\<close>), and registers ready models with the LiteLLM gateway
  (\<open>internal/gateway\<close>); the second creates an Argo workflow and follows it; the third installs and
  upgrades a Helm release (\<open>internal/helmbridge\<close>). \<open>cmd/main.go\<close> configures the controllers from the
  environment. Users write the resources through \<open>kubectl llmops\<close> (\<open>internal/cli\<close>,
  \<open>cmd/kubectl-llmops\<close>), or generate them from an existing Helm release (\<open>cmd/migrate\<close>).

  \<^bold>\<open>How effects are modelled.\<close> Code that calls the API server, Helm, HTTP or the terminal is a
  state transformer over a world \<open>'w\<close>, a type parameter: the client libraries are records of
  functions on this world (\<open>kube\<close>, \<open>klib\<close>, \<open>helmSDK\<close>, \<open>transport\<close>, \<open>cliEnv\<close>, \<open>ragEnv\<close>), and a
  theorem that says nothing about them holds for every answer they may give. Errors are values
  (\<open>Effects\<close>: \<open>outcome\<close> for a reconcile, \<open>cliError\<close> for a command), early returns are the left side of
  a sum, panics are values too. Weakest preconditions (\<open>wp\<close>) run along the code; \<open>traced\<close> clients
  record every call, and \<open>produces\<close> states what a computation records whatever it is answered.

  \<^bold>\<open>Theories.\<close>
  \<^item> \<open>Prelude\<close> (package \<open>strings\<close>, \<open>error\<close> values, decimals), \<open>Effects\<close>, \<open>Regexp\<close> (the patterns the
    code compiles, with their matcher proved correct), \<open>Json\<close> (\<open>map[string]interface{}\<close>),
    \<open>Examples\<close> (concrete resources for the witnesses), \<open>GoFlag\<close> (package \<open>flag\<close>, \<open>filepath.Join\<close>, slices
    that share arrays).
  \<^item> \<open>ApiTypes\<close> and \<open>Validation\<close>: the structs of \<open>api/v1alpha1\<close> as records and the three validators,
    which accept exactly the specs that satisfy \<open>md_spec_ok\<close>, \<open>ftr_spec_ok\<close>, \<open>lp_spec_ok\<close>.
  \<^item> \<open>Engine\<close>: the resolver, equal to a table of model families.
  \<^item> \<open>Builder\<close>, \<open>BuilderFacts\<close>, \<open>BuilderProps\<close>: the children of a model; selectors, ports,
    mounts, resources, and which fields have no effect.
  \<^item> \<open>Workflow\<close>, \<open>WorkflowProps\<close>: the Argo workflow; it is a well-formed graph whose tasks run in order.
  \<^item> \<open>Gateway\<close>: the JSON bodies and the two clients; the bodies can be read back.
  \<^item> \<open>HelmValues\<close>, \<open>HelmClient\<close>: the values of the release, which determine the specification up to the
    fields that have none, and the recovery of stuck releases.
  \<^item> \<open>KubeApi\<close>, \<open>KubeStore\<close>: the client of the API server, its recorded calls, and the contract of a
    quiescent cluster, with a store in memory.
  \<^item> \<open>ModelDeploymentCtl\<close>, \<open>ModelDeploymentProps\<close>, \<open>ModelDeploymentStore\<close>, \<open>ModelDeploymentGoals\<close>: the
    reconciler; the protocol \<open>md_run\<close> of its calls for every API server; the abstract specification
    \<open>md_goal\<close> that one reconcile reaches on a quiescent cluster, and what follows.
  \<^item> \<open>FineTuneRunCtl\<close>, \<open>FineTuneRunProps\<close>, \<open>FineTuneRunStore\<close>, \<open>FineTuneRunLife\<close>: the reconciler, its
    protocol \<open>ft_run\<close>, its effect on a store, and the state machine \<open>ft_reach\<close> in which reconciles
    interleave with Argo.
  \<^item> \<open>LLMPlatformCtl\<close>, \<open>LLMPlatformProps\<close>, \<open>LLMPlatformStore\<close>, \<open>LLMPlatformGoals\<close>: the reconciler, its
    protocol \<open>lp_run\<close>, the store with Helm releases, convergence and the two ways it is missed.
  \<^item> \<open>Controllers\<close>: the three reconcilers on one cluster. \<open>op_reach\<close> lets requests of all kinds interleave
    with Argo and Kubernetes; each step refines \<open>cl_step\<close>, and every object ends where its own requests
    alone would have brought it.
  \<^item> \<open>Operator\<close>: the configuration of the controllers in \<open>cmd/main.go\<close>. \<open>OperatorMain\<close>: all of \<open>main\<close>, from
    the flags to the exit status, what the controllers watch, and the scheme. \<open>OperatorProps\<close>: the calls of
    a start, in order, and the certificates of the two servers.
  \<^item> \<open>GoMem\<close>, \<open>Copying\<close>: a memory of cells with pointers, maps and slices, and the contracts of a copy.
    \<open>CopyTypes\<close>, \<open>DeepCopy\<close>, \<open>DeepCopyProps\<close>: the types of \<open>api/v1alpha1\<close> as layouts of this memory, the
    generated copies (\<open>zz_generated.deepcopy.go\<close>), each shown to keep its contract.
  \<^item> \<open>Names\<close>: the lengths of the names that command line and builders derive.
  \<^item> \<open>Migrate\<close>: the objects of both migrations, which agree, and what they lose. \<open>MigrateCmd\<close>: both as
    processes, with \<open>helm\<close>, the disk and the exit status; the files that a migration leaves.
  \<^item> \<open>Cli\<close> (errors and exit codes, connection, printing, loops that poll), \<open>CliModels\<close>, \<open>CliPlatform\<close>
    (fine-tuning, platform, dashboard, test, port-forward), \<open>CliHttp\<close> and \<open>CliRag\<close> (knowledge bases
    and evaluation): the \<open>RunE\<close> functions of the commands. \<open>CliProps\<close>: what every command may write
    and how it exits. \<open>CliStore\<close>: the contract of a user's client on a quiescent cluster. \<open>CliGoals\<close>:
    the claims, among them the life of a deployment through command line and controller.
    \<open>CliRagProps\<close>: the requests to Dify. \<open>JsonText\<close>: a reader of JSON that inverts \<open>Marshal\<close>, so the bodies
    arrive as they were built. \<open>Cobra\<close>: commands and flags as data, what their order matters. \<open>CliTree\<close>: the
    tree of \<open>NewRootCommand\<close> with every flag, its variable and default, and \<open>main\<close>. \<open>CliTreeProps\<close>: what
    holds of every command line.

  \<^bold>\<open>Interfaces.\<close> The locales and the model's own instances of them: \<open>kube_store\<close> (laws of the API
  server's verbs; \<open>mem_kube\<close>), its extension \<open>helm_store\<close> (\<open>memHelm\<close>), \<open>cli_store\<close> (\<open>memCli\<close>),
  \<open>gateway_client\<close> (\<open>NoopClient\<close>, and the HTTP client over any \<open>http_transport\<close>, as a sublocale),
  \<open>child_builder\<close> (PVC, Deployment and Service), \<open>copy_library\<close> (the copies of the Kubernetes types;
  \<open>memCopies\<close>), \<open>file_system\<close> (a disk on which nothing fails; \<open>memFiles\<close>).

  \<^bold>\<open>Bounds and termination.\<close> Every loop of the controllers runs over a finite list and is structural
  recursion. The three loops of the command line that poll are \<open>poll\<close>, a \<open>partial_function\<close> whose
  value \<open>None\<close> is a loop that does not return; \<open>poll_iff\<close> says when it does. Only the reader of JSON
  texts has fuel, the length of the text, which \<open>need_le\<close> shows to be enough.
  Integers of the API (\<open>int32\<close>, \<open>int64\<close>) are only copied, compared and printed, and are \<open>int\<close>. Strings are
  bytes; lower-casing, trimming and quoting are modelled on ASCII. A float64 that was decoded from
  JSON is its exact rational value.

  \<^bold>\<open>Two views of the data.\<close> The controllers, builders and commands are modelled over immutable records
  (\<open>ApiTypes\<close>), the deep copies over a memory with aliasing (\<open>GoMem\<close>). \<open>deep_copies_independent\<close> is what
  connects them: an object that the cache hands out as a deep copy shares nothing with the cache.

  \<^bold>\<open>Not modelled.\<close> Logging; the inside of controller-runtime, zap and cobra (the manager and its caches,
  their own flags, and how cobra splits the words of a command line: a parameter whose result
  \<open>parses\<close> constrains); help texts; the helpers of the
  end-to-end tests; the bytes of YAML and of aligned tables; the decoding of JSON, of which the code
  reads only maps, arrays and strings (a parameter); what follows the interrupt in \<open>port-forward\<close>; error texts on standard error.
\<close>

end
